(* ===== verification/Prelude.thy ===== *)
theory Prelude
  imports
    Main
    "HOL-Library.AList"
    "HOL-Library.Char_ord"
    "HOL-Library.Sublist"
begin

text \<open>
  What the components share: the exceptions the program raises, the operations of Python's
  \<open>str\<close>, \<open>int\<close> and \<open>dict\<close> that the source uses, and the lemmas on them.

  A Python \<open>str\<close> is a list of characters with code points 0 to 255: the classification of
  characters (\<open>isspace\<close>, \<open>isdigit\<close>, \<open>isalnum\<close>, \<open>lower\<close>) is Python's on that range,
  which is why a superscript digit is a digit here although \<open>int\<close> refuses it. A \<open>dict\<close>
  and a database table with a primary key are association lists in insertion order:
  \<open>AList.update\<close> and \<open>AList.map_default\<close> are an assignment and an upsert.
\<close>

section \<open>Collections of facts\<close>

named_theorems py_defs \<open>definitions of the Python string operations\<close>
named_theorems row_simps \<open>projections of table rows through updates\<close>

section \<open>Exceptions and results\<close>

text \<open>
  Every exception class the modelled code raises or catches. A computation that may raise
  returns \<open>Inl\<close> of the exception or \<open>Inr\<close> of its value.
\<close>

datatype exc =
    PkiError string
  | SigningUnavailable string
  | ManagementError string
  | HTTPException nat string
  | ValueError
  | OSError
  | KeyError
  | IndexError
  | TypeError
  | AttributeError
  | RuntimeError
  | DatabaseError
  | OverflowError
  | SubprocessError

type_synonym 'a result = "exc + 'a"

fun res_bind :: "'a result \<Rightarrow> ('a \<Rightarrow> 'b result) \<Rightarrow> 'b result" where
  "res_bind (Inl e) f = Inl e"
| "res_bind (Inr x) f = f x"

lemma res_bind_Inr_iff [simp]: "res_bind r f = Inr y \<longleftrightarrow> (\<exists>x. r = Inr x \<and> f x = Inr y)"
  by (cases r) auto

lemma res_bind_Inl_iff:
  "res_bind r f = Inl e \<longleftrightarrow> r = Inl e \<or> (\<exists>x. r = Inr x \<and> f x = Inl e)"
  by (cases r) auto

text \<open>A list comprehension whose element expression may raise: the first exception ends it.\<close>

fun map_res :: "('a \<Rightarrow> 'b result) \<Rightarrow> 'a list \<Rightarrow> 'b list result" where
  "map_res f [] = Inr []"
| "map_res f (x # xs) =
     (case f x of
        Inl e \<Rightarrow> Inl e
      | Inr y \<Rightarrow> (case map_res f xs of Inl e \<Rightarrow> Inl e | Inr ys \<Rightarrow> Inr (y # ys)))"

lemma map_res_Inr_iff: "map_res f xs = Inr ys \<longleftrightarrow> list_all2 (\<lambda>x y. f x = Inr y) xs ys"
proof (induction xs arbitrary: ys)
  case Nil
  then show ?case by auto
next
  case (Cons x xs)
  show ?case
  proof (cases "map_res f xs")
    case (Inl e)
    with Cons.IH show ?thesis by (cases ys) (auto split: sum.splits)
  next
    case (Inr zs)
    with Cons.IH have "\<And>ws. zs = ws \<longleftrightarrow> list_all2 (\<lambda>x y. f x = Inr y) xs ws" by simp
    with Inr show ?thesis by (cases ys) (auto split: sum.splits)
  qed
qed

lemma map_res_all: "map_res f xs = Inr ys \<Longrightarrow> (\<And>x y. f x = Inr y \<Longrightarrow> P y) \<Longrightarrow> list_all P ys"
  by (auto simp: map_res_Inr_iff list_all2_conv_all_nth list_all_length)

section \<open>Characters\<close>

definition code :: "char \<Rightarrow> nat" where
  [py_defs]: "code c = of_char c"

lemma code_inject [simp]: "code c = code d \<longleftrightarrow> c = d"
  by (simp add: code_def)

definition digit_char :: "nat \<Rightarrow> char" where
  "digit_char d = ''0123456789'' ! d"

text \<open>\<open>str.isspace\<close> of one character, which is also what \<open>\s\<close> and \<open>str.strip()\<close> use.\<close>

definition is_space :: "char \<Rightarrow> bool" where
  [py_defs]: "is_space c \<longleftrightarrow>
     (9 \<le> code c \<and> code c \<le> 13) \<or> (28 \<le> code c \<and> code c \<le> 32) \<or> code c = 133 \<or> code c = 160"

text \<open>The decimal digits: \<open>\d\<close>, and what \<open>int\<close> accepts.\<close>

definition is_decimal :: "char \<Rightarrow> bool" where
  [py_defs]: "is_decimal c \<longleftrightarrow> 48 \<le> code c \<and> code c \<le> 57"

text \<open>\<open>str.isdigit\<close> of one character: the superscripts two, three and one count too.\<close>

definition is_digit :: "char \<Rightarrow> bool" where
  [py_defs]: "is_digit c \<longleftrightarrow> is_decimal c \<or> code c = 178 \<or> code c = 179 \<or> code c = 185"

definition is_upper_ascii :: "char \<Rightarrow> bool" where
  [py_defs]: "is_upper_ascii c \<longleftrightarrow> 65 \<le> code c \<and> code c \<le> 90"

definition is_lower_ascii :: "char \<Rightarrow> bool" where
  [py_defs]: "is_lower_ascii c \<longleftrightarrow> 97 \<le> code c \<and> code c \<le> 122"

definition is_alpha :: "char \<Rightarrow> bool" where
  [py_defs]: "is_alpha c \<longleftrightarrow> is_upper_ascii c \<or> is_lower_ascii c \<or> code c = 170 \<or> code c = 181 \<or>
     code c = 186 \<or> (192 \<le> code c \<and> code c \<noteq> 215 \<and> code c \<noteq> 247)"

text \<open>\<open>\w\<close>: alphanumeric in the sense of \<open>str.isalnum\<close>, which includes the fractions, or \<open>_\<close>.\<close>

definition is_word :: "char \<Rightarrow> bool" where
  [py_defs]: "is_word c \<longleftrightarrow> is_alpha c \<or> is_digit c \<or> (188 \<le> code c \<and> code c \<le> 190) \<or> c = CHR ''_''"

definition lower_char :: "char \<Rightarrow> char" where
  "lower_char c =
     (if is_upper_ascii c \<or> (192 \<le> code c \<and> code c \<le> 222 \<and> code c \<noteq> 215)
      then char_of (code c + 32) else c)"

definition lower :: "string \<Rightarrow> string" where
  "lower s = map lower_char s"

lemma code_lower_char:
  "code (lower_char c) =
     (if is_upper_ascii c \<or> (192 \<le> code c \<and> code c \<le> 222 \<and> code c \<noteq> 215) then code c + 32 else code c)"
  by (auto simp: lower_char_def code_def is_upper_ascii_def of_char_mod_256)

lemma lower_char_idem [simp]: "lower_char (lower_char c) = lower_char c"
proof -
  have "code (lower_char (lower_char c)) = code (lower_char c)"
    by (auto simp: code_lower_char is_upper_ascii_def)
  then show ?thesis by simp
qed

lemma lower_idem [simp]: "lower (lower s) = lower s"
  by (simp add: lower_def)

section \<open>Strings\<close>

definition newline :: char where
  [py_defs]: "newline = CHR 0x0A"

definition startswith :: "string \<Rightarrow> string \<Rightarrow> bool" where
  [py_defs]: "startswith s p \<longleftrightarrow> take (length p) s = p"

definition endswith :: "string \<Rightarrow> string \<Rightarrow> bool" where
  [py_defs]: "endswith s p \<longleftrightarrow> length p \<le> length s \<and> drop (length s - length p) s = p"

lemma startswith_append [simp]: "startswith (p @ s) p"
  by (simp add: startswith_def)

lemma startswith_iff: "startswith s p \<longleftrightarrow> (\<exists>t. s = p @ t)"
  by (metis append_take_drop_id startswith_append startswith_def)

lemma endswith_iff: "endswith s p \<longleftrightarrow> (\<exists>t. s = t @ p)"
proof
  assume "endswith s p"
  then show "\<exists>t. s = t @ p" by (metis append_take_drop_id endswith_def)
qed (auto simp: endswith_def)

definition removeprefix :: "string \<Rightarrow> string \<Rightarrow> string" where
  [py_defs]: "removeprefix s p = (if startswith s p then drop (length p) s else s)"

definition lstrip_by :: "(char \<Rightarrow> bool) \<Rightarrow> string \<Rightarrow> string" where
  [py_defs]: "lstrip_by P s = dropWhile P s"

definition rstrip_by :: "(char \<Rightarrow> bool) \<Rightarrow> string \<Rightarrow> string" where
  [py_defs]: "rstrip_by P s = rev (dropWhile P (rev s))"

definition strip_by :: "(char \<Rightarrow> bool) \<Rightarrow> string \<Rightarrow> string" where
  [py_defs]: "strip_by P s = rstrip_by P (lstrip_by P s)"

text \<open>\<open>str.strip()\<close>\<close>

definition strip :: "string \<Rightarrow> string" where
  [py_defs]: "strip s = strip_by is_space s"

lemma rstrip_by_append_cancel: "list_all P t \<Longrightarrow> rstrip_by P (s @ t) = rstrip_by P s"
  by (simp add: rstrip_by_def list_all_iff dropWhile_append)

lemma rstrip_by_id: "s = [] \<or> \<not> P (last s) \<Longrightarrow> rstrip_by P s = s"
  by (cases s rule: rev_cases) (auto simp: rstrip_by_def)

lemma lstrip_by_id: "s = [] \<or> \<not> P (hd s) \<Longrightarrow> lstrip_by P s = s"
  by (cases s) (auto simp: lstrip_by_def)

lemma hd_rstrip_by: "rstrip_by P s \<noteq> [] \<Longrightarrow> hd (rstrip_by P s) = hd s"
proof (induction s rule: rev_induct)
  case (snoc x xs)
  then show ?case by (cases xs) (auto simp: rstrip_by_def split: if_splits)
qed (simp add: rstrip_by_def)

lemma last_rstrip_by: "rstrip_by P s \<noteq> [] \<Longrightarrow> \<not> P (last (rstrip_by P s))"
  by (simp add: rstrip_by_def last_rev hd_dropWhile)

lemma hd_lstrip_by: "lstrip_by P s \<noteq> [] \<Longrightarrow> \<not> P (hd (lstrip_by P s))"
  by (simp add: lstrip_by_def hd_dropWhile)

lemma strip_by_idem [simp]: "strip_by P (strip_by P s) = strip_by P s"
proof (cases "strip_by P s = []")
  case False
  then have ne: "lstrip_by P s \<noteq> []" by (auto simp: strip_by_def rstrip_by_def)
  from False have "hd (strip_by P s) = hd (lstrip_by P s)"
    by (simp add: strip_by_def hd_rstrip_by)
  with hd_lstrip_by [OF ne] have "lstrip_by P (strip_by P s) = strip_by P s"
    by (simp add: lstrip_by_id)
  moreover from False have "rstrip_by P (strip_by P s) = strip_by P s"
    by (intro rstrip_by_id) (auto simp: strip_by_def dest: last_rstrip_by)
  ultimately show ?thesis by (simp add: strip_by_def [of P "strip_by P s"])
next
  case True
  then show ?thesis by (simp add: strip_by_def [of P "[]"] lstrip_by_def rstrip_by_def)
qed

lemma set_strip_by: "set (strip_by P s) \<subseteq> set s"
  by (auto simp: strip_by_def rstrip_by_def lstrip_by_def dest!: set_dropWhileD)

text \<open>\<open>str.split(sep)\<close> for a separator of one character: never empty.\<close>

fun split_on :: "char \<Rightarrow> string \<Rightarrow> string list" where
  "split_on c [] = [[]]"
| "split_on c (x # xs) =
     (if x = c then [] # split_on c xs
      else (case split_on c xs of [] \<Rightarrow> [[x]] | p # ps \<Rightarrow> (x # p) # ps))"

text \<open>\<open>sep.join(parts)\<close>\<close>

fun join :: "string \<Rightarrow> string list \<Rightarrow> string" where
  "join sep [] = []"
| "join sep [p] = p"
| "join sep (p # ps) = p @ sep @ join sep ps"

lemma split_on_ne [simp]: "split_on c s \<noteq> []"
  by (induction s) (auto split: list.splits)

lemma split_on_no_sep: "c \<notin> set s \<Longrightarrow> split_on c s = [s]"
  by (induction s) auto

lemma split_on_append: "c \<notin> set s \<Longrightarrow> split_on c (s @ c # t) = s # split_on c t"
  by (induction s) (auto split: list.splits)

lemma join_split_on: "join [c] (split_on c s) = s"
proof (induction s)
  case (Cons x xs)
  obtain p ps where "split_on c xs = p # ps" by (cases "split_on c xs") simp_all
  with Cons show ?case by (cases ps) auto
qed simp

lemma split_on_join:
  "ps \<noteq> [] \<Longrightarrow> list_all (\<lambda>p. c \<notin> set p) ps \<Longrightarrow> split_on c (join [c] ps) = ps"
  by (induction "[c]" ps rule: join.induct) (auto simp: split_on_no_sep split_on_append)

lemma split_on_parts: "list_all (\<lambda>p. c \<notin> set p) (split_on c s)"
  by (induction s) (auto split: list.splits)

text \<open>\<open>str.partition(sep)\<close> and \<open>str.rpartition(sep)\<close> for one character: head, found, tail.\<close>

fun partition_on :: "char \<Rightarrow> string \<Rightarrow> string \<times> bool \<times> string" where
  "partition_on c [] = ([], False, [])"
| "partition_on c (x # xs) =
     (if x = c then ([], True, xs)
      else (case partition_on c xs of (h, f, t) \<Rightarrow> (x # h, f, t)))"

definition rpartition_on :: "char \<Rightarrow> string \<Rightarrow> string \<times> bool \<times> string" where
  "rpartition_on c s =
     (case partition_on c (rev s) of
        (t, f, h) \<Rightarrow> if f then (rev h, True, rev t) else ([], False, s))"

lemma partition_on_append [simp]: "c \<notin> set h \<Longrightarrow> partition_on c (h @ c # t) = (h, True, t)"
  by (induction h) auto

lemma partition_on_none: "c \<notin> set s \<Longrightarrow> partition_on c s = (s, False, [])"
  by (induction s) auto

lemma partition_on_found:
  "partition_on c s = (h, True, t) \<Longrightarrow> s = h @ c # t \<and> c \<notin> set h"
  by (induction s arbitrary: h) (auto split: if_splits prod.splits)

lemma partition_on_not_found:
  "partition_on c s = (h, False, t) \<Longrightarrow> s = h \<and> t = [] \<and> c \<notin> set s"
  by (induction s arbitrary: h) (auto split: if_splits prod.splits)

lemma rpartition_on_append [simp]: "c \<notin> set t \<Longrightarrow> rpartition_on c (h @ c # t) = (h, True, t)"
  by (simp add: rpartition_on_def)

lemma rpartition_on_none: "c \<notin> set s \<Longrightarrow> rpartition_on c s = ([], False, s)"
  by (simp add: rpartition_on_def partition_on_none)

lemma rpartition_on_found:
  "rpartition_on c s = (h, True, t) \<Longrightarrow> s = h @ c # t \<and> c \<notin> set t"
  by (auto simp: rpartition_on_def split: prod.splits if_splits dest!: partition_on_found)
     (metis append.assoc append_Cons append_Nil rev.simps(2) rev_append rev_rev_ident)

text \<open>
  \<open>str.splitlines()\<close>: the boundaries are the line feeds, carriage returns, their pair, and
  the other separators of the code range. A final line end starts no further line.
\<close>

definition is_line_end :: "char \<Rightarrow> bool" where
  [py_defs]: "is_line_end c \<longleftrightarrow> (10 \<le> code c \<and> code c \<le> 13) \<or> (28 \<le> code c \<and> code c \<le> 30) \<or> code c = 133"

fun splitlines_from :: "string \<Rightarrow> string \<Rightarrow> string list" where
  "splitlines_from acc [] = (if acc = [] then [] else [rev acc])"
| "splitlines_from acc (c # cs) =
     (if is_line_end c
      then rev acc # (if c = CHR 0x0D \<and> cs \<noteq> [] \<and> hd cs = CHR 0x0A
                      then splitlines_from [] (tl cs) else splitlines_from [] cs)
      else splitlines_from (c # acc) cs)"

definition splitlines :: "string \<Rightarrow> string list" where
  "splitlines s = splitlines_from [] s"

lemma splitlines_from_line:
  "list_all (\<lambda>c. \<not> is_line_end c) l \<Longrightarrow>
     splitlines_from acc (l @ newline # rest) = (rev acc @ l) # splitlines_from [] rest"
  by (induction l arbitrary: acc) (auto simp: newline_def is_line_end_def code_def)

lemma splitlines_lines:
  "list_all (list_all (\<lambda>c. \<not> is_line_end c)) ls \<Longrightarrow>
     splitlines (concat (map (\<lambda>l. l @ [newline]) ls)) = ls"
  by (induction ls) (auto simp: splitlines_def splitlines_from_line)

text \<open>\<open>str.split()\<close>: the maximal runs without whitespace.\<close>

fun words_from :: "string \<Rightarrow> string \<Rightarrow> string list" where
  "words_from acc [] = (if acc = [] then [] else [rev acc])"
| "words_from acc (c # cs) =
     (if is_space c then (if acc = [] then words_from [] cs else rev acc # words_from [] cs)
      else words_from (c # acc) cs)"

definition words :: "string \<Rightarrow> string list" where
  "words s = words_from [] s"

text \<open>\<open>str.replace\<close> of a single character by a string, and of CRLF by LF.\<close>

definition replace_char :: "char \<Rightarrow> string \<Rightarrow> string \<Rightarrow> string" where
  "replace_char c t s = concat (map (\<lambda>x. if x = c then t else [x]) s)"

fun crlf_to_lf :: "string \<Rightarrow> string" where
  "crlf_to_lf [] = []"
| "crlf_to_lf [c] = [c]"
| "crlf_to_lf (c # d # cs) =
     (if c = CHR 0x0D \<and> d = CHR 0x0A then d # crlf_to_lf cs else c # crlf_to_lf (d # cs))"

section \<open>Integers as text\<close>

fun dec :: "nat \<Rightarrow> string" where
  "dec n = (if n < 10 then [digit_char n] else dec (n div 10) @ [digit_char (n mod 10)])"

declare dec.simps [simp del]

text \<open>\<open>str(i)\<close>\<close>

definition dec_int :: "int \<Rightarrow> string" where
  "dec_int i = (if i < 0 then CHR ''-'' # dec (nat (- i)) else dec (nat i))"

fun undec_from :: "nat \<Rightarrow> string \<Rightarrow> nat" where
  "undec_from a [] = a"
| "undec_from a (c # cs) = undec_from (10 * a + (code c - 48)) cs"

definition undec :: "string \<Rightarrow> nat" where
  "undec s = undec_from 0 s"

lemma digit_char_code: "d < 10 \<Longrightarrow> code (digit_char d) = 48 + d"
proof -
  assume "d < 10"
  then have "d \<in> {0, 1, 2, 3, 4, 5, 6, 7, 8, 9}" by auto
  then show ?thesis by (auto simp: digit_char_def code_def)
qed

lemma is_decimal_digit_char: "d < 10 \<Longrightarrow> is_decimal (digit_char d)"
  by (simp add: is_decimal_def digit_char_code)

lemma dec_ne [simp]: "dec n \<noteq> []"
  by (subst dec.simps) simp

lemma dec_decimal: "list_all is_decimal (dec n)"
proof (induction n rule: dec.induct)
  case (1 n)
  then show ?case by (subst dec.simps) (auto simp: is_decimal_digit_char)
qed

lemma undec_from_append: "undec_from a (s @ t) = undec_from (undec_from a s) t"
  by (induction s arbitrary: a) auto

lemma undec_dec [simp]: "undec (dec n) = n"
proof (induction n rule: dec.induct)
  case (1 n)
  show ?case
  proof (cases "n < 10")
    case True
    then show ?thesis by (subst dec.simps) (simp add: undec_def digit_char_code)
  next
    case False
    with 1 show ?thesis
      by (subst dec.simps) (simp add: undec_def undec_from_append digit_char_code)
  qed
qed

lemma dec_inject [simp]: "dec m = dec n \<longleftrightarrow> m = n"
  by (metis undec_dec)

text \<open>
  \<open>int(text)\<close> for text: surrounding whitespace, one sign, and decimal digits between which
  single underscores may stand; anything else is a \<open>ValueError\<close>.
\<close>

fun int_digits :: "bool \<Rightarrow> string \<Rightarrow> string option" where
  "int_digits after_digit [] = (if after_digit then Some [] else None)"
| "int_digits after_digit (c # cs) =
     (if is_decimal c then map_option (Cons c) (int_digits True cs)
      else if c = CHR ''_'' \<and> after_digit then int_digits False cs else None)"

definition py_int :: "string \<Rightarrow> int result" where
  "py_int s =
     (case strip s of
        [] \<Rightarrow> Inl ValueError
      | c # cs \<Rightarrow>
          (if c = CHR ''-'' then
             (case int_digits False cs of None \<Rightarrow> Inl ValueError | Some ds \<Rightarrow> Inr (- int (undec ds)))
           else
             (case int_digits False (if c = CHR ''+'' then cs else c # cs) of
                None \<Rightarrow> Inl ValueError | Some ds \<Rightarrow> Inr (int (undec ds)))))"

lemma int_digits_decimal:
  "list_all is_decimal s \<Longrightarrow> s \<noteq> [] \<or> b \<Longrightarrow> int_digits b s = Some s"
  by (induction s arbitrary: b) auto

lemma decimal_not_space: "is_decimal c \<Longrightarrow> \<not> is_space c"
  by (auto simp: is_decimal_def is_space_def)

lemma strip_decimal: "list_all is_decimal s \<Longrightarrow> strip s = s"
proof -
  assume s: "list_all is_decimal s"
  have "s = [] \<or> \<not> is_space (hd s)" and "s = [] \<or> \<not> is_space (last s)"
    using s by (auto simp: list_all_iff decimal_not_space)
  then show ?thesis by (simp add: strip_def strip_by_def lstrip_by_id rstrip_by_id)
qed

lemma py_int_decimal: "list_all is_decimal s \<Longrightarrow> s \<noteq> [] \<Longrightarrow> py_int s = Inr (int (undec s))"
  by (cases s)
     (auto simp: py_int_def strip_decimal int_digits_decimal is_decimal_def code_def
           split: option.splits)

lemma py_int_dec [simp]: "py_int (dec n) = Inr (int n)"
  by (simp add: py_int_decimal dec_decimal)

text \<open>\<open>str.isdigit()\<close> of a whole string.\<close>

definition isdigit :: "string \<Rightarrow> bool" where
  "isdigit s \<longleftrightarrow> s \<noteq> [] \<and> list_all is_digit s"

lemma isdigit_dec [simp]: "isdigit (dec n)"
  using dec_decimal [of n] by (auto simp: isdigit_def list_all_iff is_digit_def)

lemma le_div_int_iff: "0 < w \<Longrightarrow> a \<le> x div w \<longleftrightarrow> w * a \<le> (x :: int)"
proof
  assume w: "0 < w" and "a \<le> x div w"
  then have "w * a \<le> w * (x div w)" by simp
  also have "\<dots> \<le> x" using pos_mod_sign [OF w, of x] mult_div_mod_eq [of w x] by linarith
  finally show "w * a \<le> x" .
next
  assume w: "0 < w" and "w * a \<le> x"
  then have "w * a div w \<le> x div w" by (intro zdiv_mono1) auto
  with w show "a \<le> x div w" by simp
qed

section \<open>Dictionaries and keyed tables\<close>

text \<open>
  A keyed table holds each key once. An upsert that adds to the columns of an existing row
  (\<open>INSERT ... ON CONFLICT DO UPDATE SET x = table.x + excluded.x\<close>) is \<open>map_default\<close>; the
  sum over the rows a condition selects then grows by what was added.
\<close>

definition keys_distinct :: "('k \<times> 'v) list \<Rightarrow> bool" where
  "keys_distinct t \<longleftrightarrow> distinct (map fst t)"

definition sum_where :: "('k \<Rightarrow> bool) \<Rightarrow> ('v \<Rightarrow> int) \<Rightarrow> ('k \<times> 'v) list \<Rightarrow> int" where
  "sum_where P f t = sum_list (map (\<lambda>(k, v). if P k then f v else 0) t)"

definition add_pair :: "int \<times> int \<Rightarrow> int \<times> int \<Rightarrow> int \<times> int" where
  "add_pair p q = (fst p + fst q, snd p + snd q)"

definition upsert_add :: "'k \<Rightarrow> int \<times> int \<Rightarrow> ('k \<times> int \<times> int) list \<Rightarrow> ('k \<times> int \<times> int) list" where
  "upsert_add k d t = AList.map_default k d (add_pair d) t"

lemma sum_where_Nil [simp]: "sum_where P f [] = 0"
  by (simp add: sum_where_def)

lemma sum_where_Cons [simp]:
  "sum_where P f ((k, v) # t) = (if P k then f v else 0) + sum_where P f t"
  by (simp add: sum_where_def)

lemma sum_where_append [simp]: "sum_where P f (s @ t) = sum_where P f s + sum_where P f t"
  by (simp add: sum_where_def)

lemma sum_where_upsert_fst:
  "sum_where P fst (upsert_add k d t) = sum_where P fst t + (if P k then fst d else 0)"
  by (induction t) (auto simp: upsert_add_def add_pair_def)

lemma sum_where_upsert_snd:
  "sum_where P snd (upsert_add k d t) = sum_where P snd t + (if P k then snd d else 0)"
  by (induction t) (auto simp: upsert_add_def add_pair_def)

lemmas sum_where_upsert [simp] = sum_where_upsert_fst sum_where_upsert_snd

lemma sum_where_filter:
  "sum_where P f (filter (\<lambda>(k, v). Q k) t) = sum_where (\<lambda>k. P k \<and> Q k) f t"
  by (induction t) auto

lemma sum_where_split:
  "sum_where P f t = sum_where (\<lambda>k. P k \<and> Q k) f t + sum_where (\<lambda>k. P k \<and> \<not> Q k) f t"
  by (induction t) auto

lemma sum_where_cong:
  "(\<And>k v. (k, v) \<in> set t \<Longrightarrow> P k = Q k) \<Longrightarrow> sum_where P f t = sum_where Q f t"
proof (induction t)
  case (Cons p t)
  obtain k v where p: "p = (k, v)" by (cases p)
  from Cons.prems [of k v] p have "P k = Q k" by simp
  moreover have "sum_where P f t = sum_where Q f t"
  proof (rule Cons.IH)
    fix k v assume "(k, v) \<in> set t"
    then show "P k = Q k" by (intro Cons.prems [of k v]) simp
  qed
  ultimately show ?case by (simp add: p)
qed simp

lemma keys_distinct_upsert_add [simp]: "keys_distinct t \<Longrightarrow> keys_distinct (upsert_add k d t)"
  by (simp add: keys_distinct_def upsert_add_def distinct_map_default)

lemma keys_distinct_update [simp]: "keys_distinct t \<Longrightarrow> keys_distinct (AList.update k v t)"
  by (simp add: keys_distinct_def distinct_update)

lemma keys_distinct_delete [simp]: "keys_distinct t \<Longrightarrow> keys_distinct (AList.delete k t)"
  by (simp add: keys_distinct_def distinct_delete)

lemma keys_distinct_filter [simp]: "keys_distinct t \<Longrightarrow> keys_distinct (filter P t)"
  by (auto simp: keys_distinct_def distinct_map inj_on_def)

lemma map_of_update [simp]: "map_of (AList.update k v t) = (map_of t)(k \<mapsto> v)"
  by (rule update_conv')

lemma map_of_delete [simp]: "map_of (AList.delete k t) = (map_of t)(k := None)"
  by (rule delete_conv')

lemma map_of_filter_distinct:
  "keys_distinct t \<Longrightarrow>
     map_of (filter P t) k =
       (case map_of t k of None \<Rightarrow> None | Some v \<Rightarrow> if P (k, v) then Some v else None)"
proof (induction t)
  case (Cons x t)
  obtain j v where x: "x = (j, v)" by (cases x)
  with Cons.prems have "map_of t j = None"
    by (simp add: keys_distinct_def map_of_eq_None_iff)
  with Cons x show ?case by (auto simp: keys_distinct_def split: option.splits)
qed simp

lemma map_of_filter_keys:
  "map_of (filter (\<lambda>(k, v). P k) t) k = (if P k then map_of t k else None)"
  by (induction t) auto

text \<open>\<open>dict.fromkeys(xs)\<close> as a list: the first occurrences, in order.\<close>

fun dedup :: "'a list \<Rightarrow> 'a list" where
  "dedup [] = []"
| "dedup (x # xs) = x # filter (\<lambda>y. y \<noteq> x) (dedup xs)"

lemma set_dedup [simp]: "set (dedup xs) = set xs"
  by (induction xs) auto

lemma distinct_dedup [simp]: "distinct (dedup xs)"
  by (induction xs) auto

lemma dedup_distinct: "distinct xs \<Longrightarrow> dedup xs = xs"
  by (induction xs) (auto simp: filter_id_conv)

end
