(* ===== verification/Limiter.thy ===== *)
theory Limiter
  imports Complex_Main Prelude
begin

text \<open>
  The login throttling of \<open>ui/app/auth.py\<close>: \<open>LoginLimiter\<close> with its dictionary of failures per
  key, \<open>attempt\<close> and \<open>success\<close>. Times are the readings of \<open>time.monotonic()\<close>. The dictionary
  keeps the order of the last attempt, so the first entry is the one to forget.
\<close>

record limiter =
  lm_threshold :: int
  lm_max_delay :: int
  lm_max_keys :: nat
  lm_forget :: int
  lm_state :: "(string \<times> int \<times> real) list"

definition LoginLimiter :: limiter where
  "LoginLimiter = \<lparr>lm_threshold = 5, lm_max_delay = 300, lm_max_keys = 5000, lm_forget = 900, lm_state = []\<rparr>"

definition entry_of :: "(string \<times> int \<times> real) list \<Rightarrow> string \<Rightarrow> int \<times> real" where
  "entry_of st k = (case map_of st k of None \<Rightarrow> (0, 0) | Some e \<Rightarrow> e)"

definition delay_for :: "int \<Rightarrow> int \<Rightarrow> int \<Rightarrow> int" where
  "delay_for max_delay limit failures =
     (if limit \<le> failures then min max_delay (2 ^ nat (failures - limit + 1)) else 0)"

text \<open>One turn of the counting loop: the entry after one more failure at \<open>now\<close>.\<close>

definition count_failure :: "limiter \<Rightarrow> real \<Rightarrow> int \<Rightarrow> int \<times> real \<Rightarrow> int \<times> real" where
  "count_failure L now limit e =
     (let failures = (if now - snd e > lm_forget L then 0 else fst e) + 1
      in (failures, now + delay_for (lm_max_delay L) limit failures))"

definition count_key ::
  "limiter \<Rightarrow> real \<Rightarrow> string \<times> int \<Rightarrow> (string \<times> int \<times> real) list \<Rightarrow> (string \<times> int \<times> real) list" where
  "count_key L now kl st =
     AList.delete (fst kl) st @ [(fst kl, count_failure L now (snd kl) (entry_of st (fst kl)))]"

text \<open>\<open>while len(self._state) > self.max_keys: del self._state[next(iter(self._state))]\<close>\<close>

fun evict :: "nat \<Rightarrow> 'a list \<Rightarrow> 'a list" where
  "evict n [] = []"
| "evict n (x # xs) = (if n < length (x # xs) then evict n xs else x # xs)"

text \<open>\<open>max(...)\<close> over a non-empty sequence.\<close>

definition max_wait :: "real \<Rightarrow> (string \<times> int \<times> real) list \<Rightarrow> (string \<times> int) list \<Rightarrow> real" where
  "max_wait now st limits =
     (case map (\<lambda>(k, l). snd (entry_of st k) - now) limits of [] \<Rightarrow> 0 | w # ws \<Rightarrow> fold max ws w)"

text \<open>
  \<open>attempt(limits)\<close> for a dictionary of thresholds: 0 when the attempt may go ahead, else the
  seconds to wait. \<open>max\<close> of an empty dictionary raises.
\<close>

definition attempt :: "(string \<times> int) list \<Rightarrow> real \<Rightarrow> limiter \<Rightarrow> (int \<times> limiter) result" where
  "attempt limits now L =
     (if limits = [] then Inl ValueError
      else
        let wait = max_wait now (lm_state L) limits
        in if wait > 0 then Inr (\<lfloor>wait\<rfloor> + 1, L)
           else Inr (0, L\<lparr>lm_state := evict (lm_max_keys L) (fold (count_key L now) limits (lm_state L))\<rparr>))"

text \<open>\<open>attempt(key)\<close>: one key with the limiter's own threshold.\<close>

definition attempt_key :: "string \<Rightarrow> real \<Rightarrow> limiter \<Rightarrow> (int \<times> limiter) result" where
  "attempt_key k now L = attempt [(k, lm_threshold L)] now L"

definition success :: "string \<Rightarrow> limiter \<Rightarrow> limiter" where
  "success k L = L\<lparr>lm_state := AList.delete k (lm_state L)\<rparr>"

section \<open>The dictionary\<close>

lemma length_evict: "length (evict n xs) \<le> n"
  by (induction xs) auto

lemma evict_id: "length xs \<le> n \<Longrightarrow> evict n xs = xs"
  by (cases xs) auto

lemma evict_suffix: "suffix (evict n xs) xs"
  by (induction xs) (auto simp: suffix_ConsI)

lemma keys_distinct_evict: "keys_distinct xs \<Longrightarrow> keys_distinct (evict n xs)"
  by (induction xs) (auto simp: keys_distinct_def)

lemma map_of_count_key:
  "map_of (count_key L now (k, l) st) j =
     (if j = k then Some (count_failure L now l (entry_of st k)) else map_of st j)"
  by (auto simp: count_key_def map_add_def split: option.splits)

lemma keys_distinct_count_key: "keys_distinct st \<Longrightarrow> keys_distinct (count_key L now kl st)"
  by (auto simp: count_key_def keys_distinct_def distinct_delete delete_notin_dom)

lemma keys_count_key: "fst ` set (count_key L now kl st) = insert (fst kl) (fst ` set st)"
  by (force simp: count_key_def AList.delete_eq)

lemma keys_distinct_count_all:
  "keys_distinct st \<Longrightarrow> keys_distinct (fold (count_key L now) limits st)"
  by (induction limits arbitrary: st) (auto simp: keys_distinct_count_key)

lemma keys_count_all:
  "fst ` set (fold (count_key L now) limits st) = fst ` set limits \<union> fst ` set st"
  by (induction limits arbitrary: st) (auto simp: keys_count_key)

lemma map_of_count_all_other:
  "k \<notin> fst ` set limits \<Longrightarrow> map_of (fold (count_key L now) limits st) k = map_of st k"
  by (induction limits arbitrary: st) (auto simp: map_of_count_key)

lemma map_of_count_all:
  assumes "keys_distinct limits" "(k, l) \<in> set limits"
  shows "map_of (fold (count_key L now) limits st) k = Some (count_failure L now l (entry_of st k))"
  using assms
proof (induction limits arbitrary: st)
  case (Cons x limits)
  obtain j m where x: "x = (j, m)" by (cases x)
  show ?case
  proof (cases "j = k")
    case True
    with Cons.prems x have "k \<notin> fst ` set limits" "m = l"
      by (auto simp: keys_distinct_def rev_image_eqI)
    with x True show ?thesis by (simp add: map_of_count_all_other map_of_count_key)
  next
    case False
    with Cons.prems x have "(k, l) \<in> set limits" "keys_distinct limits"
      by (auto simp: keys_distinct_def)
    moreover from False x have "entry_of (count_key L now x st) k = entry_of st k"
      by (simp add: entry_of_def map_of_count_key)
    ultimately show ?thesis using Cons.IH [of "count_key L now x st"] by simp
  qed
qed simp

lemma fold_max_ge: "(w :: real) \<le> fold max ws w \<and> (x \<in> set ws \<longrightarrow> x \<le> fold max ws w)"
  by (induction ws arbitrary: w) (auto, (metis max.bounded_iff order_refl)+)

lemma max_wait_ge: "(k, l) \<in> set limits \<Longrightarrow> snd (entry_of st k) - now \<le> max_wait now st limits"
proof -
  assume "(k, l) \<in> set limits"
  then have *: "snd (entry_of st k) - now \<in> set (map (\<lambda>(k, l). snd (entry_of st k) - now) limits)"
    by force
  show ?thesis
  proof (cases "map (\<lambda>(k, l). snd (entry_of st k) - now) limits")
    case (Cons w ws)
    with * fold_max_ge [of w ws "snd (entry_of st k) - now"] show ?thesis
      by (auto simp: max_wait_def)
  qed (use * in simp)
qed

text \<open>What a permitted attempt means: every key's pause is over, and each is counted once.\<close>

lemma attempt_passed:
  assumes "attempt limits now L = Inr (0, L')"
  shows "limits \<noteq> []" and "(k, l) \<in> set limits \<Longrightarrow> snd (entry_of (lm_state L) k) \<le> now"
    and "L' = L\<lparr>lm_state := evict (lm_max_keys L) (fold (count_key L now) limits (lm_state L))\<rparr>"
proof -
  have neg: "\<not> max_wait now (lm_state L) limits > 0"
  proof
    assume w: "max_wait now (lm_state L) limits > 0"
    with assms have "\<lfloor>max_wait now (lm_state L) limits\<rfloor> + 1 = 0"
      by (auto simp: attempt_def Let_def split: if_splits)
    with w show False by linarith
  qed
  with assms show "limits \<noteq> []"
    and "L' = L\<lparr>lm_state := evict (lm_max_keys L) (fold (count_key L now) limits (lm_state L))\<rparr>"
    by (auto simp: attempt_def Let_def split: if_splits)
  show "snd (entry_of (lm_state L) k) \<le> now" if "(k, l) \<in> set limits"
    using neg max_wait_ge [OF that, of "lm_state L" now] by simp
qed

lemma attempt_refused:
  assumes "attempt limits now L = Inr (w, L')" "w \<noteq> 0"
  shows "L' = L" and "0 < w"
proof -
  have "max_wait now (lm_state L) limits > 0 \<and> w = \<lfloor>max_wait now (lm_state L) limits\<rfloor> + 1 \<and> L' = L"
    using assms by (auto simp: attempt_def Let_def split: if_splits)
  then have m: "0 < max_wait now (lm_state L) limits"
    and w: "w = \<lfloor>max_wait now (lm_state L) limits\<rfloor> + 1" and "L' = L" by auto
  then show "L' = L" by simp
  have "0 \<le> \<lfloor>max_wait now (lm_state L) limits\<rfloor>" using m by simp
  with w show "0 < w" by simp
qed

section \<open>Sequences of attempts\<close>

datatype limiter_op = Attempt "(string \<times> int) list" real | Success string

text \<open>The times at which an attempt that counts for \<open>k\<close> was let through.\<close>

fun passed :: "string \<Rightarrow> limiter_op list \<Rightarrow> limiter \<Rightarrow> real list" where
  "passed k [] L = []"
| "passed k (Success j # ops) L = passed k ops (success j L)"
| "passed k (Attempt limits t # ops) L =
     (case attempt limits t L of
        Inl e \<Rightarrow> passed k ops L
      | Inr (w, L') \<Rightarrow> (if w = 0 \<and> k \<in> fst ` set limits then [t] else []) @ passed k ops L')"

text \<open>
  A sequence as the handlers produce it: times do not go back and lie in a window, the limits
  of an attempt are a dictionary in which \<open>k\<close> has threshold \<open>l\<close> where it occurs, \<open>k\<close> does not
  succeed, and the keys fit into the bounded memory.
\<close>

fun ops_ok :: "string \<Rightarrow> int \<Rightarrow> string set \<Rightarrow> real \<Rightarrow> real \<Rightarrow> limiter_op list \<Rightarrow> bool" where
  "ops_ok k l K t0 t1 [] = True"
| "ops_ok k l K t0 t1 (Success j # ops) = (j \<noteq> k \<and> ops_ok k l K t0 t1 ops)"
| "ops_ok k l K t0 t1 (Attempt limits t # ops) =
     (t0 \<le> t \<and> t \<le> t1 \<and> keys_distinct limits \<and> fst ` set limits \<subseteq> K \<and>
      list_all (\<lambda>(j, m). j = k \<longrightarrow> m = l) limits \<and> ops_ok k l K t t1 ops)"

definition state_ok :: "string set \<Rightarrow> limiter \<Rightarrow> bool" where
  "state_ok K L \<longleftrightarrow> keys_distinct (lm_state L) \<and> fst ` set (lm_state L) \<subseteq> K \<and>
     (\<forall>k. 0 \<le> fst (entry_of (lm_state L) k)) \<and> finite K \<and> card K \<le> lm_max_keys L"

text \<open>The pauses an attacker has to sit out for \<open>n\<close> attempts.\<close>

definition lockout :: "int \<Rightarrow> int \<Rightarrow> nat \<Rightarrow> int" where
  "lockout max_delay limit n = (\<Sum>i = 1..<n. delay_for max_delay limit (int i))"

lemma delay_for_mono: "0 \<le> m \<Longrightarrow> a \<le> b \<Longrightarrow> delay_for m l a \<le> delay_for m l b"
proof -
  assume m: "0 \<le> m" and ab: "a \<le> b"
  have "l \<le> a \<Longrightarrow> (2 :: int) ^ nat (a - l + 1) \<le> 2 ^ nat (b - l + 1)"
    using ab by (intro power_increasing) auto
  then show ?thesis using m ab unfolding delay_for_def by (cases "l \<le> a") (auto simp: min_le_iff_disj)
qed

lemma delay_for_nonneg: "0 \<le> m \<Longrightarrow> 0 \<le> delay_for m l a"
  by (simp add: delay_for_def)

lemma lockout_Suc: "1 \<le> n \<Longrightarrow> lockout m l (Suc n) = lockout m l n + delay_for m l (int n)"
  by (simp add: lockout_def)

lemma lockout_mono: "0 \<le> m \<Longrightarrow> a \<le> b \<Longrightarrow> lockout m l a \<le> lockout m l b"
  unfolding lockout_def by (rule sum_mono2) (auto simp: delay_for_nonneg)

lemma state_ok_no_evict:
  assumes "state_ok K L" "fst ` set limits \<subseteq> K"
  shows "evict (lm_max_keys L) (fold (count_key L now) limits (lm_state L)) =
           fold (count_key L now) limits (lm_state L)"
proof (rule evict_id)
  let ?st = "fold (count_key L now) limits (lm_state L)"
  have "distinct (map fst ?st)"
    using assms(1) keys_distinct_count_all by (auto simp: state_ok_def keys_distinct_def)
  then have "length ?st = card (fst ` set ?st)"
    by (metis distinct_card length_map list.set_map)
  also have "\<dots> \<le> card K"
    using assms by (intro card_mono) (auto simp: state_ok_def keys_count_all)
  finally show "length ?st \<le> lm_max_keys L" using assms(1) by (simp add: state_ok_def)
qed

lemma entry_count_all:
  assumes "keys_distinct limits"
  shows "(k, l) \<in> set limits \<Longrightarrow>
           entry_of (fold (count_key L now) limits st) k = count_failure L now l (entry_of st k)"
    and "k \<notin> fst ` set limits \<Longrightarrow> entry_of (fold (count_key L now) limits st) k = entry_of st k"
  using assms by (simp_all add: entry_of_def map_of_count_all map_of_count_all_other)

lemma state_ok_passed:
  assumes "state_ok K L" "fst ` set limits \<subseteq> K" "keys_distinct limits" "attempt limits now L = Inr (0, L')"
  shows "state_ok K L'" and "lm_state L' = fold (count_key L now) limits (lm_state L)"
    and "lm_max_delay L' = lm_max_delay L" and "lm_forget L' = lm_forget L"
proof -
  show st: "lm_state L' = fold (count_key L now) limits (lm_state L)"
    and "lm_max_delay L' = lm_max_delay L" and "lm_forget L' = lm_forget L"
    using attempt_passed(3) [OF assms(4)] state_ok_no_evict [OF assms(1,2)] by simp_all
  have "lm_max_keys L' = lm_max_keys L" using attempt_passed(3) [OF assms(4)] by simp
  moreover have "0 \<le> fst (entry_of (lm_state L') k)" for k
  proof (cases "k \<in> fst ` set limits")
    case True
    then obtain l where "(k, l) \<in> set limits" by auto
    with assms(1,3) st show ?thesis
      by (auto simp: entry_count_all state_ok_def count_failure_def Let_def)
  qed (use assms(1,3) st in \<open>auto simp: entry_count_all state_ok_def\<close>)
  ultimately show "state_ok K L'"
    using assms st by (auto simp: state_ok_def keys_distinct_count_all keys_count_all)
qed

lemma entry_success: "entry_of (lm_state (success j L)) k = (if k = j then (0, 0) else entry_of (lm_state L) k)"
  by (simp add: success_def entry_of_def delete_conv')

lemma state_ok_success: "state_ok K L \<Longrightarrow> state_ok K (success j L)"
  unfolding state_ok_def entry_success by (auto simp: success_def keys_distinct_def distinct_delete intro!: subset_trans [OF dom_delete_subset])

lemma success_params [simp]: "lm_max_delay (success j L) = lm_max_delay L" "lm_forget (success j L) = lm_forget L"
  by (simp_all add: success_def)

text \<open>An attempt either leaves the entry of \<open>k\<close> alone or is let through and counts for \<open>k\<close>.\<close>

lemma passed_Attempt_cases:
  assumes "state_ok K L" "ops_ok k l K t0 t1 (Attempt limits now # ops)"
  obtains (skip) L' where "passed k (Attempt limits now # ops) L = passed k ops L'"
      "entry_of (lm_state L') k = entry_of (lm_state L) k"
      "state_ok K L'" "lm_max_delay L' = lm_max_delay L" "lm_forget L' = lm_forget L"
  | (counted) L' where "passed k (Attempt limits now # ops) L = now # passed k ops L'"
      "snd (entry_of (lm_state L) k) \<le> now"
      "entry_of (lm_state L') k = count_failure L now l (entry_of (lm_state L) k)"
      "state_ok K L'" "lm_max_delay L' = lm_max_delay L" "lm_forget L' = lm_forget L"
proof (cases "attempt limits now L")
  case (Inl e)
  with assms show ?thesis by (intro skip [of L]) auto
next
  case (Inr r)
  obtain w L' where r: "r = (w, L')" by (cases r)
  show ?thesis
  proof (cases "w = 0")
    case False
    with Inr r have "L' = L" using attempt_refused(1) by blast
    with assms Inr r False show ?thesis by (intro skip [of L]) auto
  next
    case True
    note att = Inr [unfolded r True]
    note st = state_ok_passed [OF assms(1) _ _ att]
    show ?thesis
    proof (cases "k \<in> fst ` set limits")
      case False
      with assms att st show ?thesis by (intro skip [of L']) (auto simp: entry_count_all)
    next
      case True
      with assms have kl: "(k, l) \<in> set limits" by (auto simp: list_all_iff)
      with True assms att st attempt_passed(2) [OF att kl] show ?thesis
        by (intro counted [of L']) (auto simp: entry_count_all)
    qed
  qed
qed

text \<open>
  Once \<open>k\<close> has been let through at \<open>t\<close> as at least its \<open>p\<close>th failure, further attempts are
  spaced by the pauses.
\<close>

lemma passed_after:
  fixes t t0 t1 :: real
  assumes "state_ok K L" "ops_ok k l K t0 t1 ops" "1 \<le> p" "int p \<le> fst (entry_of (lm_state L) k)"
    "t + delay_for (lm_max_delay L) l p \<le> snd (entry_of (lm_state L) k)"
    "t \<le> t0" "t1 - t \<le> lm_forget L" "0 \<le> lm_max_delay L" "passed k ops L \<noteq> []"
  shows "lockout (lm_max_delay L) l (p + length (passed k ops L)) - lockout (lm_max_delay L) l p
           \<le> last (passed k ops L) - t"
  using assms
proof (induction ops arbitrary: L t0 p t)
  case (Cons a ops)
  show ?case
  proof (cases a)
    case (Success j)
    with Cons.prems Cons.IH [of "success j L" t0 p t] show ?thesis
      by (auto simp: state_ok_success entry_success)
  next
    case (Attempt limits now)
    note pr = Cons.prems [unfolded Attempt]
    from pr(2) have rest: "t0 \<le> now" "now \<le> t1" "ops_ok k l K now t1 ops" by simp_all
    from pr(1,2) show ?thesis
    proof (cases rule: passed_Attempt_cases)
      case (skip L')
      with pr rest Attempt Cons.IH [of L' now p t] show ?thesis by simp
    next
      case (counted L')
      let ?e = "entry_of (lm_state L) k" and ?m = "lm_max_delay L"
      have "0 \<le> delay_for ?m l p" using pr by (simp add: delay_for_nonneg)
      with pr rest have "now - snd ?e \<le> lm_forget L" by linarith
      then have e': "entry_of (lm_state L') k = (fst ?e + 1, now + delay_for ?m l (fst ?e + 1))"
        using counted by (simp add: count_failure_def Let_def)
      have dm: "delay_for ?m l (int (Suc p)) \<le> delay_for ?m l (fst ?e + 1)"
        using pr by (intro delay_for_mono) auto
      have gap: "lockout ?m l (Suc p) - lockout ?m l p \<le> now - t"
        using pr counted by (simp add: lockout_Suc)
      show ?thesis
      proof (cases "passed k ops L' = []")
        case False
        with Cons.IH [of L' now "Suc p" now] pr rest counted(1,4-6) e' dm gap Attempt show ?thesis by simp
      qed (use counted Attempt gap in simp)
    qed
  qed
qed simp

lemma passed_spacing:
  fixes t0 t1 :: real
  assumes "state_ok K L" "ops_ok k l K t0 t1 ops" "t1 - t0 \<le> lm_forget L" "0 \<le> lm_max_delay L"
    "passed k ops L \<noteq> []"
  shows "lockout (lm_max_delay L) l (length (passed k ops L)) \<le> last (passed k ops L) - hd (passed k ops L)"
  using assms
proof (induction ops arbitrary: L t0)
  case (Cons a ops)
  show ?case
  proof (cases a)
    case (Success j)
    with Cons.prems Cons.IH [of "success j L" t0] show ?thesis by (simp add: state_ok_success)
  next
    case (Attempt limits now)
    note pr = Cons.prems [unfolded Attempt]
    from pr(2) have rest: "t0 \<le> now" "now \<le> t1" "ops_ok k l K now t1 ops" by simp_all
    from pr(1,2) show ?thesis
    proof (cases rule: passed_Attempt_cases)
      case (skip L')
      with pr rest Attempt Cons.IH [of L' now] show ?thesis by simp
    next
      case (counted L')
      let ?f = "fst (entry_of (lm_state L') k)" and ?m = "lm_max_delay L"
      have f: "1 \<le> ?f" "snd (entry_of (lm_state L') k) = now + delay_for ?m l ?f"
        using counted pr(1) by (auto simp: count_failure_def state_ok_def Let_def)
      then have "now + delay_for ?m l (int 1) \<le> snd (entry_of (lm_state L') k)"
        using pr delay_for_mono [of ?m 1 ?f l] by simp
      with f passed_after [of K L' k l now t1 ops 1 now] counted pr rest Attempt show ?thesis
        by (cases "passed k ops L' = []") (simp_all add: lockout_def)
    qed
  qed
qed simp

lemma passed_window: "ops_ok k l K t0 t1 ops \<Longrightarrow> set (passed k ops L) \<subseteq> {t0..t1}"
proof (induction ops arbitrary: L t0)
  case (Cons a ops)
  then show ?case
  proof (cases a)
    case (Attempt limits now)
    with Cons.prems have "t0 \<le> now" "now \<le> t1" "ops_ok k l K now t1 ops" by auto
    with Cons.IH [of now] have "set (passed k ops M) \<subseteq> {t0..t1}" for M
      by (meson atLeastatMost_subset_iff order.trans order_refl)
    with Attempt \<open>t0 \<le> now\<close> \<open>now \<le> t1\<close> show ?thesis
      by (auto split: sum.splits if_splits)
  qed simp
qed simp

text \<open>
  C26. Attempts on a key that does not succeed are spaced by the doubling pauses, however those of several
  callers interleave: in a window no longer than \<open>forget\<close>, and while no more keys are in use than
  \<open>max_keys\<close>, at most \<open>n\<close> of them are let through where the window is shorter than the pauses of \<open>n + 1\<close>
  failures. With the constructor's defaults this is at most 14 password guesses per key in fifteen
  minutes. The conditions are needed: a success clears the key's entry, an entry that is pushed out by newer
  keys takes its pause along, and after \<open>forget\<close> seconds of rest the count starts again.
\<close>

theorem guesses_bounded:
  assumes "state_ok K L" "ops_ok k l K t0 t1 ops" "t1 - t0 \<le> lm_forget L" "0 \<le> lm_max_delay L"
    "t1 - t0 < lockout (lm_max_delay L) l (Suc n)"
  shows "length (passed k ops L) \<le> n"
proof (rule ccontr)
  let ?ts = "passed k ops L" and ?m = "lm_max_delay L"
  assume n: "\<not> length ?ts \<le> n"
  then have ne: "?ts \<noteq> []" by auto
  have "lockout ?m l (Suc n) \<le> lockout ?m l (length ?ts)"
    using n assms(4) by (intro lockout_mono) auto
  moreover have "lockout ?m l (length ?ts) \<le> last ?ts - hd ?ts"
    using passed_spacing [OF assms(1-4) ne] .
  moreover have "last ?ts \<le> t1" "t0 \<le> hd ?ts"
    using passed_window [OF assms(2), of L] last_in_set [OF ne] hd_in_set [OF ne] by auto
  ultimately show False using assms(5) by linarith
qed

definition demo_ops :: "limiter_op list" where
  "demo_ops = map (\<lambda>i. Attempt [(''10.0.0.9'', 5), (''admin'', 5)] (real i * 40)) [0..<20]"

theorem guesses_bounded_witness: "length (passed ''admin'' demo_ops LoginLimiter) \<le> 14"
proof (rule guesses_bounded [where K = "{''10.0.0.9'', ''admin''}" and l = 5 and ?t0.0 = 0 and ?t1.0 = 900])
  show "state_ok {''10.0.0.9'', ''admin''} LoginLimiter"
    by (simp add: state_ok_def LoginLimiter_def keys_distinct_def entry_of_def)
  show "ops_ok ''admin'' 5 {''10.0.0.9'', ''admin''} 0 900 demo_ops"
    by (simp add: demo_ops_def upt_rec keys_distinct_def)
  show "900 - 0 < real_of_int (lockout (lm_max_delay LoginLimiter) 5 (Suc 14))"
    by (simp add: LoginLimiter_def lockout_def delay_for_def sum.atLeastLessThan_Suc eval_nat_numeral)
qed (simp_all add: LoginLimiter_def)

section \<open>Waits and memory stay bounded\<close>

definition limiter_inv :: "real \<Rightarrow> limiter \<Rightarrow> bool" where
  "limiter_inv now L \<longleftrightarrow> keys_distinct (lm_state L) \<and> length (lm_state L) \<le> lm_max_keys L \<and>
     0 \<le> lm_max_delay L \<and> (\<forall>k. snd (entry_of (lm_state L) k) \<le> now + lm_max_delay L)"

lemma max_wait_attained: "limits \<noteq> [] \<Longrightarrow> \<exists>k. max_wait now st limits = snd (entry_of st k) - now"
proof -
  have fold: "fold max ws w \<in> insert w (set ws)" for w :: real and ws
    by (induction ws arbitrary: w) (auto simp: max_def)
  assume "limits \<noteq> []"
  then obtain w ws where ws: "map (\<lambda>(k, l). snd (entry_of st k) - now) limits = w # ws"
    by (cases limits) auto
  then have "max_wait now st limits \<in> set (map (\<lambda>(k, l). snd (entry_of st k) - now) limits)"
    using fold [of ws w] by (simp add: max_wait_def)
  then show ?thesis by auto
qed

lemma entry_of_suffix:
  "keys_distinct xs \<Longrightarrow> suffix ys xs \<Longrightarrow> entry_of ys k = entry_of xs k \<or> entry_of ys k = (0, 0)"
proof -
  assume d: "keys_distinct xs" and "suffix ys xs"
  then obtain zs where xs: "xs = zs @ ys" by (auto elim: suffixE)
  show ?thesis
  proof (cases "map_of ys k")
    case (Some e)
    with d xs have "map_of zs k = None"
      by (force simp: keys_distinct_def map_of_eq_None_iff dest!: map_of_SomeD)
    with Some xs show ?thesis by (simp add: entry_of_def map_add_def)
  qed (simp add: entry_of_def)
qed

lemma until_count_all:
  fixes now :: real
  assumes "\<forall>k. snd (entry_of st k) \<le> now + lm_max_delay L" "0 \<le> lm_max_delay L"
  shows "\<forall>k. snd (entry_of (fold (count_key L now) limits st) k) \<le> now + lm_max_delay L"
  using assms(1)
proof (induction limits arbitrary: st)
  case (Cons x limits)
  have "\<forall>k. snd (entry_of (count_key L now x st) k) \<le> now + lm_max_delay L"
    using Cons.prems assms(2) map_of_count_key [of L now "fst x" "snd x" st]
    by (auto simp: entry_of_def count_failure_def Let_def delay_for_def)
  with Cons.IH show ?case by simp
qed simp

text \<open>
  The limiter's dictionary never outgrows \<open>max_keys\<close> and no caller is told to wait more than
  one second beyond \<open>max_delay\<close>, whatever keys the attempts name; a refused attempt changes nothing.
\<close>

theorem attempt_bounded:
  assumes "limiter_inv now L" "0 \<le> now" "attempt limits now L = Inr (w, L')"
  shows "limiter_inv now L' \<and> 0 \<le> w \<and> w \<le> lm_max_delay L + 1 \<and> (w = 0 \<or> L' = L)"
proof (cases "w = 0")
  case True
  note L' = attempt_passed(3) [OF assms(3) [unfolded True]]
  let ?st = "fold (count_key L now) limits (lm_state L)"
  have d: "keys_distinct ?st" using assms(1) keys_distinct_count_all by (auto simp: limiter_inv_def)
  have "\<forall>k. snd (entry_of ?st k) \<le> now + lm_max_delay L"
    by (rule until_count_all) (use assms(1) in \<open>auto simp: limiter_inv_def\<close>)
  then have "snd (entry_of (evict (lm_max_keys L) ?st) k) \<le> now + lm_max_delay L" for k
    using entry_of_suffix [OF d evict_suffix, of "lm_max_keys L" k] assms(1,2)
    by (auto simp: limiter_inv_def)
  with d L' True assms(1) show ?thesis by (auto simp: limiter_inv_def length_evict keys_distinct_evict)
next
  case False
  have eq: "L' = L" "0 < w" using attempt_refused [OF assms(3) False] by auto
  have "limits \<noteq> []" using assms(3) by (auto simp: attempt_def)
  then obtain k where k: "max_wait now (lm_state L) limits = snd (entry_of (lm_state L) k) - now"
    using max_wait_attained by blast
  also have "\<dots> \<le> lm_max_delay L" using assms(1) by (simp add: limiter_inv_def algebra_simps)
  finally have "\<lfloor>max_wait now (lm_state L) limits\<rfloor> \<le> lm_max_delay L" by linarith
  moreover have "w = \<lfloor>max_wait now (lm_state L) limits\<rfloor> + 1"
    using assms(3) False by (auto simp: attempt_def Let_def split: if_splits)
  ultimately show ?thesis using eq assms(1) by simp
qed

theorem attempt_bounded_witness:
  "limiter_inv 7 (LoginLimiter\<lparr>lm_state := [(''admin'', 1, 9)]\<rparr>) \<and>
   attempt [(''admin'', 1)] 7 LoginLimiter = Inr (0, LoginLimiter\<lparr>lm_state := [(''admin'', 1, 9)]\<rparr>)"
proof -
  have inv: "limiter_inv 7 LoginLimiter"
    by (simp add: limiter_inv_def LoginLimiter_def keys_distinct_def entry_of_def)
  have r: "attempt [(''admin'', 1)] 7 LoginLimiter = Inr (0, LoginLimiter\<lparr>lm_state := [(''admin'', 1, 9)]\<rparr>)"
    by (simp add: attempt_def max_wait_def count_key_def count_failure_def delay_for_def entry_of_def
        LoginLimiter_def)
  from attempt_bounded [OF inv _ r] r show ?thesis by simp
qed

end
