(* ===== verification/Db.thy ===== *)
theory Db
  imports Prelude "HOL-Library.Product_Lexorder"
begin

text \<open>
  The PostgreSQL storage of \<open>ui/app/db.py\<close>: one row type per table of \<open>SCHEMA\<close>, the
  database as a record of tables, and every method of \<open>Database\<close> that reads or changes rows.
  A table with a primary key is an association list from the key to the other columns; a table
  with an identity column is a list of rows with the next identity beside it. A transaction
  that raises changes nothing, so an operation that may raise returns a result and the old
  database is simply kept.

  A settings value that the program writes with \<open>json.dumps\<close> is stored as the JSON value
  itself and any other text as text; \<open>json.loads\<close> of the former gives the value back.
\<close>

section \<open>Rows and tables\<close>

datatype json =
    JNull
  | JBool bool
  | JInt int
  | JStr string
  | JList "json list"
  | JObj "(string \<times> json) list"

datatype sval = Text string | Json json

record user =
  u_id :: int
  u_username :: string
  u_password_hash :: string
  u_created_at :: int
  u_last_login :: "int option"
  u_client_name :: "string option"
  u_client_serial :: "string option"

record web_session =
  ws_user_id :: int
  ws_created_at :: int
  ws_expires_at :: int
  ws_ip :: "string option"
  ws_user_agent :: string

record vpn_session =
  vs_id :: int
  vs_client_name :: string
  vs_cid :: "int option"
  vs_real_address :: string
  vs_vpn_ip :: "string option"
  vs_username :: "string option"
  vs_cipher :: "string option"
  vs_connected_at :: int
  vs_last_seen :: int
  vs_disconnected_at :: "int option"
  vs_bytes_in :: int
  vs_bytes_out :: int
  vs_proto :: "string option"
  vs_platform :: "string option"
  vs_client_ver :: "string option"
  vs_end_reason :: "string option"
  vs_grp :: "int option"

record relay_session =
  rs_grp :: string
  rs_client_name :: string
  rs_credential_id :: string
  rs_transport :: string
  rs_started_at :: int
  rs_last_seen :: int
  rs_sampled_at :: int
  rs_active :: int
  rs_accepted :: int
  rs_denied :: int
  rs_failed :: int
  rs_bytes_up :: int
  rs_bytes_down :: int
  rs_uncounted :: int

record event_row =
  ev_id :: int
  ev_ts :: int
  ev_kind :: string
  ev_client_name :: "string option"
  ev_actor :: "string option"
  ev_detail :: "string option"

record share_token =
  st_client_name :: string
  st_created_at :: int
  st_expires_at :: int
  st_used_at :: "int option"
  st_created_by :: "string option"

text \<open>A traffic table: (bucket start, client) to (bytes in, bytes out).\<close>

type_synonym traffic = "((int \<times> string) \<times> int \<times> int) list"

text \<open>The rejections table: (day, client, reason, address) to (count, last time).\<close>

type_synonym rejection_table = "((int \<times> string \<times> string \<times> string) \<times> int \<times> int) list"

record database =
  users :: "user list"
  next_user_id :: int
  web_sessions :: "(string \<times> web_session) list"
  settings_tab :: "(string \<times> sval) list"
  clients_tab :: "(string \<times> string \<times> int) list"
  hidden_certs :: "(string \<times> string \<times> int) list"
  vpn_sessions :: "vpn_session list"
  next_session_id :: int
  relay_sessions :: "(string \<times> relay_session) list"
  traffic_minute :: traffic
  traffic_hour :: traffic
  traffic_day :: traffic
  events :: "event_row list"
  next_event_id :: int
  archived_clients :: "(string \<times> string \<times> int) list"
  rejections_tab :: rejection_table
  share_tokens :: "(string \<times> share_token) list"

definition empty_db :: database where
  "empty_db =
     \<lparr>users = [], next_user_id = 1, web_sessions = [], settings_tab = [], clients_tab = [],
      hidden_certs = [], vpn_sessions = [], next_session_id = 1, relay_sessions = [],
      traffic_minute = [], traffic_hour = [], traffic_day = [], events = [], next_event_id = 1,
      archived_clients = [], rejections_tab = [], share_tokens = []\<rparr>"

definition MINUTE_RETENTION :: int where "MINUTE_RETENTION = 2 * 86400"
definition HOUR_RETENTION :: int where "HOUR_RETENTION = 90 * 86400"
definition EVENT_RETENTION :: int where "EVENT_RETENTION = 365 * 86400"
definition MERGE_GAP :: int where "MERGE_GAP = 15 * 60"
definition SHORT_SESSION :: int where "SHORT_SESSION = 60"

lemmas retention_defs =
  MINUTE_RETENTION_def HOUR_RETENTION_def EVENT_RETENTION_def MERGE_GAP_def SHORT_SESSION_def

text \<open>PostgreSQL's integer division truncates towards zero.\<close>

definition pg_div :: "int \<Rightarrow> int \<Rightarrow> int" where
  "pg_div a b = sgn a * sgn b * (\<bar>a\<bar> div \<bar>b\<bar>)"

lemma pg_div_nonneg: "0 \<le> a \<Longrightarrow> 0 < b \<Longrightarrow> pg_div a b = a div b"
  by (cases "a = 0") (auto simp: pg_div_def sgn_if)

section \<open>Addresses as OpenVPN prints them\<close>

definition split_address :: "string \<Rightarrow> string option \<times> string" where
  "split_address address =
     (case partition_on (CHR '':'') address of
        (head, sep, rest) \<Rightarrow>
          (if sep \<and> take 3 head \<in> {''udp'', ''tcp''} then (Some (take 3 head), rest)
           else (None, address)))"

definition real_ip :: "string \<Rightarrow> string" where
  "real_ip address = fst (rpartition_on (CHR '':'') (snd (split_address address)))"

section \<open>Settings and events\<close>

definition get_setting :: "database \<Rightarrow> string \<Rightarrow> sval option" where
  "get_setting db key = map_of (settings_tab db) key"

definition set_setting :: "string \<Rightarrow> sval \<Rightarrow> database \<Rightarrow> database" where
  "set_setting key v db = db\<lparr>settings_tab := AList.update key v (settings_tab db)\<rparr>"

text \<open>\<open>DELETE FROM settings WHERE key = ?\<close>\<close>

definition delete_setting :: "string \<Rightarrow> database \<Rightarrow> database" where
  "delete_setting key db = db\<lparr>settings_tab := AList.delete key (settings_tab db)\<rparr>"

definition add_event ::
  "int \<Rightarrow> string \<Rightarrow> string option \<Rightarrow> string option \<Rightarrow> string option \<Rightarrow> database \<Rightarrow> database" where
  "add_event now kind client actor detail db =
     db\<lparr>events := events db @
          [\<lparr>ev_id = next_event_id db, ev_ts = now, ev_kind = kind, ev_client_name = client,
            ev_actor = actor, ev_detail = detail\<rparr>],
        next_event_id := next_event_id db + 1\<rparr>"

section \<open>Traffic\<close>

definition add_traffic :: "int \<Rightarrow> string \<Rightarrow> int \<Rightarrow> int \<Rightarrow> database \<Rightarrow> database" where
  "add_traffic ts_minute client d_in d_out db =
     (if d_in \<le> 0 \<and> d_out \<le> 0 then db
      else db\<lparr>traffic_minute :=
                upsert_add (ts_minute, client) (max d_in 0, max d_out 0) (traffic_minute db)\<rparr>)"

text \<open>\<open>_TRAFFIC_UNION\<close>: the rows of the three tables in \<open>[start, end)\<close>.\<close>

definition in_range :: "int \<Rightarrow> int \<Rightarrow> int \<times> string \<Rightarrow> bool" where
  "in_range start stop k \<longleftrightarrow> start \<le> fst k \<and> fst k < stop"

definition traffic_union :: "int \<Rightarrow> int \<Rightarrow> database \<Rightarrow> traffic" where
  "traffic_union start stop db =
     filter (\<lambda>(k, v). in_range start stop k) (traffic_minute db) @
     filter (\<lambda>(k, v). in_range start stop k) (traffic_hour db) @
     filter (\<lambda>(k, v). in_range start stop k) (traffic_day db)"

definition for_client :: "string option \<Rightarrow> int \<times> string \<Rightarrow> bool" where
  "for_client client k \<longleftrightarrow> (case client of None \<Rightarrow> True | Some c \<Rightarrow> snd k = c)"

text \<open>An empty client name counts as no filter, as \<open>if client_name\<close> does.\<close>

definition client_filter :: "string option \<Rightarrow> string option" where
  "client_filter client = (if client = Some [] then None else client)"

definition totals :: "int \<Rightarrow> int \<Rightarrow> string option \<Rightarrow> database \<Rightarrow> int \<times> int" where
  "totals start stop client db =
     (let P = for_client (client_filter client); rows = traffic_union start stop db
      in (sum_where P fst rows, sum_where P snd rows))"

definition totals_by_client :: "int \<Rightarrow> int \<Rightarrow> database \<Rightarrow> (string \<times> int \<times> int) list" where
  "totals_by_client start stop db =
     (let rows = traffic_union start stop db
      in map (\<lambda>c. (c, sum_where (\<lambda>k. snd k = c) fst rows, sum_where (\<lambda>k. snd k = c) snd rows))
             (remdups (map (snd \<circ> fst) rows)))"

definition bucket_of :: "int \<Rightarrow> int \<Rightarrow> int \<Rightarrow> int" where
  "bucket_of bucket tz_offset ts = pg_div (ts + tz_offset) bucket * bucket - tz_offset"

record point =
  pt_ts :: int
  pt_in :: int
  pt_out :: int

definition series ::
  "int \<Rightarrow> int \<Rightarrow> int \<Rightarrow> string option \<Rightarrow> int \<Rightarrow> database \<Rightarrow> point list" where
  "series start stop bucket client tz_offset db =
     (let rows = filter (\<lambda>(k, v). for_client (client_filter client) k) (traffic_union start stop db);
          b = (\<lambda>k. bucket_of bucket tz_offset (fst k))
      in map (\<lambda>t. \<lparr>pt_ts = t, pt_in = sum_where (\<lambda>k. b k = t) fst rows,
                    pt_out = sum_where (\<lambda>k. b k = t) snd rows\<rparr>)
             (sort (remdups (map (b \<circ> fst) rows))))"

definition first_traffic_ts :: "database \<Rightarrow> int option" where
  "first_traffic_ts db =
     (case map (fst \<circ> fst) (traffic_minute db @ traffic_hour db @ traffic_day db) of
        [] \<Rightarrow> None | t # ts \<Rightarrow> Some (fold min ts t))"

text \<open>
  One step of the roll-up: the old rows of a table are summed per coarser bucket and client
  (the grouped \<open>SELECT\<close>), then added to the coarser table, and deleted from their own.
\<close>

definition add_rows :: "('k \<times> int \<times> int) list \<Rightarrow> ('k \<times> int \<times> int) list \<Rightarrow> ('k \<times> int \<times> int) list" where
  "add_rows rows t = fold (\<lambda>(k, d). upsert_add k d) rows t"

definition coarsen :: "int \<Rightarrow> int \<times> string \<Rightarrow> int \<times> string" where
  "coarsen width k = (pg_div (fst k) width * width, snd k)"

definition grouped_rows :: "int \<Rightarrow> int \<Rightarrow> traffic \<Rightarrow> traffic" where
  "grouped_rows width cutoff t =
     add_rows (map (\<lambda>(k, d). (coarsen width k, d)) (filter (\<lambda>(k, d). fst k < cutoff) t)) []"

definition not_before :: "int \<Rightarrow> traffic \<Rightarrow> traffic" where
  "not_before cutoff t = filter (\<lambda>(k, d). \<not> fst k < cutoff) t"

definition rollup_traffic :: "int \<Rightarrow> database \<Rightarrow> database" where
  "rollup_traffic now db =
     (let c1 = now - MINUTE_RETENTION;
          db1 = db\<lparr>traffic_hour := add_rows (grouped_rows 3600 c1 (traffic_minute db)) (traffic_hour db),
                   traffic_minute := not_before c1 (traffic_minute db)\<rparr>;
          c2 = now - HOUR_RETENTION
      in db1\<lparr>traffic_day := add_rows (grouped_rows 86400 c2 (traffic_hour db1)) (traffic_day db1),
             traffic_hour := not_before c2 (traffic_hour db1)\<rparr>)"

text \<open>\<open>rollup(now)\<close>: \<open>now or int(time.time())\<close>, the roll-up, and the expiry of old rows.\<close>

definition rollup_now :: "int option \<Rightarrow> int \<Rightarrow> int" where
  "rollup_now given clock = (case given of None \<Rightarrow> clock | Some t \<Rightarrow> if t = 0 then clock else t)"

definition rollup :: "int option \<Rightarrow> int \<Rightarrow> database \<Rightarrow> database" where
  "rollup given clock db =
     (let now = rollup_now given clock;
          db1 = rollup_traffic now db
      in db1\<lparr>web_sessions := filter (\<lambda>(h, s). \<not> ws_expires_at s < now) (web_sessions db1),
             rejections_tab := filter (\<lambda>(k, v). \<not> fst k < now - HOUR_RETENTION) (rejections_tab db1),
             share_tokens := filter (\<lambda>(h, t). \<not> st_expires_at t < now) (share_tokens db1),
             events := filter (\<lambda>e. \<not> ev_ts e < now - EVENT_RETENTION) (events db1)\<rparr>)"

section \<open>Client history\<close>

definition older :: "int option \<Rightarrow> int \<Rightarrow> bool" where
  "older before t \<longleftrightarrow> (case before of None \<Rightarrow> True | Some b \<Rightarrow> t < b)"

definition has_history :: "string \<Rightarrow> int option \<Rightarrow> database \<Rightarrow> bool" where
  "has_history name before db \<longleftrightarrow>
     (\<exists>s \<in> set (vpn_sessions db). vs_client_name s = name \<and> older before (vs_connected_at s)) \<or>
     (\<exists>(i, r) \<in> set (relay_sessions db). rs_client_name r = name \<and> older before (rs_started_at r)) \<or>
     (\<exists>(k, v) \<in> set (traffic_minute db @ traffic_hour db @ traffic_day db).
        snd k = name \<and> older before (fst k))"

definition rename_key :: "string \<Rightarrow> string \<Rightarrow> int option \<Rightarrow> int \<times> string \<Rightarrow> int \<times> string" where
  "rename_key name key before k =
     (if snd k = name \<and> older before (fst k) then (fst k, key) else k)"

definition rename_traffic :: "string \<Rightarrow> string \<Rightarrow> int option \<Rightarrow> traffic \<Rightarrow> traffic" where
  "rename_traffic name key before t = map (\<lambda>(k, v). (rename_key name key before k, v)) t"

text \<open>
  \<open>archive_client_history\<close>: \<open>Inr (key, database)\<close>, \<open>None\<close> for the key when there is nothing to
  move. The unique key of a traffic table refuses a row that would fall on an existing one,
  which rolls the whole transaction back.
\<close>

definition archive_key :: "string \<Rightarrow> int \<Rightarrow> string" where
  "archive_key name now = name @ ''#'' @ dec_int now"

definition move_history :: "string \<Rightarrow> string \<Rightarrow> int option \<Rightarrow> database \<Rightarrow> database" where
  "move_history name key before db =
     db\<lparr>vpn_sessions :=
          map (\<lambda>s. if vs_client_name s = name \<and> older before (vs_connected_at s)
                   then s\<lparr>vs_client_name := key\<rparr> else s) (vpn_sessions db),
        relay_sessions :=
          map (\<lambda>(i, r). (i, if rs_client_name r = name \<and> older before (rs_started_at r)
                            then r\<lparr>rs_client_name := key\<rparr> else r)) (relay_sessions db),
        traffic_minute := rename_traffic name key before (traffic_minute db),
        traffic_hour := rename_traffic name key before (traffic_hour db),
        traffic_day := rename_traffic name key before (traffic_day db)\<rparr>"

definition archive_client_history ::
  "int \<Rightarrow> string \<Rightarrow> int option \<Rightarrow> database \<Rightarrow> (string option \<times> database) result" where
  "archive_client_history now name before db =
     (if \<not> has_history name before db then Inr (None, db)
      else
        let key = archive_key name now; db' = move_history name key before db
        in if keys_distinct (traffic_minute db') \<and> keys_distinct (traffic_hour db')
              \<and> keys_distinct (traffic_day db')
           then Inr (Some key, db'\<lparr>archived_clients := AList.update key (name, now) (archived_clients db')\<rparr>)
           else Inl DatabaseError)"

definition purge_client :: "string \<Rightarrow> database \<Rightarrow> database" where
  "purge_client name db =
     db\<lparr>vpn_sessions := filter (\<lambda>s. vs_client_name s \<noteq> name) (vpn_sessions db),
        relay_sessions := filter (\<lambda>(i, r). rs_client_name r \<noteq> name) (relay_sessions db),
        traffic_minute := filter (\<lambda>(k, v). snd k \<noteq> name) (traffic_minute db),
        traffic_hour := filter (\<lambda>(k, v). snd k \<noteq> name) (traffic_hour db),
        traffic_day := filter (\<lambda>(k, v). snd k \<noteq> name) (traffic_day db),
        events := filter (\<lambda>e. ev_client_name e \<noteq> Some name) (events db)\<rparr>"

section \<open>Rejected connection attempts\<close>

definition add_rejection :: "int \<Rightarrow> string \<Rightarrow> string \<Rightarrow> string \<Rightarrow> database \<Rightarrow> database" where
  "add_rejection ts client reason address db =
     db\<lparr>rejections_tab :=
          AList.map_default (ts - ts mod 86400, client, reason, address) (1, ts)
            (\<lambda>(n, last). (n + 1, max last ts)) (rejections_tab db)\<rparr>"

record rejection =
  rj_client :: string
  rj_reason :: string
  rj_address :: string
  rj_count :: int
  rj_last_ts :: int

definition rejections :: "int \<Rightarrow> string option \<Rightarrow> database \<Rightarrow> rejection list" where
  "rejections since client db =
     (let rows = filter (\<lambda>((d, c, r, a), n, last). since \<le> last \<and> (case client of None \<Rightarrow> True | Some x \<Rightarrow> c = x))
                        (rejections_tab db);
          groups = remdups (map (\<lambda>((d, c, r, a), n, last). (c, r, a)) rows);
          of_group = (\<lambda>g. filter (\<lambda>((d, c, r, a), n, last). (c, r, a) = g) rows);
          out = map (\<lambda>g. \<lparr>rj_client = fst g, rj_reason = fst (snd g), rj_address = snd (snd g),
                          rj_count = sum_list (map (\<lambda>(k, n, last). n) (of_group g)),
                          rj_last_ts = (case map (\<lambda>(k, n, last). last) (of_group g) of
                                          [] \<Rightarrow> 0 | t # ts \<Rightarrow> fold max ts t)\<rparr>) groups
      in take 50 (sort_key (\<lambda>r. - rj_last_ts r) out))"

section \<open>VPN sessions\<close>

definition close_stale_sessions :: "int option \<Rightarrow> database \<Rightarrow> int \<times> database" where
  "close_stale_sessions at db =
     (int (length (filter (\<lambda>s. vs_disconnected_at s = None) (vpn_sessions db))),
      db\<lparr>vpn_sessions :=
           map (\<lambda>s. if vs_disconnected_at s = None
                    then s\<lparr>vs_disconnected_at := Some (case at of None \<Rightarrow> vs_last_seen s | Some t \<Rightarrow> t)\<rparr>
                    else s) (vpn_sessions db)\<rparr>)"

text \<open>Rows ordered by \<open>connected_at DESC, id DESC\<close>.\<close>

definition newest_first :: "vpn_session list \<Rightarrow> vpn_session list" where
  "newest_first ss = sort_key (\<lambda>s. (- vs_connected_at s, - vs_id s)) ss"

definition find_session :: "string \<Rightarrow> int \<Rightarrow> int \<Rightarrow> database \<Rightarrow> vpn_session option" where
  "find_session client cid connected_at db =
     (case sort_key (\<lambda>s. - vs_id s)
             (filter (\<lambda>s. vs_client_name s = client \<and> vs_cid s = Some cid \<and> vs_connected_at s = connected_at)
                     (vpn_sessions db)) of
        [] \<Rightarrow> None | s # _ \<Rightarrow> Some s)"

definition latest_session :: "string \<Rightarrow> string \<Rightarrow> int \<Rightarrow> database \<Rightarrow> vpn_session option" where
  "latest_session client address since db =
     List.find (\<lambda>s. snd (split_address (vs_real_address s)) = snd (split_address address))
       (take 20 (newest_first
          (filter (\<lambda>s. vs_client_name s = client \<and> (since \<le> vs_connected_at s \<or> vs_disconnected_at s = None))
                  (vpn_sessions db))))"

definition vs_ended :: "vpn_session \<Rightarrow> int" where
  "vs_ended s = (case vs_disconnected_at s of None \<Rightarrow> vs_last_seen s | Some t \<Rightarrow> t)"

definition session_group :: "string \<Rightarrow> string \<Rightarrow> int \<Rightarrow> database \<Rightarrow> int option" where
  "session_group client address connected_at db =
     (case List.find (\<lambda>s. real_ip (vs_real_address s) = real_ip address)
             (take 20 (newest_first (filter (\<lambda>s. vs_client_name s = client) (vpn_sessions db)))) of
        None \<Rightarrow> None
      | Some s \<Rightarrow> if connected_at - vs_ended s \<le> MERGE_GAP then vs_grp s else None)"

text \<open>
  \<open>insert_session\<close> takes the optional columns as keyword arguments; \<open>last_seen\<close> defaults to the
  start, the counters to 0. A session that continues no visit is the first of its own.
\<close>

record session_fields =
  f_cid :: "int option"
  f_vpn_ip :: "string option"
  f_username :: "string option"
  f_cipher :: "string option"
  f_last_seen :: "int option"
  f_disconnected_at :: "int option"
  f_bytes_in :: int
  f_bytes_out :: int
  f_end_reason :: "string option"

definition no_fields :: session_fields where
  "no_fields = \<lparr>f_cid = None, f_vpn_ip = None, f_username = None, f_cipher = None, f_last_seen = None,
                f_disconnected_at = None, f_bytes_in = 0, f_bytes_out = 0, f_end_reason = None\<rparr>"

definition insert_session ::
  "string \<Rightarrow> string \<Rightarrow> int \<Rightarrow> session_fields \<Rightarrow> database \<Rightarrow> int \<times> database" where
  "insert_session client address connected_at f db =
     (let ident = next_session_id db;
          grp = session_group client address connected_at db;
          row = \<lparr>vs_id = ident, vs_client_name = client, vs_cid = f_cid f, vs_real_address = address,
                 vs_vpn_ip = f_vpn_ip f, vs_username = f_username f, vs_cipher = f_cipher f,
                 vs_connected_at = connected_at,
                 vs_last_seen = (case f_last_seen f of None \<Rightarrow> connected_at | Some t \<Rightarrow> t),
                 vs_disconnected_at = f_disconnected_at f,
                 vs_bytes_in = f_bytes_in f, vs_bytes_out = f_bytes_out f,
                 vs_proto = fst (split_address address), vs_platform = None, vs_client_ver = None,
                 vs_end_reason = f_end_reason f,
                 vs_grp = (case grp of None \<Rightarrow> Some ident | Some g \<Rightarrow> Some g)\<rparr>
      in (ident, db\<lparr>vpn_sessions := vpn_sessions db @ [row], next_session_id := ident + 1\<rparr>))"

text \<open>\<open>UPDATE vpn_sessions SET ... WHERE id = ?\<close>\<close>

definition update_session :: "int \<Rightarrow> (vpn_session \<Rightarrow> vpn_session) \<Rightarrow> database \<Rightarrow> database" where
  "update_session ident f db =
     db\<lparr>vpn_sessions := map (\<lambda>s. if vs_id s = ident then f s else s) (vpn_sessions db)\<rparr>"

text \<open>
  \<open>group_sessions\<close>: one pass over the rows without a visit, oldest first, with the visit and
  the latest end per client and address.
\<close>

fun group_rows ::
  "((string \<times> string) \<times> int \<times> int) list \<Rightarrow> vpn_session list \<Rightarrow> database \<Rightarrow> database" where
  "group_rows latest [] db = db"
| "group_rows latest (r # rs) db =
     (let key = (vs_client_name r, real_ip (vs_real_address r));
          (grp, ended') =
            (case map_of latest key of
               None \<Rightarrow> (vs_id r, max 0 (vs_ended r))
             | Some (g, ended) \<Rightarrow>
                 (if vs_connected_at r - ended > MERGE_GAP then vs_id r else g, max ended (vs_ended r)));
          db' = update_session (vs_id r)
                  (\<lambda>s. s\<lparr>vs_grp := Some grp,
                         vs_proto := (case vs_proto s of None \<Rightarrow> fst (split_address (vs_real_address r))
                                      | Some p \<Rightarrow> Some p)\<rparr>) db
      in group_rows (AList.update key (grp, ended') latest) rs db')"

definition group_sessions :: "database \<Rightarrow> int \<times> database" where
  "group_sessions db =
     (let rows = sort_key (\<lambda>s. (vs_connected_at s, vs_id s))
                   (filter (\<lambda>s. vs_grp s = None) (vpn_sessions db))
      in (int (length rows), group_rows [] rows db))"

section \<open>Reports\<close>

text \<open>A visit: the sessions of one group, with the address, device and end of the latest one.\<close>

record visit =
  v_grp :: "int option"
  v_connected_at :: int
  v_last_id :: int
  v_connections :: int
  v_tcp :: int
  v_online_seconds :: int
  v_bytes_in :: int
  v_bytes_out :: int
  v_disconnected_at :: "int option"
  v_latest :: vpn_session

definition min_of :: "int list \<Rightarrow> int" where
  "min_of ts = (case ts of [] \<Rightarrow> 0 | t # us \<Rightarrow> fold min us t)"

definition max_of :: "int list \<Rightarrow> int" where
  "max_of ts = (case ts of [] \<Rightarrow> 0 | t # us \<Rightarrow> fold max us t)"

definition is_open :: "vpn_session \<Rightarrow> bool" where
  "is_open s \<longleftrightarrow> vs_disconnected_at s = None"

definition visit_of :: "database \<Rightarrow> vpn_session list \<Rightarrow> int option \<Rightarrow> visit option" where
  "visit_of db rows g =
     (let ms = filter (\<lambda>s. vs_grp s = g) rows; last_id = max_of (map vs_id ms)
      in map_option
           (\<lambda>l. \<lparr>v_grp = g, v_connected_at = min_of (map vs_connected_at ms), v_last_id = last_id,
                 v_connections = int (length ms),
                 v_tcp = int (length (filter (\<lambda>s. vs_proto s = Some ''tcp'') ms)),
                 v_online_seconds = sum_list (map (\<lambda>s. vs_ended s - vs_connected_at s) ms),
                 v_bytes_in = sum_list (map vs_bytes_in ms),
                 v_bytes_out = sum_list (map vs_bytes_out ms),
                 v_disconnected_at = (if list_ex is_open ms then None else Some (max_of (map vs_ended ms))),
                 v_latest = l\<rparr>)
           (List.find (\<lambda>s. vs_id s = last_id) (vpn_sessions db)))"

text \<open>The order of a nullable column: \<open>DESC\<close> puts \<open>NULL\<close> first.\<close>

definition null_first :: "int option \<Rightarrow> bool \<times> int" where
  "null_first g = (case g of None \<Rightarrow> (False, 0) | Some x \<Rightarrow> (True, - x))"

definition visits ::
  "(vpn_session \<Rightarrow> bool) \<Rightarrow> nat \<Rightarrow> nat \<Rightarrow> bool \<Rightarrow> database \<Rightarrow> int \<times> visit list" where
  "visits wher limit offset active db =
     (let rows = filter wher (vpn_sessions db);
          groups = filter (\<lambda>g. \<not> active \<or> list_ex is_open (filter (\<lambda>s. vs_grp s = g) rows))
                     (remdups (map vs_grp rows));
          vs = List.map_filter (visit_of db rows) groups
      in (int (length groups),
          take limit (drop offset
            (sort_key (\<lambda>v. (- v_connected_at v, null_first (v_grp v))) vs))))"

record conn_stats =
  cs_name :: string
  cs_sessions :: int
  cs_short :: int
  cs_tcp :: int
  cs_left :: int
  cs_timed_out :: int
  cs_closed :: int
  cs_other :: int
  cs_durations :: "int list"
  cs_platform :: "string option"
  cs_client_ver :: "string option"

definition new_stats :: "string \<Rightarrow> conn_stats" where
  "new_stats name = \<lparr>cs_name = name, cs_sessions = 0, cs_short = 0, cs_tcp = 0, cs_left = 0,
     cs_timed_out = 0, cs_closed = 0, cs_other = 0, cs_durations = [], cs_platform = None,
     cs_client_ver = None\<rparr>"

definition count_ending :: "string option \<Rightarrow> conn_stats \<Rightarrow> conn_stats" where
  "count_ending reason s =
     (if reason = Some ''left'' then s\<lparr>cs_left := cs_left s + 1\<rparr>
      else if reason = Some ''timed out'' then s\<lparr>cs_timed_out := cs_timed_out s + 1\<rparr>
      else if reason = Some ''closed'' then s\<lparr>cs_closed := cs_closed s + 1\<rparr>
      else s\<lparr>cs_other := cs_other s + 1\<rparr>)"

definition count_session :: "vpn_session \<Rightarrow> conn_stats \<Rightarrow> conn_stats" where
  "count_session r s =
     (let seconds = vs_ended r - vs_connected_at r;
          s1 = s\<lparr>cs_sessions := cs_sessions s + 1,
                 cs_tcp := cs_tcp s + (if vs_proto r = Some ''tcp'' then 1 else 0)\<rparr>;
          s2 = (if is_open r then s1
                else count_ending (vs_end_reason r)
                       (s1\<lparr>cs_durations := cs_durations s1 @ [max seconds 0],
                           cs_short := cs_short s1 + (if seconds < SHORT_SESSION then 1 else 0)\<rparr>))
      in if vs_platform r = None \<or> vs_platform r = Some [] then s2
         else s2\<lparr>cs_platform := vs_platform r, cs_client_ver := vs_client_ver r\<rparr>)"

fun stats_by_client :: "vpn_session list \<Rightarrow> (string \<times> conn_stats) list \<Rightarrow> (string \<times> conn_stats) list" where
  "stats_by_client [] st = st"
| "stats_by_client (r # rs) st =
     stats_by_client rs
       (AList.map_default (vs_client_name r) (count_session r (new_stats (vs_client_name r)))
          (count_session r) st)"

definition median_of :: "int list \<Rightarrow> int option" where
  "median_of ds = (let d = sort ds in if d = [] then None else Some (d ! ((length d - 1) div 2)))"

definition connection_stats :: "int \<Rightarrow> int \<Rightarrow> database \<Rightarrow> (conn_stats \<times> int option) list" where
  "connection_stats start stop db =
     (let rows = sort_key vs_connected_at
                   (filter (\<lambda>s. start \<le> vs_connected_at s \<and> vs_connected_at s < stop) (vpn_sessions db));
          stats = map snd (stats_by_client rows [])
      in map (\<lambda>s. (s\<lparr>cs_durations := []\<rparr>, median_of (cs_durations s)))
             (sort_key (\<lambda>s. - cs_sessions s) stats))"

record client_stats =
  cl_sessions :: int
  cl_last_seen :: int
  cl_first_seen :: int
  cl_bytes_in :: int
  cl_bytes_out :: int
  cl_online_seconds :: int

definition session_stats_by_client :: "database \<Rightarrow> (string \<times> client_stats) list" where
  "session_stats_by_client db =
     map (\<lambda>c. let ms = filter (\<lambda>s. vs_client_name s = c) (vpn_sessions db)
              in (c, \<lparr>cl_sessions = int (length ms), cl_last_seen = max_of (map vs_last_seen ms),
                      cl_first_seen = min_of (map vs_connected_at ms),
                      cl_bytes_in = sum_list (map vs_bytes_in ms),
                      cl_bytes_out = sum_list (map vs_bytes_out ms),
                      cl_online_seconds = sum_list (map (\<lambda>s. vs_ended s - vs_connected_at s) ms)\<rparr>))
         (remdups (map vs_client_name (vpn_sessions db)))"

section \<open>The settings table as a key-value store\<close>

text \<open>
  What the components that keep their state in the settings table rely on: a write is read
  back, a deletion removes the key, and neither touches another key.
\<close>

locale kv_store =
  fixes get :: "'s \<Rightarrow> string \<Rightarrow> 'v option"
    and put :: "string \<Rightarrow> 'v \<Rightarrow> 's \<Rightarrow> 's"
    and del :: "string \<Rightarrow> 's \<Rightarrow> 's"
  assumes get_put: "get (put k v s) j = (if j = k then Some v else get s j)"
    and get_del: "get (del k s) j = (if j = k then None else get s j)"
begin

text \<open>The entries below a prefix are a store of their own, apart from every other prefix.\<close>

lemma get_put_below: "get (put (p @ k) v s) (p @ j) = (if j = k then Some v else get s (p @ j))"
  by (simp add: get_put)

lemma get_del_below: "get (del (p @ k) s) (p @ j) = (if j = k then None else get s (p @ j))"
  by (simp add: get_del)

lemma get_put_elsewhere: "take (length p) j \<noteq> p \<Longrightarrow> get (put (p @ k) v s) j = get s j"
  by (auto simp: get_put)

lemma get_del_elsewhere: "take (length p) j \<noteq> p \<Longrightarrow> get (del (p @ k) s) j = get s j"
  by (auto simp: get_del)

lemma put_put_get: "get (put k v (put k w s)) = get (put k v s)"
  by (auto simp: get_put)

lemma del_put_get: "get (del k (put k w s)) = get (del k s)"
  by (auto simp: get_put get_del)

end

interpretation settings_kv: kv_store get_setting set_setting delete_setting
  by unfold_locales (auto simp: get_setting_def set_setting_def delete_setting_def)

section \<open>Tables of counters\<close>

text \<open>
  A table that an upsert adds to, seen through the sum over the keys a condition selects. The
  law is that one upsert adds its amount to the sums whose condition holds of the key.
\<close>

locale counter_table =
  fixes add :: "'k \<Rightarrow> 'd \<Rightarrow> 't \<Rightarrow> 't"
    and total :: "('k \<Rightarrow> bool) \<Rightarrow> 't \<Rightarrow> int"
    and amount :: "'d \<Rightarrow> int"
  assumes total_add: "total P (add k d t) = total P t + (if P k then amount d else 0)"
begin

lemma total_add_all:
  "total P (fold (\<lambda>(k, d). add k d) rows t) =
     total P t + sum_list (map (\<lambda>(k, d). if P k then amount d else 0) rows)"
  by (induction rows arbitrary: t) (auto simp: total_add)

lemma total_add_outside: "\<not> P k \<Longrightarrow> total P (add k d t) = total P t"
  by (simp add: total_add)

end

interpretation bytes_in: counter_table upsert_add "\<lambda>P. sum_where P fst" fst
  by unfold_locales simp

interpretation bytes_out: counter_table upsert_add "\<lambda>P. sum_where P snd" snd
  by unfold_locales simp

lemma sum_where_add_rows_fst: "sum_where P fst (add_rows rows t) = sum_where P fst t + sum_where P fst rows"
  using bytes_in.total_add_all [of P rows t] by (simp add: add_rows_def sum_where_def [of P fst rows])

lemma sum_where_add_rows_snd: "sum_where P snd (add_rows rows t) = sum_where P snd t + sum_where P snd rows"
  using bytes_out.total_add_all [of P rows t] by (simp add: add_rows_def sum_where_def [of P snd rows])

lemmas sum_where_add_rows [simp] = sum_where_add_rows_fst sum_where_add_rows_snd

lemma keys_distinct_add_rows [simp]: "keys_distinct t \<Longrightarrow> keys_distinct (add_rows rows t)"
  by (induction rows arbitrary: t) (auto simp: add_rows_def)

lemma keys_upsert_add: "fst ` set (upsert_add k d t) = insert k (fst ` set t)"
  by (simp add: upsert_add_def dom_map_default)

lemma keys_add_rows: "fst ` set (add_rows rows t) = fst ` set t \<union> fst ` set rows"
proof (induction rows arbitrary: t)
  case (Cons r rows)
  obtain k d where r: "r = (k, d)" by (cases r)
  have "add_rows (r # rows) t = add_rows rows (upsert_add k d t)"
    by (simp add: add_rows_def r)
  then show ?case by (simp only: Cons.IH keys_upsert_add r) auto
qed (simp add: add_rows_def)

section \<open>The roll-up keeps every report\<close>

text \<open>A traffic table as the collector fills it: each key once, no bucket before the epoch.\<close>

definition traffic_ok :: "traffic \<Rightarrow> bool" where
  "traffic_ok t \<longleftrightarrow> keys_distinct t \<and> list_all (\<lambda>(k, d). 0 \<le> fst k) t"

definition traffic_inv :: "database \<Rightarrow> bool" where
  "traffic_inv db \<longleftrightarrow> traffic_ok (traffic_minute db) \<and> traffic_ok (traffic_hour db) \<and> traffic_ok (traffic_day db)"

lemma traffic_okD: "traffic_ok t \<Longrightarrow> (k, d) \<in> set t \<Longrightarrow> 0 \<le> fst k"
  by (auto simp: traffic_ok_def list_all_iff)

lemma traffic_ok_filter: "traffic_ok t \<Longrightarrow> traffic_ok (filter P t)"
  by (auto simp: traffic_ok_def list_all_iff)

lemma traffic_ok_upsert: "traffic_ok t \<Longrightarrow> 0 \<le> fst k \<Longrightarrow> traffic_ok (upsert_add k d t)"
proof -
  assume t: "traffic_ok t" and k: "0 \<le> fst k"
  have "fst ` set (upsert_add k d t) = insert k (fst ` set t)" by (rule keys_upsert_add)
  with t k show ?thesis by (force simp: traffic_ok_def list_all_iff)
qed

lemma traffic_ok_add_rows:
  "traffic_ok t \<Longrightarrow> list_all (\<lambda>(k, d). 0 \<le> fst k) rows \<Longrightarrow> traffic_ok (add_rows rows t)"
  by (induction rows arbitrary: t) (auto simp: add_rows_def traffic_ok_upsert)

lemma coarsen_nonneg: "0 \<le> fst k \<Longrightarrow> 0 < w \<Longrightarrow> 0 \<le> fst (coarsen w k)"
  by (simp add: coarsen_def pg_div_nonneg pos_imp_zdiv_nonneg_iff)

lemma grouped_rows_nonneg:
  "traffic_ok t \<Longrightarrow> 0 < w \<Longrightarrow> list_all (\<lambda>(k, d). 0 \<le> fst k) (grouped_rows w c t)"
proof -
  assume t: "traffic_ok t" and w: "0 < w"
  have "traffic_ok (grouped_rows w c t)"
    unfolding grouped_rows_def using t w
    by (intro traffic_ok_add_rows)
       (auto simp: list_all_iff traffic_ok_def keys_distinct_def intro: coarsen_nonneg)
  then show ?thesis by (simp add: traffic_ok_def)
qed

lemma traffic_inv_rollup_traffic: "traffic_inv db \<Longrightarrow> traffic_inv (rollup_traffic now db)"
  by (simp add: traffic_inv_def rollup_traffic_def Let_def traffic_ok_add_rows
        grouped_rows_nonneg traffic_ok_filter not_before_def)

lemma traffic_inv_add_traffic: "traffic_inv db \<Longrightarrow> 0 \<le> ts \<Longrightarrow> traffic_inv (add_traffic ts c i out db)"
  by (simp add: traffic_inv_def add_traffic_def traffic_ok_upsert)

text \<open>A range whose ends are multiples of the bucket width contains a row exactly when it contains its bucket.\<close>

lemma in_range_coarsen:
  assumes "0 \<le> fst k" "0 < w" "w dvd start" "w dvd stop"
  shows "in_range start stop (coarsen w k) \<longleftrightarrow> in_range start stop k"
proof -
  from assms(3,4) obtain a b where ab: "start = w * a" "stop = w * b" by (auto simp: dvd_def)
  have q: "fst (coarsen w k) = w * (fst k div w)"
    using assms by (simp add: coarsen_def pg_div_nonneg)
  have "a \<le> fst k div w \<longleftrightarrow> w * a \<le> fst k"
    using assms(2) by (simp add: le_div_int_iff)
  moreover have "fst k div w < b \<longleftrightarrow> fst k < w * b"
    using le_div_int_iff [OF assms(2), of b "fst k"] by linarith
  ultimately show ?thesis using assms(2) by (simp add: in_range_def q ab)
qed

lemma for_client_coarsen [simp]: "for_client c (coarsen w k) = for_client c k"
  by (simp add: for_client_def coarsen_def split: option.splits)

text \<open>Moving the old rows of a table to a coarser one keeps every sum over an aligned range.\<close>

lemma sum_grouped_rows:
  assumes "\<And>k. 0 \<le> fst k \<Longrightarrow> P (coarsen w k) = P k" and "traffic_ok t"
  shows "sum_where P fst (grouped_rows w c t) = sum_where (\<lambda>k. P k \<and> fst k < c) fst t"
    and "sum_where P snd (grouped_rows w c t) = sum_where (\<lambda>k. P k \<and> fst k < c) snd t"
  using assms(2)
  by (induction t) (auto simp: grouped_rows_def traffic_ok_def keys_distinct_def assms(1))

lemma sum_not_before:
  "sum_where P f (not_before c t) = sum_where (\<lambda>k. P k \<and> \<not> fst k < c) f t"
  unfolding not_before_def by (rule sum_where_filter)

lemma fold_table_sums:
  assumes "\<And>k. 0 \<le> fst k \<Longrightarrow> P (coarsen w k) = P k" and "traffic_ok t"
  shows "sum_where P fst (not_before c t) + sum_where P fst (add_rows (grouped_rows w c t) u) =
           sum_where P fst t + sum_where P fst u"
    and "sum_where P snd (not_before c t) + sum_where P snd (add_rows (grouped_rows w c t) u) =
           sum_where P snd t + sum_where P snd u"
  using sum_where_split [of P fst t "\<lambda>k. fst k < c"] sum_where_split [of P snd t "\<lambda>k. fst k < c"]
  by (simp_all add: sum_grouped_rows [where P = P and w = w, OF assms] sum_not_before)

definition all_traffic :: "(int \<times> string \<Rightarrow> bool) \<Rightarrow> database \<Rightarrow> int \<times> int" where
  "all_traffic P db =
     (sum_where P fst (traffic_minute db) + sum_where P fst (traffic_hour db) + sum_where P fst (traffic_day db),
      sum_where P snd (traffic_minute db) + sum_where P snd (traffic_hour db) + sum_where P snd (traffic_day db))"

lemma all_traffic_rollup:
  assumes inv: "traffic_inv db"
    and hour: "\<And>k. 0 \<le> fst k \<Longrightarrow> P (coarsen 3600 k) = P k"
    and day: "\<And>k. 0 \<le> fst k \<Longrightarrow> P (coarsen 86400 k) = P k"
  shows "all_traffic P (rollup given clock db) = all_traffic P db"
proof -
  have *: "all_traffic P (rollup_traffic now db) = all_traffic P db" for now
  proof -
    let ?h = "add_rows (grouped_rows 3600 (now - MINUTE_RETENTION) (traffic_minute db)) (traffic_hour db)"
    have m: "traffic_ok (traffic_minute db)" and h: "traffic_ok ?h"
      using inv by (simp_all add: traffic_inv_def traffic_ok_add_rows grouped_rows_nonneg)
    note f = fold_table_sums [where P = P and w = 3600, OF hour m, of "now - MINUTE_RETENTION" "traffic_hour db"]
    note g = fold_table_sums [where P = P and w = 86400, OF day h, of "now - HOUR_RETENTION" "traffic_day db"]
    show ?thesis using f g by (simp add: all_traffic_def rollup_traffic_def Let_def)
  qed
  show ?thesis using * by (simp add: rollup_def Let_def all_traffic_def)
qed

lemma totals_all_traffic:
  "totals start stop client db =
     all_traffic (\<lambda>k. for_client (client_filter client) k \<and> in_range start stop k) db"
  by (simp add: totals_def traffic_union_def all_traffic_def Let_def sum_where_filter)

text \<open>
  C37. The hourly roll-up folds minute rows into hours and hours into days without losing or
  inventing a byte: the totals of any client, or of all clients, over any range of whole days
  are the same before and after it, whatever the time it runs at.
\<close>

theorem rollup_keeps_totals:
  assumes "traffic_inv db" and "86400 dvd start" and "86400 dvd stop"
  shows "totals start stop client (rollup given clock db) = totals start stop client db"
proof -
  have hour: "(3600 :: int) dvd start" "(3600 :: int) dvd stop"
    using assms(2,3) by (auto intro: dvd_trans [of 3600 86400])
  show ?thesis
    unfolding totals_all_traffic using assms(1)
    by (rule all_traffic_rollup) (simp_all add: in_range_coarsen assms(2,3) hour)
qed

theorem rollup_keeps_totals_witness:
  "totals 0 86400 (Some ''a'')
     (rollup (Some 345600) 0 (empty_db\<lparr>traffic_minute := [((3660, ''a''), (5, 7)), ((3720, ''a''), (1, 1))]\<rparr>)) = (6, 8)"
proof -
  let ?db = "empty_db\<lparr>traffic_minute := [((3660, ''a''), (5, 7)), ((3720, ''a''), (1, 1))]\<rparr>"
  have "traffic_inv ?db"
    by (simp add: traffic_inv_def traffic_ok_def keys_distinct_def empty_db_def)
  then have "totals 0 86400 (Some ''a'') (rollup (Some 345600) 0 ?db) = totals 0 86400 (Some ''a'') ?db"
    by (rule rollup_keeps_totals) simp_all
  also have "\<dots> = (6, 8)"
    by (simp add: totals_def traffic_union_def in_range_def for_client_def client_filter_def empty_db_def Let_def)
  finally show ?thesis .
qed

section \<open>Retention\<close>

text \<open>
  After the hourly maintenance no minute bucket is older than two days, no hourly bucket
  older than 90 days, no expired web session or share link is left, and the tables still hold
  every key once, so the next upsert finds the row it has to add to.
\<close>

theorem rollup_retention:
  assumes "traffic_inv db" and "now = rollup_now given clock" and "db' = rollup given clock db"
  shows "traffic_inv db' \<and>
    list_all (\<lambda>(k, d). now - MINUTE_RETENTION \<le> fst k) (traffic_minute db') \<and>
    list_all (\<lambda>(k, d). now - HOUR_RETENTION \<le> fst k) (traffic_hour db') \<and>
    list_all (\<lambda>(h, s). now \<le> ws_expires_at s) (web_sessions db') \<and>
    list_all (\<lambda>(h, t). now \<le> st_expires_at t) (share_tokens db') \<and>
    list_all (\<lambda>e. now - EVENT_RETENTION \<le> ev_ts e) (events db')"
  using traffic_inv_rollup_traffic [OF assms(1), of now]
  by (auto simp: assms(2,3) rollup_def Let_def traffic_inv_def list_all_iff
        rollup_traffic_def not_before_def)

theorem rollup_retention_witness:
  "let db = empty_db\<lparr>traffic_minute := [((3660, ''a''), (5, 7))]\<rparr>; db' = rollup None 345600 db
   in traffic_inv db' \<and> list_all (\<lambda>(k, d). 345600 - MINUTE_RETENTION \<le> fst k) (traffic_minute db') \<and>
      traffic_hour db' = [((3600, ''a''), (5, 7))]"
proof -
  let ?db = "empty_db\<lparr>traffic_minute := [((3660, ''a''), (5, 7))]\<rparr>"
  have "traffic_inv ?db" by (simp add: traffic_inv_def traffic_ok_def keys_distinct_def empty_db_def)
  from rollup_retention [OF this, of 345600 None 345600] show ?thesis
    by (simp add: Let_def rollup_now_def)
       (simp add: rollup_def rollup_now_def rollup_traffic_def Let_def grouped_rows_def add_rows_def upsert_add_def
          not_before_def coarsen_def pg_div_def empty_db_def retention_defs)
qed

section \<open>Adding traffic\<close>

lemma all_traffic_add:
  "all_traffic P (add_traffic ts c d_in d_out db) =
     add_pair (all_traffic P db) (if P (ts, c) then (max d_in 0, max d_out 0) else (0, 0))"
  by (auto simp: all_traffic_def add_traffic_def add_pair_def max_def)

lemma add_traffic_frame [row_simps]:
  "vpn_sessions (add_traffic ts c i out db) = vpn_sessions db"
  "next_session_id (add_traffic ts c i out db) = next_session_id db"
  "traffic_hour (add_traffic ts c i out db) = traffic_hour db"
  "traffic_day (add_traffic ts c i out db) = traffic_day db"
  "settings_tab (add_traffic ts c i out db) = settings_tab db"
  by (simp_all add: add_traffic_def)

section \<open>The time series adds up to the totals\<close>

lemma sum_list_indicator:
  "distinct ts \<Longrightarrow> x \<in> set ts \<Longrightarrow> sum_list (map (\<lambda>t. if x = t then v else 0) ts) = (v :: int)"
  by (simp add: sum_list_distinct_conv_sum_set sum.delta)

lemma sum_where_groups:
  assumes "distinct ts" and "(\<lambda>(k, v). b k) ` set rows \<subseteq> set ts"
  shows "sum_list (map (\<lambda>t. sum_where (\<lambda>k. b k = t) f rows) ts) = sum_where (\<lambda>_. True) f rows"
  using assms(2)
proof (induction rows)
  case (Cons r rows)
  obtain k v where r: "r = (k, v)" by (cases r)
  have "sum_list (map (\<lambda>t. sum_where (\<lambda>k. b k = t) f (r # rows)) ts) =
          sum_list (map (\<lambda>t. if b k = t then f v else 0) ts) +
          sum_list (map (\<lambda>t. sum_where (\<lambda>k. b k = t) f rows) ts)"
    by (simp add: r sum_list_addf)
  also have "\<dots> = f v + sum_where (\<lambda>_. True) f rows"
    using Cons r assms(1) by (simp add: sum_list_indicator)
  finally show ?case by (simp add: r)
qed simp

lemma series_sums:
  "(sum_list (map pt_in (series start stop bucket client tz db)),
    sum_list (map pt_out (series start stop bucket client tz db))) = totals start stop client db"
proof -
  define rows where
    "rows = filter (\<lambda>(k, v). for_client (client_filter client) k) (traffic_union start stop db)"
  define b where "b = (\<lambda>k :: int \<times> string. bucket_of bucket tz (fst k))"
  define ts where "ts = sort (remdups (map (b \<circ> fst) rows))"
  have ts: "distinct ts" "(\<lambda>(k, v). b k) ` set rows \<subseteq> set ts"
    by (force simp: ts_def)+
  have "sum_where (\<lambda>_. True) f rows = sum_where (for_client (client_filter client)) f (traffic_union start stop db)" for f
    by (simp add: rows_def sum_where_filter)
  then show ?thesis
    using sum_where_groups [OF ts, of fst] sum_where_groups [OF ts, of snd]
    by (simp add: series_def totals_def Let_def rows_def [symmetric] b_def [symmetric]
          ts_def [symmetric, unfolded comp_def] comp_def)
qed

lemma series_ts: "t \<in> set (map pt_ts (series start stop bucket client tz db)) \<Longrightarrow>
    \<exists>k. in_range start stop k \<and> t = bucket_of bucket tz (fst k)"
  by (auto simp: series_def Let_def traffic_union_def)

lemma series_distinct: "distinct (map pt_ts (series start stop bucket client tz db))"
  by (simp add: series_def Let_def comp_def)

section \<open>A new certificate starts with a clean history\<close>

lemma sum_where_rename:
  "sum_where P f (rename_traffic name key before t) = sum_where (\<lambda>k. P (rename_key name key before k)) f t"
  by (induction t) (auto simp: rename_traffic_def)

lemma archive_key_ne [simp]: "archive_key name now \<noteq> name" "name \<noteq> archive_key name now"
  by (metis append_self_conv archive_key_def append_is_Nil_conv list.distinct(1))+

lemma move_history_no_history: "key \<noteq> name \<Longrightarrow> \<not> has_history name before (move_history name key before db)"
  by (auto simp: has_history_def move_history_def rename_traffic_def rename_key_def split: if_splits)

lemma all_traffic_move:
  "all_traffic P (move_history name key before db) = all_traffic (\<lambda>k. P (rename_key name key before k)) db"
  by (simp add: all_traffic_def move_history_def sum_where_rename)

lemma archive_SomeD:
  assumes "archive_client_history now name before db = Inr (Some key, db')"
  shows "key = archive_key name now"
    and "all_traffic P db' = all_traffic P (move_history name key before db)"
    and "has_history c b db' = has_history c b (move_history name key before db)"
proof -
  show key: "key = archive_key name now"
    using assms by (auto simp: archive_client_history_def Let_def split: if_splits)
  have "db' = (move_history name key before db)\<lparr>archived_clients :=
      AList.update key (name, now) (archived_clients (move_history name key before db))\<rparr>"
    using assms by (auto simp: archive_client_history_def Let_def split: if_splits)
  then show "all_traffic P db' = all_traffic P (move_history name key before db)"
    and "has_history c b db' = has_history c b (move_history name key before db)"
    by (simp_all add: all_traffic_def has_history_def)
qed

lemma all_traffic_disjoint_add:
  assumes "\<And>k. P k \<longleftrightarrow> Q k \<or> R k" and "\<And>k. \<not> (Q k \<and> R k)"
  shows "all_traffic P db = add_pair (all_traffic Q db) (all_traffic R db)"
proof -
  have "sum_where P f t = sum_where Q f t + sum_where R f t" for f :: "int \<times> int \<Rightarrow> int" and t
    using assms by (induction t) auto
  then show ?thesis by (simp add: all_traffic_def add_pair_def)
qed

lemma all_traffic_none: "(\<And>k. \<not> P k) \<Longrightarrow> all_traffic P db = (0, 0)"
proof -
  assume "\<And>k. \<not> P k"
  then have "sum_where P f t = 0" for f :: "int \<times> int \<Rightarrow> int" and t by (induction t) auto
  then show ?thesis by (simp add: all_traffic_def)
qed

lemma rename_key_all:
  "snd (rename_key name key None k) = (if snd k = name then key else snd k)"
  "in_range a b (rename_key name key None k) = in_range a b k"
  by (simp_all add: rename_key_def older_def in_range_def)

lemma totals_archived:
  assumes arch: "archive_client_history now name None db = Inr (Some key, db')" and name: "name \<noteq> []"
  shows "totals a b (Some name) db' = (0, 0)"
    and "totals a b (Some key) db' = add_pair (totals a b (Some key) db) (totals a b (Some name) db)"
    and "c \<noteq> name \<Longrightarrow> c \<noteq> key \<Longrightarrow> totals a b (Some c) db' = totals a b (Some c) db"
proof -
  have key: "key = archive_key name now" by (rule archive_SomeD [OF arch])
  then have key': "key \<noteq> []" "key \<noteq> name" by (simp_all add: archive_key_def)
  note defs = totals_all_traffic archive_SomeD(2) [OF arch] all_traffic_move for_client_def client_filter_def
    rename_key_all
  show "totals a b (Some name) db' = (0, 0)"
    using name key' by (simp add: defs all_traffic_none)
  show "totals a b (Some key) db' = add_pair (totals a b (Some key) db) (totals a b (Some name) db)"
    unfolding defs using name key' by (auto intro!: all_traffic_disjoint_add)
  show "totals a b (Some c) db' = totals a b (Some c) db" if c: "c \<noteq> name" "c \<noteq> key"
  proof (cases "c = []")
    case False
    have "(\<lambda>k. (if snd k = name then key else snd k) = c \<and> in_range a b k) =
          (\<lambda>k. snd k = c \<and> in_range a b k)" using c by auto
    with False show ?thesis by (simp add: defs)
  qed (simp add: defs)
qed

text \<open>
  The rows of a table before and after a move, told apart by their client: the archive key gets the rows
  of the name that are old enough, in order and with nothing but the name changed, the name keeps the
  later ones, and no row of anybody else is touched.
\<close>

definition rows_moved ::
  "('r \<Rightarrow> string) \<Rightarrow> ('r \<Rightarrow> int) \<Rightarrow> (string \<Rightarrow> 'r \<Rightarrow> 'r) \<Rightarrow> string \<Rightarrow> string \<Rightarrow> int option \<Rightarrow> 'r list \<Rightarrow> 'r list \<Rightarrow> bool" where
  "rows_moved client began named name key before rows rows' \<longleftrightarrow>
     filter (\<lambda>r. client r = key) rows' =
       map (named key) (filter (\<lambda>r. client r = key \<or> client r = name \<and> older before (began r)) rows) \<and>
     filter (\<lambda>r. client r = name) rows' = filter (\<lambda>r. client r = name \<and> \<not> older before (began r)) rows \<and>
     (\<forall>c. c \<noteq> name \<and> c \<noteq> key \<longrightarrow> filter (\<lambda>r. client r = c) rows' = filter (\<lambda>r. client r = c) rows)"

lemma rows_moved_map:
  assumes "key \<noteq> name" "\<And>r. client (named key r) = key" "\<And>r. client r = key \<Longrightarrow> named key r = r"
  shows "rows_moved client began named name key before rows
    (map (\<lambda>r. if client r = name \<and> older before (began r) then named key r else r) rows)"
  unfolding rows_moved_def using assms by (induction rows) auto

abbreviation moved_sessions :: "string \<Rightarrow> string \<Rightarrow> int option \<Rightarrow> vpn_session list \<Rightarrow> vpn_session list \<Rightarrow> bool" where
  "moved_sessions \<equiv> rows_moved vs_client_name vs_connected_at (\<lambda>key s. s\<lparr>vs_client_name := key\<rparr>)"

abbreviation moved_relay :: "string \<Rightarrow> string \<Rightarrow> int option \<Rightarrow> (string \<times> relay_session) list \<Rightarrow> (string \<times> relay_session) list \<Rightarrow> bool" where
  "moved_relay \<equiv> rows_moved (\<lambda>r. rs_client_name (snd r)) (\<lambda>r. rs_started_at (snd r))
     (\<lambda>key r. (fst r, (snd r)\<lparr>rs_client_name := key\<rparr>))"

abbreviation moved_traffic :: "string \<Rightarrow> string \<Rightarrow> int option \<Rightarrow> traffic \<Rightarrow> traffic \<Rightarrow> bool" where
  "moved_traffic \<equiv> rows_moved (\<lambda>r. snd (fst r)) (\<lambda>r. fst (fst r)) (\<lambda>key r. ((fst (fst r), key), snd r))"

lemma rename_traffic_moved: "key \<noteq> name \<Longrightarrow> moved_traffic name key before t (rename_traffic name key before t)"
proof -
  assume k: "key \<noteq> name"
  have "rename_traffic name key before t = map (\<lambda>r. if snd (fst r) = name \<and> older before (fst (fst r))
      then ((fst (fst r), key), snd r) else r) t"
    by (auto simp: rename_traffic_def rename_key_def)
  then show ?thesis using k by (auto intro!: rows_moved_map)
qed

lemma move_history_moved:
  assumes "key \<noteq> name"
  shows "moved_sessions name key before (vpn_sessions db) (vpn_sessions (move_history name key before db))"
    "moved_relay name key before (relay_sessions db) (relay_sessions (move_history name key before db))"
    "moved_traffic name key before (traffic_minute db) (traffic_minute (move_history name key before db))"
    "moved_traffic name key before (traffic_hour db) (traffic_hour (move_history name key before db))"
    "moved_traffic name key before (traffic_day db) (traffic_day (move_history name key before db))"
proof -
  have "moved_sessions name key before (vpn_sessions db)
      (map (\<lambda>s. if vs_client_name s = name \<and> older before (vs_connected_at s) then s\<lparr>vs_client_name := key\<rparr> else s)
        (vpn_sessions db))" using assms by (intro rows_moved_map) auto
  then show "moved_sessions name key before (vpn_sessions db) (vpn_sessions (move_history name key before db))"
    by (simp add: move_history_def)
  have "relay_sessions (move_history name key before db) =
      map (\<lambda>r. if rs_client_name (snd r) = name \<and> older before (rs_started_at (snd r))
        then (fst r, (snd r)\<lparr>rs_client_name := key\<rparr>) else r) (relay_sessions db)"
    by (auto simp: move_history_def)
  then show "moved_relay name key before (relay_sessions db) (relay_sessions (move_history name key before db))"
    using assms by (auto intro!: rows_moved_map)
qed (use assms in \<open>simp_all add: move_history_def rename_traffic_moved\<close>)

text \<open>
  C38. \<open>archive_client_history\<close> moves the history of a name, all of it or what began before a given time,
  to an archive key and leaves everything else alone. In each of the five tables of sessions and traffic
  the archive key holds exactly the old rows of the name, with nothing but the name changed; the name keeps
  exactly the later ones, and every other client its own. The archive key is noted with the name and the
  time, and no other table changes. When all of it is moved, the name has nothing left, and its traffic in
  any period is found under the key.
\<close>

theorem archive_moves_history:
  assumes "archive_client_history now name before db = Inr (Some key, db')"
  shows "key = name @ ''#'' @ dec_int now \<and>
    moved_sessions name key before (vpn_sessions db) (vpn_sessions db') \<and>
    moved_relay name key before (relay_sessions db) (relay_sessions db') \<and>
    moved_traffic name key before (traffic_minute db) (traffic_minute db') \<and>
    moved_traffic name key before (traffic_hour db) (traffic_hour db') \<and>
    moved_traffic name key before (traffic_day db) (traffic_day db') \<and>
    map_of (archived_clients db') = (map_of (archived_clients db))(key \<mapsto> (name, now)) \<and>
    db' = db\<lparr>vpn_sessions := vpn_sessions db', relay_sessions := relay_sessions db', traffic_minute := traffic_minute db',
      traffic_hour := traffic_hour db', traffic_day := traffic_day db', archived_clients := archived_clients db'\<rparr> \<and>
    (before = None \<longrightarrow> \<not> has_history name None db') \<and>
    (before = None \<and> name \<noteq> [] \<longrightarrow>
      (\<forall>a b. totals a b (Some name) db' = (0, 0) \<and>
             totals a b (Some key) db' = add_pair (totals a b (Some key) db) (totals a b (Some name) db)))"
proof -
  have key: "key = archive_key name now" by (rule archive_SomeD [OF assms])
  then have ne: "key \<noteq> name" by simp
  have db': "db' = (move_history name key before db)\<lparr>archived_clients := AList.update key (name, now) (archived_clients db)\<rparr>"
    using assms by (auto simp: archive_client_history_def move_history_def Let_def split: if_splits)
  have frame: "db' = db\<lparr>vpn_sessions := vpn_sessions db', relay_sessions := relay_sessions db', traffic_minute := traffic_minute db',
      traffic_hour := traffic_hour db', traffic_day := traffic_day db', archived_clients := archived_clients db'\<rparr>"
    by (simp add: db' move_history_def)
  have "map_of (archived_clients db') = (map_of (archived_clients db))(key \<mapsto> (name, now))"
    by (simp add: db' update_conv)
  moreover have "before = None \<longrightarrow> \<not> has_history name None db'"
    using move_history_no_history [OF ne, of before db] archive_SomeD(3) [OF assms, of name None] by auto
  moreover have "before = None \<and> name \<noteq> [] \<longrightarrow>
      (\<forall>a b. totals a b (Some name) db' = (0, 0) \<and>
             totals a b (Some key) db' = add_pair (totals a b (Some key) db) (totals a b (Some name) db))"
    using totals_archived assms by blast
  ultimately show ?thesis
    using key frame move_history_moved [OF ne, of before db] by (simp add: db' archive_key_def)
qed

definition demo_history :: database where
  "demo_history = empty_db\<lparr>traffic_minute := [((60, ''bob''), (5, 7)), ((120, ''bob''), (1, 1)), ((60, ''eve''), (2, 2))]\<rparr>"

theorem archive_moves_history_witness:
  "\<exists>db'. archive_client_history 7 ''bob'' (Some 100) demo_history = Inr (Some ''bob#7'', db') \<and>
     filter (\<lambda>r. snd (fst r) = ''bob#7'') (traffic_minute db') = [((60, ''bob#7''), (5, 7))] \<and>
     filter (\<lambda>r. snd (fst r) = ''bob'') (traffic_minute db') = [((120, ''bob''), (1, 1))]"
proof -
  obtain db' where 1: "archive_client_history 7 ''bob'' (Some 100) demo_history = Inr (Some ''bob#7'', db')"
    by (simp add: archive_client_history_def has_history_def older_def Let_def keys_distinct_def move_history_def
          archive_key_def rename_traffic_def rename_key_def dec_int_def dec.simps digit_char_def empty_db_def demo_history_def)
  have "moved_traffic ''bob'' ''bob#7'' (Some 100) (traffic_minute demo_history) (traffic_minute db')"
    using archive_moves_history [OF 1] by blast
  then show ?thesis
    using 1 by (simp add: rows_moved_def demo_history_def older_def empty_db_def)
qed

section \<open>Sessions and visits\<close>

text \<open>
  What the session table keeps: identities are unique and below the next one, a session's
  visit is the identity of an earlier or the same session, and the sessions of one visit are
  of one client and one address.
\<close>

definition same_peer :: "vpn_session \<Rightarrow> vpn_session \<Rightarrow> bool" where
  "same_peer s t \<longleftrightarrow> vs_client_name s = vs_client_name t \<and>
     real_ip (vs_real_address s) = real_ip (vs_real_address t)"

definition sessions_inv :: "database \<Rightarrow> bool" where
  "sessions_inv db \<longleftrightarrow>
     distinct (map vs_id (vpn_sessions db)) \<and>
     (\<forall>s \<in> set (vpn_sessions db). vs_id s < next_session_id db \<and>
        (\<forall>g. vs_grp s = Some g \<longrightarrow> g < next_session_id db)) \<and>
     (\<forall>s \<in> set (vpn_sessions db). \<forall>t \<in> set (vpn_sessions db). \<forall>g.
        vs_grp s = Some g \<and> vs_grp t = Some g \<longrightarrow> same_peer s t)"

lemma sessions_inv_peer:
  "sessions_inv db \<Longrightarrow> s \<in> set (vpn_sessions db) \<Longrightarrow> t \<in> set (vpn_sessions db) \<Longrightarrow>
     vs_grp s = Some g \<Longrightarrow> vs_grp t = Some g \<Longrightarrow> same_peer s t"
  unfolding sessions_inv_def by blast

lemma sessions_inv_empty [simp]: "sessions_inv empty_db"
  by (simp add: sessions_inv_def empty_db_def)

lemma set_newest_first [simp]: "set (newest_first ss) = set ss"
  by (simp add: newest_first_def)

lemma find_SomeD: "List.find P xs = Some x \<Longrightarrow> P x \<and> x \<in> set xs"
  by (induction xs) (auto split: if_splits)

lemma session_group_SomeD:
  assumes "session_group client address t db = Some g"
  obtains s where "s \<in> set (vpn_sessions db)" "vs_client_name s = client"
    "real_ip (vs_real_address s) = real_ip address" "vs_grp s = Some g" "t - vs_ended s \<le> MERGE_GAP"
  using assms
  by (auto simp: session_group_def split: option.splits if_splits dest!: find_SomeD set_take_subset [THEN subsetD])

lemma latest_session_SomeD:
  "latest_session client address since db = Some s \<Longrightarrow>
     s \<in> set (vpn_sessions db) \<and> vs_client_name s = client \<and>
     snd (split_address (vs_real_address s)) = snd (split_address address) \<and>
     (since \<le> vs_connected_at s \<or> vs_disconnected_at s = None)"
  by (auto simp: latest_session_def dest!: find_SomeD set_take_subset [THEN subsetD])

lemma first_sorted_in:
  "(case sort_key f xs of [] \<Rightarrow> None | x # _ \<Rightarrow> Some x) = Some s \<Longrightarrow> s \<in> set xs"
  by (cases "sort_key f xs") (simp, metis list.set_intros(1) list.simps(5) option.inject set_sort)

lemma find_session_SomeD:
  "find_session client cid t db = Some s \<Longrightarrow>
     s \<in> set (vpn_sessions db) \<and> vs_client_name s = client \<and> vs_cid s = Some cid \<and> vs_connected_at s = t"
  unfolding find_session_def by (drule first_sorted_in) simp

lemma insert_session_inv:
  assumes inv: "sessions_inv db" and ins: "insert_session client address t f db = (ident, db')"
  shows "sessions_inv db'"
proof -
  define g where "g = session_group client address t db"
  obtain row where row: "vpn_sessions db' = vpn_sessions db @ [row]" "next_session_id db' = next_session_id db + 1"
      "vs_id row = next_session_id db" "vs_client_name row = client" "vs_real_address row = address"
      "vs_grp row = (case g of None \<Rightarrow> Some (next_session_id db) | Some x \<Rightarrow> Some x)"
    using ins by (auto simp: insert_session_def Let_def g_def)
  have peer: "same_peer row s \<and> same_peer s row"
    if s: "s \<in> set (vpn_sessions db)" "vs_grp s = vs_grp row" for s
  proof (cases g)
    case None
    with s inv row show ?thesis by (fastforce simp: sessions_inv_def)
  next
    case (Some x)
    then obtain s' where s': "s' \<in> set (vpn_sessions db)" "vs_client_name s' = client"
        "real_ip (vs_real_address s') = real_ip address" "vs_grp s' = Some x"
      unfolding g_def by (rule session_group_SomeD)
    with s row Some have "vs_grp s = Some x" by simp
    from sessions_inv_peer [OF inv s(1) s'(1) this s'(4)] have "same_peer s s'" .
    with s' row show ?thesis by (auto simp: same_peer_def)
  qed
  have below: "\<forall>g'. vs_grp row = Some g' \<longrightarrow> g' < next_session_id db + 1"
  proof (cases g)
    case (Some x)
    then obtain s' where "s' \<in> set (vpn_sessions db)" "vs_grp s' = Some x"
      unfolding g_def by (rule session_group_SomeD)
    with inv row Some show ?thesis by (auto simp: sessions_inv_def)
  qed (simp add: row)
  have ids: "distinct (map vs_id (vpn_sessions db'))"
    using inv row by (fastforce simp: sessions_inv_def)
  have bounds: "vs_id s < next_session_id db' \<and> (\<forall>g. vs_grp s = Some g \<longrightarrow> g < next_session_id db')"
    if s: "s \<in> set (vpn_sessions db')" for s
  proof (cases "s = row")
    case True
    with row below show ?thesis by simp
  next
    case False
    with s row(1) inv have "vs_id s < next_session_id db \<and> (\<forall>g. vs_grp s = Some g \<longrightarrow> g < next_session_id db)"
      by (simp add: sessions_inv_def)
    with row(2) show ?thesis by fastforce
  qed
  have "same_peer s s'"
    if s: "s \<in> set (vpn_sessions db')" "s' \<in> set (vpn_sessions db')" and g: "vs_grp s = Some h" "vs_grp s' = Some h"
    for s s' h
  proof (cases "s = row"; cases "s' = row")
    assume "s = row" "s' = row"
    then show ?thesis by (simp add: same_peer_def)
  next
    assume "s = row" "s' \<noteq> row"
    with s row(1) g peer [of s'] show ?thesis by simp
  next
    assume "s \<noteq> row" "s' = row"
    with s row(1) g peer [of s] show ?thesis by simp
  next
    assume "s \<noteq> row" "s' \<noteq> row"
    with s row(1) sessions_inv_peer [OF inv _ _ g] show ?thesis by simp
  qed
  with ids bounds show ?thesis unfolding sessions_inv_def by blast
qed

text \<open>An update that keeps a row's identity, client, address and visit keeps the invariant.\<close>

definition keeps_peer :: "(vpn_session \<Rightarrow> vpn_session) \<Rightarrow> bool" where
  "keeps_peer f \<longleftrightarrow> (\<forall>s. vs_id (f s) = vs_id s \<and> vs_client_name (f s) = vs_client_name s \<and>
     vs_real_address (f s) = vs_real_address s \<and> vs_grp (f s) = vs_grp s)"

lemma sessions_inv_map:
  assumes "sessions_inv db" "keeps_peer f"
  shows "sessions_inv (db\<lparr>vpn_sessions := map f (vpn_sessions db)\<rparr>)"
  using assms by (simp add: sessions_inv_def keeps_peer_def same_peer_def comp_def)

lemma update_session_inv: "sessions_inv db \<Longrightarrow> keeps_peer f \<Longrightarrow> sessions_inv (update_session ident f db)"
  unfolding update_session_def by (rule sessions_inv_map) (auto simp: keeps_peer_def)

lemma close_stale_inv: "sessions_inv db \<Longrightarrow> sessions_inv (snd (close_stale_sessions at db))"
  unfolding close_stale_sessions_def snd_conv by (rule sessions_inv_map) (auto simp: keeps_peer_def)

lemma close_stale_closes: "list_all (\<lambda>s. \<not> is_open s) (vpn_sessions (snd (close_stale_sessions at db)))"
  by (auto simp: close_stale_sessions_def list_all_iff is_open_def)

lemma sessions_inv_add_traffic [simp]: "sessions_inv (add_traffic ts c i out db) = sessions_inv db"
  by (simp add: sessions_inv_def row_simps)

end
