(* ===== verification/Base64.thy ===== *)
theory Base64
  imports Prelude "HOL-Library.Word"
begin

text \<open>
  The parts of Python's \<open>base64\<close> module and of text encoding the program uses on password hashes
  and credentials: \<open>b64encode\<close>, the lenient \<open>b64decode\<close> (the state machine of
  \<open>binascii.a2b_base64\<close>, which skips foreign characters and stops at the padding), and \<open>str.encode\<close>.
  Bytes are 8-bit words.
\<close>

type_synonym bytes = "8 word list"

definition alphabet :: string where
  "alphabet = ''ABCDEFGHIJKLMNOPQRSTUVWXYZabcdefghijklmnopqrstuvwxyz0123456789+/''"

definition sextet_char :: "nat \<Rightarrow> char" where
  "sextet_char n = alphabet ! n"

fun index_of :: "char \<Rightarrow> string \<Rightarrow> nat" where
  "index_of c [] = 0"
| "index_of c (x # xs) = (if c = x then 0 else Suc (index_of c xs))"

text \<open>\<open>table_a2b_base64\<close>: the value of a character, 64 for one outside the alphabet.\<close>

definition char_sextet :: "char \<Rightarrow> nat" where
  "char_sextet c = index_of c alphabet"

definition byte :: "nat \<Rightarrow> 8 word" where
  "byte n = of_nat n"

fun b64encode :: "bytes \<Rightarrow> string" where
  "b64encode [] = []"
| "b64encode [a] = [sextet_char (unat a div 4), sextet_char (unat a mod 4 * 16), CHR ''='', CHR ''='']"
| "b64encode [a, b] =
     [sextet_char (unat a div 4), sextet_char (unat a mod 4 * 16 + unat b div 16),
      sextet_char (unat b mod 16 * 4), CHR ''='']"
| "b64encode (a # b # c # rest) =
     sextet_char (unat a div 4) # sextet_char (unat a mod 4 * 16 + unat b div 16) #
     sextet_char (unat b mod 16 * 4 + unat c div 64) # sextet_char (unat c mod 64) # b64encode rest"

text \<open>
  The loop of \<open>a2b_base64\<close>: the position in a group of four, the bits left over from the
  previous character, and the padding characters seen in a row.
\<close>

fun a2b :: "nat \<Rightarrow> nat \<Rightarrow> nat \<Rightarrow> string \<Rightarrow> bytes result" where
  "a2b pos left pads [] = (if pos = 0 then Inr [] else Inl ValueError)"
| "a2b pos left pads (c # s) =
     (if c = CHR ''='' then
        if 2 \<le> pos \<and> 4 \<le> pos + (pads + 1) then Inr []
        else a2b pos left (if 2 \<le> pos then pads + 1 else pads) s
      else
        let v = char_sextet c
        in if 64 \<le> v then a2b pos left pads s
           else if pos = 0 then a2b 1 v 0 s
           else if pos = 1 then res_bind (a2b 2 (v mod 16) 0 s) (\<lambda>bs. Inr (byte (left * 4 + v div 16) # bs))
           else if pos = 2 then res_bind (a2b 3 (v mod 4) 0 s) (\<lambda>bs. Inr (byte (left * 16 + v div 4) # bs))
           else res_bind (a2b 0 0 0 s) (\<lambda>bs. Inr (byte (left * 64 + v) # bs)))"

text \<open>\<open>base64.b64decode\<close> of a \<open>str\<close>: only ASCII characters are accepted.\<close>

definition b64decode :: "string \<Rightarrow> bytes result" where
  "b64decode s = (if \<forall>c \<in> set s. code c < 128 then a2b 0 0 0 s else Inl ValueError)"

text \<open>\<open>str.encode()\<close> for the code points of the model: one byte, or two from 128 on.\<close>

definition encode_char :: "char \<Rightarrow> bytes" where
  "encode_char c =
     (if code c < 128 then [byte (code c)] else [byte (192 + code c div 64), byte (128 + code c mod 64)])"

definition encode :: "string \<Rightarrow> bytes" where
  "encode s = concat (map encode_char s)"

section \<open>Characters and sextets\<close>

lemma length_alphabet [simp]: "length alphabet = 64"
  by (simp add: alphabet_def)

lemma distinct_alphabet: "distinct alphabet"
  by (simp add: alphabet_def)

lemma index_of_nth: "distinct xs \<Longrightarrow> i < length xs \<Longrightarrow> index_of (xs ! i) xs = i"
  by (induction xs arbitrary: i) (auto simp: nth_Cons split: nat.splits)

lemma char_sextet_sextet_char [simp]: "n < 64 \<Longrightarrow> char_sextet (sextet_char n) = n"
  by (simp add: char_sextet_def sextet_char_def index_of_nth distinct_alphabet)

lemma sextet_char_in: "n < 64 \<Longrightarrow> sextet_char n \<in> set alphabet"
  by (simp add: sextet_char_def)

lemma sextet_char_props:
  assumes "n < 64"
  shows "sextet_char n \<noteq> CHR ''=''" "sextet_char n \<noteq> CHR ''$''" "code (sextet_char n) < 128"
proof -
  have "\<forall>c \<in> set alphabet. c \<noteq> CHR ''='' \<and> c \<noteq> CHR ''$'' \<and> code c < 128"
    by (simp add: alphabet_def code_def)
  with sextet_char_in [OF assms]
  show "sextet_char n \<noteq> CHR ''=''" "sextet_char n \<noteq> CHR ''$''" "code (sextet_char n) < 128" by auto
qed

lemma unat_byte_lt [simp]: "unat (a :: 8 word) < 256"
  using unsigned_less [of a, where ?'a = nat] by simp

lemma byte_unat [simp]: "byte (unat a) = a"
  by (simp add: byte_def)

section \<open>Round trip\<close>

lemma a2b_step:
  assumes "n < 64"
  shows "a2b 0 l p (sextet_char n # s) = a2b 1 n 0 s"
    and "a2b (Suc 0) l p (sextet_char n # s) =
           res_bind (a2b 2 (n mod 16) 0 s) (\<lambda>bs. Inr (byte (l * 4 + n div 16) # bs))"
    and "a2b 2 l p (sextet_char n # s) =
           res_bind (a2b 3 (n mod 4) 0 s) (\<lambda>bs. Inr (byte (l * 16 + n div 4) # bs))"
    and "a2b 3 l p (sextet_char n # s) =
           res_bind (a2b 0 0 0 s) (\<lambda>bs. Inr (byte (l * 64 + n) # bs))"
  using assms sextet_char_props [OF assms] by (simp_all add: Let_def)

lemma a2b_pads: "a2b 2 l 0 ''=='' = Inr []" "a2b 3 l 0 ''='' = Inr []"
  by simp_all

lemma sextet_bounds:
  fixes a b c :: "8 word"
  shows "unat a div 4 < 64" "unat a mod 4 * 16 < 64" "unat b mod 16 * 4 < 64"
    "unat a mod 4 * 16 + unat b div 16 < 64" "unat b mod 16 * 4 + unat c div 64 < 64" "unat c mod 64 < 64"
proof -
  have d: "unat a div 4 < 64" "unat b div 16 < 16" "unat c div 64 < 4"
    by (simp_all add: less_mult_imp_div_less)
  have m: "unat a mod 4 \<le> 3" "unat b mod 16 \<le> 15"
    using mod_less_divisor [of 4 "unat a"] mod_less_divisor [of 16 "unat b"] by linarith+
  from d m show "unat a div 4 < 64" "unat a mod 4 * 16 < 64" "unat b mod 16 * 4 < 64"
    "unat a mod 4 * 16 + unat b div 16 < 64" "unat b mod 16 * 4 + unat c div 64 < 64" "unat c mod 64 < 64"
    by linarith+
qed

lemma byte_parts:
  fixes b c :: "8 word"
  shows "unat b div 16 div 16 = 0" "unat b div 16 mod 16 = unat b div 16"
    "unat c div 64 div 4 = 0" "unat c div 64 mod 4 = unat c div 64"
  by (simp_all add: less_mult_imp_div_less)

lemma a2b_b64encode: "a2b 0 0 0 (b64encode bs) = Inr bs"
  by (induction bs rule: b64encode.induct) (simp_all add: a2b_step a2b_pads sextet_bounds byte_parts del: a2b.simps(2))

lemma code_equals: "code CHR ''='' < 128"
  by (simp add: code_def)

lemma b64encode_chars: "c \<in> set (b64encode bs) \<Longrightarrow> c \<noteq> CHR ''$'' \<and> code c < 128"
proof (induction bs rule: b64encode.induct)
  case (4 a b d rest)
  then show ?case by (auto simp: sextet_char_props sextet_bounds)
qed (auto simp: sextet_char_props sextet_bounds code_equals)

lemma b64decode_b64encode: "b64decode (b64encode bs) = Inr bs"
  by (simp add: b64decode_def a2b_b64encode b64encode_chars)

section \<open>Encoding is injective\<close>

lemma unat_byte: "n < 256 \<Longrightarrow> unat (byte n) = n"
  by (simp add: byte_def unat_of_nat)

lemma code_lt: "code c < 256"
  by (simp add: code_def)

lemma encode_char_inj:
  assumes "encode_char c @ xs = encode_char d @ ys"
  shows "c = d \<and> xs = ys"
proof -
  have lt: "code c div 64 < 4" "code d div 64 < 4" "code c mod 64 < 64" "code d mod 64 < 64"
    using code_lt [of c] code_lt [of d] by (simp_all add: less_mult_imp_div_less)
  have split: "code c = code c div 64 * 64 + code c mod 64" "code d = code d div 64 * 64 + code d mod 64"
    by simp_all
  have *: "byte m = byte n \<Longrightarrow> m < 256 \<Longrightarrow> n < 256 \<Longrightarrow> m = n" for m n
    using unat_byte by metis
  have "code c = code d \<and> xs = ys"
  proof (cases "code c < 128"; cases "code d < 128")
    assume a: "code c < 128" "code d < 128"
    with assms show ?thesis by (auto simp: encode_char_def dest: *)
  next
    assume a: "\<not> code c < 128" "\<not> code d < 128"
    with assms have "byte (192 + code c div 64) = byte (192 + code d div 64)"
      "byte (128 + code c mod 64) = byte (128 + code d mod 64)" "xs = ys"
      by (auto simp: encode_char_def)
    with *[of "192 + code c div 64" "192 + code d div 64"] *[of "128 + code c mod 64" "128 + code d mod 64"] lt
    show ?thesis using split by auto
  next
    assume a: "code c < 128" "\<not> code d < 128"
    with assms *[of "code c" "192 + code d div 64"] lt show ?thesis by (auto simp: encode_char_def)
  next
    assume a: "\<not> code c < 128" "code d < 128"
    with assms *[of "192 + code c div 64" "code d"] lt show ?thesis by (auto simp: encode_char_def)
  qed
  then show ?thesis by simp
qed

lemma encode_inj: "encode s = encode t \<Longrightarrow> s = t"
proof (induction s arbitrary: t)
  case Nil
  then show ?case by (cases t) (auto simp: encode_def encode_char_def split: if_splits)
next
  case (Cons c s)
  then obtain d u where t: "t = d # u"
    by (cases t) (auto simp: encode_def encode_char_def split: if_splits)
  with Cons.prems have "encode_char c @ encode s = encode_char d @ encode u" by (simp add: encode_def)
  with Cons.IH t show ?case by (auto dest: encode_char_inj)
qed

end
