(* ===== verification/Auth.thy ===== *)
theory Auth
  imports Db Base64
begin

text \<open>
  Password hashes and cookie sessions of \<open>ui/app/auth.py\<close>. scrypt and SHA-256 are parameters:
  \<open>scrypt password salt n r p dklen\<close> may raise, as \<open>hashlib.scrypt\<close> does on parameters it
  refuses; \<open>H\<close> is \<open>token_hash\<close>. Salts, tokens and the clock are arguments.
\<close>

type_synonym scrypt = "bytes \<Rightarrow> bytes \<Rightarrow> int \<Rightarrow> int \<Rightarrow> int \<Rightarrow> nat \<Rightarrow> bytes result"

section \<open>Password hashes\<close>

definition SCRYPT_N :: int where "SCRYPT_N = 2 ^ 15"
definition SCRYPT_R :: int where "SCRYPT_R = 8"
definition SCRYPT_P :: int where "SCRYPT_P = 3"

lemmas scrypt_params = SCRYPT_N_def SCRYPT_R_def SCRYPT_P_def

definition format_hash :: "bytes \<Rightarrow> bytes \<Rightarrow> string" where
  "format_hash salt digest =
     join ''$'' [''scrypt'', dec_int SCRYPT_N, dec_int SCRYPT_R, dec_int SCRYPT_P,
                 b64encode salt, b64encode digest]"

definition hash_password :: "scrypt \<Rightarrow> bytes \<Rightarrow> string \<Rightarrow> string result" where
  "hash_password scrypt salt password =
     res_bind (scrypt (encode password) salt SCRYPT_N SCRYPT_R SCRYPT_P 32)
       (\<lambda>digest. Inr (format_hash salt digest))"

text \<open>The body of the \<open>try\<close>: unpacking anything but six fields raises \<open>ValueError\<close>.\<close>

definition check_password :: "scrypt \<Rightarrow> string \<Rightarrow> string \<Rightarrow> bool result" where
  "check_password scrypt password stored =
     (case split_on CHR ''$'' stored of
        [algo, n, r, p, salt_b64, digest_b64] \<Rightarrow>
          if algo \<noteq> ''scrypt'' then Inr False
          else
            res_bind (b64decode salt_b64) (\<lambda>salt.
            res_bind (b64decode digest_b64) (\<lambda>expected.
            res_bind (py_int n) (\<lambda>n. res_bind (py_int r) (\<lambda>r. res_bind (py_int p) (\<lambda>p.
            res_bind (scrypt (encode password) salt n r p (length expected)) (\<lambda>digest.
              Inr (digest = expected)))))))
      | _ \<Rightarrow> Inl ValueError)"

definition verify_password :: "scrypt \<Rightarrow> string \<Rightarrow> string \<Rightarrow> bool result" where
  "verify_password scrypt password stored =
     (case check_password scrypt password stored of
        Inl e \<Rightarrow> if e = ValueError \<or> e = TypeError then Inr False else Inl e
      | Inr ok \<Rightarrow> Inr ok)"

text \<open>\<open>stored.split("$")[1:4] != [...]\<close>\<close>

definition needs_rehash :: "string \<Rightarrow> bool" where
  "needs_rehash stored \<longleftrightarrow>
     take 3 (drop 1 (split_on CHR ''$'' stored)) \<noteq> [dec_int SCRYPT_N, dec_int SCRYPT_R, dec_int SCRYPT_P]"

section \<open>Web sessions\<close>

record session_user =
  su_id :: int
  su_username :: string
  su_client_name :: "string option"
  su_client_serial :: "string option"
  su_role :: string

definition create_session ::
  "(string \<Rightarrow> string) \<Rightarrow> string \<Rightarrow> int \<Rightarrow> int \<Rightarrow> int \<Rightarrow> string option \<Rightarrow> string option \<Rightarrow> database
    \<Rightarrow> (string \<times> database) result" where
  "create_session H token now user_id ttl ip user_agent db =
     (if H token \<in> fst ` set (web_sessions db) then Inl DatabaseError
      else Inr (token, db\<lparr>web_sessions := web_sessions db @
        [(H token, \<lparr>ws_user_id = user_id, ws_created_at = now, ws_expires_at = now + ttl, ws_ip = ip,
                    ws_user_agent = take 200 (case user_agent of None \<Rightarrow> [] | Some a \<Rightarrow> a)\<rparr>)]\<rparr>))"

definition set_expiry :: "string \<Rightarrow> int \<Rightarrow> database \<Rightarrow> database" where
  "set_expiry h t db =
     db\<lparr>web_sessions := map (\<lambda>(k, s). (k, if k = h then s\<lparr>ws_expires_at := t\<rparr> else s)) (web_sessions db)\<rparr>"

definition user_by_id :: "int \<Rightarrow> database \<Rightarrow> user option" where
  "user_by_id i db = find (\<lambda>u. u_id u = i) (users db)"

definition session_user_of :: "user \<Rightarrow> session_user" where
  "session_user_of u =
     \<lparr>su_id = u_id u, su_username = u_username u, su_client_name = u_client_name u,
      su_client_serial = u_client_serial u,
      su_role = (if u_client_name u \<noteq> None then ''client'' else ''admin'')\<rparr>"

text \<open>The joined row of \<open>web_sessions\<close> and \<open>users\<close>.\<close>

definition session_row :: "string \<Rightarrow> database \<Rightarrow> (web_session \<times> user) option" where
  "session_row h db =
     (case map_of (web_sessions db) h of
        None \<Rightarrow> None
      | Some s \<Rightarrow> (case user_by_id (ws_user_id s) db of None \<Rightarrow> None | Some u \<Rightarrow> Some (s, u)))"

definition get_session_user ::
  "(string \<Rightarrow> string) \<Rightarrow> int \<Rightarrow> string option \<Rightarrow> int \<Rightarrow> bool \<Rightarrow> database \<Rightarrow> session_user option \<times> database" where
  "get_session_user H now token ttl extend_it db =
     (if token = None \<or> token = Some [] then (None, db)
      else
        case session_row (H (the token)) db of
          None \<Rightarrow> (None, db)
        | Some (s, u) \<Rightarrow>
            if ws_expires_at s < now then (None, db)
            else (Some (session_user_of u),
                  if extend_it \<and> ws_expires_at s - now < ttl div 2 then set_expiry (H (the token)) (now + ttl) db
                  else db))"

definition delete_session :: "(string \<Rightarrow> string) \<Rightarrow> string option \<Rightarrow> database \<Rightarrow> database" where
  "delete_session H token db =
     (if token = None \<or> token = Some [] then db
      else db\<lparr>web_sessions := AList.delete (H (the token)) (web_sessions db)\<rparr>)"

definition delete_user_sessions ::
  "(string \<Rightarrow> string) \<Rightarrow> int \<Rightarrow> string option \<Rightarrow> database \<Rightarrow> database" where
  "delete_user_sessions H user_id keep_token db =
     db\<lparr>web_sessions :=
          (if keep_token = None \<or> keep_token = Some []
           then filter (\<lambda>(h, s). ws_user_id s \<noteq> user_id) (web_sessions db)
           else filter (\<lambda>(h, s). \<not> (ws_user_id s = user_id \<and> h \<noteq> H (the keep_token))) (web_sessions db))\<rparr>"

section \<open>Password round trip\<close>

lemma dec_no_dollar: "0 \<le> i \<Longrightarrow> CHR ''$'' \<notin> set (dec_int i)"
  using dec_decimal [of "nat i"] by (auto simp: dec_int_def list_all_iff is_decimal_def code_def)

lemma split_format_hash:
  "split_on CHR ''$'' (format_hash salt digest) =
     [''scrypt'', dec_int SCRYPT_N, dec_int SCRYPT_R, dec_int SCRYPT_P, b64encode salt, b64encode digest]"
  unfolding format_hash_def
  by (rule split_on_join) (auto simp: dec_no_dollar scrypt_params dest: b64encode_chars)

lemma py_int_dec_int: "0 \<le> i \<Longrightarrow> py_int (dec_int i) = Inr i"
  by (simp add: dec_int_def)

lemma check_format_hash:
  "check_password scrypt password (format_hash salt digest) =
     res_bind (scrypt (encode password) salt SCRYPT_N SCRYPT_R SCRYPT_P (length digest)) (\<lambda>d. Inr (d = digest))"
proof -
  have "0 \<le> SCRYPT_N" "0 \<le> SCRYPT_R" "0 \<le> SCRYPT_P" by (simp_all add: scrypt_params)
  then show ?thesis
    by (simp add: check_password_def split_format_hash b64decode_b64encode py_int_dec_int)
qed

text \<open>
  C31. A stored hash verifies exactly the passwords whose scrypt digest under the stored salt is the
  digest of the password it was made from; in particular that password itself. Such a hash is
  current: it is not replaced at the next login.
\<close>

theorem verify_hash_password:
  assumes "hash_password scrypt salt password = Inr stored"
    and "\<And>pw d. scrypt pw salt SCRYPT_N SCRYPT_R SCRYPT_P 32 = Inr d \<Longrightarrow> length d = 32"
  shows "verify_password scrypt password stored = Inr True \<and> \<not> needs_rehash stored \<and>
         (verify_password scrypt guess stored = Inr True \<longleftrightarrow>
            scrypt (encode guess) salt SCRYPT_N SCRYPT_R SCRYPT_P 32 =
            scrypt (encode password) salt SCRYPT_N SCRYPT_R SCRYPT_P 32)"
proof -
  obtain d where d: "scrypt (encode password) salt SCRYPT_N SCRYPT_R SCRYPT_P 32 = Inr d"
    and stored: "stored = format_hash salt d"
    using assms(1) unfolding hash_password_def
    by (cases "scrypt (encode password) salt SCRYPT_N SCRYPT_R SCRYPT_P 32") auto
  have len: "length d = 32" using assms(2) d .
  have "check_password scrypt pw stored =
      res_bind (scrypt (encode pw) salt SCRYPT_N SCRYPT_R SCRYPT_P 32) (\<lambda>x. Inr (x = d))" for pw
    by (simp add: stored check_format_hash len)
  then have "verify_password scrypt pw stored = Inr True \<longleftrightarrow>
      scrypt (encode pw) salt SCRYPT_N SCRYPT_R SCRYPT_P 32 = Inr d" for pw
    by (cases "scrypt (encode pw) salt SCRYPT_N SCRYPT_R SCRYPT_P 32")
       (auto simp: verify_password_def)
  with d show ?thesis by (simp add: stored needs_rehash_def split_format_hash)
qed

text \<open>A stand-in digest with the documented length: the password, padded or cut.\<close>

definition toy_scrypt :: scrypt where
  "toy_scrypt pw salt n r p dklen = Inr (take dklen (pw @ salt @ replicate dklen 0))"

definition demo_hash :: string where
  "demo_hash = format_hash [1, 2] (take 32 (encode ''hunter2'' @ [1, 2] @ replicate 32 0))"

theorem verify_hash_password_witness:
  "hash_password toy_scrypt [1, 2] ''hunter2'' = Inr demo_hash \<and>
   verify_password toy_scrypt ''hunter2'' demo_hash = Inr True \<and> \<not> needs_rehash demo_hash \<and>
   verify_password toy_scrypt ''hunter3'' demo_hash \<noteq> Inr True"
proof -
  have h: "hash_password toy_scrypt [1, 2] ''hunter2'' = Inr demo_hash"
    by (simp add: hash_password_def toy_scrypt_def demo_hash_def)
  have len: "toy_scrypt pw [1, 2] SCRYPT_N SCRYPT_R SCRYPT_P 32 = Inr d \<Longrightarrow> length d = 32" for pw d
    by (auto simp: toy_scrypt_def)
  have ne: "toy_scrypt (encode ''hunter3'') [1, 2] SCRYPT_N SCRYPT_R SCRYPT_P 32 \<noteq>
            toy_scrypt (encode ''hunter2'') [1, 2] SCRYPT_N SCRYPT_R SCRYPT_P 32"
    by (simp add: toy_scrypt_def encode_def encode_char_def code_def byte_def)
  show ?thesis using verify_hash_password [OF h len, where guess = "''hunter3''"] h ne by simp
qed

section \<open>Session lifecycle\<close>

text \<open>The requests that touch the session table, in any order, with the time of each.\<close>

datatype session_op =
    Create string int "string option" "string option"
  | Get "string option" bool
  | Logout "string option"
  | Logout_user int "string option"
  | Clean

fun session_step :: "(string \<Rightarrow> string) \<Rightarrow> int \<Rightarrow> int \<Rightarrow> session_op \<Rightarrow> database \<Rightarrow> database" where
  "session_step H ttl now (Create token uid ip ua) db =
     (case create_session H token now uid ttl ip ua db of Inl e \<Rightarrow> db | Inr (t, db') \<Rightarrow> db')"
| "session_step H ttl now (Get token ext) db = snd (get_session_user H now token ttl ext db)"
| "session_step H ttl now (Logout token) db = delete_session H token db"
| "session_step H ttl now (Logout_user uid keep) db = delete_user_sessions H uid keep db"
| "session_step H ttl now Clean db = rollup (Some now) now db"

definition run_sessions :: "(string \<Rightarrow> string) \<Rightarrow> int \<Rightarrow> (int \<times> session_op) list \<Rightarrow> database \<Rightarrow> database" where
  "run_sessions H ttl ops db = fold (\<lambda>(now, op). session_step H ttl now op) ops db"

fun creates :: "(string \<Rightarrow> string) \<Rightarrow> string \<Rightarrow> session_op \<Rightarrow> bool" where
  "creates H h (Create token uid ip ua) = (H token = h)"
| "creates H h op = False"

fun uses_token :: "(string \<Rightarrow> string) \<Rightarrow> string \<Rightarrow> session_op \<Rightarrow> bool" where
  "uses_token H h (Create token uid ip ua) = (H token = h)"
| "uses_token H h (Get (Some token) ext) = (H token = h)"
| "uses_token H h op = False"

lemma web_sessions_rollup:
  "web_sessions (rollup given clock db) =
     filter (\<lambda>(h, s). \<not> ws_expires_at s < rollup_now given clock) (web_sessions db)"
  by (simp add: rollup_def rollup_traffic_def Let_def)

lemma users_rollup: "users (rollup given clock db) = users db"
  by (simp add: rollup_def rollup_traffic_def Let_def)

lemma keys_set_expiry [simp]: "fst ` set (web_sessions (set_expiry h t db)) = fst ` set (web_sessions db)"
  by (force simp: set_expiry_def)

lemma users_set_expiry [simp]: "users (set_expiry h t db) = users db"
  by (simp add: set_expiry_def)

lemma map_of_set_expiry:
  "map_of (web_sessions (set_expiry h t db)) k =
     map_option (\<lambda>s. if k = h then s\<lparr>ws_expires_at := t\<rparr> else s) (map_of (web_sessions db) k)"
proof -
  have "map_of (map (\<lambda>(k, s). (k, if k = h then s\<lparr>ws_expires_at := t\<rparr> else s)) xs) k =
        map_option (\<lambda>s. if k = h then s\<lparr>ws_expires_at := t\<rparr> else s) (map_of xs k)" for xs
    by (induction xs) auto
  then show ?thesis by (simp add: set_expiry_def)
qed

lemma session_keys_step:
  "fst ` set (web_sessions (session_step H ttl now op db)) \<subseteq>
     fst ` set (web_sessions db) \<union> {h. creates H h op}"
proof (cases op)
  case (Get token ext)
  then show ?thesis by (auto simp: get_session_user_def split: option.splits if_splits)
next
  case (Logout token)
  then show ?thesis
    using dom_delete_subset [of "H (the token)" "web_sessions db"]
    by (cases "token = None \<or> token = Some []") (simp_all add: delete_session_def le_supI1)
qed (auto simp: create_session_def delete_user_sessions_def web_sessions_rollup split: sum.splits if_splits)

lemma session_keys_run:
  "\<forall>(now, op) \<in> set ops. \<not> creates H h op \<Longrightarrow> h \<notin> fst ` set (web_sessions db) \<Longrightarrow>
     h \<notin> fst ` set (web_sessions (run_sessions H ttl ops db))"
proof (induction ops arbitrary: db)
  case (Cons x ops)
  obtain now op where x: "x = (now, op)" by (cases x)
  with Cons.prems have "h \<notin> fst ` set (web_sessions (session_step H ttl now op db))"
    using session_keys_step [of H ttl now op db] by auto
  with Cons x show ?case by (simp add: run_sessions_def)
qed (simp add: run_sessions_def)

lemma no_key_no_user:
  "H token \<notin> fst ` set (web_sessions db) \<Longrightarrow> get_session_user H now (Some token) ttl ext db = (None, db)"
  by (simp add: get_session_user_def session_row_def map_of_eq_None_iff [symmetric])

lemma keys_distinct_set_expiry: "keys_distinct (web_sessions (set_expiry h t db)) = keys_distinct (web_sessions db)"
  by (simp add: keys_distinct_def set_expiry_def comp_def case_prod_beta)

lemma keys_distinct_step:
  assumes "keys_distinct (web_sessions db)"
  shows "keys_distinct (web_sessions (session_step H ttl now op db))"
proof (cases op)
  case (Create token uid ip ua)
  with assms show ?thesis by (simp add: create_session_def keys_distinct_def)
next
  case (Get token ext)
  with assms show ?thesis
    by (auto simp: get_session_user_def keys_distinct_set_expiry split: option.splits)
next
  case (Logout token)
  with assms show ?thesis by (auto simp: delete_session_def keys_distinct_def distinct_delete)
qed (use assms in \<open>auto simp: delete_user_sessions_def web_sessions_rollup keys_distinct_def distinct_map_filter\<close>)

text \<open>A step that does not use the token leaves its session alone or removes it.\<close>

lemma unused_session_step:
  assumes "keys_distinct (web_sessions db)" "\<not> uses_token H h op"
  shows "map_of (web_sessions (session_step H ttl now op db)) h \<in> {None, map_of (web_sessions db) h}"
proof (cases op)
  case (Create token uid ip ua)
  with assms(2) show ?thesis
    by (auto simp: create_session_def map_add_def split: option.splits)
next
  case (Get token ext)
  with assms(2) show ?thesis
    by (cases token) (auto simp: get_session_user_def map_of_set_expiry option.map_ident split: option.splits)
next
  case (Logout token)
  then show ?thesis by (auto simp: delete_session_def delete_conv')
qed (use assms(1) in \<open>auto simp: delete_user_sessions_def web_sessions_rollup map_of_filter_distinct split: option.splits\<close>)

definition expiry_inv :: "int \<Rightarrow> int \<Rightarrow> database \<Rightarrow> bool" where
  "expiry_inv now ttl db \<longleftrightarrow> (\<forall>(h, s) \<in> set (web_sessions db). ws_expires_at s \<le> now + ttl)"

lemma expiry_inv_step:
  assumes "expiry_inv t0 ttl db" "now \<le> t0"
  shows "expiry_inv t0 ttl (session_step H ttl now op db)"
proof (cases op)
  case (Get token ext)
  with assms show ?thesis
    by (auto simp: get_session_user_def expiry_inv_def set_expiry_def split: option.splits if_splits)
next
  case (Logout token)
  then have "set (web_sessions (session_step H ttl now op db)) \<subseteq> set (web_sessions db)"
    by (auto simp: delete_session_def AList.delete_eq)
  with assms(1) show ?thesis by (auto simp: expiry_inv_def)
qed (use assms in \<open>auto simp: create_session_def delete_user_sessions_def web_sessions_rollup expiry_inv_def split: sum.splits\<close>)

lemma run_sessions_Cons [simp]: "run_sessions H ttl ((now, op) # ops) db = run_sessions H ttl ops (session_step H ttl now op db)"
  and run_sessions_Nil [simp]: "run_sessions H ttl [] db = db"
  by (simp_all add: run_sessions_def)

lemma run_sessions_append: "run_sessions H ttl (xs @ ys) db = run_sessions H ttl ys (run_sessions H ttl xs db)"
  by (simp add: run_sessions_def)

lemma sessions_run:
  assumes "keys_distinct (web_sessions db)"
  shows "keys_distinct (web_sessions (run_sessions H ttl ops db))"
    and "expiry_inv t0 ttl db \<Longrightarrow> \<forall>(t, op) \<in> set ops. t \<le> t0 \<Longrightarrow> expiry_inv t0 ttl (run_sessions H ttl ops db)"
    and "\<forall>(t, op) \<in> set ops. \<not> uses_token H h op \<Longrightarrow>
           map_of (web_sessions (run_sessions H ttl ops db)) h \<in> {None, map_of (web_sessions db) h}"
  using assms
proof (induction ops arbitrary: db)
  case (Cons x ops)
  obtain t op where x: "x = (t, op)" by (cases x)
  note kd = keys_distinct_step [where H = H and ttl = ttl and now = t and op = op]
  {
    case 1
    with Cons.IH(1) kd x show ?case by simp
  next
    case 2
    with Cons.IH(2) kd expiry_inv_step x show ?case by simp
  next
    case 3
    with Cons.IH(3) [OF _ kd [OF 3(2)]] unused_session_step [OF 3(2), of H h op ttl t] x show ?case by auto
  }
qed simp_all

text \<open>
  C27. A session nobody uses dies: whatever requests came before \<open>t0\<close> and whatever other requests
  come after it, a token not presented since \<open>t0\<close> is refused once \<open>ttl\<close> seconds have passed.
\<close>

theorem idle_session_dies:
  assumes "web_sessions db = []"
    and "\<forall>(t, op) \<in> set before. t \<le> t0"
    and "\<forall>(t, op) \<in> set after. \<not> uses_token H (H token) op"
    and "t0 + ttl < now"
  shows "fst (get_session_user H now (Some token) ttl ext (run_sessions H ttl (before @ after) db)) = None"
proof -
  let ?d1 = "run_sessions H ttl before db" and ?d2 = "run_sessions H ttl (before @ after) db"
  have k: "keys_distinct (web_sessions db)" and e: "expiry_inv t0 ttl db"
    using assms(1) by (auto simp: keys_distinct_def expiry_inv_def)
  have k1: "keys_distinct (web_sessions ?d1)" and e1: "expiry_inv t0 ttl ?d1"
    using sessions_run(1,2) [OF k] e assms(2) by auto
  have "map_of (web_sessions ?d2) (H token) \<in> {None, map_of (web_sessions ?d1) (H token)}"
    using sessions_run(3) [OF k1 assms(3)] by (simp add: run_sessions_append)
  moreover have "\<forall>s. map_of (web_sessions ?d1) (H token) = Some s \<longrightarrow> ws_expires_at s < now"
    using e1 assms(4) by (auto simp: expiry_inv_def dest!: map_of_SomeD)
  ultimately have "\<forall>s. map_of (web_sessions ?d2) (H token) = Some s \<longrightarrow> ws_expires_at s < now"
    by auto
  then show ?thesis
    by (auto simp: get_session_user_def session_row_def split: option.splits)
qed

definition demo_user :: user where
  "demo_user = \<lparr>u_id = 1, u_username = ''admin'', u_password_hash = [], u_created_at = 0,
                u_last_login = None, u_client_name = None, u_client_serial = None\<rparr>"

definition demo_db :: database where
  "demo_db = empty_db\<lparr>users := [demo_user]\<rparr>"

theorem idle_session_dies_witness:
  "fst (get_session_user id 5000 (Some ''tok'') 3600 True
     (run_sessions id 3600 ([(900, Create ''tok'' 1 None None), (1000, Get (Some ''tok'') True)] @
        [(4000, Create ''other'' 1 None None)]) demo_db)) = None"
  by (rule idle_session_dies [where ?t0.0 = 1000]) (simp_all add: demo_db_def empty_db_def)

text \<open>The token a call of \<open>delete_user_sessions\<close> keeps.\<close>

definition keeps_token :: "(string \<Rightarrow> string) \<Rightarrow> string option \<Rightarrow> string \<Rightarrow> bool" where
  "keeps_token H keep token \<longleftrightarrow> (\<exists>k. keep = Some k \<and> k \<noteq> [] \<and> H token = H k)"

lemma map_of_delete_user_sessions:
  assumes "keys_distinct (web_sessions db)"
  shows "map_of (web_sessions (delete_user_sessions H uid keep db)) (H token) =
    (case map_of (web_sessions db) (H token) of
       None \<Rightarrow> None | Some s \<Rightarrow> if ws_user_id s = uid \<and> \<not> keeps_token H keep token then None else Some s)"
  using assms
  by (cases keep) (auto simp: delete_user_sessions_def keeps_token_def map_of_filter_distinct split: option.splits)

text \<open>
  C28. Signing a user out everywhere, or everywhere but here: after \<open>delete_user_sessions\<close> every token of the
  user but the kept one, if there is one, is refused, now and after any later requests that do not create a
  session with its hash. The kept token and every token of another user open what they opened before, and
  nothing but the table of sessions changes.
\<close>

theorem sign_out_everywhere:
  assumes "keys_distinct (web_sessions db)" "map_of (web_sessions db) (H token) = Some s"
  shows "(if ws_user_id s = uid \<and> \<not> keeps_token H keep token
     then \<forall>ops now ext. (\<forall>(t, op) \<in> set ops. \<not> creates H (H token) op) \<longrightarrow>
       fst (get_session_user H now (Some token) ttl ext (run_sessions H ttl ops (delete_user_sessions H uid keep db))) = None
     else map_of (web_sessions (delete_user_sessions H uid keep db)) (H token) = Some s \<and>
       (\<forall>now ext. fst (get_session_user H now (Some token) ttl ext (delete_user_sessions H uid keep db)) =
          fst (get_session_user H now (Some token) ttl ext db))) \<and>
    (delete_user_sessions H uid keep db)\<lparr>web_sessions := web_sessions db\<rparr> = db"
proof -
  let ?d = "delete_user_sessions H uid keep db"
  note m = map_of_delete_user_sessions [OF assms(1), of H uid keep token]
  have f: "?d\<lparr>web_sessions := web_sessions db\<rparr> = db" by (simp add: delete_user_sessions_def)
  show ?thesis
  proof (cases "ws_user_id s = uid \<and> \<not> keeps_token H keep token")
    case True
    have "fst (get_session_user H now (Some token) ttl ext (run_sessions H ttl ops ?d)) = None"
      if "\<forall>(t, op) \<in> set ops. \<not> creates H (H token) op" for ops now ext
    proof -
      have "H token \<notin> fst ` set (web_sessions ?d)" using m assms(2) True by (simp add: map_of_eq_None_iff [symmetric])
      then have "H token \<notin> fst ` set (web_sessions (run_sessions H ttl ops ?d))" using session_keys_run [OF that] by simp
      then show ?thesis by (simp add: no_key_no_user)
    qed
    then show ?thesis unfolding if_P [OF True] using f by blast
  next
    case False
    with m assms(2) have s: "map_of (web_sessions ?d) (H token) = Some s" by auto
    then have "session_row (H token) ?d = session_row (H token) db"
      using assms(2) by (simp add: session_row_def user_by_id_def delete_user_sessions_def)
    then have "fst (get_session_user H now (Some token) ttl ext ?d) = fst (get_session_user H now (Some token) ttl ext db)" for now ext
      by (auto simp: get_session_user_def split: option.splits)
    then show ?thesis unfolding if_not_P [OF False] using s f by blast
  qed
qed

definition two_sessions :: database where
  "two_sessions = run_sessions id 3600 [(0, Create ''phone'' 1 None None), (5, Create ''desk'' 1 None None)] demo_db"

theorem sign_out_everywhere_witness:
  "fst (get_session_user id 10 (Some ''phone'') 3600 True
     (run_sessions id 3600 [(7, Get (Some ''phone'') True)] (delete_user_sessions id 1 (Some ''desk'') two_sessions))) = None \<and>
   fst (get_session_user id 10 (Some ''desk'') 3600 True (delete_user_sessions id 1 (Some ''desk'') two_sessions)) =
     Some (session_user_of demo_user)"
proof -
  have ws: "web_sessions two_sessions =
      [(''phone'', \<lparr>ws_user_id = 1, ws_created_at = 0, ws_expires_at = 3600, ws_ip = None, ws_user_agent = []\<rparr>),
       (''desk'', \<lparr>ws_user_id = 1, ws_created_at = 5, ws_expires_at = 3605, ws_ip = None, ws_user_agent = []\<rparr>)]"
    and us: "users two_sessions = [demo_user]"
    by (simp_all add: two_sessions_def demo_db_def empty_db_def create_session_def)
  have d: "keys_distinct (web_sessions two_sessions)"
    and p: "map_of (web_sessions two_sessions) (id ''phone'') =
      Some \<lparr>ws_user_id = 1, ws_created_at = 0, ws_expires_at = 3600, ws_ip = None, ws_user_agent = []\<rparr>"
    and k: "map_of (web_sessions two_sessions) (id ''desk'') =
      Some \<lparr>ws_user_id = 1, ws_created_at = 5, ws_expires_at = 3605, ws_ip = None, ws_user_agent = []\<rparr>"
    by (simp_all add: ws keys_distinct_def)
  have "fst (get_session_user id 10 (Some ''desk'') 3600 True two_sessions) = Some (session_user_of demo_user)"
    using ws us by (simp add: get_session_user_def session_row_def user_by_id_def demo_user_def)
  moreover note sign_out_everywhere [where H = id and uid = 1 and keep = "Some ''desk''" and ttl = 3600, OF d k]
  moreover have "\<forall>ops now ext. (\<forall>(t, op) \<in> set ops. \<not> creates id ''phone'' op) \<longrightarrow>
      fst (get_session_user id now (Some ''phone'') 3600 ext
        (run_sessions id 3600 ops (delete_user_sessions id 1 (Some ''desk'') two_sessions))) = None"
    using sign_out_everywhere [where H = id and uid = 1 and keep = "Some ''desk''" and ttl = 3600, OF d p]
    by (simp add: keeps_token_def)
  then have "fst (get_session_user id 10 (Some ''phone'') 3600 True
      (run_sessions id 3600 [(7, Get (Some ''phone'') True)] (delete_user_sessions id 1 (Some ''desk'') two_sessions))) = None"
    by (rule allE [of _ "[(7, Get (Some ''phone'') True)]"]) simp
  ultimately show ?thesis by (simp add: keeps_token_def)
qed

text \<open>A series of requests with one token, and requests no further apart than \<open>w\<close>.\<close>

fun gets :: "(string \<Rightarrow> string) \<Rightarrow> int \<Rightarrow> string \<Rightarrow> int list \<Rightarrow> database \<Rightarrow> session_user option list" where
  "gets H ttl token [] db = []"
| "gets H ttl token (t # ts) db =
     (case get_session_user H t (Some token) ttl True db of (r, db') \<Rightarrow> r # gets H ttl token ts db')"

fun spaced :: "int \<Rightarrow> int \<Rightarrow> int list \<Rightarrow> bool" where
  "spaced w t [] = True"
| "spaced w t (u # us) \<longleftrightarrow> t \<le> u \<and> u \<le> t + w \<and> spaced w u us"

lemma gets_spaced:
  assumes "map_of (web_sessions db) (H token) = Some s" "user_by_id (ws_user_id s) db = Some u"
    "token \<noteq> []" "0 \<le> ttl" "spaced (ttl div 2) t ts" "t + ttl div 2 \<le> ws_expires_at s"
  shows "gets H ttl token ts db = map (\<lambda>_. Some (session_user_of u)) ts"
  using assms
proof (induction ts arbitrary: db s t)
  case (Cons a ts)
  let ?late = "ws_expires_at s - a < ttl div 2"
  let ?db' = "if ?late then set_expiry (H token) (a + ttl) db else db"
  let ?s' = "if ?late then s\<lparr>ws_expires_at := a + ttl\<rparr> else s"
  have g: "get_session_user H a (Some token) ttl True db = (Some (session_user_of u), ?db')"
    using Cons.prems by (auto simp: get_session_user_def session_row_def)
  have "map_of (web_sessions ?db') (H token) = Some ?s'"
    using Cons.prems by (simp add: map_of_set_expiry)
  moreover have "user_by_id (ws_user_id ?s') ?db' = Some u"
    using Cons.prems by (simp add: user_by_id_def)
  moreover have "a + ttl div 2 \<le> ws_expires_at ?s'" using Cons.prems by auto
  ultimately have "gets H ttl token ts ?db' = map (\<lambda>_. Some (session_user_of u)) ts"
    using Cons.IH [of ?db' ?s' a] Cons.prems by simp
  with g show ?case by simp
qed simp

text \<open>
  C30. A session in use lives: once a token has been issued to a user, it is accepted, as that user
  and with the role of the account, at every one of a series of requests no further apart than
  half of the lifetime, however long the series.
\<close>

theorem active_session_lives:
  assumes "create_session H token now uid ttl ip ua db = Inr (token', db')"
    and "user_by_id uid db = Some u" "token \<noteq> []" "0 \<le> ttl" "spaced (ttl div 2) now ts"
  shows "token' = token \<and> gets H ttl token ts db' = map (\<lambda>_. Some (session_user_of u)) ts"
proof -
  have new: "token' = token" "H token \<notin> fst ` set (web_sessions db)"
    and db': "users db' = users db"
      "\<exists>s. web_sessions db' = web_sessions db @ [(H token, s)] \<and> ws_user_id s = uid \<and> ws_expires_at s = now + ttl"
    using assms(1) by (auto simp: create_session_def split: if_splits)
  then obtain s where s: "map_of (web_sessions db') (H token) = Some s" "ws_user_id s = uid" "ws_expires_at s = now + ttl"
    by (auto simp: map_add_def map_of_eq_None_iff [symmetric])
  then show ?thesis
    using gets_spaced [where H = H and token = token, OF s(1), of u ttl now ts] assms db'(1) new(1) by (simp add: user_by_id_def)
qed

theorem active_session_lives_witness:
  "\<exists>db'. create_session id ''tok'' 0 1 100 None None demo_db = Inr (''tok'', db') \<and>
     gets id 100 ''tok'' [50, 90, 140] db' = map (\<lambda>_. Some (session_user_of demo_user)) [50, 90, 140]"
proof -
  obtain db' where c: "create_session id ''tok'' 0 1 100 None None demo_db = Inr (''tok'', db')"
    by (simp add: create_session_def demo_db_def empty_db_def)
  have "user_by_id 1 demo_db = Some demo_user" by (simp add: user_by_id_def demo_db_def demo_user_def)
  from active_session_lives [OF c this, of "[50, 90, 140]"] c show ?thesis by auto
qed

end
