(* ===== verification/Py_Re.thy ===== *)
theory Py_Re
  imports Prelude
begin

text \<open>
  Python's \<open>re\<close> module, as far as the program uses it: patterns as a data type, the backtracking
  matcher as the list of all matches in the order of preference, and \<open>match\<close>, \<open>search\<close>,
  \<open>fullmatch\<close>, \<open>findall\<close> and \<open>sub\<close> with a count of one. The matcher is shown to find exactly
  the matches of a relational semantics, so the component proofs never look at backtracking.
\<close>

section \<open>Patterns\<close>

datatype re =
    Eps
  | Cls "char \<Rightarrow> bool"
  | Seq re re
  | Alt re re
  | Star re
  | Lazy re
  | Grp nat re
  | Bol
  | MBol
  | Eol
  | MEol
  | EndZ
  | WordB

definition Chr :: "char \<Rightarrow> re" where "Chr c = Cls (\<lambda>x. x = c)"
definition NotIn :: "string \<Rightarrow> re" where "NotIn cs = Cls (\<lambda>x. x \<notin> set cs)"
definition Opt :: "re \<Rightarrow> re" where "Opt r = Alt r Eps"
definition Plus :: "re \<Rightarrow> re" where "Plus r = Seq r (Star r)"
definition LazyPlus :: "re \<Rightarrow> re" where "LazyPlus r = Seq r (Lazy r)"
definition Dot :: re where "Dot = Cls (\<lambda>x. x \<noteq> newline)"
definition Spaces :: re where "Spaces = Star (Cls is_space)"
definition Spaces1 :: re where "Spaces1 = Plus (Cls is_space)"
definition NonSpaces :: re where "NonSpaces = Plus (Cls (\<lambda>x. \<not> is_space x))"
definition Digits :: re where "Digits = Plus (Cls is_decimal)"

fun Lit :: "string \<Rightarrow> re" where
  "Lit [] = Eps"
| "Lit (c # cs) = Seq (Chr c) (Lit cs)"

fun Cat :: "re list \<Rightarrow> re" where
  "Cat [] = Eps"
| "Cat (r # rs) = Seq r (Cat rs)"

fun OneOf :: "string list \<Rightarrow> re" where
  "OneOf [] = Cls (\<lambda>x. False)"
| "OneOf [s] = Lit s"
| "OneOf (s # ss) = Alt (Lit s) (OneOf ss)"

fun Times :: "nat \<Rightarrow> re \<Rightarrow> re" where
  "Times 0 r = Eps"
| "Times (Suc n) r = Seq r (Times n r)"

fun UpTo :: "nat \<Rightarrow> re \<Rightarrow> re" where
  "UpTo 0 r = Eps"
| "UpTo (Suc n) r = Alt (Seq r (UpTo n r)) Eps"

lemmas re_defs = Chr_def NotIn_def Opt_def Plus_def LazyPlus_def Dot_def Spaces_def Spaces1_def
  NonSpaces_def Digits_def

section \<open>The matcher\<close>

text \<open>The text before the position, reversed; the text after it; the groups, latest first.\<close>

type_synonym groups = "(nat \<times> string) list"
type_synonym mstate = "string \<times> string \<times> groups"

definition at_word_boundary :: "string \<Rightarrow> string \<Rightarrow> bool" where
  "at_word_boundary b s \<longleftrightarrow> (b \<noteq> [] \<and> is_word (hd b)) \<noteq> (s \<noteq> [] \<and> is_word (hd s))"

fun zero_width :: "re \<Rightarrow> string \<Rightarrow> string \<Rightarrow> bool" where
  "zero_width Bol b s = (b = [])"
| "zero_width MBol b s = (b = [] \<or> hd b = newline)"
| "zero_width Eol b s = (s = [] \<or> s = [newline])"
| "zero_width MEol b s = (s = [] \<or> hd s = newline)"
| "zero_width EndZ b s = (s = [])"
| "zero_width WordB b s = at_word_boundary b s"
| "zero_width _ b s = True"

text \<open>Repetition: another round is tried as long as it consumes something.\<close>

fun star_ms :: "bool \<Rightarrow> (mstate \<Rightarrow> mstate list) \<Rightarrow> nat \<Rightarrow> mstate \<Rightarrow> mstate list" where
  "star_ms greedy f 0 m = [m]"
| "star_ms greedy f (Suc n) m =
     (let more = concat (map (\<lambda>m'. if length (fst (snd m')) < length (fst (snd m)) then star_ms greedy f n m' else [])
                   (f m))
      in if greedy then more @ [m] else m # more)"

primrec ms :: "re \<Rightarrow> mstate \<Rightarrow> mstate list" where
  "ms Eps m = [m]"
| "ms (Cls P) m = (case m of (b, s, g) \<Rightarrow> case s of [] \<Rightarrow> [] | c # cs \<Rightarrow> if P c then [(c # b, cs, g)] else [])"
| "ms (Seq p q) m = concat (map (ms q) (ms p m))"
| "ms (Alt p q) m = ms p m @ ms q m"
| "ms (Star p) m = star_ms True (ms p) (length (fst (snd m))) m"
| "ms (Lazy p) m = star_ms False (ms p) (length (fst (snd m))) m"
| "ms (Grp n p) m =
     map (\<lambda>(b, s, g). (b, s, (n, take (length (fst (snd m)) - length s) (fst (snd m))) # g)) (ms p m)"
| "ms Bol m = (if zero_width Bol (fst m) (fst (snd m)) then [m] else [])"
| "ms MBol m = (if zero_width MBol (fst m) (fst (snd m)) then [m] else [])"
| "ms Eol m = (if zero_width Eol (fst m) (fst (snd m)) then [m] else [])"
| "ms MEol m = (if zero_width MEol (fst m) (fst (snd m)) then [m] else [])"
| "ms EndZ m = (if zero_width EndZ (fst m) (fst (snd m)) then [m] else [])"
| "ms WordB m = (if zero_width WordB (fst m) (fst (snd m)) then [m] else [])"

section \<open>The module's functions\<close>

text \<open>A match object: the text before it, the matched text, the text after it, and its groups.\<close>

record match =
  m_before :: string
  m_text :: string
  m_after :: string
  m_groups :: groups

definition group :: "match \<Rightarrow> nat \<Rightarrow> string option" where
  "group m n = map_of (m_groups m) n"

text \<open>A group every match of its pattern sets.\<close>

definition grp :: "match \<Rightarrow> nat \<Rightarrow> string" where
  "grp m n = (case group m n of None \<Rightarrow> [] | Some s \<Rightarrow> s)"

definition match_at :: "re \<Rightarrow> string \<Rightarrow> string \<Rightarrow> match option" where
  "match_at r b s =
     (case ms r (b, s, []) of
        [] \<Rightarrow> None
      | (b', s', g) # _ \<Rightarrow>
          Some \<lparr>m_before = rev b, m_text = take (length s - length s') s, m_after = s', m_groups = g\<rparr>)"

fun search_from :: "re \<Rightarrow> string \<Rightarrow> string \<Rightarrow> match option" where
  "search_from r b s =
     (case match_at r b s of
        Some m \<Rightarrow> Some m
      | None \<Rightarrow> (case s of [] \<Rightarrow> None | c # cs \<Rightarrow> search_from r (c # b) cs))"

declare search_from.simps [simp del]

definition re_match :: "re \<Rightarrow> string \<Rightarrow> match option" where
  "re_match r s = match_at r [] s"

definition re_fullmatch :: "re \<Rightarrow> string \<Rightarrow> match option" where
  "re_fullmatch r s = match_at (Seq r EndZ) [] s"

definition re_search :: "re \<Rightarrow> string \<Rightarrow> match option" where
  "re_search r s = search_from r [] s"

text \<open>
  \<open>findall\<close>, as the list of match objects, for patterns that match no empty text: the search goes
  on after each match. The fuel is the length of the text.
\<close>

fun findall_from :: "nat \<Rightarrow> re \<Rightarrow> string \<Rightarrow> string \<Rightarrow> match list" where
  "findall_from 0 r b s = []"
| "findall_from (Suc n) r b s =
     (case search_from r b s of
        None \<Rightarrow> []
      | Some m \<Rightarrow> m # findall_from n r (rev (m_before m @ m_text m)) (m_after m))"

definition re_findall :: "re \<Rightarrow> string \<Rightarrow> match list" where
  "re_findall r s = findall_from (Suc (length s)) r [] s"

text \<open>\<open>re.sub(pattern, replacement, text, count=1)\<close> for a replacement without escapes.\<close>

definition re_sub1 :: "re \<Rightarrow> string \<Rightarrow> string \<Rightarrow> string" where
  "re_sub1 r new s =
     (case re_search r s of None \<Rightarrow> s | Some m \<Rightarrow> m_before m @ new @ m_after m)"

section \<open>Relational semantics\<close>

text \<open>Which positions a pattern leads to, without order or groups.\<close>

type_synonym pos = "string \<times> string"

primrec rel :: "re \<Rightarrow> (pos \<times> pos) set" where
  "rel Eps = Id"
| "rel (Cls P) = {((b, c # s), (c # b, s)) | b c s. P c}"
| "rel (Seq p q) = rel p O rel q"
| "rel (Alt p q) = rel p \<union> rel q"
| "rel (Star p) = (rel p)\<^sup>*"
| "rel (Lazy p) = (rel p)\<^sup>*"
| "rel (Grp n p) = rel p"
| "rel Bol = {((b, s), (b, s)) | b s. zero_width Bol b s}"
| "rel MBol = {((b, s), (b, s)) | b s. zero_width MBol b s}"
| "rel Eol = {((b, s), (b, s)) | b s. zero_width Eol b s}"
| "rel MEol = {((b, s), (b, s)) | b s. zero_width MEol b s}"
| "rel EndZ = {((b, s), (b, s)) | b s. zero_width EndZ b s}"
| "rel WordB = {((b, s), (b, s)) | b s. zero_width WordB b s}"

definition advances :: "pos \<Rightarrow> pos \<Rightarrow> bool" where
  "advances p q \<longleftrightarrow> (\<exists>t. snd p = t @ snd q \<and> fst q = rev t @ fst p)"

lemma advances_refl [simp]: "advances p p"
  by (simp add: advances_def)

lemma advances_trans: "advances p q \<Longrightarrow> advances q r \<Longrightarrow> advances p r"
proof -
  assume "advances p q" "advances q r"
  then obtain t u where "snd p = t @ snd q" "fst q = rev t @ fst p" "snd q = u @ snd r" "fst r = rev u @ fst q"
    by (auto simp: advances_def)
  then have "snd p = (t @ u) @ snd r \<and> fst r = rev (t @ u) @ fst p" by simp
  then show ?thesis unfolding advances_def by blast
qed

lemma advances_rtrancl: "(p, q) \<in> R\<^sup>* \<Longrightarrow> (\<And>x y. (x, y) \<in> R \<Longrightarrow> advances x y) \<Longrightarrow> advances p q"
  by (induction rule: rtrancl_induct) (auto intro: advances_trans)

lemma rel_advances: "(p, q) \<in> rel r \<Longrightarrow> advances p q"
proof (induction r arbitrary: p q)
  case (Cls P)
  then show ?case by (auto simp: advances_def)
next
  case (Seq r1 r2)
  from Seq.prems obtain m where "(p, m) \<in> rel r1" "(m, q) \<in> rel r2" by auto
  with Seq.IH show ?case using advances_trans by blast
next
  case (Star r)
  then show ?case using advances_rtrancl [of p q "rel r"] by auto
next
  case (Lazy r)
  then show ?case using advances_rtrancl [of p q "rel r"] by auto
qed auto

lemma advances_shorter: "advances p q \<Longrightarrow> p = q \<or> length (snd q) < length (snd p)"
  by (cases p; cases q) (auto simp: advances_def)

text \<open>Rounds that consume nothing add nothing.\<close>

lemma rtrancl_progress:
  assumes "\<And>x y. (x, y) \<in> R \<Longrightarrow> advances x y"
  shows "(R \<inter> {(x, y). length (snd y) < length (snd x)})\<^sup>* = R\<^sup>*"
proof
  show "R\<^sup>* \<subseteq> (R \<inter> {(x, y). length (snd y) < length (snd x)})\<^sup>*"
  proof clarify
    fix a b c d assume "((a, b), (c, d)) \<in> R\<^sup>*"
    then show "((a, b), (c, d)) \<in> (R \<inter> {(x, y). length (snd y) < length (snd x)})\<^sup>*"
    proof (induction rule: rtrancl_induct)
      case (step y z)
      then consider "y = z" | "(y, z) \<in> R \<inter> {(x, y). length (snd y) < length (snd x)}"
        using advances_shorter [OF assms [OF step(2)]] by auto
      then show ?case using step(3) by cases (auto intro: rtrancl_into_rtrancl)
    qed simp
  qed
qed (rule rtrancl_mono, simp)

definition pos_of :: "mstate \<Rightarrow> pos" where
  "pos_of m = (fst m, fst (snd m))"

lemma pos_of_simps [simp]: "pos_of (b, s, g) = (b, s)"
  by (simp add: pos_of_def)

definition agrees :: "re \<Rightarrow> bool" where
  "agrees r \<longleftrightarrow> (\<forall>m. pos_of ` set (ms r m) = rel r `` {pos_of m})"

lemma agreesD: "agrees r \<Longrightarrow> pos_of ` set (ms r m) = rel r `` {pos_of m}"
  unfolding agrees_def by blast

lemma star_ms_rel:
  assumes f: "\<And>m. pos_of ` set (f m) = R `` {pos_of m}"
    and R: "R' = R \<inter> {(x, y). length (snd y) < length (snd x)}"
    and n: "length (snd (pos_of m)) \<le> n"
  shows "pos_of ` set (star_ms greedy f n m) = R'\<^sup>* `` {pos_of m}"
  using n
proof (induction n arbitrary: m)
  case 0
  have "x = pos_of m" if "(pos_of m, x) \<in> R'\<^sup>*" for x
    using that 0 by (induction rule: rtrancl_induct) (auto simp: R)
  then show ?case by auto
next
  case (Suc n)
  let ?next = "filter (\<lambda>m'. length (fst (snd m')) < length (fst (snd m))) (f m)"
  have len: "length (snd (pos_of k)) = length (fst (snd k))" for k by (simp add: pos_of_def)
  have "set (star_ms greedy f (Suc n) m) = insert m (\<Union>m' \<in> set ?next. set (star_ms greedy f n m'))"
    by (auto simp: Let_def)
  then have "pos_of ` set (star_ms greedy f (Suc n) m) =
      insert (pos_of m) (\<Union>m' \<in> set ?next. pos_of ` set (star_ms greedy f n m'))"
    by (auto simp: image_Union image_image)
  also have "(\<Union>m' \<in> set ?next. pos_of ` set (star_ms greedy f n m')) =
      (\<Union>m' \<in> set ?next. R'\<^sup>* `` {pos_of m'})"
    using Suc by (intro SUP_cong refl Suc.IH) (auto simp: len)
  also have "\<dots> = (\<Union>q \<in> pos_of ` set ?next. R'\<^sup>* `` {q})" by simp
  also have "pos_of ` set ?next = R' `` {pos_of m}"
  proof -
    have "pos_of ` set ?next = pos_of ` set (f m) \<inter> {q. length (snd q) < length (snd (pos_of m))}"
      by (auto simp: len)
    then show ?thesis by (auto simp: f R)
  qed
  also have "insert (pos_of m) (\<Union>q \<in> R' `` {pos_of m}. R'\<^sup>* `` {q}) = R'\<^sup>* `` {pos_of m}"
    by (auto elim: converse_rtranclE intro: converse_rtrancl_into_rtrancl)
  finally show ?case .
qed

lemma agrees_star:
  assumes "agrees r" "pos_of ` set (ms r' m) = pos_of ` set (star_ms greedy (ms r) (length (fst (snd m))) m)"
  shows "pos_of ` set (ms r' m) = (rel r)\<^sup>* `` {pos_of m}"
proof -
  have "pos_of ` set (star_ms greedy (ms r) (length (fst (snd m))) m) =
      (rel r \<inter> {(x, y). length (snd y) < length (snd x)})\<^sup>* `` {pos_of m}"
    by (rule star_ms_rel [where R = "rel r"]) (simp_all add: agreesD [OF assms(1)], simp add: pos_of_def)
  also have "(rel r \<inter> {(x, y). length (snd y) < length (snd x)})\<^sup>* = (rel r)\<^sup>*"
    by (rule rtrancl_progress) (rule rel_advances)
  finally show ?thesis using assms(2) by simp
qed

text \<open>The backtracking matcher finds exactly the matches of the relational semantics.\<close>

theorem ms_rel: "pos_of ` set (ms r m) = rel r `` {pos_of m}"
proof -
  have "agrees r"
  proof (induction r)
    case (Cls P)
    show ?case by (auto simp: agrees_def split: list.splits prod.splits)
  next
    case (Seq r1 r2)
    have "pos_of ` set (ms (Seq r1 r2) m) = (\<Union>q \<in> pos_of ` set (ms r1 m). rel r2 `` {q})" for m
      by (simp add: agreesD [OF Seq(2)] image_UN)
    also have "\<dots> m = rel (Seq r1 r2) `` {pos_of m}" for m
      by (auto simp: agreesD [OF Seq(1)])
    finally show ?case by (simp add: agrees_def)
  next
    case (Alt r1 r2)
    show ?case unfolding agrees_def
      by (intro allI) (simp add: image_Un agreesD [OF Alt(1)] agreesD [OF Alt(2)] Un_Image)
  next
    case (Star r)
    then show ?case unfolding agrees_def using agrees_star [of r "Star r" _ True] by (simp add: agrees_def)
  next
    case (Lazy r)
    then show ?case unfolding agrees_def using agrees_star [of r "Lazy r" _ False] by (simp add: agrees_def)
  next
    case (Grp n r)
    then show ?case by (auto simp: agrees_def image_image case_prod_beta pos_of_def)
  qed (auto simp: agrees_def pos_of_def)
  then show ?thesis by (rule agreesD)
qed

section \<open>Reading results off the semantics\<close>

lemma match_at_None: "match_at r b s = None \<longleftrightarrow> (\<forall>q. ((b, s), q) \<notin> rel r)"
proof -
  have "match_at r b s = None \<longleftrightarrow> ms r (b, s, []) = []"
    by (auto simp: match_at_def split: list.splits prod.splits)
  also have "\<dots> \<longleftrightarrow> rel r `` {(b, s)} = {}"
    using ms_rel [of r "(b, s, [])"] by auto
  finally show ?thesis by auto
qed

lemma match_at_SomeD:
  assumes "match_at r b s = Some m"
  shows "s = m_text m @ m_after m" "m_before m = rev b" "((b, s), (rev (m_text m) @ b, m_after m)) \<in> rel r"
proof -
  obtain b' s' g where m: "(b', s', g) \<in> set (ms r (b, s, []))"
    and eq: "m = \<lparr>m_before = rev b, m_text = take (length s - length s') s, m_after = s', m_groups = g\<rparr>"
    using assms by (auto simp: match_at_def split: list.splits prod.splits)
  have r: "((b, s), (b', s')) \<in> rel r"
    using ms_rel [of r "(b, s, [])"] m by (metis ImageE image_eqI pos_of_simps singletonD)
  then obtain t where "s = t @ s'" "b' = rev t @ b"
    using rel_advances [OF r] by (auto simp: advances_def)
  with eq r show "s = m_text m @ m_after m" "m_before m = rev b"
    "((b, s), (rev (m_text m) @ b, m_after m)) \<in> rel r" by auto
qed

text \<open>\<open>fullmatch\<close> accepts exactly the texts the pattern relates to their end.\<close>

lemma re_fullmatch_iff: "re_fullmatch r s \<noteq> None \<longleftrightarrow> (([], s), (rev s, [])) \<in> rel r"
proof -
  have "re_fullmatch r s \<noteq> None \<longleftrightarrow> (\<exists>b. (([], s), (b, [])) \<in> rel r)"
    by (auto simp: re_fullmatch_def match_at_None)
  also have "\<dots> \<longleftrightarrow> (([], s), (rev s, [])) \<in> rel r"
    using rel_advances [of "([], s)" _ r] by (fastforce simp: advances_def)
  finally show ?thesis .
qed

lemma all_splits_Cons:
  "(\<forall>u v. c # s = u @ v \<longrightarrow> P u v) \<longleftrightarrow> P [] (c # s) \<and> (\<forall>u v. s = u @ v \<longrightarrow> P (c # u) v)"
  by (auto simp: Cons_eq_append_conv)

lemma search_from_None: "search_from r b s = None \<longleftrightarrow> (\<forall>u v q. s = u @ v \<longrightarrow> ((rev u @ b, v), q) \<notin> rel r)"
proof (induction s arbitrary: b)
  case Nil
  have "search_from r b [] = None \<longleftrightarrow> match_at r b [] = None"
    by (subst search_from.simps) (simp split: option.splits)
  then show ?case by (simp add: match_at_None)
next
  case (Cons c s)
  have "search_from r b (c # s) = None \<longleftrightarrow> match_at r b (c # s) = None \<and> search_from r (c # b) s = None"
    by (subst search_from.simps) (auto split: option.splits)
  also have "\<dots> \<longleftrightarrow> (\<forall>u v q. c # s = u @ v \<longrightarrow> ((rev u @ b, v), q) \<notin> rel r)"
    using all_splits_Cons [of c s "\<lambda>u v. \<forall>q. ((rev u @ b, v), q) \<notin> rel r"]
    unfolding match_at_None Cons.IH by (auto simp del: split_paired_All)
  finally show ?case .
qed

lemma re_search_None: "re_search r s = None \<longleftrightarrow> (\<forall>u v q. s = u @ v \<longrightarrow> ((rev u, v), q) \<notin> rel r)"
  by (simp add: re_search_def search_from_None)

lemma rel_Star_Cls:
  "((b, s), (b', s')) \<in> rel (Star (Cls P)) \<longleftrightarrow> (\<exists>t. s = t @ s' \<and> b' = rev t @ b \<and> list_all P t)"
proof
  assume "((b, s), (b', s')) \<in> rel (Star (Cls P))"
  then have "((b, s), (b', s')) \<in> (rel (Cls P))\<^sup>*" by simp
  then show "\<exists>t. s = t @ s' \<and> b' = rev t @ b \<and> list_all P t"
  proof (induction rule: rtrancl_induct2)
    case (step b1 s1 b2 s2)
    then obtain t c where "s = t @ s1" "b1 = rev t @ b" "list_all P t" "s1 = c # s2" "b2 = c # b1" "P c"
      by auto
    then have "s = (t @ [c]) @ s2 \<and> b2 = rev (t @ [c]) @ b \<and> list_all P (t @ [c])" by simp
    then show ?case by blast
  qed auto
next
  assume "\<exists>t. s = t @ s' \<and> b' = rev t @ b \<and> list_all P t"
  then obtain t where "s = t @ s'" "b' = rev t @ b" "list_all P t" by blast
  then show "((b, s), (b', s')) \<in> rel (Star (Cls P))"
  proof (induction t arbitrary: b s)
    case (Cons c t)
    then have "((b, s), (c # b, t @ s')) \<in> rel (Cls P)" "((c # b, t @ s'), (b', s')) \<in> rel (Star (Cls P))"
      by auto
    then show ?case by (auto intro: converse_rtrancl_into_rtrancl)
  qed simp
qed

lemma rel_UpTo_Cls:
  "((b, s), (b', s')) \<in> rel (UpTo n (Cls P)) \<longleftrightarrow>
     (\<exists>t. s = t @ s' \<and> b' = rev t @ b \<and> list_all P t \<and> length t \<le> n)"
proof (induction n arbitrary: b s)
  case (Suc n)
  show ?case
  proof
    assume "((b, s), (b', s')) \<in> rel (UpTo (Suc n) (Cls P))"
    then consider "s = s'" "b' = b"
      | c s1 where "s = c # s1" "P c" "((c # b, s1), (b', s')) \<in> rel (UpTo n (Cls P))"
      by auto
    then show "\<exists>t. s = t @ s' \<and> b' = rev t @ b \<and> list_all P t \<and> length t \<le> Suc n"
    proof cases
      case (2 c s1)
      then obtain t where "s1 = t @ s'" "b' = rev t @ c # b" "list_all P t" "length t \<le> n"
        using Suc.IH by blast
      with 2 have "s = (c # t) @ s' \<and> b' = rev (c # t) @ b \<and> list_all P (c # t) \<and> length (c # t) \<le> Suc n"
        by simp
      then show ?thesis by blast
    qed auto
  next
    assume "\<exists>t. s = t @ s' \<and> b' = rev t @ b \<and> list_all P t \<and> length t \<le> Suc n"
    then obtain t where t: "s = t @ s'" "b' = rev t @ b" "list_all P t" "length t \<le> Suc n" by blast
    show "((b, s), (b', s')) \<in> rel (UpTo (Suc n) (Cls P))"
    proof (cases t)
      case (Cons c u)
      with t Suc.IH [of "c # b" "u @ s'"] have "((c # b, u @ s'), (b', s')) \<in> rel (UpTo n (Cls P))" by auto
      with t Cons show ?thesis by auto
    qed (use t in simp)
  qed
qed auto

lemma rel_Lit: "((b, s), (b', s')) \<in> rel (Lit l) \<longleftrightarrow> s = l @ s' \<and> b' = rev l @ b"
proof (induction l arbitrary: b s)
  case (Cons c l)
  have "((b, s), (b', s')) \<in> rel (Lit (c # l)) \<longleftrightarrow> (\<exists>s1. s = c # s1 \<and> ((c # b, s1), (b', s')) \<in> rel (Lit l))"
    by (auto simp: Chr_def)
  also have "\<dots> \<longleftrightarrow> s = (c # l) @ s' \<and> b' = rev (c # l) @ b" using Cons by auto
  finally show ?case .
qed auto

text \<open>The semantics as membership, one pattern constructor at a time.\<close>

lemma rel_mem:
  "((b, s), (b', s')) \<in> rel Eps \<longleftrightarrow> b' = b \<and> s' = s"
  "((b, s), (b', s')) \<in> rel (Cls P) \<longleftrightarrow> (\<exists>c. s = c # s' \<and> b' = c # b \<and> P c)"
  "((b, s), (b', s')) \<in> rel (Seq p q) \<longleftrightarrow> (\<exists>b1 s1. ((b, s), (b1, s1)) \<in> rel p \<and> ((b1, s1), (b', s')) \<in> rel q)"
  "((b, s), (b', s')) \<in> rel (Alt p q) \<longleftrightarrow> ((b, s), (b', s')) \<in> rel p \<or> ((b, s), (b', s')) \<in> rel q"
  "((b, s), (b', s')) \<in> rel (Grp n p) \<longleftrightarrow> ((b, s), (b', s')) \<in> rel p"
  "((b, s), (b', s')) \<in> rel Bol \<longleftrightarrow> b' = b \<and> s' = s \<and> b = []"
  "((b, s), (b', s')) \<in> rel MBol \<longleftrightarrow> b' = b \<and> s' = s \<and> (b = [] \<or> hd b = newline)"
  "((b, s), (b', s')) \<in> rel Eol \<longleftrightarrow> b' = b \<and> s' = s \<and> (s = [] \<or> s = [newline])"
  "((b, s), (b', s')) \<in> rel MEol \<longleftrightarrow> b' = b \<and> s' = s \<and> (s = [] \<or> hd s = newline)"
  "((b, s), (b', s')) \<in> rel EndZ \<longleftrightarrow> b' = b \<and> s' = s \<and> s = []"
  "((b, s), (b', s')) \<in> rel WordB \<longleftrightarrow> b' = b \<and> s' = s \<and> at_word_boundary b s"
  by (auto simp: relcomp_unfold)

lemmas rel_iffs = rel_mem rel_Star_Cls rel_UpTo_Cls rel_Lit

declare rel.simps [simp del]

lemma rel_OneOf: "((b, s), (b', s')) \<in> rel (OneOf ls) \<longleftrightarrow> (\<exists>l \<in> set ls. s = l @ s' \<and> b' = rev l @ b)"
  by (induction ls rule: OneOf.induct) (auto simp: rel_mem rel_Lit)

lemma rel_Plus_Cls:
  "((b, s), (b', s')) \<in> rel (Plus (Cls P)) \<longleftrightarrow> (\<exists>t. s = t @ s' \<and> b' = rev t @ b \<and> t \<noteq> [] \<and> list_all P t)"
proof
  assume "((b, s), (b', s')) \<in> rel (Plus (Cls P))"
  then obtain c t where "s = c # t @ s'" "b' = rev t @ c # b" "P c" "list_all P t"
    by (auto simp: Plus_def rel_mem rel_Star_Cls)
  then show "\<exists>t. s = t @ s' \<and> b' = rev t @ b \<and> t \<noteq> [] \<and> list_all P t" by (intro exI [of _ "c # t"]) simp
next
  assume "\<exists>t. s = t @ s' \<and> b' = rev t @ b \<and> t \<noteq> [] \<and> list_all P t"
  then obtain c t where "s = c # t @ s'" "b' = rev t @ c # b" "P c" "list_all P t" by (metis append.assoc append_Cons append_Nil list.exhaust list.pred_inject(2) rev.simps(2))
  then show "((b, s), (b', s')) \<in> rel (Plus (Cls P))" by (auto simp: Plus_def rel_mem rel_Star_Cls)
qed

text \<open>Building a match from pieces of the text.\<close>

lemma rel_Cat_Nil: "(x, x) \<in> rel (Cat [])"
  by (cases x) (simp add: rel_mem)

lemma rel_Cat_Cons: "(x, y) \<in> rel r \<Longrightarrow> (y, z) \<in> rel (Cat rs) \<Longrightarrow> (x, z) \<in> rel (Cat (r # rs))"
  by (cases x; cases y; cases z) (auto simp: rel_mem)

lemma rel_Lit_piece: "((b, l @ s), (rev l @ b, s)) \<in> rel (Lit l)"
  by (simp add: rel_Lit)

lemma rel_Star_piece: "list_all P w \<Longrightarrow> ((b, w @ s), (rev w @ b, s)) \<in> rel (Star (Cls P))"
  by (simp add: rel_Star_Cls)

lemma rel_Plus_piece: "list_all P w \<Longrightarrow> w \<noteq> [] \<Longrightarrow> ((b, w @ s), (rev w @ b, s)) \<in> rel (Plus (Cls P))"
  by (cases w) (auto simp: Plus_def rel_mem rel_Star_Cls)

lemma rel_Opt_none: "(x, x) \<in> rel (Opt r)"
  by (cases x) (simp add: Opt_def rel_mem)

section \<open>The first match, symbolically\<close>

text \<open>
  The preferred match of a pattern, and rules that compute it on a text given in pieces: greedy
  repetition takes all it can, and a sequence succeeds when its preferred parts do.
\<close>

definition best :: "re \<Rightarrow> mstate \<Rightarrow> mstate option" where
  "best r m = (case ms r m of [] \<Rightarrow> None | x # _ \<Rightarrow> Some x)"

lemma match_at_best:
  "match_at r b s =
     map_option (\<lambda>(b', s', g). \<lparr>m_before = rev b, m_text = take (length s - length s') s, m_after = s', m_groups = g\<rparr>)
       (best r (b, s, []))"
  by (auto simp: match_at_def best_def split: list.splits)

lemma best_simps [simp]:
  "best Eps m = Some m"
  "best (Cls P) (b, c # s, g) = (if P c then Some (c # b, s, g) else None)"
  "best (Cls P) (b, [], g) = None"
  "best Bol (b, s, g) = (if b = [] then Some (b, s, g) else None)"
  "best MBol (b, s, g) = (if b = [] \<or> hd b = newline then Some (b, s, g) else None)"
  "best EndZ (b, s, g) = (if s = [] then Some (b, s, g) else None)"
  by (simp_all add: best_def)

lemma best_None: "best r m = None \<longleftrightarrow> ms r m = []"
  by (simp add: best_def split: list.splits)

lemma best_Seq: "best p m = Some x \<Longrightarrow> best q x = Some y \<Longrightarrow> best (Seq p q) m = Some y"
  by (auto simp: best_def split: list.splits)

lemma best_Seq_None: "best p m = None \<Longrightarrow> best (Seq p q) m = None"
  by (auto simp: best_def split: list.splits)

lemma best_Alt: "best (Alt p q) m = (case best p m of Some x \<Rightarrow> Some x | None \<Rightarrow> best q m)"
  by (auto simp: best_def split: list.splits)

lemma best_Grp:
  "best p (b, s, g) = Some (b', s', g') \<Longrightarrow>
     best (Grp n p) (b, s, g) = Some (b', s', (n, take (length s - length s') s) # g')"
  by (auto simp: best_def split: list.splits)

lemma best_Lit: "best (Lit l) (b, l @ s, g) = Some (rev l @ b, s, g)"
proof (induction l arbitrary: b)
  case (Cons c l)
  have "best (Chr c) (b, (c # l) @ s, g) = Some (c # b, l @ s, g)" by (simp add: Chr_def)
  from best_Seq [OF this Cons [of "c # b"]] show ?case by simp
qed simp

lemma ms_Cls:
  "ms (Cls P) (b, c # s, g) = (if P c then [(c # b, s, g)] else [])" "ms (Cls P) (b, [], g) = []"
  by simp_all

lemma star_ms_best:
  assumes "length s \<le> n"
  shows "(case star_ms True (ms (Cls P)) n (b, s, g) of [] \<Rightarrow> None | x # _ \<Rightarrow> Some x) =
           Some (rev (takeWhile P s) @ b, dropWhile P s, g)"
  using assms
proof (induction n arbitrary: b s)
  case (Suc n)
  show ?case
  proof (cases s)
    case (Cons c cs)
    then show ?thesis
    proof (cases "P c")
      case True
      have "(case star_ms True (ms (Cls P)) n (c # b, cs, g) of [] \<Rightarrow> None | x # _ \<Rightarrow> Some x) =
          Some (rev (takeWhile P cs) @ c # b, dropWhile P cs, g)"
        using Suc.IH [of cs "c # b"] Suc.prems Cons by (simp del: ms.simps(2))
      with Cons True show ?thesis by (auto simp: Let_def ms_Cls simp del: ms.simps(2) split: list.splits)
    qed (simp add: ms_Cls del: ms.simps(2))
  qed (simp add: ms_Cls del: ms.simps(2))
qed simp

lemma best_Star_Cls: "best (Star (Cls P)) (b, s, g) = Some (rev (takeWhile P s) @ b, dropWhile P s, g)"
  using star_ms_best [of s "length s" P b g] by (simp add: best_def)

lemma best_Plus_Cls:
  "s \<noteq> [] \<Longrightarrow> P (hd s) \<Longrightarrow> best (Plus (Cls P)) (b, s, g) = Some (rev (takeWhile P s) @ b, dropWhile P s, g)"
proof -
  assume "s \<noteq> []" "P (hd s)"
  then obtain c cs where s: "s = c # cs" "P c" by (cases s) auto
  then have "best (Cls P) (b, s, g) = Some (c # b, cs, g)" by simp
  from best_Seq [OF this best_Star_Cls] s show ?thesis by (simp add: Plus_def)
qed

lemma best_Plus_Cls_None: "s = [] \<or> \<not> P (hd s) \<Longrightarrow> best (Plus (Cls P)) (b, s, g) = None"
  unfolding Plus_def by (rule best_Seq_None) (cases s; auto)

text \<open>Greedy parts on a text cut where they stop.\<close>

lemma takeWhile_stop: "list_all P w \<Longrightarrow> s = [] \<or> \<not> P (hd s) \<Longrightarrow> takeWhile P (w @ s) = w \<and> dropWhile P (w @ s) = s"
  by (induction w) (cases s; auto)+

lemma best_Star_pieces:
  "list_all P w \<Longrightarrow> s = [] \<or> \<not> P (hd s) \<Longrightarrow> best (Star (Cls P)) (b, w @ s, g) = Some (rev w @ b, s, g)"
  using takeWhile_stop [of P w s] by (simp add: best_Star_Cls)

lemma best_Plus_pieces:
  "list_all P w \<Longrightarrow> w \<noteq> [] \<Longrightarrow> s = [] \<or> \<not> P (hd s) \<Longrightarrow> best (Plus (Cls P)) (b, w @ s, g) = Some (rev w @ b, s, g)"
  using takeWhile_stop [of P w s] best_Plus_Cls [of "w @ s" P b g] by (cases w) auto

end
