(* ===== verification/Names.thy ===== *)
theory Names
  imports Py_Re
begin

text \<open>
  Client names: the pattern \<open>NAME_RE\<close>, which \<open>ui/app/pki.py\<close> and \<open>ui/app/mgmt.py\<close> share word
  for word, \<open>RESERVED\<close> and \<open>validate_name\<close>. What a name may contain is what keeps it safe as a
  file name, as an argument of a script, and as a word of a management command.
\<close>

definition is_alnum_ascii :: "char \<Rightarrow> bool" where
  [py_defs]: "is_alnum_ascii c \<longleftrightarrow> is_upper_ascii c \<or> is_lower_ascii c \<or> is_decimal c"

definition is_name_char :: "char \<Rightarrow> bool" where
  [py_defs]: "is_name_char c \<longleftrightarrow> is_alnum_ascii c \<or> c \<in> set ''_.@-''"

text \<open>\<open>^[A-Za-z0-9][A-Za-z0-9_.@-]{0,63}\Z\<close>\<close>

definition NAME_RE :: re where
  "NAME_RE = Cat [Bol, Cls is_alnum_ascii, UpTo 63 (Cls is_name_char), EndZ]"

definition RESERVED :: "string list" where
  "RESERVED = [''server'', ''ca'']"

definition validate_name :: "string \<Rightarrow> string result" where
  "validate_name name =
     (if re_match NAME_RE name = None then
        Inl (PkiError ''Invalid client name: use 1-64 characters from letters, digits, _ . @ -'')
      else if lower name \<in> set RESERVED then Inl (PkiError ([CHR 0x27] @ name @ CHR 0x27 # '' is a reserved name''))
      else Inr name)"

lemma NAME_RE_iff:
  "re_match NAME_RE s \<noteq> None \<longleftrightarrow>
     s \<noteq> [] \<and> length s \<le> 64 \<and> is_alnum_ascii (hd s) \<and> list_all is_name_char s"
proof -
  have "re_match NAME_RE s \<noteq> None \<longleftrightarrow>
      (\<exists>c t. s = c # t \<and> is_alnum_ascii c \<and> list_all is_name_char t \<and> length t \<le> 63)"
    by (auto simp: re_match_def match_at_None NAME_RE_def rel_iffs)
  also have "\<dots> \<longleftrightarrow> s \<noteq> [] \<and> length s \<le> 64 \<and> is_alnum_ascii (hd s) \<and> list_all is_name_char s"
    by (cases s) (auto simp: is_name_char_def)
  finally show ?thesis .
qed

text \<open>
  What the pattern keeps out: names are visible ASCII without path, shell, or list separators, so
  a name is one path component, one shell word and one line, and never an option or a dot file.
\<close>

definition hostile :: "char list" where
  "hostile = ''/:,;|&$`<>(){}*?![]~#%^=+'' @ [CHR 0x22, CHR 0x27, CHR 0x5C]"

definition safe_name :: "string \<Rightarrow> bool" where
  "safe_name s \<longleftrightarrow> s \<noteq> [] \<and> length s \<le> 64 \<and> hd s \<notin> set ''-.'' \<and>
     list_all (\<lambda>c. 32 < code c \<and> code c < 127 \<and> c \<notin> set hostile) s"

lemma name_char_safe: "is_name_char c \<Longrightarrow> 32 < code c \<and> code c < 127 \<and> c \<notin> set hostile"
proof -
  assume c: "is_name_char c"
  have h: "\<forall>d \<in> set hostile. \<not> is_name_char d"
    by (simp add: hostile_def is_name_char_def is_alnum_ascii_def is_upper_ascii_def is_lower_ascii_def
        is_decimal_def code_def)
  have "32 < code c \<and> code c < 127"
  proof (cases "c \<in> set ''_.@-''")
    case True
    then show ?thesis by (auto simp: code_def)
  next
    case False
    with c show ?thesis
      by (auto simp: is_name_char_def is_alnum_ascii_def is_upper_ascii_def is_lower_ascii_def is_decimal_def)
  qed
  with c h show ?thesis by blast
qed

lemma validate_name_Inr: "validate_name s = Inr t \<Longrightarrow> t = s \<and> re_match NAME_RE s \<noteq> None"
  by (auto simp: validate_name_def split: if_splits)

lemma NAME_RE_safe: "re_match NAME_RE s \<noteq> None \<Longrightarrow> safe_name s"
proof -
  assume "re_match NAME_RE s \<noteq> None"
  then have s: "s \<noteq> []" "length s \<le> 64" "is_alnum_ascii (hd s)" "list_all is_name_char s"
    unfolding NAME_RE_iff by auto
  have "\<not> is_alnum_ascii CHR ''-''" "\<not> is_alnum_ascii CHR ''.''"
    by (simp_all add: is_alnum_ascii_def is_upper_ascii_def is_lower_ascii_def is_decimal_def code_def)
  with s(3) have "hd s \<notin> set ''-.''" by auto
  with s show ?thesis by (auto simp: safe_name_def list_all_iff name_char_safe)
qed

text \<open>
  A name the program accepts is safe to use as a file name, a script argument and a word of a
  management command, and is not one of the reserved names in any capitalisation; every name of
  letters and digits of at most 64 characters that is not reserved is accepted.
\<close>

theorem validate_name_safe:
  "(validate_name s = Inr t \<longrightarrow> t = s \<and> safe_name s \<and> lower s \<notin> {''server'', ''ca''}) \<and>
   (s \<noteq> [] \<and> length s \<le> 64 \<and> list_all is_alnum_ascii s \<and> lower s \<notin> {''server'', ''ca''} \<longrightarrow> validate_name s = Inr s)"
proof -
  have "s \<noteq> [] \<and> length s \<le> 64 \<and> list_all is_alnum_ascii s \<longrightarrow> re_match NAME_RE s \<noteq> None"
    unfolding NAME_RE_iff by (simp add: list_all_iff is_name_char_def)
  then show ?thesis
    using NAME_RE_safe [of s] by (auto simp: validate_name_def RESERVED_def)
qed

theorem validate_name_safe_witness:
  "validate_name ''alice-1'' = Inr ''alice-1'' \<and> safe_name ''alice-1'' \<and> validate_name ''bob7'' = Inr ''bob7''"
proof -
  have "re_match NAME_RE ''alice-1'' \<noteq> None"
    unfolding NAME_RE_iff
    by (simp add: is_name_char_def is_alnum_ascii_def is_upper_ascii_def is_lower_ascii_def is_decimal_def code_def)
  then have v: "validate_name ''alice-1'' = Inr ''alice-1''"
    by (simp add: validate_name_def RESERVED_def lower_def lower_char_def is_upper_ascii_def code_def)
  have "validate_name ''bob7'' = Inr ''bob7''"
    using validate_name_safe [of "''bob7''" undefined]
    by (simp add: is_alnum_ascii_def is_upper_ascii_def is_lower_ascii_def is_decimal_def code_def lower_def lower_char_def)
  with v show ?thesis using validate_name_safe [of "''alice-1''" "''alice-1''"] by simp
qed

end
