(* ===== verification/Mgmt.thy ===== *)
theory Mgmt
  imports Complex_Main Names
begin

text \<open>
  The client of OpenVPN's management interface, \<open>ui/app/mgmt.py\<close>: the line protocol over a
  socket, the commands, and the status report. The server's side of a connection is a list of
  what successive calls of \<open>recv\<close> yield, in pieces cut anywhere; what the client writes is kept in
  the state. \<open>decode\<close> stands for \<open>bytes.decode("utf-8", "replace")\<close>; it maps text beyond the
  alphabet of the model and is a parameter.
\<close>

section \<open>Connection\<close>

text \<open>
  What one \<open>recv\<close> does, and how many milliseconds it took: data (empty when the peer closed), a
  timeout, or another \<open>OSError\<close>. A list that has run out means waiting until the timeout.
\<close>

datatype recv = Data string | Timed_out | Failed

record sock =
  sk_in :: "(int \<times> recv) list"
  sk_sends :: "bool list"

record management =
  mg_sock :: "sock option"
  mg_buf :: string
  mg_sent :: "string list"
  mg_since :: "int option"

definition Management :: management where
  "Management = \<lparr>mg_sock = None, mg_buf = [], mg_sent = [], mg_since = None\<rparr>"

definition connected :: "management \<Rightarrow> bool" where
  "connected m \<longleftrightarrow> mg_sock m \<noteq> None"

definition close_mgmt :: "management \<Rightarrow> management" where
  "close_mgmt m = m\<lparr>mg_sock := None, mg_buf := [], mg_since := None\<rparr>"

text \<open>\<open>_readline\<close>: reads until the buffer holds a newline; \<open>split(b"\n", 1)\<close>, decode, drop \<open>\r\<close>.\<close>

fun readline_loop :: "string \<Rightarrow> (int \<times> recv) list \<Rightarrow> string result \<times> string \<times> (int \<times> recv) list" where
  "readline_loop buf [] =
     (if newline \<in> set buf
      then (Inr (fst (partition_on newline buf)), snd (snd (partition_on newline buf)), [])
      else (Inl OSError, buf, []))"
| "readline_loop buf ((t, r) # evs) =
     (if newline \<in> set buf
      then (Inr (fst (partition_on newline buf)), snd (snd (partition_on newline buf)), (t, r) # evs)
      else
        case r of
          Data d \<Rightarrow> if d = [] then (Inl (ManagementError ''management connection closed''), buf, evs)
                    else readline_loop (buf @ d) evs
        | _ \<Rightarrow> (Inl OSError, buf, evs))"

definition readline :: "(string \<Rightarrow> string) \<Rightarrow> management \<Rightarrow> string result \<times> management" where
  "readline decode m =
     (case mg_sock m of
        None \<Rightarrow> (Inl TypeError, m)
      | Some sk \<Rightarrow>
          (case readline_loop (mg_buf m) (sk_in sk) of
             (r, buf, evs) \<Rightarrow>
               (res_bind r (\<lambda>line. Inr (rstrip_by (\<lambda>c. c = CHR 0x0D) (decode line))),
                m\<lparr>mg_sock := Some (sk\<lparr>sk_in := evs\<rparr>), mg_buf := buf\<rparr>)))"

text \<open>\<open>sendall\<close>: succeeds unless the connection's script says otherwise.\<close>

definition sendall :: "string \<Rightarrow> management \<Rightarrow> unit result \<times> management" where
  "sendall text m =
     (case mg_sock m of
        None \<Rightarrow> (Inl TypeError, m)
      | Some sk \<Rightarrow>
          (case sk_sends sk of
             [] \<Rightarrow> (Inr (), m\<lparr>mg_sent := mg_sent m @ [text]\<rparr>)
           | ok # oks \<Rightarrow>
               let m' = m\<lparr>mg_sock := Some (sk\<lparr>sk_sends := oks\<rparr>)\<rparr>
               in if ok then (Inr (), m'\<lparr>mg_sent := mg_sent m @ [text]\<rparr>) else (Inl OSError, m')))"

definition PROMPT :: string where
  "PROMPT = ''ENTER PASSWORD:''"

fun contains :: "string \<Rightarrow> string \<Rightarrow> bool" where
  "contains p [] = (p = [])"
| "contains p (c # s) = (startswith (c # s) p \<or> contains p s)"

text \<open>The text after the first occurrence of \<open>p\<close>: \<open>buf.split(p, 1)[1]\<close>.\<close>

fun after :: "string \<Rightarrow> string \<Rightarrow> string" where
  "after p [] = []"
| "after p (c # s) = (if startswith (c # s) p then drop (length p) (c # s) else after p s)"

text \<open>The greeting: waits at most three seconds for a line or the password prompt.\<close>

fun greet :: "int \<Rightarrow> string \<Rightarrow> (int \<times> recv) list \<Rightarrow> unit result \<times> string \<times> (int \<times> recv) list" where
  "greet elapsed buf [] = (Inr (), buf, [])"
| "greet elapsed buf ((t, r) # evs) =
     (if newline \<notin> set buf \<and> \<not> contains PROMPT buf \<and> elapsed < 3000 then
        case r of
          Timed_out \<Rightarrow> (Inr (), buf, evs)
        | Failed \<Rightarrow> (Inl OSError, buf, evs)
        | Data d \<Rightarrow> if d = [] then (Inl (ManagementError ''management connection closed by server''), buf, evs)
                    else greet (elapsed + t) (buf @ d) evs
      else (Inr (), buf, (t, r) # evs))"

text \<open>What is still to be read, for the termination of the reading loops.\<close>

definition events_size :: "(int \<times> recv) list \<Rightarrow> nat" where
  "events_size evs = sum_list (map (\<lambda>(t, r). case r of Data d \<Rightarrow> length d | _ \<Rightarrow> 0) evs)"

definition unread :: "management \<Rightarrow> nat" where
  "unread m = length (mg_buf m) + (case mg_sock m of None \<Rightarrow> 0 | Some sk \<Rightarrow> events_size (sk_in sk))"

lemma partition_newline_size:
  "newline \<in> set buf \<Longrightarrow> length (snd (snd (partition_on newline buf))) < length buf"
proof -
  assume nl: "newline \<in> set buf"
  obtain h f t where p: "partition_on newline buf = (h, f, t)" by (cases "partition_on newline buf") auto
  with nl have f: "f" using partition_on_not_found [of newline buf h t] by (cases f) auto
  with p partition_on_found [of newline buf h t] show ?thesis by simp
qed

lemma readline_loop_size:
  "readline_loop buf evs = (Inr line, buf', evs') \<Longrightarrow> length buf' + events_size evs' < length buf + events_size evs"
proof (induction buf evs rule: readline_loop.induct)
  case (1 buf)
  then show ?case using partition_newline_size [of buf] by (auto split: if_splits)
next
  case (2 buf t r evs)
  show ?case
  proof (cases "newline \<in> set buf")
    case True
    with 2 partition_newline_size [of buf] show ?thesis by (auto simp: events_size_def)
  next
    case False
    with 2 show ?thesis by (cases r) (auto simp: events_size_def split: if_splits)
  qed
qed

lemma readline_InrD:
  assumes "readline decode m = (Inr line, m')"
  obtains sk raw buf evs where "mg_sock m = Some sk" "readline_loop (mg_buf m) (sk_in sk) = (Inr raw, buf, evs)"
    "line = rstrip_by (\<lambda>c. c = CHR 0x0D) (decode raw)"
    "m' = m\<lparr>mg_sock := Some (sk\<lparr>sk_in := evs\<rparr>), mg_buf := buf\<rparr>"
  using assms by (auto simp: readline_def split: option.splits prod.splits elim!: res_bind.elims)

lemma readline_unread: "readline decode m = (Inr line, m') \<Longrightarrow> unread m' < unread m"
proof (elim readline_InrD)
  fix sk raw buf evs
  assume "readline_loop (mg_buf m) (sk_in sk) = (Inr raw, buf, evs)" "mg_sock m = Some sk"
    "m' = m\<lparr>mg_sock := Some (sk\<lparr>sk_in := evs\<rparr>), mg_buf := buf\<rparr>"
  then show "unread m' < unread m" using readline_loop_size by (simp add: unread_def)
qed

text \<open>\<open>while line.startswith(">"): line = self._readline()\<close>, from the first line on.\<close>

function skip_async :: "(string \<Rightarrow> string) \<Rightarrow> management \<Rightarrow> string result \<times> management" where
  "skip_async decode m =
     (case readline decode m of
        (Inl e, m') \<Rightarrow> (Inl e, m')
      | (Inr line, m') \<Rightarrow> if startswith line ''>'' then skip_async decode m' else (Inr line, m'))"
  by pat_completeness auto
termination
  by (relation "measure (\<lambda>(d, m). unread m)") (auto dest: readline_unread [OF sym])

declare skip_async.simps [simp del]

text \<open>The body of \<open>_connect\<close> after the socket is there: greeting, password, and its answer.\<close>

definition handshake :: "(string \<Rightarrow> string) \<Rightarrow> string option \<Rightarrow> int \<Rightarrow> management \<Rightarrow> unit result \<times> management" where
  "handshake decode password now m =
     (case mg_sock m of
        None \<Rightarrow> (Inl TypeError, m)
      | Some sk \<Rightarrow>
          (case greet 0 [] (sk_in sk) of
             (Inl e, buf, evs) \<Rightarrow> (Inl e, m\<lparr>mg_sock := Some (sk\<lparr>sk_in := evs\<rparr>), mg_buf := buf\<rparr>)
           | (Inr u, buf, evs) \<Rightarrow>
               let m1 = m\<lparr>mg_sock := Some (sk\<lparr>sk_in := evs\<rparr>), mg_buf := buf\<rparr>
               in if \<not> contains PROMPT buf then (Inr (), m1\<lparr>mg_since := Some now\<rparr>)
                  else
                    let m2 = m1\<lparr>mg_buf := after PROMPT buf\<rparr>
                    in case password of
                         None \<Rightarrow> (Inl (ManagementError ''management interface requires a password but none is configured''),
                                  close_mgmt m2)
                       | Some pw \<Rightarrow>
                           if pw = [] then
                             (Inl (ManagementError ''management interface requires a password but none is configured''),
                              close_mgmt m2)
                           else
                             (case sendall (pw @ [newline]) m2 of
                                (Inl e, m3) \<Rightarrow> (Inl e, m3)
                              | (Inr u, m3) \<Rightarrow>
                                  (case skip_async decode m3 of
                                     (Inl e, m4) \<Rightarrow> (Inl e, m4)
                                   | (Inr line, m4) \<Rightarrow>
                                       if startswith line ''SUCCESS:'' then (Inr (), m4\<lparr>mg_since := Some now\<rparr>)
                                       else (Inl (ManagementError (''management password rejected: '' @ line)),
                                             close_mgmt m4)))))"

text \<open>\<open>_connect\<close>: the next connection of the environment, refused when it is \<open>None\<close> or there is none.\<close>

definition connect ::
  "(string \<Rightarrow> string) \<Rightarrow> string option \<Rightarrow> int \<Rightarrow> sock option list \<Rightarrow> management
    \<Rightarrow> unit result \<times> sock option list \<times> management" where
  "connect decode password now conns m =
     (case conns of
        [] \<Rightarrow> (Inl OSError, [], m)
      | None # cs \<Rightarrow> (Inl OSError, cs, m)
      | Some sk # cs \<Rightarrow>
          (case handshake decode password now (m\<lparr>mg_sock := Some sk, mg_buf := []\<rparr>) of (r, m') \<Rightarrow> (r, cs, m')))"

section \<open>Commands\<close>

text \<open>The lines of a response: up to \<open>END\<close>, or one line of success or error.\<close>

function read_response :: "(string \<Rightarrow> string) \<Rightarrow> string list \<Rightarrow> management \<Rightarrow> string list result \<times> management" where
  "read_response decode lines m =
     (case readline decode m of
        (Inl e, m') \<Rightarrow> (Inl e, m')
      | (Inr line, m') \<Rightarrow>
          if startswith line ''>'' then read_response decode lines m'
          else if line = ''END'' then (Inr lines, m')
          else if (startswith line ''SUCCESS:'' \<or> startswith line ''ERROR:'') \<and> lines = [] then (Inr [line], m')
          else read_response decode (lines @ [line]) m')"
  by pat_completeness auto
termination
  by (relation "measure (\<lambda>(d, l, m). unread m)") (auto dest: readline_unread [OF sym])

declare read_response.simps [simp del]

fun error_text :: "exc \<Rightarrow> string" where
  "error_text (ManagementError s) = s"
| "error_text _ = ''management connection failed''"

fun recoverable :: "exc \<Rightarrow> bool" where
  "recoverable (ManagementError s) = True"
| "recoverable OSError = True"
| "recoverable _ = False"

text \<open>One attempt: connect if need be, send, read the response.\<close>

definition attempt_command ::
  "(string \<Rightarrow> string) \<Rightarrow> string option \<Rightarrow> int \<Rightarrow> string \<Rightarrow> sock option list \<Rightarrow> management
    \<Rightarrow> string list result \<times> sock option list \<times> management" where
  "attempt_command decode password now cmd conns m =
     (case (if connected m then (Inr (), conns, m) else connect decode password now conns m) of
        (Inl e, cs, m1) \<Rightarrow> (Inl e, cs, m1)
      | (Inr u, cs, m1) \<Rightarrow>
          (case sendall (cmd @ [newline]) m1 of
             (Inl e, m2) \<Rightarrow> (Inl e, cs, m2)
           | (Inr u, m2) \<Rightarrow> (case read_response decode [] m2 of (r, m3) \<Rightarrow> (r, cs, m3))))"

definition command ::
  "(string \<Rightarrow> string) \<Rightarrow> string option \<Rightarrow> int \<Rightarrow> string \<Rightarrow> sock option list \<Rightarrow> management
    \<Rightarrow> string list result \<times> sock option list \<times> management" where
  "command decode password now cmd conns m =
     (case attempt_command decode password now cmd conns m of
        (Inr lines, cs, m1) \<Rightarrow> (Inr lines, cs, m1)
      | (Inl e, cs, m1) \<Rightarrow>
          if \<not> recoverable e then (Inl e, cs, m1)
          else
            (case attempt_command decode password now cmd cs (close_mgmt m1) of
               (Inr lines, cs2, m2) \<Rightarrow> (Inr lines, cs2, m2)
             | (Inl e2, cs2, m2) \<Rightarrow>
                 if recoverable e2 then (Inl (ManagementError (error_text e2)), cs2, close_mgmt m2)
                 else (Inl e2, cs2, m2)))"

text \<open>\<open>self.command(...)[0]\<close> and the check every simple command makes of it.\<close>

fun success_line :: "string list result \<Rightarrow> string result" where
  "success_line (Inl e) = Inl e"
| "success_line (Inr []) = Inl IndexError"
| "success_line (Inr (line # lines)) = (if startswith line ''SUCCESS:'' then Inr line else Inl (ManagementError line))"

definition kill where
  "kill decode password now common_name conns m =
     (if re_match NAME_RE common_name = None then (Inl (ManagementError ''invalid common name''), conns, m)
      else
        case command decode password now (''kill '' @ common_name) conns m of
          (r, cs, m') \<Rightarrow> (success_line r, cs, m'))"

definition client_kill where
  "client_kill decode password now (cid :: int) conns m =
     (case command decode password now (''client-kill '' @ dec_int cid) conns m of
        (r, cs, m') \<Rightarrow> (success_line r, cs, m'))"

definition SIGNALS :: "string list" where
  "SIGNALS = [''SIGHUP'', ''SIGTERM'', ''SIGUSR1'', ''SIGUSR2'']"

definition signal where
  "signal decode password now name conns m =
     (if name \<notin> set SIGNALS then (Inl (ManagementError ''unsupported signal''), conns, m)
      else
        case command decode password now (''signal '' @ name) conns m of
          (r, cs, m') \<Rightarrow> (success_line r, cs, close_mgmt m'))"

text \<open>\<open>load_stats\<close>: \<open>SUCCESS: nclients=1,bytesin=...\<close>; a value that is not all digits is left out.\<close>

fun stats_of :: "string list \<Rightarrow> (string \<times> int) list \<Rightarrow> (string \<times> int) list result" where
  "stats_of [] out = Inr out"
| "stats_of (kv # kvs) out =
     (case partition_on CHR ''='' (strip kv) of
        (k, f, v) \<Rightarrow>
          if isdigit v then res_bind (py_int v) (\<lambda>n. stats_of kvs (AList.update k n out))
          else stats_of kvs out)"

definition load_stats where
  "load_stats decode password now conns m =
     (case command decode password now ''load-stats'' conns m of
        (r, cs, m') \<Rightarrow>
          (res_bind (success_line r)
             (\<lambda>line. stats_of (split_on CHR '','' (snd (snd (partition_on CHR '':'' line)))) []), cs, m'))"

definition version where
  "version decode password now conns m =
     (case command decode password now ''version'' conns m of
        (r, cs, m') \<Rightarrow>
          (res_bind r (\<lambda>lines.
             case find (\<lambda>l. startswith l ''OpenVPN Version:'') lines of
               None \<Rightarrow> Inr ''unknown''
             | Some l \<Rightarrow> Inr (strip (snd (snd (partition_on CHR '':'' l))))), cs, m'))"

section \<open>The status report\<close>

type_synonym strdict = "(string \<times> string) list"

definition get :: "strdict \<Rightarrow> string \<Rightarrow> string" where
  "get d k = (case map_of d k of None \<Rightarrow> [] | Some v \<Rightarrow> v)"

definition int_or_0 :: "string option \<Rightarrow> int" where
  "int_or_0 value =
     (case value of
        None \<Rightarrow> 0
      | Some v \<Rightarrow> if v = [] then 0 else (case py_int v of Inl e \<Rightarrow> 0 | Inr n \<Rightarrow> n))"

record status_client =
  sc_cn :: string
  sc_real_address :: string
  sc_vpn_ip :: string
  sc_vpn_ipv6 :: string
  sc_bytes_in :: int
  sc_bytes_out :: int
  sc_connected_since :: int
  sc_username :: string
  sc_cid :: int
  sc_peer_id :: int
  sc_cipher :: string

definition normalise_client :: "strdict \<Rightarrow> status_client" where
  "normalise_client rec =
     \<lparr>sc_cn = get rec ''Common Name'', sc_real_address = get rec ''Real Address'',
      sc_vpn_ip = get rec ''Virtual Address'', sc_vpn_ipv6 = get rec ''Virtual IPv6 Address'',
      sc_bytes_in = int_or_0 (map_of rec ''Bytes Received''),
      sc_bytes_out = int_or_0 (map_of rec ''Bytes Sent''),
      sc_connected_since = int_or_0 (map_of rec ''Connected Since (time_t)''),
      sc_username = get rec ''Username'', sc_cid = int_or_0 (map_of rec ''Client ID''),
      sc_peer_id = int_or_0 (map_of rec ''Peer ID''), sc_cipher = get rec ''Data Channel Cipher''\<rparr>"

text \<open>\<open>dict(pairs)\<close>: a later pair replaces an earlier one.\<close>

definition dict :: "(string \<times> 'v) list \<Rightarrow> (string \<times> 'v) list" where
  "dict kvs = fold (\<lambda>(k, v). AList.update k v) kvs []"

record status_acc =
  sa_headers :: "(string \<times> string list) list"
  sa_clients :: "status_client list"
  sa_time :: "int option"
  sa_stats :: strdict

definition fields_of :: "string \<Rightarrow> string list" where
  "fields_of line = split_on (if CHR 0x09 \<in> set line then CHR 0x09 else CHR '','') line"

definition status_line :: "status_acc \<Rightarrow> string \<Rightarrow> status_acc" where
  "status_line acc line =
     (let parts = fields_of line; tag = hd parts
      in if tag = ''HEADER'' \<and> 2 < length parts
         then acc\<lparr>sa_headers := AList.update (parts ! 1) (drop 2 parts) (sa_headers acc)\<rparr>
         else if tag = ''CLIENT_LIST''
         then let hs = (case map_of (sa_headers acc) ''CLIENT_LIST'' of None \<Rightarrow> [] | Some hs \<Rightarrow> hs)
              in acc\<lparr>sa_clients := sa_clients acc @ [normalise_client (dict (zip hs (tl parts)))]\<rparr>
         else if tag = ''TIME'' \<and> 2 < length parts
         then (case py_int (parts ! 2) of Inl e \<Rightarrow> acc | Inr n \<Rightarrow> acc\<lparr>sa_time := Some n\<rparr>)
         else if tag = ''GLOBAL_STATS'' \<and> 2 < length parts
         then acc\<lparr>sa_stats := AList.update (parts ! 1) (parts ! 2) (sa_stats acc)\<rparr>
         else acc)"

record status =
  stt_time :: int
  stt_clients :: "status_client list"
  stt_stats :: strdict

definition parse_status :: "int \<Rightarrow> string list \<Rightarrow> status" where
  "parse_status now lines =
     (let acc = foldl status_line \<lparr>sa_headers = [], sa_clients = [], sa_time = None, sa_stats = []\<rparr> lines
      in \<lparr>stt_time = (case sa_time acc of None \<Rightarrow> now | Some t \<Rightarrow> if t = 0 then now else t),
          stt_clients = sa_clients acc, stt_stats = sa_stats acc\<rparr>)"

text \<open>
  \<open>read_status_file\<close>: up to three tries; a try sees the age of the file and two reads of it, or an
  \<open>OSError\<close>. It takes the list of what the tries see.
\<close>

datatype file_try = Unreadable | Reads real string string

fun read_status_tries :: "nat \<Rightarrow> int \<Rightarrow> real \<Rightarrow> file_try list \<Rightarrow> status option" where
  "read_status_tries 0 now max_age tries = None"
| "read_status_tries n now max_age [] = None"
| "read_status_tries (Suc n) now max_age (Unreadable # tries) = None"
| "read_status_tries (Suc n) now max_age (Reads age first second # tries) =
     (if max_age < age then None
      else
        let lines = splitlines first
        in if first = second \<and> lines \<noteq> [] \<and> strip (last lines) = ''END'' \<and> startswith (hd lines) ''TITLE''
           then Some (parse_status now lines)
           else read_status_tries n now max_age tries)"

definition read_status_file :: "int \<Rightarrow> real \<Rightarrow> file_try list \<Rightarrow> status option" where
  "read_status_file now max_age tries = read_status_tries 3 now max_age tries"

section \<open>Reading does not depend on how the bytes arrive\<close>

definition all_data :: "(int \<times> recv) list \<Rightarrow> bool" where
  "all_data evs \<longleftrightarrow> list_all (\<lambda>(t, r). case r of Data d \<Rightarrow> d \<noteq> [] | _ \<Rightarrow> False) evs"

definition text_of :: "(int \<times> recv) list \<Rightarrow> string" where
  "text_of evs = concat (map (\<lambda>(t, r). case r of Data d \<Rightarrow> d | _ \<Rightarrow> []) evs)"

text \<open>A connection on which exactly the text \<open>s\<close> is still to come, cut into pieces anywhere.\<close>

definition carries :: "management \<Rightarrow> string \<Rightarrow> bool" where
  "carries m s \<longleftrightarrow>
     (\<exists>sk. mg_sock m = Some sk \<and> sk_sends sk = [] \<and> all_data (sk_in sk) \<and> mg_buf m @ text_of (sk_in sk) = s)"

lemma all_data_Cons [simp]: "all_data ((t, Data d) # evs) \<longleftrightarrow> d \<noteq> [] \<and> all_data evs"
  and text_of_Cons [simp]: "text_of ((t, Data d) # evs) = d @ text_of evs"
  by (simp_all add: all_data_def text_of_def)

lemma readline_loop_spec:
  assumes "all_data evs" "buf @ text_of evs = line @ newline # rest" "newline \<notin> set line"
  shows "\<exists>buf' evs'. readline_loop buf evs = (Inr line, buf', evs') \<and> all_data evs' \<and> buf' @ text_of evs' = rest"
  using assms
proof (induction buf evs rule: readline_loop.induct)
  case (1 buf)
  then show ?case by (simp add: text_of_def)
next
  case (2 buf t r evs)
  then obtain d where r: "r = Data d" "d \<noteq> []" by (cases r) (auto simp: all_data_def)
  show ?case
  proof (cases "newline \<in> set buf")
    case True
    then obtain h u where buf: "buf = h @ newline # u" "newline \<notin> set h" by (metis split_list_first)
    with 2(3,4) have "h = line" "u @ text_of ((t, r) # evs) = rest"
      by (auto simp: append_eq_append_conv2 append_eq_Cons_conv Cons_eq_append_conv)
    with 2(2) buf show ?thesis by simp
  next
    case False
    with 2 r show ?thesis by simp
  qed
qed

definition clean :: "(string \<Rightarrow> string) \<Rightarrow> string \<Rightarrow> string" where
  "clean decode raw = rstrip_by (\<lambda>c. c = CHR 0x0D) (decode raw)"

lemma readline_carries:
  assumes "carries m (raw @ newline # rest)" "newline \<notin> set raw"
  obtains m' where "readline decode m = (Inr (clean decode raw), m')" "carries m' rest" "mg_sent m' = mg_sent m"
proof -
  obtain sk where sk: "mg_sock m = Some sk" "sk_sends sk = []" "all_data (sk_in sk)"
    "mg_buf m @ text_of (sk_in sk) = raw @ newline # rest"
    using assms(1) by (auto simp: carries_def)
  with readline_loop_spec [OF sk(3,4) assms(2)] obtain buf evs
    where "readline_loop (mg_buf m) (sk_in sk) = (Inr raw, buf, evs)" "all_data evs" "buf @ text_of evs = rest"
    by blast
  with sk that show ?thesis by (simp add: readline_def clean_def carries_def)
qed

definition unlines :: "string list \<Rightarrow> string" where
  "unlines ls = concat (map (\<lambda>l. l @ [newline]) ls)"

text \<open>What the client has to make of a response: its lines without the notifications.\<close>

definition visible :: "(string \<Rightarrow> string) \<Rightarrow> string list \<Rightarrow> string list" where
  "visible decode raws = filter (\<lambda>l. \<not> startswith l ''>'') (map (clean decode) raws)"

definition one_line_reply :: "string \<Rightarrow> bool" where
  "one_line_reply l \<longleftrightarrow> startswith l ''SUCCESS:'' \<or> startswith l ''ERROR:''"

lemma read_response_carries:
  assumes "carries m (unlines (raws @ [fin]) @ rest)" "list_all (\<lambda>l. newline \<notin> set l) (raws @ [fin])"
    and "clean decode fin = ''END''" "''END'' \<notin> set (visible decode raws)"
    and "lines \<noteq> [] \<or> visible decode raws = [] \<or> \<not> one_line_reply (hd (visible decode raws))"
  shows "\<exists>m'. read_response decode lines m = (Inr (lines @ visible decode raws), m') \<and> carries m' rest \<and>
           mg_sent m' = mg_sent m"
  using assms
proof (induction raws arbitrary: m lines)
  case Nil
  then obtain m' where "readline decode m = (Inr ''END'', m')" "carries m' rest" "mg_sent m' = mg_sent m"
    using readline_carries [of m fin rest decode] by (auto simp: unlines_def)
  then show ?case by (subst read_response.simps) (simp add: startswith_def visible_def)
next
  case (Cons raw raws)
  let ?l = "clean decode raw"
  obtain m1 where m1: "readline decode m = (Inr ?l, m1)" "carries m1 (unlines (raws @ [fin]) @ rest)" "mg_sent m1 = mg_sent m"
    using readline_carries [of m raw "unlines (raws @ [fin]) @ rest" decode] Cons.prems(1,2)
    by (auto simp: unlines_def)
  have v: "visible decode (raw # raws) = (if startswith ?l ''>'' then [] else [?l]) @ visible decode raws"
    by (simp add: visible_def)
  show ?case
  proof (cases "startswith ?l ''>''")
    case True
    with Cons.IH [OF m1(2), of lines] Cons.prems v m1 show ?thesis
      by (subst read_response.simps) simp
  next
    case False
    with Cons.prems v have "?l \<noteq> ''END''" "\<not> (one_line_reply ?l \<and> lines = [])" by auto
    with Cons.IH [OF m1(2), of "lines @ [?l]"] Cons.prems v m1 False show ?thesis
      by (subst read_response.simps) (auto simp: one_line_reply_def)
  qed
qed

lemma read_response_one_line:
  assumes "carries m (unlines (raws @ [fin]) @ rest)" "list_all (\<lambda>l. newline \<notin> set l) (raws @ [fin])"
    and "visible decode raws = []" "one_line_reply (clean decode fin)"
  shows "\<exists>m'. read_response decode [] m = (Inr [clean decode fin], m') \<and> carries m' rest \<and> mg_sent m' = mg_sent m"
  using assms
proof (induction raws arbitrary: m)
  case Nil
  then obtain m' where "readline decode m = (Inr (clean decode fin), m')" "carries m' rest" "mg_sent m' = mg_sent m"
    using readline_carries [of m fin rest decode] by (auto simp: unlines_def)
  moreover have "clean decode fin \<noteq> ''END''" "\<not> startswith (clean decode fin) ''>''"
    using Nil.prems(4) by (cases "clean decode fin"; auto simp: one_line_reply_def startswith_def)+
  ultimately show ?case using Nil.prems(4) by (subst read_response.simps) (auto simp: one_line_reply_def)
next
  case (Cons raw raws)
  obtain m1 where m1: "readline decode m = (Inr (clean decode raw), m1)" "carries m1 (unlines (raws @ [fin]) @ rest)"
      "mg_sent m1 = mg_sent m"
    using readline_carries [of m raw "unlines (raws @ [fin]) @ rest" decode] Cons.prems(1,2)
    by (auto simp: unlines_def)
  have v: "startswith (clean decode raw) ''>''" "visible decode raws = []"
    using Cons.prems(3) by (auto simp: visible_def split: if_splits)
  with Cons.IH [OF m1(2)] Cons.prems(2,4) m1 show ?case by (subst read_response.simps) simp
qed

text \<open>
  The two forms of a response: lines up to \<open>END\<close>, the first of which is no message of success or error, or
  one such message; \<open>raws\<close> are the lines the server sends, notifications included, and \<open>lines\<close> what the
  response says.
\<close>

definition is_response :: "(string \<Rightarrow> string) \<Rightarrow> string list \<Rightarrow> string list \<Rightarrow> bool" where
  "is_response decode raws lines \<longleftrightarrow> list_all (\<lambda>l. newline \<notin> set l) raws \<and>
     (\<exists>body fin. raws = body @ [fin] \<and>
        (clean decode fin = ''END'' \<and> lines = visible decode body \<and> ''END'' \<notin> set lines \<and>
           (lines = [] \<or> \<not> one_line_reply (hd lines)) \<or>
         one_line_reply (clean decode fin) \<and> visible decode body = [] \<and> lines = [clean decode fin]))"

lemma read_response_reads:
  assumes "is_response decode raws lines" "carries m (unlines raws @ rest)"
  shows "\<exists>m'. read_response decode [] m = (Inr lines, m') \<and> carries m' rest \<and> mg_sent m' = mg_sent m"
proof -
  from assms(1) obtain body fin where r: "raws = body @ [fin]" "list_all (\<lambda>l. newline \<notin> set l) (body @ [fin])"
    and c: "clean decode fin = ''END'' \<and> lines = visible decode body \<and> ''END'' \<notin> set lines \<and>
           (lines = [] \<or> \<not> one_line_reply (hd lines)) \<or>
         one_line_reply (clean decode fin) \<and> visible decode body = [] \<and> lines = [clean decode fin]"
    unfolding is_response_def by blast
  note m = assms(2) [unfolded r(1)]
  from c show ?thesis
  proof (elim disjE conjE)
    assume "clean decode fin = ''END''" "lines = visible decode body" "''END'' \<notin> set lines"
      "lines = []"
    then show ?thesis using read_response_carries [OF m r(2), of decode "[]"] by simp
  next
    assume "clean decode fin = ''END''" "lines = visible decode body" "''END'' \<notin> set lines"
      "\<not> one_line_reply (hd lines)"
    then show ?thesis using read_response_carries [OF m r(2), of decode "[]"] by simp
  next
    assume "one_line_reply (clean decode fin)" "visible decode body = []" "lines = [clean decode fin]"
    then show ?thesis using read_response_one_line [OF m r(2)] by simp
  qed
qed

text \<open>The connection an attempt uses: the open one, or the next one that comes up and passes its greeting.\<close>

definition comes_up ::
  "(string \<Rightarrow> string) \<Rightarrow> string option \<Rightarrow> int \<Rightarrow> sock option list \<Rightarrow> management \<Rightarrow> sock option list \<Rightarrow> management \<Rightarrow> bool" where
  "comes_up decode password now conns m cs m1 \<longleftrightarrow>
     (if connected m then cs = conns \<and> m1 = m else connect decode password now conns m = (Inr (), cs, m1))"

lemma attempt_reads:
  assumes "is_response decode raws lines" "comes_up decode password now conns m cs m1" "carries m1 (unlines raws @ rest)"
  shows "\<exists>m'. attempt_command decode password now cmd conns m = (Inr lines, cs, m') \<and> carries m' rest \<and>
           mg_sent m' = mg_sent m1 @ [cmd @ [newline]]"
proof -
  let ?m2 = "m1\<lparr>mg_sent := mg_sent m1 @ [cmd @ [newline]]\<rparr>"
  have s: "sendall (cmd @ [newline]) m1 = (Inr (), ?m2)" using assms(3) by (auto simp: carries_def sendall_def)
  have "carries ?m2 (unlines raws @ rest)" using assms(3) by (simp add: carries_def)
  from read_response_reads [OF assms(1) this] s assms(2) show ?thesis
    by (auto simp: attempt_command_def comes_up_def split: if_splits)
qed

text \<open>
  C39. A command returns exactly what the server's response says, however the bytes are cut into packets
  and whatever asynchronous notifications stand between the lines: the lines up to \<open>END\<close>, or the one line
  that reports success or an error. It leaves what follows the response for the next command. That holds on
  the open connection, on one that is opened for the command, and, when a first attempt fails with the
  connection, on the one it is repeated on. When the repetition fails as well, the command reports a
  management error and the connection is closed.
\<close>

theorem command_reads_response:
  assumes "(c, m\<^sub>0) = (conns, m) \<or>
    (\<exists>e mf. attempt_command decode password now cmd conns m = (Inl e, c, mf) \<and> recoverable e \<and> m\<^sub>0 = close_mgmt mf)"
  shows "(is_response decode raws lines \<and> comes_up decode password now c m\<^sub>0 cs m\<^sub>1 \<and> carries m\<^sub>1 (unlines raws @ rest) \<longrightarrow>
      (\<exists>m'. command decode password now cmd conns m = (Inr lines, cs, m') \<and> carries m' rest \<and>
         mg_sent m' = mg_sent m\<^sub>1 @ [cmd @ [newline]])) \<and>
    ((\<exists>e mf. attempt_command decode password now cmd conns m = (Inl e, c, mf) \<and> recoverable e \<and> m\<^sub>0 = close_mgmt mf) \<and>
      attempt_command decode password now cmd c m\<^sub>0 = (Inl e\<^sub>2, cs, m\<^sub>2) \<and> recoverable e\<^sub>2 \<longrightarrow>
      (\<exists>text m'. command decode password now cmd conns m = (Inl (ManagementError text), cs, m') \<and> \<not> connected m'))"
proof (intro conjI impI; elim conjE)
  assume "is_response decode raws lines" "comes_up decode password now c m\<^sub>0 cs m\<^sub>1" "carries m\<^sub>1 (unlines raws @ rest)"
  from attempt_reads [OF this] assms show "\<exists>m'. command decode password now cmd conns m = (Inr lines, cs, m') \<and> carries m' rest \<and>
         mg_sent m' = mg_sent m\<^sub>1 @ [cmd @ [newline]]"
    by (force simp: command_def)
next
  assume "\<exists>e mf. attempt_command decode password now cmd conns m = (Inl e, c, mf) \<and> recoverable e \<and> m\<^sub>0 = close_mgmt mf"
    "attempt_command decode password now cmd c m\<^sub>0 = (Inl e\<^sub>2, cs, m\<^sub>2)" "recoverable e\<^sub>2"
  then show "\<exists>text m'. command decode password now cmd conns m = (Inl (ManagementError text), cs, m') \<and> \<not> connected m'"
    by (auto simp: command_def close_mgmt_def connected_def)
qed

text \<open>A connection the server has closed, and the next one, with a greeting, a notification and a response.\<close>

definition demo_closed :: management where
  "demo_closed = Management\<lparr>mg_sock := Some \<lparr>sk_in = [(0, Data [])], sk_sends = []\<rparr>\<rparr>"

definition demo_sock :: sock where
  "demo_sock = \<lparr>sk_in = [(0, Data (''>INFO:hello'' @ [newline])), (0, Data (''>LOG:x'' @ [newline] @ ''SUCC'')),
     (0, Data (''ESS: pid=7'' @ [newline, CHR ''r'']))], sk_sends = []\<rparr>"

definition demo_open :: management where
  "demo_open = Management\<lparr>mg_sock := Some (demo_sock\<lparr>sk_in := tl (sk_in demo_sock)\<rparr>), mg_buf := ''>INFO:hello'' @ [newline],
     mg_sent := [''pid'' @ [newline]], mg_since := Some 0\<rparr>"

theorem command_reads_response_witness:
  "\<exists>m'. command id None 0 ''pid'' [Some demo_sock] demo_closed = (Inr [''SUCCESS: pid=7''], [], m') \<and> carries m' ''r'' \<and>
     mg_sent m' = [''pid'' @ [newline], ''pid'' @ [newline]]"
proof -
  let ?mf = "demo_closed\<lparr>mg_sent := [''pid'' @ [newline]]\<rparr>"
  have f: "attempt_command id None 0 ''pid'' [Some demo_sock] demo_closed =
      (Inl (ManagementError ''management connection closed''), [Some demo_sock],
       ?mf\<lparr>mg_sock := Some \<lparr>sk_in = [], sk_sends = []\<rparr>\<rparr>)"
    by (simp add: attempt_command_def demo_closed_def Management_def connected_def sendall_def read_response.simps readline_def)
  have r: "comes_up id None 0 [Some demo_sock] (close_mgmt (?mf\<lparr>mg_sock := Some \<lparr>sk_in = [], sk_sends = []\<rparr>\<rparr>)) [] demo_open"
    by (simp add: comes_up_def connected_def close_mgmt_def demo_closed_def Management_def connect_def handshake_def demo_open_def
        demo_sock_def PROMPT_def startswith_def newline_def)
  have c: "carries demo_open (unlines [''>INFO:hello'', ''>LOG:x'', ''SUCCESS: pid=7''] @ ''r'')"
    by (simp add: carries_def demo_open_def demo_sock_def Management_def all_data_def text_of_def unlines_def)
  have p: "is_response id [''>INFO:hello'', ''>LOG:x'', ''SUCCESS: pid=7''] [''SUCCESS: pid=7'']"
    unfolding is_response_def
    by (intro conjI exI [of _ "[''>INFO:hello'', ''>LOG:x'']"] exI [of _ "''SUCCESS: pid=7''"])
      (simp_all add: newline_def visible_def clean_def rstrip_by_def startswith_def one_line_reply_def)
  let ?m0 = "close_mgmt (?mf\<lparr>mg_sock := Some \<lparr>sk_in = [], sk_sends = []\<rparr>\<rparr>)"
  have a: "\<exists>e mf. attempt_command id None 0 ''pid'' [Some demo_sock] demo_closed = (Inl e, [Some demo_sock], mf) \<and> recoverable e \<and>
      ?m0 = close_mgmt mf" unfolding f by simp
  have "\<exists>m'. command id None 0 ''pid'' [Some demo_sock] demo_closed = (Inr [''SUCCESS: pid=7''], [], m') \<and> carries m' ''r'' \<and>
     mg_sent m' = mg_sent demo_open @ [''pid'' @ [newline]]"
    using command_reads_response [OF disjI2 [OF a]] p r c by blast
  then show ?thesis by (simp add: demo_open_def)
qed

section \<open>What the client writes\<close>

text \<open>Everything written between two states is in a given set of texts.\<close>

definition writes :: "string set \<Rightarrow> management \<Rightarrow> management \<Rightarrow> bool" where
  "writes S m m' \<longleftrightarrow> (\<exists>ts. mg_sent m' = mg_sent m @ ts \<and> set ts \<subseteq> S)"

lemma writes_refl [simp]: "writes S m m"
  by (simp add: writes_def)

lemma writes_same: "mg_sent m' = mg_sent m \<Longrightarrow> writes S m m'"
  by (simp add: writes_def)

lemma writes_trans: "writes S m m1 \<Longrightarrow> writes S m1 m2 \<Longrightarrow> writes S m m2"
  by (fastforce simp: writes_def)

lemma sent_readline: "mg_sent (snd (readline decode m)) = mg_sent m"
  by (simp add: readline_def split: option.splits prod.splits)

lemma sent_skip_async: "mg_sent (snd (skip_async decode m)) = mg_sent m"
proof (induction decode m rule: skip_async.induct)
  case (1 decode m)
  obtain r m' where rl: "readline decode m = (r, m')" by (cases "readline decode m")
  then have "mg_sent m' = mg_sent m" using sent_readline [of decode m] by simp
  with 1 rl show ?case by (subst skip_async.simps) (auto split: sum.splits)
qed

lemma sent_read_response: "mg_sent (snd (read_response decode lines m)) = mg_sent m"
proof (induction decode lines m rule: read_response.induct)
  case (1 decode lines m)
  obtain r m' where rl: "readline decode m = (r, m')" by (cases "readline decode m")
  then have "mg_sent m' = mg_sent m" using sent_readline [of decode m] by simp
  with 1 rl show ?case by (subst read_response.simps) (auto split: sum.splits)
qed

lemma writes_sendall: "t \<in> S \<Longrightarrow> sendall t m = (r, m') \<Longrightarrow> writes S m m'"
  by (auto simp: sendall_def writes_def Let_def split: option.splits list.splits if_splits)

lemma writes_close [simp]: "writes S m (close_mgmt m') \<longleftrightarrow> writes S m m'"
  by (simp add: close_mgmt_def writes_def)

lemma writes_update [simp]:
  "writes S m (m'\<lparr>mg_since := t\<rparr>) \<longleftrightarrow> writes S m m'"
  "writes S m (m'\<lparr>mg_sock := k\<rparr>) \<longleftrightarrow> writes S m m'"
  "writes S m (m'\<lparr>mg_buf := b\<rparr>) \<longleftrightarrow> writes S m m'"
  "writes S (m\<lparr>mg_sock := k\<rparr>) m' \<longleftrightarrow> writes S m m'"
  "writes S (m\<lparr>mg_buf := b\<rparr>) m' \<longleftrightarrow> writes S m m'"
  "writes S (close_mgmt m) m' \<longleftrightarrow> writes S m m'"
  by (simp_all add: writes_def close_mgmt_def)

lemma writes_password:
  assumes "pw @ [newline] \<in> S" "sendall (pw @ [newline]) m = (r, m3)"
  shows "writes S m m3" and "writes S m (snd (skip_async decode m3))"
proof -
  show w: "writes S m m3" using writes_sendall [OF assms] .
  have "writes S m3 (snd (skip_async decode m3))" by (rule writes_same) (rule sent_skip_async)
  with w show "writes S m (snd (skip_async decode m3))" by (rule writes_trans)
qed

lemma writes_handshake:
  assumes "\<And>pw. password = Some pw \<Longrightarrow> pw @ [newline] \<in> S"
  shows "writes S m (snd (handshake decode password now m))"
proof (cases "mg_sock m")
  case (Some sk)
  obtain g buf evs where g: "greet 0 [] (sk_in sk) = (g, buf, evs)" by (cases "greet 0 [] (sk_in sk)") auto
  let ?m2 = "m\<lparr>mg_sock := Some (sk\<lparr>sk_in := evs\<rparr>), mg_buf := after PROMPT buf\<rparr>"
  show ?thesis
  proof (cases password)
    case None
    with Some g show ?thesis by (auto simp: handshake_def Let_def split: sum.splits)
  next
    case pw: (Some pw)
    obtain r m3 where s: "sendall (pw @ [newline]) ?m2 = (r, m3)" by (cases "sendall (pw @ [newline]) ?m2")
    obtain r4 m4 where k: "skip_async decode m3 = (r4, m4)" by (cases "skip_async decode m3")
    have "writes S ?m2 m3" "writes S ?m2 m4"
      using writes_password [OF assms [OF pw] s] k by (metis, metis snd_conv)
    then have "writes S m m3" "writes S m m4" by simp_all
    with Some g pw s k show ?thesis by (auto simp: handshake_def Let_def split: sum.splits)
  qed
qed (simp add: handshake_def)

lemma writes_connect:
  assumes "\<And>pw. password = Some pw \<Longrightarrow> pw @ [newline] \<in> S"
    and "connect decode password now conns m = (r, cs, m')"
  shows "writes S m m'"
proof (cases conns)
  case (Cons c cs')
  show ?thesis
  proof (cases c)
    case (Some sk)
    have "writes S m (snd (handshake decode password now (m\<lparr>mg_sock := Some sk, mg_buf := []\<rparr>)))"
      using writes_handshake [of password S "m\<lparr>mg_sock := Some sk, mg_buf := []\<rparr>" decode now, OF assms(1)] by simp
    with assms(2) Cons Some show ?thesis by (auto simp: connect_def split: prod.splits)
  qed (use assms(2) Cons in \<open>simp add: connect_def\<close>)
qed (use assms(2) in \<open>simp add: connect_def\<close>)

lemma writes_attempt:
  assumes pw: "\<And>pw. password = Some pw \<Longrightarrow> pw @ [newline] \<in> S" and cmd: "cmd @ [newline] \<in> S"
    and a: "attempt_command decode password now cmd conns m = (r, cs, m')"
  shows "writes S m m'"
proof -
  obtain r1 cs1 m1 where c: "(if connected m then (Inr (), conns, m) else connect decode password now conns m) = (r1, cs1, m1)"
    by (metis prod_cases3)
  then have w1: "writes S m m1" using writes_connect [OF pw] by (auto split: if_splits)
  obtain r2 m2 where s: "sendall (cmd @ [newline]) m1 = (r2, m2)" by (cases "sendall (cmd @ [newline]) m1")
  have w2: "writes S m m2" using writes_trans [OF w1 writes_sendall [OF cmd s]] .
  obtain r3 m3 where k: "read_response decode [] m2 = (r3, m3)" by (cases "read_response decode [] m2")
  then have "writes S m m3" using writes_trans [OF w2 writes_same] sent_read_response [of decode "[]" m2] by simp
  with a c s k w1 w2 show ?thesis by (auto simp: attempt_command_def split: sum.splits)
qed

lemma writes_command:
  assumes pw: "\<And>pw. password = Some pw \<Longrightarrow> pw @ [newline] \<in> S" and cmd: "cmd @ [newline] \<in> S"
    and c: "command decode password now cmd conns m = (r, cs, m')"
  shows "writes S m m'"
proof -
  obtain r1 cs1 m1 where a1: "attempt_command decode password now cmd conns m = (r1, cs1, m1)" by (metis prod_cases3)
  obtain r2 cs2 m2 where a2: "attempt_command decode password now cmd cs1 (close_mgmt m1) = (r2, cs2, m2)"
    by (metis prod_cases3)
  have w1: "writes S m m1" using writes_attempt [OF pw cmd a1] by simp
  have "writes S (close_mgmt m1) m2" using writes_attempt [OF pw cmd a2] by simp
  then have "writes S m m2" using writes_trans [OF w1] by simp
  with w1 a1 a2 c show ?thesis by (auto simp: command_def split: sum.splits if_splits)
qed

text \<open>
  Disconnecting a client by name never smuggles in a second management command: besides the
  password line of a new connection, all it writes is the one line \<open>kill <name>\<close>, and the name is
  a safe one; a name the pattern refuses writes nothing.
\<close>

theorem kill_writes_one_command:
  assumes "kill decode password now name conns m = (r, cs, m')"
  shows "writes ({''kill '' @ name @ [newline]} \<union> (\<lambda>pw. pw @ [newline]) ` set_option password) m m' \<and>
         (m' \<noteq> m \<longrightarrow> safe_name name \<and> newline \<notin> set name)"
proof (cases "re_match NAME_RE name = None")
  case True
  with assms show ?thesis by (auto simp: kill_def)
next
  case False
  let ?S = "{''kill '' @ name @ [newline]} \<union> (\<lambda>pw. pw @ [newline]) ` set_option password"
  obtain r1 where c: "command decode password now (''kill '' @ name) conns m = (r1, cs, m')"
    using assms False by (auto simp: kill_def split: prod.splits)
  have "writes ?S m m'" by (rule writes_command [OF _ _ c]) auto
  moreover have safe: "safe_name name" using NAME_RE_safe False by blast
  moreover have "newline \<notin> set name"
    using safe by (auto simp: safe_name_def list_all_iff newline_def code_def)
  ultimately show ?thesis by simp
qed

definition kill_conn :: management where
  "kill_conn = Management\<lparr>mg_sock := Some \<lparr>sk_in = [(0, Data (''SUCCESS: 1'' @ [newline]))], sk_sends = []\<rparr>\<rparr>"

theorem kill_writes_one_command_witness:
  "\<exists>cs m'. kill id None 0 ''alice'' [] kill_conn = (Inr ''SUCCESS: 1'', cs, m') \<and>
     writes {''kill alice'' @ [newline]} kill_conn m' \<and> safe_name ''alice''"
proof -
  have n: "re_match NAME_RE ''alice'' \<noteq> None"
    unfolding NAME_RE_iff
    by (simp add: is_name_char_def is_alnum_ascii_def is_upper_ascii_def is_lower_ascii_def code_def)
  obtain cs m' where k: "kill id None 0 ''alice'' [] kill_conn = (Inr ''SUCCESS: 1'', cs, m')" "mg_sent m' \<noteq> []"
    using n
    by (simp add: kill_def command_def attempt_command_def connected_def sendall_def kill_conn_def Management_def
        read_response.simps readline_def newline_def startswith_def rstrip_by_def)
  then have "m' \<noteq> kill_conn" by (auto simp: kill_conn_def Management_def)
  with kill_writes_one_command [OF k(1)] k(1) show ?thesis by auto
qed

section \<open>Reading back a status report\<close>

text \<open>The report of \<open>status 3\<close> as OpenVPN writes it: tab-separated, a header naming the columns.\<close>

definition tabbed :: "string list \<Rightarrow> string" where
  "tabbed fs = join [CHR 0x09] fs"

definition COLUMNS :: "string list" where
  "COLUMNS = [''Common Name'', ''Real Address'', ''Virtual Address'', ''Virtual IPv6 Address'', ''Bytes Received'',
     ''Bytes Sent'', ''Connected Since'', ''Connected Since (time_t)'', ''Username'', ''Client ID'', ''Peer ID'',
     ''Data Channel Cipher'']"

lemma COLUMNS_ne: "COLUMNS \<noteq> []"
  by (simp add: COLUMNS_def)

definition client_row :: "string \<Rightarrow> status_client \<Rightarrow> string list" where
  "client_row since c =
     [sc_cn c, sc_real_address c, sc_vpn_ip c, sc_vpn_ipv6 c, dec_int (sc_bytes_in c), dec_int (sc_bytes_out c), since,
      dec_int (sc_connected_since c), sc_username c, dec_int (sc_cid c), dec_int (sc_peer_id c), sc_cipher c]"

definition report :: "string \<Rightarrow> int \<Rightarrow> status_client list \<Rightarrow> string list" where
  "report since t cs =
     [tabbed [''TITLE'', ''OpenVPN''], tabbed [''TIME'', since, dec_int t], tabbed ([''HEADER'', ''CLIENT_LIST''] @ COLUMNS)] @
     map (\<lambda>c. tabbed (''CLIENT_LIST'' # client_row since c)) cs @
     [tabbed [''GLOBAL_STATS'', ''Max bcast/mcast queue length'', ''0''], ''END'']"

definition tab_free :: "string \<Rightarrow> bool" where
  "tab_free s \<longleftrightarrow> CHR 0x09 \<notin> set s"

definition printable_client :: "status_client \<Rightarrow> bool" where
  "printable_client c \<longleftrightarrow>
     list_all tab_free [sc_cn c, sc_real_address c, sc_vpn_ip c, sc_vpn_ipv6 c, sc_username c, sc_cipher c] \<and>
     0 \<le> sc_bytes_in c \<and> 0 \<le> sc_bytes_out c \<and> 0 \<le> sc_connected_since c \<and> 0 \<le> sc_cid c \<and> 0 \<le> sc_peer_id c"

lemma fields_of_tabbed:
  assumes "list_all tab_free fs" "2 \<le> length fs"
  shows "fields_of (tabbed fs) = fs"
proof -
  obtain a b cs where fs: "fs = a # b # cs"
    using assms(2) by (cases fs; cases "tl fs") auto
  have "CHR 0x09 \<in> set (tabbed fs)" by (simp add: fs tabbed_def)
  then show ?thesis
    using assms split_on_join [of fs "CHR 0x09"] by (simp add: fields_of_def tabbed_def tab_free_def [abs_def] fs)
qed

lemma tab_free_dec_int: "0 \<le> i \<Longrightarrow> tab_free (dec_int i)"
  using dec_decimal [of "nat i"] by (auto simp: tab_free_def dec_int_def list_all_iff is_decimal_def code_def)

lemma int_or_0_dec: "0 \<le> i \<Longrightarrow> int_or_0 (Some (dec_int i)) = i"
  by (simp add: int_or_0_def dec_int_def)

lemma normalise_client_row:
  assumes "printable_client c"
  shows "normalise_client (dict (zip COLUMNS (client_row since c))) = c"
  using assms
  by (cases c) (simp add: normalise_client_def dict_def COLUMNS_def client_row_def get_def int_or_0_dec printable_client_def)

lemma status_line_client:
  assumes "printable_client c" "tab_free since" "map_of (sa_headers acc) ''CLIENT_LIST'' = Some COLUMNS"
  shows "status_line acc (tabbed (''CLIENT_LIST'' # client_row since c)) = acc\<lparr>sa_clients := sa_clients acc @ [c]\<rparr>"
proof -
  have "fields_of (tabbed (''CLIENT_LIST'' # client_row since c)) = ''CLIENT_LIST'' # client_row since c"
    using assms(1,2) by (intro fields_of_tabbed) (auto simp: client_row_def printable_client_def tab_free_dec_int, simp add: tab_free_def)
  then show ?thesis using assms(3) normalise_client_row [OF assms(1)] by (simp add: status_line_def Let_def)
qed

lemma status_lines_clients:
  assumes "list_all printable_client cs" "tab_free since" "map_of (sa_headers acc) ''CLIENT_LIST'' = Some COLUMNS"
  shows "foldl status_line acc (map (\<lambda>c. tabbed (''CLIENT_LIST'' # client_row since c)) cs) =
           acc\<lparr>sa_clients := sa_clients acc @ cs\<rparr>"
  using assms by (induction cs arbitrary: acc) (auto simp: status_line_client)

text \<open>
  C40. The status report is read back faithfully: from a report on any number of clients the parser
  recovers the server's time and exactly those clients, in order, with every field.
\<close>

theorem parse_status_report:
  assumes "list_all printable_client cs" "tab_free since" "0 < t"
  shows "stt_clients (parse_status now (report since t cs)) = cs \<and> stt_time (parse_status now (report since t cs)) = t"
proof -
  let ?acc0 = "\<lparr>sa_headers = [], sa_clients = [], sa_time = None, sa_stats = []\<rparr>"
  let ?acc1 = "\<lparr>sa_headers = [(''CLIENT_LIST'', COLUMNS)], sa_clients = [], sa_time = Some t, sa_stats = []\<rparr>"
  have f: "fields_of (tabbed [''TITLE'', ''OpenVPN'']) = [''TITLE'', ''OpenVPN'']"
    "fields_of (tabbed [''TIME'', since, dec_int t]) = [''TIME'', since, dec_int t]"
    "fields_of (tabbed ([''HEADER'', ''CLIENT_LIST''] @ COLUMNS)) = [''HEADER'', ''CLIENT_LIST''] @ COLUMNS"
    "fields_of (tabbed [''GLOBAL_STATS'', ''Max bcast/mcast queue length'', ''0'']) =
       [''GLOBAL_STATS'', ''Max bcast/mcast queue length'', ''0'']"
    using assms(2,3) by (intro fields_of_tabbed; simp add: tab_free_dec_int; simp add: tab_free_def COLUMNS_def)+
  have e: "fields_of ''END'' = [''END'']" by (simp add: fields_of_def)
  have start: "foldl status_line ?acc0 [tabbed [''TITLE'', ''OpenVPN''], tabbed [''TIME'', since, dec_int t],
      tabbed ([''HEADER'', ''CLIENT_LIST''] @ COLUMNS)] = ?acc1"
    using assms(3) f(1-3) COLUMNS_ne by (simp add: status_line_def Let_def dec_int_def)
  have fin: "foldl status_line acc [tabbed [''GLOBAL_STATS'', ''Max bcast/mcast queue length'', ''0''], ''END''] =
      acc\<lparr>sa_stats := AList.update ''Max bcast/mcast queue length'' ''0'' (sa_stats acc)\<rparr>" for acc
    using f(4) e by (simp add: status_line_def Let_def)
  have "foldl status_line ?acc0 (report since t cs) =
      foldl status_line (?acc1\<lparr>sa_clients := cs\<rparr>) [tabbed [''GLOBAL_STATS'', ''Max bcast/mcast queue length'', ''0''], ''END'']"
    using status_lines_clients [OF assms(1,2), of ?acc1] unfolding report_def foldl_append start by simp
  then have "foldl status_line ?acc0 (report since t cs) =
      ?acc1\<lparr>sa_clients := cs, sa_stats := [(''Max bcast/mcast queue length'', ''0'')]\<rparr>"
    unfolding fin by simp
  with assms(3) show ?thesis by (simp add: parse_status_def)
qed

definition demo_client :: status_client where
  "demo_client = \<lparr>sc_cn = ''alice'', sc_real_address = ''203.0.113.5:1194'', sc_vpn_ip = ''10.8.0.2'', sc_vpn_ipv6 = [],
     sc_bytes_in = 120, sc_bytes_out = 7, sc_connected_since = 1700000000, sc_username = ''UNDEF'', sc_cid = 3,
     sc_peer_id = 0, sc_cipher = ''AES-256-GCM''\<rparr>"

theorem parse_status_report_witness:
  "stt_clients (parse_status 0 (report ''today'' 1700000100 [demo_client])) = [demo_client] \<and>
   stt_time (parse_status 0 (report ''today'' 1700000100 [demo_client])) = 1700000100"
  by (rule parse_status_report) (simp_all add: printable_client_def demo_client_def tab_free_def)

end
