(* ===== verification/Pytime.thy ===== *)
theory Pytime
  imports Py_Re
begin

text \<open>
  Dates and times as the program reads them: the calendar, \<open>strptime\<close> for the formats in use, and
  UTC timestamps. Whatever depends on the server's time zone (\<open>time.mktime\<close>) stays a parameter of
  the definitions that need it.
\<close>

section \<open>Calendar\<close>

record datetime =
  dt_year :: int
  dt_month :: int
  dt_day :: int
  dt_hour :: int
  dt_minute :: int
  dt_second :: int

definition is_leap :: "int \<Rightarrow> bool" where
  "is_leap y \<longleftrightarrow> 4 dvd y \<and> (\<not> 100 dvd y \<or> 400 dvd y)"

definition days_in_month :: "int \<Rightarrow> int \<Rightarrow> int" where
  "days_in_month y m =
     (if m = 2 then (if is_leap y then 29 else 28) else if m \<in> {4, 6, 9, 11} then 30 else 31)"

definition days_before_year :: "int \<Rightarrow> int" where
  "days_before_year y = (y - 1) * 365 + (y - 1) div 4 - (y - 1) div 100 + (y - 1) div 400"

definition days_before_month :: "int \<Rightarrow> int \<Rightarrow> int" where
  "days_before_month y m = sum_list (map (\<lambda>k. days_in_month y (int k)) [1..<nat m])"

definition toordinal :: "int \<Rightarrow> int \<Rightarrow> int \<Rightarrow> int" where
  "toordinal y m d = days_before_year y + days_before_month y m + d"

definition valid_date :: "datetime \<Rightarrow> bool" where
  "valid_date t \<longleftrightarrow> 1 \<le> dt_year t \<and> dt_year t \<le> 9999 \<and> 1 \<le> dt_month t \<and> dt_month t \<le> 12 \<and>
     1 \<le> dt_day t \<and> dt_day t \<le> days_in_month (dt_year t) (dt_month t)"

text \<open>\<open>datetime(...).replace(tzinfo=timezone.utc).timestamp()\<close>; 719163 is 1 January 1970.\<close>

definition utc_timestamp :: "datetime \<Rightarrow> int" where
  "utc_timestamp t =
     (toordinal (dt_year t) (dt_month t) (dt_day t) - 719163) * 86400 +
     dt_hour t * 3600 + dt_minute t * 60 + dt_second t"

section \<open>The directives of \<open>strptime\<close>\<close>

text \<open>The patterns of Python's \<open>_strptime\<close>; each directive is a group of its own number.\<close>

definition range :: "char \<Rightarrow> char \<Rightarrow> re" where
  "range a b = Cls (\<lambda>c. code a \<le> code c \<and> code c \<le> code b)"

definition DIG :: re where "DIG = Cls is_decimal"

definition D_Y :: re where "D_Y = Grp 1 (Times 4 DIG)"
definition D_y :: re where "D_y = Grp 1 (Times 2 DIG)"

definition D_m :: re where
  "D_m = Grp 2 (Alt (Seq (Chr CHR ''1'') (range CHR ''0'' CHR ''2''))
               (Alt (Seq (Chr CHR ''0'') (range CHR ''1'' CHR ''9'')) (range CHR ''1'' CHR ''9'')))"

definition D_d :: re where
  "D_d = Grp 3 (Alt (Seq (Chr CHR ''3'') (range CHR ''0'' CHR ''1''))
               (Alt (Seq (range CHR ''1'' CHR ''2'') DIG)
               (Alt (Seq (Chr CHR ''0'') (range CHR ''1'' CHR ''9''))
               (Alt (range CHR ''1'' CHR ''9'') (Seq (Chr CHR '' '') (range CHR ''1'' CHR ''9''))))))"

definition D_H :: re where
  "D_H = Grp 4 (Alt (Seq (Chr CHR ''2'') (range CHR ''0'' CHR ''3''))
               (Alt (Seq (range CHR ''0'' CHR ''1'') DIG) DIG))"

definition D_M :: re where
  "D_M = Grp 5 (Alt (Seq (range CHR ''0'' CHR ''5'') DIG) DIG)"

definition D_S :: re where
  "D_S = Grp 6 (Alt (Seq (Chr CHR ''6'') (range CHR ''0'' CHR ''1''))
               (Alt (Seq (range CHR ''0'' CHR ''5'') DIG) DIG))"

text \<open>A literal letter, without regard to case.\<close>

definition NoCase :: "char \<Rightarrow> re" where
  "NoCase c = Cls (\<lambda>x. lower_char x = lower_char c)"

fun NoCaseLit :: "string \<Rightarrow> re" where
  "NoCaseLit [] = Eps"
| "NoCaseLit (c # cs) = Seq (NoCase c) (NoCaseLit cs)"

text \<open>\<open>%b\<close> in the C locale: the month names, each its own group number to read it back.\<close>

definition MONTHS :: "string list" where
  "MONTHS = [''jan'', ''feb'', ''mar'', ''apr'', ''may'', ''jun'', ''jul'', ''aug'', ''sep'', ''oct'', ''nov'', ''dec'']"

definition D_b :: re where
  "D_b = Grp 2 (foldr (\<lambda>s r. Alt (NoCaseLit s) r) MONTHS (Cls (\<lambda>c. False)))"

definition month_of_name :: "string \<Rightarrow> int" where
  "month_of_name s = int (length (takeWhile (\<lambda>m. m \<noteq> lower s) MONTHS)) + 1"

text \<open>The number a group matched; \<open>int\<close> ignores the blank of \<open>%d\<close>.\<close>

definition num :: "match \<Rightarrow> nat \<Rightarrow> int" where
  "num m n = (case py_int (grp m n) of Inl e \<Rightarrow> 0 | Inr i \<Rightarrow> i)"

text \<open>The first match must end where the text does; otherwise unconverted data remains.\<close>

definition whole_match :: "re \<Rightarrow> string \<Rightarrow> match option" where
  "whole_match fmt s =
     (case re_match fmt s of
        None \<Rightarrow> None
      | Some m \<Rightarrow> if m_after m = [] then Some m else None)"

text \<open>\<open>datetime.strptime\<close>: the text must match, and the date and time must exist.\<close>

definition strptime :: "re \<Rightarrow> (match \<Rightarrow> int) \<Rightarrow> (match \<Rightarrow> int) \<Rightarrow> string \<Rightarrow> datetime result" where
  "strptime fmt year month s =
     (case whole_match fmt s of
        None \<Rightarrow> Inl ValueError
      | Some m \<Rightarrow>
          let t = \<lparr>dt_year = year m, dt_month = month m, dt_day = num m 3,
                   dt_hour = num m 4, dt_minute = num m 5, dt_second = num m 6\<rparr>
          in if valid_date t \<and> dt_second t \<le> 59 then Inr t else Inl ValueError)"

text \<open>Two-digit years: 69 to 99 are of the twentieth century.\<close>

definition year2 :: "match \<Rightarrow> int" where
  "year2 m = (if num m 1 \<le> 68 then num m 1 + 2000 else num m 1 + 1900)"

text \<open>\<open>%y%m%d%H%M%SZ\<close> and \<open>%Y%m%d%H%M%SZ\<close>\<close>

definition asn1_short :: "string \<Rightarrow> datetime result" where
  "asn1_short = strptime (Cat [D_y, D_m, D_d, D_H, D_M, D_S, NoCase CHR ''Z'']) year2 (\<lambda>m. num m 2)"

definition asn1_long :: "string \<Rightarrow> datetime result" where
  "asn1_long = strptime (Cat [D_Y, D_m, D_d, D_H, D_M, D_S, NoCase CHR ''Z'']) (\<lambda>m. num m 1) (\<lambda>m. num m 2)"

text \<open>
  \<open>%b %d %H:%M:%S %Y %Z\<close>; \<open>%Z\<close> accepts \<open>UTC\<close>, \<open>GMT\<close> and the names of the server's own zone,
  which are the parameter \<open>zones\<close>.
\<close>

definition openssl_time :: "string list \<Rightarrow> string \<Rightarrow> datetime result" where
  "openssl_time zones =
     strptime (Cat [D_b, Spaces1, D_d, Spaces1, D_H, Lit '':'', D_M, Lit '':'', D_S, Spaces1, D_Y, Spaces1,
                    foldr (\<lambda>z r. Alt (NoCaseLit z) r) (zones @ [''utc'', ''gmt'']) (Cls (\<lambda>c. False))])
       (\<lambda>m. num m 1) (\<lambda>m. month_of_name (grp m 2))"

text \<open>
  \<open>time.strptime(s, "%Y-%m-%d %H:%M:%S")\<close>, which allows the leap seconds 60 and 61.
\<close>

definition log_time :: "string \<Rightarrow> datetime result" where
  "log_time s =
     (case whole_match (Cat [D_Y, Lit ''-'', D_m, Lit ''-'', D_d, Spaces1, D_H, Lit '':'', D_M, Lit '':'', D_S]) s of
        None \<Rightarrow> Inl ValueError
      | Some m \<Rightarrow>
          let t = \<lparr>dt_year = num m 1, dt_month = num m 2, dt_day = num m 3,
                   dt_hour = num m 4, dt_minute = num m 5, dt_second = num m 6\<rparr>
          in if valid_date t then Inr t else Inl ValueError)"

end
