(* ===== verification/Collector.thy ===== *)
theory Collector
  imports Db Mgmt Pytime "HOL-Library.List_Lexorder"
begin

text \<open>
  The collector of \<open>ui/app/collector.py\<close>: what it reads from the OpenVPN logs, and the poll that
  turns the status report into sessions and traffic. A turn of the thread is a function from the
  collector's state, the management connection and the database to their successors; a database
  failure is the step \<open>collector_error\<close>. \<open>mktime\<close> is the server's local time zone. Publishing to
  the live streams and the thread's life cycle are left out. Rates are exact quotients.
\<close>

section \<open>Log lines\<close>

text \<open>\<open>^(\d{4}-\d\d-\d\d \d\d:\d\d:\d\d) \<close>\<close>

definition TS :: re where
  "TS = Cat [Bol, Grp 1 (Cat [Times 4 DIG, Lit ''-'', DIG, DIG, Lit ''-'', DIG, DIG, Lit '' '', DIG, DIG, Lit '':'',
               DIG, DIG, Lit '':'', DIG, DIG]), Lit '' '']"

definition is_addr_char :: "char \<Rightarrow> bool" where
  "is_addr_char c \<longleftrightarrow> is_decimal c \<or> c \<in> set ''abcdefABCDEF.:''"

definition REJECT_CERT :: re where
  "REJECT_CERT = Cat [TS, Plus (Cls (\<lambda>c. is_word c \<or> c = CHR ''-'')), Lit '':'', Grp 2 (LazyPlus (Cls is_addr_char)),
     Lit '':'', Digits, Lit '' VERIFY ERROR: depth=0, error='', Grp 3 (Plus (NotIn '':'')), Lit '':'', Lazy Dot, WordB,
     Lit ''CN='', Grp 4 (Plus (NotIn '',/''))]"

definition REJECT_KEY :: re where
  "REJECT_KEY = Cat [TS, Lit ''TLS Error: '',
     Alt (Seq (OneOf [''tls-crypt unwrapping'', ''incoming packet authentication'']) (Lit '' failed''))
         (Lit ''could not determine wrapping''),
     Lit '' from [AF_INET'', Opt (Lit ''6''), Lit '']'', Grp 2 (LazyPlus (Cls is_addr_char)), Lit '':'', Digits]"

definition quote :: char where "quote = CHR 0x27"

definition REJECT_2FA :: re where
  "REJECT_2FA = Cat [TS, Lit (''2FA FAIL user='' @ [quote]), Star (NotIn [quote]), Lit ([quote] @ '' cn='' @ [quote]),
     Grp 2 (Star (NotIn [quote])), Lit ([quote] @ '' from='' @ [quote]), Grp 3 (Star (NotIn [quote])),
     Lit ([quote] @ '' reason=''), Grp 4 NonSpaces]"

definition REJECT_ACCESS :: re where
  "REJECT_ACCESS = Cat [TS, Lit (''client-access: refused cn='' @ [quote]), Grp 2 (Star (NotIn [quote])),
     Lit ([quote] @ '' from='' @ [quote]), Grp 3 (Star (NotIn [quote])), Lit ([quote] @ '' reason=''), Grp 4 NonSpaces]"

text \<open>\<open>_REJECTS\<close>: pattern, then (client, reason, source address) of a match.\<close>

definition REJECTS :: "(re \<times> (match \<Rightarrow> string \<times> string \<times> string)) list" where
  "REJECTS =
     [(REJECT_CERT, \<lambda>m. (grp m 4, grp m 3, grp m 2)),
      (REJECT_KEY, \<lambda>m. ([], ''unknown control channel key'', grp m 2)),
      (REJECT_2FA, \<lambda>m. (grp m 2, ''2FA: '' @ replace_char CHR ''-'' '' '' (grp m 4), grp m 3)),
      (REJECT_ACCESS, \<lambda>m. (grp m 2, replace_char CHR ''-'' '' '' (grp m 4), grp m 3))]"

definition line_time :: "(datetime \<Rightarrow> int) \<Rightarrow> match \<Rightarrow> int result" where
  "line_time mktime m = res_bind (log_time (grp m 1)) (\<lambda>t. Inr (mktime t))"

fun first_reject ::
  "(datetime \<Rightarrow> int) \<Rightarrow> (re \<times> (match \<Rightarrow> string \<times> string \<times> string)) list \<Rightarrow> string
    \<Rightarrow> (int \<times> string \<times> string \<times> string) option result" where
  "first_reject mktime [] line = Inr None"
| "first_reject mktime ((rx, flds) # rs) line =
     (case re_match rx line of
        None \<Rightarrow> first_reject mktime rs line
      | Some m \<Rightarrow> res_bind (line_time mktime m) (\<lambda>t. Inr (Some (t, flds m))))"

definition parse_rejection :: "(datetime \<Rightarrow> int) \<Rightarrow> string \<Rightarrow> (int \<times> string \<times> string \<times> string) option result" where
  "parse_rejection mktime line = first_reject mktime REJECTS line"

definition PEER_INFO :: re where
  "PEER_INFO = Cat [TS, Grp 2 (Plus (Cls (\<lambda>c. c \<noteq> CHR ''/'' \<and> \<not> is_space c))), Lit '' peer info: IV_'',
     Grp 3 (OneOf [''PLAT'', ''VER'', ''GUI_VER'']), Lit ''='', Grp 4 (Star (Cls (\<lambda>c. \<not> is_space c)))]"

definition PEER_OPEN :: re where
  "PEER_OPEN = Cat [TS, Grp 2 (Plus (Cls (\<lambda>c. c \<noteq> CHR ''/'' \<and> \<not> is_space c))), Lit '' ['',
     Grp 3 (Plus (NotIn '']'')), Lit ''] Peer Connection Initiated with '']"

definition PEER_END :: re where
  "PEER_END = Cat [TS, Opt (Seq (Grp 2 (Plus (Cls (\<lambda>c. c \<noteq> CHR ''/'' \<and> \<not> is_space c)))) (Lit ''/'')), Grp 3 NonSpaces,
     Lit '' SIG'', Plus (Cls (\<lambda>c. is_upper_ascii c \<or> is_decimal c)), Lit ''['', Plus (Cls is_word), Lit '','',
     Grp 4 (Star (NotIn '']'')), Lit ''] received, client-instance '']"

definition END_REASONS :: "(string \<times> string) list" where
  "END_REASONS =
     [(''delayed-exit'', ''left''), (''remote-exit'', ''left''), (''ping-restart'', ''timed out''),
      (''ovpn-dco: ping expired'', ''timed out''), (''connection-reset'', ''closed''),
      (''ovpn-dco: transport disconnected'', ''closed'')]"

definition PENDING_MAX_AGE :: int where "PENDING_MAX_AGE = 600"

definition end_reason :: "string \<Rightarrow> string" where
  "end_reason s = (case map_of END_REASONS s of Some r \<Rightarrow> r | None \<Rightarrow> if s = [] then ''ended'' else s)"

datatype conn_event =
    Info int string string string
  | Opened int string string
  | Ended int string "string option" string

definition parse_connection :: "(datetime \<Rightarrow> int) \<Rightarrow> string \<Rightarrow> conn_event option result" where
  "parse_connection mktime line =
     (case re_match PEER_INFO line of
        Some m \<Rightarrow> res_bind (line_time mktime m) (\<lambda>t. Inr (Some (Info t (grp m 2) (grp m 3) (grp m 4))))
      | None \<Rightarrow>
     (case re_match PEER_OPEN line of
        Some m \<Rightarrow> res_bind (line_time mktime m) (\<lambda>t. Inr (Some (Opened t (grp m 2) (grp m 3))))
      | None \<Rightarrow>
     (case re_match PEER_END line of
        Some m \<Rightarrow> res_bind (line_time mktime m) (\<lambda>t. Inr (Some (Ended t (grp m 3) (group m 2) (end_reason (grp m 4)))))
      | None \<Rightarrow> Inr None)))"

section \<open>State\<close>

record entry =
  en_session_id :: int
  en_bytes_in :: int
  en_bytes_out :: int
  en_ts :: int
  en_rate_in :: rat
  en_rate_out :: rat

text \<open>A handshake seen in the log: \<open>{"ts", "cn", "PLAT", ...}\<close>.\<close>

record peer =
  pe_ts :: int
  pe_cn :: "string option"
  pe_fields :: strdict

record live_client =
  lc_client :: status_client
  lc_session_id :: int
  lc_rate_in :: rat
  lc_rate_out :: rat

record live =
  lv_connected :: bool
  lv_error :: "string option"
  lv_version :: "string option"
  lv_server_time :: "int option"
  lv_updated_at :: "int option"
  lv_connected_since :: "int option"
  lv_clients :: "live_client list"
  lv_load :: "(string \<times> int) list"
  lv_stats :: strdict
  lv_rate_in :: rat
  lv_rate_out :: rat

type_synonym conn_key = "int \<times> int \<times> string"

record collector =
  co_active :: "(conn_key \<times> entry) list"
  co_pending :: "(string \<times> peer) list"
  co_resync :: bool
  co_status_time :: "int option"
  co_live :: live

definition new_collector :: collector where
  "new_collector =
     \<lparr>co_active = [], co_pending = [], co_resync = False, co_status_time = None,
      co_live = \<lparr>lv_connected = False, lv_error = None, lv_version = None, lv_server_time = None,
                 lv_updated_at = None, lv_connected_since = None, lv_clients = [], lv_load = [], lv_stats = [],
                 lv_rate_in = 0, lv_rate_out = 0\<rparr>\<rparr>"

section \<open>Reading the logs\<close>

definition set_device :: "int \<Rightarrow> string \<Rightarrow> peer \<Rightarrow> database \<Rightarrow> database" where
  "set_device session_id address peer db =
     update_session session_id
       (\<lambda>s. s\<lparr>vs_platform := map_of (pe_fields peer) ''PLAT'',
              vs_client_ver := (case map_of (pe_fields peer) ''GUI_VER'' of
                                  Some v \<Rightarrow> if v = [] then map_of (pe_fields peer) ''VER'' else Some v
                                | None \<Rightarrow> map_of (pe_fields peer) ''VER''),
              vs_proto := (case fst (split_address address) of Some p \<Rightarrow> Some p | None \<Rightarrow> vs_proto s)\<rparr>) db"

definition pending_peer :: "(string \<times> peer) list \<Rightarrow> string \<Rightarrow> int \<Rightarrow> peer" where
  "pending_peer pending address ts =
     (case map_of pending address of Some p \<Rightarrow> p | None \<Rightarrow> \<lparr>pe_ts = ts, pe_cn = None, pe_fields = []\<rparr>)"

text \<open>The end of a connection: describe its session, or record one the poll never saw.\<close>

definition connection_ended ::
  "int \<Rightarrow> string \<Rightarrow> string \<Rightarrow> string \<Rightarrow> peer option \<Rightarrow> database \<Rightarrow> database" where
  "connection_ended ts address cn reason peer db =
     (case latest_session cn address (case peer of Some p \<Rightarrow> pe_ts p - 30 | None \<Rightarrow> 0) db of
        Some row \<Rightarrow>
          let db1 = update_session (vs_id row) (\<lambda>s. s\<lparr>vs_end_reason := Some reason\<rparr>) db
          in (case peer of Some p \<Rightarrow> set_device (vs_id row) address p db1 | None \<Rightarrow> db1)
      | None \<Rightarrow>
          (case peer of
             Some p \<Rightarrow>
               if pe_cn p = Some cn then
                 (case insert_session cn address (pe_ts p)
                         (no_fields\<lparr>f_last_seen := Some ts, f_disconnected_at := Some ts, f_end_reason := Some reason\<rparr>) db of
                    (sid, db1) \<Rightarrow> set_device sid address p db1)
               else db
           | None \<Rightarrow> db))"

fun connection_line :: "conn_event \<Rightarrow> (string \<times> peer) list \<times> database \<Rightarrow> (string \<times> peer) list \<times> database" where
  "connection_line (Info ts address k v) (pending, db) =
     (let p = pending_peer pending address ts
      in (AList.update address (p\<lparr>pe_fields := AList.update k v (pe_fields p)\<rparr>) pending, db))"
| "connection_line (Opened ts address cn) (pending, db) =
     (let p = pending_peer pending address ts
      in (AList.update address (p\<lparr>pe_ts := ts, pe_cn := Some cn\<rparr>) pending, db))"
| "connection_line (Ended ts address cn reason) (pending, db) =
     (AList.delete address pending,
      case cn of
        None \<Rightarrow> db
      | Some name \<Rightarrow> connection_ended ts address name reason (map_of pending address) db)"

text \<open>The lines of one file: an exception leaves the handshakes seen so far, and no database change.\<close>

fun log_lines ::
  "(datetime \<Rightarrow> int) \<Rightarrow> string list \<Rightarrow> (string \<times> peer) list \<times> database
    \<Rightarrow> unit result \<times> (string \<times> peer) list \<times> database" where
  "log_lines mktime [] st = (Inr (), st)"
| "log_lines mktime (line # ls) (pending, db) =
     (case parse_rejection mktime line of
        Inl e \<Rightarrow> (Inl e, pending, db)
      | Inr (Some (t, client, reason, address)) \<Rightarrow>
          log_lines mktime ls (pending, add_rejection t client reason address db)
      | Inr None \<Rightarrow>
          (case parse_connection mktime line of
             Inl e \<Rightarrow> (Inl e, pending, db)
           | Inr None \<Rightarrow> log_lines mktime ls (pending, db)
           | Inr (Some ev) \<Rightarrow> log_lines mktime ls (connection_line ev (pending, db))))"

text \<open>A log as one look finds it: absent, or its inode, its size and what reading it yields.\<close>

record log_file =
  lf_inode :: int
  lf_size :: int
  lf_content :: string

definition log_key :: "string \<Rightarrow> string" where
  "log_key name = ''logpos:'' @ name"

text \<open>The stored position, 0 for a new or rotated file; \<open>None\<close> where the code raises and goes on.\<close>

definition log_position :: "string \<Rightarrow> log_file \<Rightarrow> database \<Rightarrow> nat option" where
  "log_position name f db =
     (let saved = (case get_setting db (log_key name) of Some (Text s) \<Rightarrow> if s = [] then ''0:0'' else s | _ \<Rightarrow> ''0:0'')
      in case partition_on CHR '':'' saved of
           (inode, sep, offset) \<Rightarrow>
             (case (py_int inode, py_int offset) of
                (Inr i, Inr off) \<Rightarrow>
                  let pos = (if i = lf_inode f \<and> off \<le> lf_size f then off else 0)
                  in if pos < 0 then None else Some (nat pos)
              | (Inr i, Inl e) \<Rightarrow> if i = lf_inode f then None else Some 0
              | _ \<Rightarrow> None))"

text \<open>The whole lines among the bytes read: up to and with the last newline.\<close>

definition whole_lines :: "string \<Rightarrow> string" where
  "whole_lines data = rev (dropWhile (\<lambda>c. c \<noteq> newline) (rev data))"

definition MAX_BYTES :: nat where "MAX_BYTES = 4 * 2 ^ 20"

definition read_log ::
  "(datetime \<Rightarrow> int) \<Rightarrow> (string \<Rightarrow> string) \<Rightarrow> string \<Rightarrow> log_file option \<Rightarrow> (string \<times> peer) list \<times> database
    \<Rightarrow> unit result \<times> (string \<times> peer) list \<times> database" where
  "read_log mktime decode name file st =
     (case file of
        None \<Rightarrow> (Inr (), st)
      | Some f \<Rightarrow>
          (case log_position name f (snd st) of
             None \<Rightarrow> (Inr (), st)
           | Some pos \<Rightarrow>
               let data = take MAX_BYTES (drop pos (lf_content f)); whole = whole_lines data
               in if whole = [] then (Inr (), st)
                  else
                    (case log_lines mktime (splitlines (decode whole)) st of
                       (Inl e, pending, db) \<Rightarrow> (Inl e, pending, snd st)
                     | (Inr u, pending, db) \<Rightarrow>
                         (Inr (), pending,
                          set_setting (log_key name)
                            (Text (dec_int (lf_inode f) @ '':'' @ dec (pos + length whole))) db))))"

fun read_files ::
  "(datetime \<Rightarrow> int) \<Rightarrow> (string \<Rightarrow> string) \<Rightarrow> (string \<times> log_file option) list \<Rightarrow> (string \<times> peer) list \<times> database
    \<Rightarrow> unit result \<times> (string \<times> peer) list \<times> database" where
  "read_files mktime decode [] st = (Inr (), st)"
| "read_files mktime decode ((name, file) # files) st =
     (case read_log mktime decode name file st of
        (Inl e, st') \<Rightarrow> (Inl e, st')
      | (Inr u, st') \<Rightarrow> read_files mktime decode files st')"

definition describe_session :: "real \<Rightarrow> string \<times> peer \<Rightarrow> (string \<times> peer) list \<times> database \<Rightarrow> (string \<times> peer) list \<times> database" where
  "describe_session now ap st =
     (case (ap, st) of
        ((address, p), (pending, db)) \<Rightarrow>
          (case (case pe_cn p of None \<Rightarrow> None | Some cn \<Rightarrow> latest_session cn address (pe_ts p - 30) db) of
             Some row \<Rightarrow> (AList.delete address pending, set_device (vs_id row) address p db)
           | None \<Rightarrow> (if real_of_int PENDING_MAX_AGE < now - real_of_int (pe_ts p) then AList.delete address pending else pending, db)))"

definition describe_sessions :: "real \<Rightarrow> (string \<times> peer) list \<times> database \<Rightarrow> (string \<times> peer) list \<times> database" where
  "describe_sessions now st = fold (describe_session now) (fst st) st"

definition read_logs ::
  "(datetime \<Rightarrow> int) \<Rightarrow> (string \<Rightarrow> string) \<Rightarrow> real \<Rightarrow> (string \<times> log_file option) list \<Rightarrow> collector \<Rightarrow> database
    \<Rightarrow> unit result \<times> collector \<times> database" where
  "read_logs mktime decode now files co db =
     (case read_files mktime decode files (co_pending co, db) of
        (Inl e, pending, db1) \<Rightarrow> (Inl e, co\<lparr>co_pending := pending\<rparr>, db1)
      | (Inr u, st) \<Rightarrow>
          (case describe_sessions now st of (pending, db1) \<Rightarrow> (Inr (), co\<lparr>co_pending := pending\<rparr>, db1)))"

section \<open>The poll\<close>

text \<open>A client that has got past the handshake.\<close>

definition listed :: "status_client \<Rightarrow> bool" where
  "listed cl \<longleftrightarrow> sc_cn cl \<noteq> [] \<and> sc_cn cl \<noteq> ''UNDEF'' \<and> sc_vpn_ip cl \<noteq> []"

definition key_of :: "status_client \<Rightarrow> conn_key" where
  "key_of cl = (sc_cid cl, sc_connected_since cl, sc_cn cl)"

text \<open>A connection the collector does not know yet: reopen its row, or insert one.\<close>

definition start_entry :: "int \<Rightarrow> int \<Rightarrow> status_client \<Rightarrow> database \<Rightarrow> entry \<times> (int \<times> int) \<times> database" where
  "start_entry now server_now cl db =
     (let connected_at = (if sc_connected_since cl = 0 then now else sc_connected_since cl)
      in case find_session (sc_cn cl) (sc_cid cl) connected_at db of
           Some prev \<Rightarrow>
             (\<lparr>en_session_id = vs_id prev, en_bytes_in = sc_bytes_in cl, en_bytes_out = sc_bytes_out cl, en_ts = server_now,
               en_rate_in = 0, en_rate_out = 0\<rparr>,
              (max (sc_bytes_in cl - vs_bytes_in prev) 0, max (sc_bytes_out cl - vs_bytes_out prev) 0),
              update_session (vs_id prev)
                (\<lambda>s. s\<lparr>vs_disconnected_at := None, vs_last_seen := now, vs_bytes_in := sc_bytes_in cl,
                       vs_bytes_out := sc_bytes_out cl\<rparr>) db)
         | None \<Rightarrow>
             (case insert_session (sc_cn cl) (sc_real_address cl) connected_at
                     (no_fields\<lparr>f_cid := Some (sc_cid cl), f_vpn_ip := Some (sc_vpn_ip cl),
                                f_username := Some (sc_username cl), f_cipher := Some (sc_cipher cl),
                                f_last_seen := Some now, f_bytes_in := sc_bytes_in cl, f_bytes_out := sc_bytes_out cl\<rparr>) db of
                (sid, db1) \<Rightarrow>
                  (\<lparr>en_session_id = sid, en_bytes_in = sc_bytes_in cl, en_bytes_out = sc_bytes_out cl, en_ts = server_now,
                    en_rate_in = 0, en_rate_out = 0\<rparr>,
                   (sc_bytes_in cl, sc_bytes_out cl), db1)))"

text \<open>Bytes since the last poll; a counter that went back has started over.\<close>

definition delta :: "int \<Rightarrow> int \<Rightarrow> int" where
  "delta new old = (if new - old < 0 then new else new - old)"

definition update_entry :: "int \<Rightarrow> int \<Rightarrow> status_client \<Rightarrow> entry \<Rightarrow> database \<Rightarrow> entry \<times> (int \<times> int) \<times> database" where
  "update_entry now server_now cl e db =
     (let d_in = delta (sc_bytes_in cl) (en_bytes_in e); d_out = delta (sc_bytes_out cl) (en_bytes_out e);
          dt = max (server_now - en_ts e) 1
      in (e\<lparr>en_bytes_in := sc_bytes_in cl, en_bytes_out := sc_bytes_out cl, en_ts := server_now,
            en_rate_in := of_int d_in / of_int dt, en_rate_out := of_int d_out / of_int dt\<rparr>,
          (d_in, d_out),
          update_session (en_session_id e)
            (\<lambda>s. s\<lparr>vs_last_seen := now, vs_bytes_in := sc_bytes_in cl, vs_bytes_out := sc_bytes_out cl,
                   vs_vpn_ip := (if sc_vpn_ip cl \<noteq> [] then Some (sc_vpn_ip cl) else vs_vpn_ip s),
                   vs_cipher := (if sc_cipher cl \<noteq> [] then Some (sc_cipher cl) else vs_cipher s)\<rparr>) db))"

definition live_of :: "status_client \<Rightarrow> entry \<Rightarrow> live_client" where
  "live_of cl e = \<lparr>lc_client = cl, lc_session_id = en_session_id e, lc_rate_in = en_rate_in e, lc_rate_out = en_rate_out e\<rparr>"

text \<open>One turn of the loop over the status report: the active connections, the live list, the database.\<close>

definition poll_client ::
  "int \<Rightarrow> int \<Rightarrow> status_client \<Rightarrow> (conn_key \<times> entry) list \<times> live_client list \<times> database
    \<Rightarrow> (conn_key \<times> entry) list \<times> live_client list \<times> database" where
  "poll_client now server_now cl st =
     (case st of (active, lives, db) \<Rightarrow>
        if \<not> listed cl then st
        else
          case (case map_of active (key_of cl) of
                  None \<Rightarrow> start_entry now server_now cl db
                | Some e \<Rightarrow> update_entry now server_now cl e db) of
            (e, (d_in, d_out), db1) \<Rightarrow>
              (AList.update (key_of cl) e active, lives @ [live_of cl e],
               add_traffic (now - now mod 60) (sc_cn cl) d_in d_out db1))"

definition close_session :: "int \<Rightarrow> string option \<Rightarrow> entry \<Rightarrow> database \<Rightarrow> database" where
  "close_session now reason e db =
     update_session (en_session_id e)
       (\<lambda>s. if vs_disconnected_at s = None
            then s\<lparr>vs_disconnected_at := Some now,
                   vs_end_reason := (case vs_end_reason s of Some r \<Rightarrow> Some r | None \<Rightarrow> reason)\<rparr>
            else s) db"

text \<open>\<open>_close_sessions\<close> for the keys of \<open>_active\<close> that satisfy a condition.\<close>

definition close_sessions ::
  "int \<Rightarrow> string option \<Rightarrow> (conn_key \<Rightarrow> bool) \<Rightarrow> (conn_key \<times> entry) list \<times> database \<Rightarrow> (conn_key \<times> entry) list \<times> database" where
  "close_sessions now reason gone st =
     (case st of (active, db) \<Rightarrow>
        (filter (\<lambda>(k, e). \<not> gone k) active,
         fold (\<lambda>(k, e). close_session now reason e) (filter (\<lambda>(k, e). gone k) active) db))"

text \<open>
  After a lost \<open>_active\<close>: sessions that ended meanwhile. Without a live session the statement ends in
  \<open>NOT IN ()\<close>, which PostgreSQL refuses as a syntax error.
\<close>

definition resync_sessions :: "(conn_key \<times> entry) list \<Rightarrow> database \<Rightarrow> database result" where
  "resync_sessions active db =
     (if active = [] then Inl DatabaseError
      else Inr (db\<lparr>vpn_sessions :=
          map (\<lambda>s. if vs_disconnected_at s = None \<and> vs_id s \<notin> (\<lambda>(k, e). en_session_id e) ` set active
                   then s\<lparr>vs_disconnected_at := Some (vs_last_seen s)\<rparr> else s) (vpn_sessions db)\<rparr>))"

text \<open>The transaction of a poll, with what it leaves in \<open>_active\<close> also when it raises.\<close>

definition poll_tx ::
  "int \<Rightarrow> status \<Rightarrow> bool \<Rightarrow> (conn_key \<times> entry) list \<Rightarrow> database
    \<Rightarrow> (conn_key \<times> entry) list \<times> live_client list \<times> database result" where
  "poll_tx now status resync active db =
     (case fold (poll_client now (stt_time status)) (stt_clients status) (active, [], db) of
        (active1, lives, db1) \<Rightarrow>
          (case close_sessions now None
                  (\<lambda>k. k \<notin> key_of ` set (filter listed (stt_clients status))) (active1, db1) of
             (active2, db2) \<Rightarrow>
               (active2, lives, if resync then resync_sessions active2 db2 else Inr db2)))"

text \<open>\<open>_status\<close>: the status file when it is fresh, else the management interface.\<close>

definition status_report ::
  "(string \<Rightarrow> string) \<Rightarrow> string option \<Rightarrow> int \<Rightarrow> (file_try list \<times> int) option \<Rightarrow> sock option list \<Rightarrow> management
    \<Rightarrow> (bool \<times> status) result \<times> sock option list \<times> management" where
  "status_report decode password now file conns m =
     (case (case file of None \<Rightarrow> None | Some (tries, every) \<Rightarrow> read_status_file now (3 * of_int every + 5) tries) of
        Some st \<Rightarrow> (Inr (True, st), conns, m)
      | None \<Rightarrow>
          (case command decode password now ''status 3'' conns m of
             (r, cs, m') \<Rightarrow> (res_bind r (\<lambda>lines. Inr (False, parse_status now lines)), cs, m')))"

text \<open>The version is asked for on a new connection; a management error leaves it unknown.\<close>

definition poll_version ::
  "(string \<Rightarrow> string) \<Rightarrow> string option \<Rightarrow> int \<Rightarrow> bool \<Rightarrow> string option \<Rightarrow> sock option list \<Rightarrow> management
    \<Rightarrow> string option result \<times> sock option list \<times> management" where
  "poll_version decode password now was_connected known conns m =
     (if \<not> was_connected \<or> known = None \<or> known = Some [] then
        (case version decode password now conns m of
           (Inr v, cs, m') \<Rightarrow> (Inr (Some v), cs, m')
         | (Inl (ManagementError e), cs, m') \<Rightarrow> (Inr None, cs, m')
         | (Inl e, cs, m') \<Rightarrow> (Inl e, cs, m'))
      else (Inr known, conns, m))"

definition sort_lives :: "live_client list \<Rightarrow> live_client list" where
  "sort_lives ls = sort_key (\<lambda>l. (sc_cn (lc_client l), sc_connected_since (lc_client l))) ls"

definition poll_result ::
  "int \<Rightarrow> (string \<times> int) list \<Rightarrow> string option \<Rightarrow> int option \<Rightarrow> bool \<times> status \<Rightarrow> collector \<Rightarrow> database
    \<Rightarrow> unit result \<times> collector \<times> database" where
  "poll_result now load vers since st co db =
     (case st of (from_file, status) \<Rightarrow>
        if from_file \<and> co_status_time co = Some (stt_time status) \<and> lv_connected (co_live co)
        then (Inr (), co\<lparr>co_live := (co_live co)\<lparr>lv_load := load, lv_updated_at := Some now\<rparr>\<rparr>, db)
        else
          case poll_tx now status (co_resync co) (co_active co) db of
            (active, lives, Inl e) \<Rightarrow> (Inl e, co\<lparr>co_active := active, co_status_time := Some (stt_time status)\<rparr>, db)
          | (active, lives, Inr db') \<Rightarrow>
              (Inr (), co\<lparr>co_active := active, co_resync := False, co_status_time := Some (stt_time status),
                  co_live :=
                    \<lparr>lv_connected = True, lv_error = None, lv_version = vers, lv_server_time = Some (stt_time status),
                     lv_updated_at = Some now, lv_connected_since = since, lv_clients = sort_lives lives, lv_load = load,
                     lv_stats = stt_stats status, lv_rate_in = sum_list (map lc_rate_in lives),
                     lv_rate_out = sum_list (map lc_rate_out lives)\<rparr>\<rparr>, db'))"

definition poll ::
  "(string \<Rightarrow> string) \<Rightarrow> string option \<Rightarrow> int \<Rightarrow> (file_try list \<times> int) option \<Rightarrow> sock option list \<Rightarrow> management
    \<Rightarrow> collector \<Rightarrow> database \<Rightarrow> unit result \<times> sock option list \<times> management \<times> collector \<times> database" where
  "poll decode password now file conns m co db =
     (case load_stats decode password now conns m of
        (Inl e, c1, m1) \<Rightarrow> (Inl e, c1, m1, co, db)
      | (Inr load, c1, m1) \<Rightarrow>
     (case poll_version decode password now (connected m) (lv_version (co_live co)) c1 m1 of
        (Inl e, c2, m2) \<Rightarrow> (Inl e, c2, m2, co, db)
      | (Inr v, c2, m2) \<Rightarrow>
     (case status_report decode password now file c2 m2 of
        (Inl e, c3, m3) \<Rightarrow> (Inl e, c3, m3, co, db)
      | (Inr st, c3, m3) \<Rightarrow>
          (case poll_result now load v (mg_since m3) st co db of (r, co', db') \<Rightarrow> (r, c3, m3, co', db')))))"

text \<open>The management interface is gone: every session it had ends now.\<close>

definition handle_down :: "int \<Rightarrow> string \<Rightarrow> collector \<Rightarrow> database \<Rightarrow> collector \<times> database" where
  "handle_down now error co db =
     (case close_sessions now (Some ''server down'') (\<lambda>k. True) (co_active co, db) of
        (active, db') \<Rightarrow>
          (co\<lparr>co_active := active, co_status_time := None,
              co_live := (co_live co)\<lparr>lv_connected := False, lv_error := Some error, lv_clients := [], lv_load := [],
                                     lv_rate_in := 0, lv_rate_out := 0, lv_updated_at := Some now,
                                     lv_connected_since := None\<rparr>\<rparr>, db'))"

text \<open>Any other exception: the transaction was rolled back, and the memory of it is dropped.\<close>

definition collector_error :: "collector \<Rightarrow> collector" where
  "collector_error co = co\<lparr>co_active := [], co_status_time := None, co_resync := True\<rparr>"

text \<open>One turn of \<open>run\<close> up to the log reading, with the next pause and back-off.\<close>

definition turn ::
  "(string \<Rightarrow> string) \<Rightarrow> string option \<Rightarrow> int \<Rightarrow> (file_try list \<times> int) option \<Rightarrow> rat \<Rightarrow> rat \<Rightarrow> sock option list \<Rightarrow> management
    \<Rightarrow> collector \<Rightarrow> database \<Rightarrow> (rat \<times> rat) \<times> sock option list \<times> management \<times> collector \<times> database" where
  "turn decode password now file interval backoff conns m co db =
     (case poll decode password now file conns m co db of
        (Inr u, cs, m', co', db') \<Rightarrow> ((interval, 2), cs, m', co', db')
      | (Inl e, cs, m', co', db') \<Rightarrow>
          if recoverable e then
            (case handle_down now (error_text e) co' db' of
               (co2, db2) \<Rightarrow> ((backoff, min (backoff * 3 / 2) 15), cs, m', co2, db2))
          else ((interval, backoff), cs, m', collector_error co', db))"

end
