(* ===== verification/Ledger.thy ===== *)
theory Ledger
  imports Collector
begin

text \<open>
  The collector's bookkeeping. For every client the bytes of its session rows and the bytes of its
  traffic buckets are kept apart and updated by different statements; here they are shown to stay
  in step through polls, outages, lost memory, restarts, log reading and roll-ups.
\<close>

section \<open>The two books\<close>

definition bytes_of :: "(vpn_session \<Rightarrow> int) \<Rightarrow> string \<Rightarrow> database \<Rightarrow> int" where
  "bytes_of f c db = (\<Sum>s\<leftarrow>vpn_sessions db. if vs_client_name s = c then f s else 0)"

definition counted :: "string \<Rightarrow> database \<Rightarrow> int \<times> int" where
  "counted c db = all_traffic (\<lambda>k. snd k = c) db"

definition gap_in :: "string \<Rightarrow> database \<Rightarrow> int" where
  "gap_in c db = fst (counted c db) - bytes_of vs_bytes_in c db"

definition gap_out :: "string \<Rightarrow> database \<Rightarrow> int" where
  "gap_out c db = snd (counted c db) - bytes_of vs_bytes_out c db"

text \<open>An active connection and its row.\<close>

definition linked_row :: "conn_key \<Rightarrow> entry \<Rightarrow> vpn_session \<Rightarrow> bool" where
  "linked_row k e s \<longleftrightarrow> vs_id s = en_session_id e \<and> (case k of (cid, since, cn) \<Rightarrow>
     vs_cid s = Some cid \<and> vs_connected_at s = since \<and> vs_client_name s = cn) \<and>
     vs_bytes_in s = en_bytes_in e \<and> vs_bytes_out s = en_bytes_out e"

definition linked :: "database \<Rightarrow> conn_key \<Rightarrow> entry \<Rightarrow> bool" where
  "linked db k e \<longleftrightarrow> (\<exists>s \<in> set (vpn_sessions db). linked_row k e s)"

definition active_ok :: "(conn_key \<times> entry) list \<Rightarrow> database \<Rightarrow> bool" where
  "active_ok active db \<longleftrightarrow> keys_distinct active \<and> list_all (\<lambda>(k, e). linked db k e) active"

definition books_ok :: "(conn_key \<times> entry) list \<Rightarrow> database \<Rightarrow> bool" where
  "books_ok active db \<longleftrightarrow> sessions_inv db \<and> traffic_inv db \<and> active_ok active db"

text \<open>What an update of a row must keep for the links to survive.\<close>

definition keeps_link :: "(vpn_session \<Rightarrow> vpn_session) \<Rightarrow> bool" where
  "keeps_link g \<longleftrightarrow> keeps_peer g \<and> (\<forall>s. vs_cid (g s) = vs_cid s \<and> vs_connected_at (g s) = vs_connected_at s)"

definition keeps_bytes :: "(vpn_session \<Rightarrow> vpn_session) \<Rightarrow> bool" where
  "keeps_bytes g \<longleftrightarrow> (\<forall>s. vs_bytes_in (g s) = vs_bytes_in s \<and> vs_bytes_out (g s) = vs_bytes_out s)"

lemma traffic_update_session [simp]:
  "traffic_inv (update_session i g db) = traffic_inv db" "counted c (update_session i g db) = counted c db"
  by (simp_all add: update_session_def traffic_inv_def counted_def all_traffic_def)

lemma ids_distinct: "sessions_inv db \<Longrightarrow> s \<in> set (vpn_sessions db) \<Longrightarrow> t \<in> set (vpn_sessions db) \<Longrightarrow> vs_id s = vs_id t \<Longrightarrow> s = t"
  by (auto simp: sessions_inv_def distinct_map inj_on_def)

lemma linked_other_id:
  assumes "sessions_inv db" "linked db k e" "s \<in> set (vpn_sessions db)" "linked_row k' e' s" "k \<noteq> k'"
  shows "en_session_id e \<noteq> vs_id s"
proof
  assume i: "en_session_id e = vs_id s"
  obtain t where t: "t \<in> set (vpn_sessions db)" "linked_row k e t" using assms(2) by (auto simp: linked_def)
  with i have "t = s" using ids_distinct [OF assms(1) t(1) assms(3)] by (simp add: linked_row_def)
  with t assms(4,5) show False by (cases k; cases k') (auto simp: linked_row_def)
qed

lemma linked_update_other:
  "linked db k e \<Longrightarrow> en_session_id e \<noteq> i \<Longrightarrow> linked (update_session i g db) k e"
  by (force simp: linked_def linked_row_def update_session_def)

lemma linked_update_keep:
  assumes "linked db k e" "keeps_link g" "keeps_bytes g"
  shows "linked (db\<lparr>vpn_sessions := map g (vpn_sessions db)\<rparr>) k e"
proof -
  obtain s where "s \<in> set (vpn_sessions db)" "linked_row k e s" using assms(1) by (auto simp: linked_def)
  with assms(2,3) have "g s \<in> set (map g (vpn_sessions db))" "linked_row k e (g s)"
    by (auto simp: linked_row_def keeps_link_def keeps_peer_def keeps_bytes_def)
  then show ?thesis by (auto simp: linked_def)
qed

lemma bytes_of_update:
  assumes "sessions_inv db" "s \<in> set (vpn_sessions db)" "keeps_peer g"
  shows "bytes_of f c (update_session (vs_id s) g db) = bytes_of f c db + (if vs_client_name s = c then f (g s) - f s else 0)"
proof -
  have "(\<Sum>r\<leftarrow>map (\<lambda>r. if vs_id r = vs_id s then g r else r) rs. if vs_client_name r = c then f r else 0) =
      (\<Sum>r\<leftarrow>rs. if vs_client_name r = c then f r else 0) +
      (if s \<in> set rs \<and> vs_client_name s = c then f (g s) - f s else 0)"
    if "distinct (map vs_id rs)" "s \<in> set rs \<or> vs_id s \<notin> vs_id ` set rs" for rs
    using that
  proof (induction rs)
    case (Cons r rs)
    show ?case
    proof (cases "vs_id r = vs_id s")
      case True
      with Cons.prems have "r = s" "s \<notin> set rs" "vs_id s \<notin> vs_id ` set rs" by auto
      with Cons assms(3) show ?thesis by (simp add: keeps_peer_def)
    next
      case False
      with Cons show ?thesis by auto
    qed
  qed simp
  with assms(1,2) show ?thesis by (simp add: bytes_of_def update_session_def sessions_inv_def)
qed

lemma bytes_of_map:
  assumes "keeps_peer g" "\<And>s. f (g s) = f s"
  shows "bytes_of f c (db\<lparr>vpn_sessions := map g (vpn_sessions db)\<rparr>) = bytes_of f c db"
proof -
  have "(\<Sum>s\<leftarrow>map g rs. if vs_client_name s = c then f s else 0) = (\<Sum>s\<leftarrow>rs. if vs_client_name s = c then f s else 0)" for rs
    using assms by (induction rs) (auto simp: keeps_peer_def)
  then show ?thesis by (simp add: bytes_of_def)
qed

text \<open>Updates of any rows that keep links and counters change neither book.\<close>

lemma books_map:
  assumes "books_ok active db" "keeps_link g" "keeps_bytes g"
  shows "books_ok active (db\<lparr>vpn_sessions := map g (vpn_sessions db)\<rparr>)"
    and "gap_in c (db\<lparr>vpn_sessions := map g (vpn_sessions db)\<rparr>) = gap_in c db"
    and "gap_out c (db\<lparr>vpn_sessions := map g (vpn_sessions db)\<rparr>) = gap_out c db"
proof -
  have p: "keeps_peer g" using assms(2) by (simp add: keeps_link_def)
  show "books_ok active (db\<lparr>vpn_sessions := map g (vpn_sessions db)\<rparr>)"
    using assms p linked_update_keep [OF _ assms(2,3)] sessions_inv_map [OF _ p]
    by (auto simp: books_ok_def active_ok_def list_all_iff traffic_inv_def)
  show "gap_in c (db\<lparr>vpn_sessions := map g (vpn_sessions db)\<rparr>) = gap_in c db"
    "gap_out c (db\<lparr>vpn_sessions := map g (vpn_sessions db)\<rparr>) = gap_out c db"
    using bytes_of_map [OF p] assms(3)
    by (auto simp: gap_in_def gap_out_def counted_def all_traffic_def keeps_bytes_def)
qed

lemma books_update:
  assumes "books_ok active db" "keeps_link g" "keeps_bytes g"
  shows "books_ok active (update_session i g db)"
    and "gap_in c (update_session i g db) = gap_in c db" and "gap_out c (update_session i g db) = gap_out c db"
proof -
  have "keeps_link (\<lambda>s. if vs_id s = i then g s else s)" "keeps_bytes (\<lambda>s. if vs_id s = i then g s else s)"
    using assms(2,3) by (auto simp: keeps_link_def keeps_peer_def keeps_bytes_def)
  from books_map [OF assms(1) this] show "books_ok active (update_session i g db)"
    "gap_in c (update_session i g db) = gap_in c db" "gap_out c (update_session i g db) = gap_out c db"
    by (simp_all add: update_session_def)
qed

section \<open>One client of the status report\<close>

lemma active_ok_iff:
  "active_ok active db \<longleftrightarrow> keys_distinct active \<and> (\<forall>k e. map_of active k = Some e \<longrightarrow> linked db k e)"
  by (auto simp: active_ok_def list_all_iff keys_distinct_def dest: map_of_SomeD)

lemma active_okD: "active_ok active db \<Longrightarrow> map_of active k = Some e \<Longrightarrow> linked db k e"
  unfolding active_ok_iff by blast

lemma keys_distinct_AList_update: "keys_distinct al \<Longrightarrow> keys_distinct (AList.update k v al)"
  by (simp add: keys_distinct_def distinct_update)

lemma active_ok_update:
  assumes "active_ok active db" "linked db' k e"
    and "\<And>k' e'. k' \<noteq> k \<Longrightarrow> map_of active k' = Some e' \<Longrightarrow> linked db' k' e'"
  shows "active_ok (AList.update k e active) db'"
  using assms by (auto simp: active_ok_iff keys_distinct_AList_update update_conv')

text \<open>A row takes new counters, and the traffic table the difference.\<close>

lemma books_recount:
  assumes ok: "books_ok active db" and s: "s \<in> set (vpn_sessions db)" and g: "keeps_link g"
    and key: "vs_cid s = Some cid" "vs_connected_at s = since" "vs_client_name s = cn" "k = (cid, since, cn)"
    and e: "en_session_id e = vs_id s" "vs_bytes_in (g s) = en_bytes_in e" "vs_bytes_out (g s) = en_bytes_out e"
    and d: "max 0 (en_bytes_in e - vs_bytes_in s) \<le> d_in" "max 0 (en_bytes_out e - vs_bytes_out s) \<le> d_out" and t: "0 \<le> t"
  shows "books_ok (AList.update k e active) (add_traffic t cn d_in d_out (update_session (vs_id s) g db))"
    and "gap_in c db \<le> gap_in c (add_traffic t cn d_in d_out (update_session (vs_id s) g db))"
    and "gap_out c db \<le> gap_out c (add_traffic t cn d_in d_out (update_session (vs_id s) g db))"
    and "d_in = en_bytes_in e - vs_bytes_in s \<Longrightarrow>
           gap_in c (add_traffic t cn d_in d_out (update_session (vs_id s) g db)) = gap_in c db"
    and "d_out = en_bytes_out e - vs_bytes_out s \<Longrightarrow>
           gap_out c (add_traffic t cn d_in d_out (update_session (vs_id s) g db)) = gap_out c db"
proof -
  let ?u = "update_session (vs_id s) g db" and ?db' = "add_traffic t cn d_in d_out (update_session (vs_id s) g db)"
  have inv: "sessions_inv db" and act: "active_ok active db" using ok by (auto simp: books_ok_def)
  have p: "keeps_peer g" using g by (simp add: keeps_link_def)
  have rows: "vpn_sessions ?db' = vpn_sessions ?u" by (simp add: row_simps)
  have row: "linked_row k (e\<lparr>en_bytes_in := vs_bytes_in s, en_bytes_out := vs_bytes_out s\<rparr>) s"
    using key e by (simp add: linked_row_def)
  have "g s \<in> set (vpn_sessions ?u)" using s by (force simp: update_session_def)
  moreover have "linked_row k e (g s)"
    using key e g by (simp add: linked_row_def keeps_link_def keeps_peer_def)
  ultimately have new: "linked ?db' k e" unfolding linked_def rows by blast
  have old: "linked ?db' k' e'" if "k' \<noteq> k" "map_of active k' = Some e'" for k' e'
  proof -
    have l: "linked db k' e'" using active_okD [OF act that(2)] .
    then have "linked ?u k' e'" using linked_other_id [OF inv l s row that(1)] by (rule linked_update_other)
    then show ?thesis by (simp add: linked_def rows)
  qed
  have "sessions_inv ?db'" using update_session_inv [OF inv p] by simp
  moreover have "traffic_inv ?db'" using ok t by (simp add: books_ok_def traffic_inv_add_traffic)
  ultimately show "books_ok (AList.update k e active) ?db'"
    using active_ok_update [OF act new old] by (simp add: books_ok_def)
  have b: "bytes_of f c ?db' = bytes_of f c db + (if cn = c then f (g s) - f s else 0)" for f
    using bytes_of_update [OF inv s p, of f c] key(3) by (simp add: bytes_of_def rows)
  have c': "counted c ?db' = add_pair (counted c db) (if cn = c then (max d_in 0, max d_out 0) else (0, 0))"
    by (simp add: counted_def all_traffic_add) (simp add: all_traffic_def update_session_def)
  have gi: "gap_in c ?db' = gap_in c db + (if cn = c then max d_in 0 - (en_bytes_in e - vs_bytes_in s) else 0)"
    and go: "gap_out c ?db' = gap_out c db + (if cn = c then max d_out 0 - (en_bytes_out e - vs_bytes_out s) else 0)"
    using e by (auto simp: gap_in_def gap_out_def b c' add_pair_def)
  show "gap_in c db \<le> gap_in c ?db'" "gap_out c db \<le> gap_out c ?db'"
    "d_in = en_bytes_in e - vs_bytes_in s \<Longrightarrow> gap_in c ?db' = gap_in c db"
    "d_out = en_bytes_out e - vs_bytes_out s \<Longrightarrow> gap_out c ?db' = gap_out c db"
    using d gi go by auto
qed

text \<open>A new row enters both books with the same amount.\<close>

lemma insert_session_row:
  assumes "insert_session client address t f db = (sid, db')"
  shows "vpn_sessions db' = vpn_sessions db @ [last (vpn_sessions db')]" "vs_id (last (vpn_sessions db')) = sid"
    "sid = next_session_id db" "vs_client_name (last (vpn_sessions db')) = client"
    "vs_connected_at (last (vpn_sessions db')) = t" "vs_cid (last (vpn_sessions db')) = f_cid f"
    "vs_bytes_in (last (vpn_sessions db')) = f_bytes_in f" "vs_bytes_out (last (vpn_sessions db')) = f_bytes_out f"
    "traffic_minute db' = traffic_minute db" "traffic_hour db' = traffic_hour db" "traffic_day db' = traffic_day db"
  using assms by (auto simp: insert_session_def Let_def)

lemma books_insert:
  assumes ok: "books_ok active db" and ins: "insert_session cn address since f db = (sid, db1)"
  shows "books_ok active db1" and "counted c db1 = counted c db"
    and "bytes_of h c db1 = bytes_of h c db + (if cn = c then h (last (vpn_sessions db1)) else 0)"
    and "\<exists>r. last (vpn_sessions db1) = r \<and> r \<in> set (vpn_sessions db1) \<and> vs_id r = sid \<and> vs_client_name r = cn \<and>
           vs_connected_at r = since \<and> vs_cid r = f_cid f \<and> vs_bytes_in r = f_bytes_in f \<and> vs_bytes_out r = f_bytes_out f"
proof -
  note r = insert_session_row [OF ins]
  obtain x where x: "vpn_sessions db1 = vpn_sessions db @ [x]" using r(1) by blast
  have l: "linked db1 k e" if "linked db k e" for k e using that x by (auto simp: linked_def)
  show "books_ok active db1"
    using ok insert_session_inv [OF _ ins] l r(9-11)
    by (auto simp: books_ok_def active_ok_iff traffic_inv_def)
  show "counted c db1 = counted c db" using r(9-11) by (simp add: counted_def all_traffic_def)
  show "bytes_of h c db1 = bytes_of h c db + (if cn = c then h (last (vpn_sessions db1)) else 0)"
    using r(4) x by (simp add: bytes_of_def)
  show "\<exists>r. last (vpn_sessions db1) = r \<and> r \<in> set (vpn_sessions db1) \<and> vs_id r = sid \<and> vs_client_name r = cn \<and>
      vs_connected_at r = since \<and> vs_cid r = f_cid f \<and> vs_bytes_in r = f_bytes_in f \<and> vs_bytes_out r = f_bytes_out f"
    using r(2,4-8) x by simp
qed

text \<open>
  How the books move: traffic never falls behind the sessions, and keeps exactly level as long as
  the counters are steady.
\<close>

definition moves :: "bool \<Rightarrow> database \<Rightarrow> database \<Rightarrow> bool" where
  "moves steady db db' \<longleftrightarrow>
     (\<forall>c. gap_in c db \<le> gap_in c db' \<and> gap_out c db \<le> gap_out c db' \<and>
          (steady \<longrightarrow> gap_in c db' = gap_in c db \<and> gap_out c db' = gap_out c db))"

lemma moves_refl [simp]: "moves b db db"
  by (simp add: moves_def)

lemma moves_trans: "moves b db1 db2 \<Longrightarrow> moves b' db2 db3 \<Longrightarrow> moves (b \<and> b') db1 db3"
  unfolding moves_def by (metis order_trans)

lemma moves_level: "(\<And>c. gap_in c db' = gap_in c db \<and> gap_out c db' = gap_out c db) \<Longrightarrow> moves b db db'"
  by (simp add: moves_def)

text \<open>What OpenVPN reports of a client: a start time and counters that are not negative.\<close>

definition sane :: "status_client \<Rightarrow> bool" where
  "sane cl \<longleftrightarrow> (listed cl \<longrightarrow> sc_connected_since cl \<noteq> 0 \<and> 0 \<le> sc_bytes_in cl \<and> 0 \<le> sc_bytes_out cl)"

text \<open>The counters of the client do not go back behind what is already recorded of its connection.\<close>

definition steady_client :: "status_client \<Rightarrow> (conn_key \<times> entry) list \<Rightarrow> database \<Rightarrow> bool" where
  "steady_client cl active db \<longleftrightarrow>
     (listed cl \<longrightarrow>
       (case map_of active (key_of cl) of
          Some e \<Rightarrow> en_bytes_in e \<le> sc_bytes_in cl \<and> en_bytes_out e \<le> sc_bytes_out cl
        | None \<Rightarrow>
            (case find_session (sc_cn cl) (sc_cid cl) (sc_connected_since cl) db of
               Some s \<Rightarrow> vs_bytes_in s \<le> sc_bytes_in cl \<and> vs_bytes_out s \<le> sc_bytes_out cl
             | None \<Rightarrow> True)))"

lemma delta_ge: "0 \<le> new \<Longrightarrow> max 0 (new - old) \<le> delta new old" and delta_steady: "old \<le> new \<Longrightarrow> delta new old = new - old"
  by (auto simp: delta_def)

lemma linkedE:
  assumes "linked db (cid, since, cn) e"
  obtains s where "s \<in> set (vpn_sessions db)" "vs_id s = en_session_id e" "vs_cid s = Some cid"
    "vs_connected_at s = since" "vs_client_name s = cn" "vs_bytes_in s = en_bytes_in e" "vs_bytes_out s = en_bytes_out e"
  using assms by (auto simp: linked_def linked_row_def)

lemma poll_known:
  assumes ok: "books_ok active db" and e: "map_of active (key_of cl) = Some e"
    and cl: "0 \<le> sc_bytes_in cl" "0 \<le> sc_bytes_out cl" and t: "0 \<le> t"
    and u: "update_entry now sn cl e db = (e', (d_in, d_out), db1)"
  shows "books_ok (AList.update (key_of cl) e' active) (add_traffic t (sc_cn cl) d_in d_out db1) \<and>
     moves (en_bytes_in e \<le> sc_bytes_in cl \<and> en_bytes_out e \<le> sc_bytes_out cl) db (add_traffic t (sc_cn cl) d_in d_out db1)"
proof -
  let ?g = "\<lambda>s. s\<lparr>vs_last_seen := now, vs_bytes_in := sc_bytes_in cl, vs_bytes_out := sc_bytes_out cl,
      vs_vpn_ip := (if sc_vpn_ip cl \<noteq> [] then Some (sc_vpn_ip cl) else vs_vpn_ip s),
      vs_cipher := (if sc_cipher cl \<noteq> [] then Some (sc_cipher cl) else vs_cipher s)\<rparr>"
  have "linked db (sc_cid cl, sc_connected_since cl, sc_cn cl) e"
    using active_okD [OF _ e] ok by (simp add: books_ok_def key_of_def)
  then obtain s where s: "s \<in> set (vpn_sessions db)" "vs_id s = en_session_id e" "vs_cid s = Some (sc_cid cl)"
    "vs_connected_at s = sc_connected_since cl" "vs_client_name s = sc_cn cl"
    "vs_bytes_in s = en_bytes_in e" "vs_bytes_out s = en_bytes_out e"
    by (rule linkedE)
  have g: "keeps_link ?g" by (simp add: keeps_link_def keeps_peer_def)
  have eqs: "en_session_id e' = vs_id s" "en_bytes_in e' = sc_bytes_in cl" "en_bytes_out e' = sc_bytes_out cl"
    "d_in = delta (sc_bytes_in cl) (vs_bytes_in s)" "d_out = delta (sc_bytes_out cl) (vs_bytes_out s)"
    "db1 = update_session (vs_id s) ?g db"
    using u s(2,6,7) by (auto simp: update_entry_def Let_def)
  have e': "vs_bytes_in (?g s) = en_bytes_in e'" "vs_bytes_out (?g s) = en_bytes_out e'" using eqs by simp_all
  have d: "max 0 (en_bytes_in e' - vs_bytes_in s) \<le> d_in" "max 0 (en_bytes_out e' - vs_bytes_out s) \<le> d_out"
    using eqs cl delta_ge by simp_all
  note r = books_recount [OF ok s(1) g s(3,4,5) key_of_def eqs(1) e' d t]
  have "gap_in c (add_traffic t (sc_cn cl) d_in d_out db1) = gap_in c db"
    "gap_out c (add_traffic t (sc_cn cl) d_in d_out db1) = gap_out c db"
    if "en_bytes_in e \<le> sc_bytes_in cl" "en_bytes_out e \<le> sc_bytes_out cl" for c
    using r(4,5) [of c] that eqs s(6,7) by (simp_all add: delta_steady)
  with r(1-3) show ?thesis by (simp add: moves_def eqs(6))
qed

lemma poll_reopened:
  assumes ok: "books_ok active db" and s: "find_session (sc_cn cl) (sc_cid cl) (sc_connected_since cl) db = Some s"
    and cl: "sc_connected_since cl \<noteq> 0" and t: "0 \<le> t"
    and u: "start_entry now sn cl db = (e', (d_in, d_out), db1)"
  shows "books_ok (AList.update (key_of cl) e' active) (add_traffic t (sc_cn cl) d_in d_out db1) \<and>
     moves (vs_bytes_in s \<le> sc_bytes_in cl \<and> vs_bytes_out s \<le> sc_bytes_out cl) db (add_traffic t (sc_cn cl) d_in d_out db1)"
proof -
  let ?g = "\<lambda>s. s\<lparr>vs_disconnected_at := None, vs_last_seen := now, vs_bytes_in := sc_bytes_in cl,
      vs_bytes_out := sc_bytes_out cl\<rparr>"
  note row = find_session_SomeD [OF s]
  have g: "keeps_link ?g" by (simp add: keeps_link_def keeps_peer_def)
  have eqs: "en_session_id e' = vs_id s" "en_bytes_in e' = sc_bytes_in cl" "en_bytes_out e' = sc_bytes_out cl"
    "d_in = max (sc_bytes_in cl - vs_bytes_in s) 0" "d_out = max (sc_bytes_out cl - vs_bytes_out s) 0"
    "db1 = update_session (vs_id s) ?g db"
    using u s cl by (auto simp: start_entry_def Let_def)
  have e': "vs_bytes_in (?g s) = en_bytes_in e'" "vs_bytes_out (?g s) = en_bytes_out e'" using eqs by simp_all
  have d: "max 0 (en_bytes_in e' - vs_bytes_in s) \<le> d_in" "max 0 (en_bytes_out e' - vs_bytes_out s) \<le> d_out"
    using eqs by simp_all
  have k: "vs_cid s = Some (sc_cid cl)" "vs_connected_at s = sc_connected_since cl" "vs_client_name s = sc_cn cl"
    using row by auto
  note r = books_recount [OF ok _ g k key_of_def eqs(1) e' d t]
  have "gap_in c (add_traffic t (sc_cn cl) d_in d_out db1) = gap_in c db"
    "gap_out c (add_traffic t (sc_cn cl) d_in d_out db1) = gap_out c db"
    if "vs_bytes_in s \<le> sc_bytes_in cl" "vs_bytes_out s \<le> sc_bytes_out cl" for c
    using r(4,5) [of c] row that eqs by simp_all
  with r(1-3) row show ?thesis by (simp add: moves_def eqs(6))
qed

lemma poll_new:
  assumes ok: "books_ok active db" and s: "find_session (sc_cn cl) (sc_cid cl) (sc_connected_since cl) db = None"
    and cl: "sc_connected_since cl \<noteq> 0" "0 \<le> sc_bytes_in cl" "0 \<le> sc_bytes_out cl" and t: "0 \<le> t"
    and u: "start_entry now sn cl db = (e', (d_in, d_out), db1)"
  shows "books_ok (AList.update (key_of cl) e' active) (add_traffic t (sc_cn cl) d_in d_out db1) \<and>
     moves True db (add_traffic t (sc_cn cl) d_in d_out db1)"
proof -
  let ?f = "no_fields\<lparr>f_cid := Some (sc_cid cl), f_vpn_ip := Some (sc_vpn_ip cl), f_username := Some (sc_username cl),
      f_cipher := Some (sc_cipher cl), f_last_seen := Some now, f_bytes_in := sc_bytes_in cl, f_bytes_out := sc_bytes_out cl\<rparr>"
  let ?db' = "add_traffic t (sc_cn cl) d_in d_out db1"
  obtain sid dbx where x: "insert_session (sc_cn cl) (sc_real_address cl) (sc_connected_since cl) ?f db = (sid, dbx)"
    by (cases "insert_session (sc_cn cl) (sc_real_address cl) (sc_connected_since cl) ?f db")
  have st: "start_entry now sn cl db =
      (\<lparr>en_session_id = sid, en_bytes_in = sc_bytes_in cl, en_bytes_out = sc_bytes_out cl, en_ts = sn,
        en_rate_in = 0, en_rate_out = 0\<rparr>, (sc_bytes_in cl, sc_bytes_out cl), dbx)"
    unfolding start_entry_def Let_def using s cl(1) x by simp
  have e': "en_session_id e' = sid" "en_bytes_in e' = sc_bytes_in cl" "en_bytes_out e' = sc_bytes_out cl"
    and d: "d_in = sc_bytes_in cl" "d_out = sc_bytes_out cl" and dbx: "dbx = db1"
    using u unfolding st by auto
  note ins = x [unfolded dbx]
  note b = books_insert [OF ok ins]
  obtain r where r: "last (vpn_sessions db1) = r" "r \<in> set (vpn_sessions db1)" "vs_id r = sid" "vs_client_name r = sc_cn cl"
    "vs_connected_at r = sc_connected_since cl" "vs_cid r = Some (sc_cid cl)" "vs_bytes_in r = sc_bytes_in cl"
    "vs_bytes_out r = sc_bytes_out cl"
    using b(4) by auto
  have rows: "vpn_sessions ?db' = vpn_sessions db1" by (simp add: row_simps)
  have link: "linked ?db' k e \<longleftrightarrow> linked db1 k e" for k e by (simp add: linked_def rows)
  have new: "linked db1 (key_of cl) e'"
    using r e' unfolding linked_def by (intro bexI [OF _ r(2)]) (simp add: linked_row_def key_of_def)
  have act: "active_ok active db1" using b(1) by (simp add: books_ok_def)
  have "active_ok (AList.update (key_of cl) e' active) ?db'"
    using active_ok_update [OF act, of ?db' "key_of cl" e'] new active_okD [OF act] link by simp
  moreover have "sessions_inv ?db'" "traffic_inv ?db'"
    using b(1) t by (simp_all add: books_ok_def traffic_inv_add_traffic)
  moreover have "gap_in c ?db' = gap_in c db \<and> gap_out c ?db' = gap_out c db" for c
  proof -
    have "counted c ?db' = add_pair (counted c db) (if sc_cn cl = c then (sc_bytes_in cl, sc_bytes_out cl) else (0, 0))"
      using b(2) [of c] cl d by (simp add: counted_def all_traffic_add)
    moreover have "bytes_of f c ?db' = bytes_of f c db + (if sc_cn cl = c then f r else 0)" for f
      using b(3) [of f c] r(1) by (simp add: bytes_of_def rows)
    ultimately show ?thesis using r by (auto simp: gap_in_def gap_out_def add_pair_def)
  qed
  ultimately show ?thesis by (simp add: books_ok_def moves_level)
qed

lemma poll_client_books:
  assumes ok: "books_ok active db" and cl: "sane cl" and now: "0 \<le> now"
    and p: "poll_client now sn cl (active, lives, db) = (active', lives', db')"
  shows "books_ok active' db' \<and> moves (steady_client cl active db) db db'"
proof (cases "listed cl")
  case False
  with p ok show ?thesis by (simp add: poll_client_def)
next
  case True
  with cl have cl': "sc_connected_since cl \<noteq> 0" "0 \<le> sc_bytes_in cl" "0 \<le> sc_bytes_out cl" by (auto simp: sane_def)
  have t: "0 \<le> now - now mod 60" using now by (simp add: minus_mod_eq_mult_div)
  show ?thesis
  proof (cases "map_of active (key_of cl)")
    case (Some e)
    obtain e' d_in d_out db1 where u: "update_entry now sn cl e db = (e', (d_in, d_out), db1)"
      by (metis prod.exhaust)
    have "active' = AList.update (key_of cl) e' active" "db' = add_traffic (now - now mod 60) (sc_cn cl) d_in d_out db1"
      using p True Some u by (auto simp: poll_client_def)
    with poll_known [OF ok Some cl'(2,3) t u] True Some show ?thesis by (simp add: steady_client_def)
  next
    case None
    obtain e' d_in d_out db1 where u: "start_entry now sn cl db = (e', (d_in, d_out), db1)"
      by (metis prod.exhaust)
    have eqs: "active' = AList.update (key_of cl) e' active" "db' = add_traffic (now - now mod 60) (sc_cn cl) d_in d_out db1"
      using p True None u by (auto simp: poll_client_def)
    show ?thesis
    proof (cases "find_session (sc_cn cl) (sc_cid cl) (sc_connected_since cl) db")
      case (Some s)
      with poll_reopened [OF ok Some cl'(1) t u] True None eqs show ?thesis by (simp add: steady_client_def)
    next
      case new: None
      with poll_new [OF ok new cl' t u] True None eqs show ?thesis by (simp add: steady_client_def moves_def)
    qed
  qed
qed

section \<open>The whole poll\<close>

fun steady_clients :: "int \<Rightarrow> int \<Rightarrow> status_client list \<Rightarrow> (conn_key \<times> entry) list \<times> live_client list \<times> database \<Rightarrow> bool" where
  "steady_clients now sn [] st = True"
| "steady_clients now sn (cl # cls) st =
     (steady_client cl (fst st) (snd (snd st)) \<and> steady_clients now sn cls (poll_client now sn cl st))"

lemma poll_clients_books:
  assumes "books_ok active db" "list_all sane cls" "0 \<le> now"
    "fold (poll_client now sn) cls (active, lives, db) = (active', lives', db')"
  shows "books_ok active' db' \<and> moves (steady_clients now sn cls (active, lives, db)) db db'"
  using assms
proof (induction cls arbitrary: active lives db)
  case (Cons cl cls)
  obtain a1 l1 d1 where p: "poll_client now sn cl (active, lives, db) = (a1, l1, d1)" by (metis prod_cases3)
  have s1: "books_ok a1 d1" "moves (steady_client cl active db) db d1"
    using poll_client_books [OF Cons.prems(1) _ Cons.prems(3) p] Cons.prems(2) by auto
  have s2: "books_ok active' db'" "moves (steady_clients now sn cls (a1, l1, d1)) d1 db'"
    using Cons.IH [OF s1(1), of l1] Cons.prems p by auto
  show ?case using s2(1) moves_trans [OF s1(2) s2(2)] p by simp
qed simp

lemma close_session_keeps:
  "keeps_link (\<lambda>s. if vs_disconnected_at s = None then s\<lparr>vs_disconnected_at := t, vs_end_reason := r s\<rparr> else s)"
  "keeps_bytes (\<lambda>s. if vs_disconnected_at s = None then s\<lparr>vs_disconnected_at := t, vs_end_reason := r s\<rparr> else s)"
  by (auto simp: keeps_link_def keeps_peer_def keeps_bytes_def)

lemma books_close_session:
  assumes "books_ok active db"
  shows "books_ok active (close_session now reason e db)" and "moves b db (close_session now reason e db)"
  using books_update [OF assms close_session_keeps] by (auto simp: close_session_def intro!: moves_level)

lemma books_close_all:
  assumes "books_ok active db"
  shows "books_ok active (fold (\<lambda>(k, e). close_session now reason e) es db) \<and>
         moves True db (fold (\<lambda>(k, e). close_session now reason e) es db)"
  using assms
proof (induction es arbitrary: db)
  case (Cons x es)
  obtain k e where x: "x = (k, e)" by (cases x)
  note c = books_close_session [where now = now and reason = reason and e = e, OF Cons.prems]
  have "moves True db (close_session now reason e db)" by (rule c(2))
  from moves_trans [OF this, of True] Cons.IH [OF c(1)] x show ?case by auto
qed simp

lemma books_filter: "books_ok active db \<Longrightarrow> books_ok (filter P active) db"
  by (auto simp: books_ok_def active_ok_def list_all_iff)

lemma books_close_sessions:
  assumes "books_ok active db" "close_sessions now reason gone (active, db) = (active', db')"
  shows "books_ok active' db' \<and> moves True db db'"
proof -
  have "active' = filter (\<lambda>(k, e). \<not> gone k) active"
    "db' = fold (\<lambda>(k, e). close_session now reason e) (filter (\<lambda>(k, e). gone k) active) db"
    using assms(2) by (auto simp: close_sessions_def)
  with books_close_all [OF books_filter [OF assms(1)]] show ?thesis by simp
qed

lemma books_resync:
  assumes "books_ok active db" "resync_sessions ids db = Inr db'"
  shows "books_ok active db'" and "moves True db db'"
proof -
  let ?g = "\<lambda>s. if vs_disconnected_at s = None \<and> vs_id s \<notin> (\<lambda>(k, e). en_session_id e) ` set ids
      then s\<lparr>vs_disconnected_at := Some (vs_last_seen s)\<rparr> else s"
  have "keeps_link ?g" "keeps_bytes ?g" by (auto simp: keeps_link_def keeps_peer_def keeps_bytes_def)
  from books_map [OF assms(1) this] assms(2) show "books_ok active db'" "moves True db db'"
    by (auto simp: resync_sessions_def intro!: moves_level split: if_splits)
qed

lemma poll_tx_books:
  assumes "books_ok active db" "list_all sane (stt_clients st)" "0 \<le> now" "poll_tx now st resync active db = (active', lives', Inr db')"
  shows "books_ok active' db' \<and> moves (steady_clients now (stt_time st) (stt_clients st) (active, [], db)) db db'"
proof -
  obtain a1 l1 d1 where f: "fold (poll_client now (stt_time st)) (stt_clients st) (active, [], db) = (a1, l1, d1)"
    by (metis prod_cases3)
  obtain a2 d2 where c: "close_sessions now None (\<lambda>k. k \<notin> key_of ` set (filter listed (stt_clients st))) (a1, d1) = (a2, d2)"
    by (metis prod.exhaust)
  have s1: "books_ok a1 d1" "moves (steady_clients now (stt_time st) (stt_clients st) (active, [], db)) db d1"
    using poll_clients_books [OF assms(1-3) f] by auto
  have s2: "books_ok a2 d2" "moves True d1 d2" using books_close_sessions [OF s1(1) c] by auto
  have eq: "active' = a2" "(if resync then resync_sessions a2 d2 else Inr d2) = Inr db'"
    using assms(4) f c by (auto simp: poll_tx_def simp del: set_filter)
  have s3: "books_ok a2 db'" "moves True d2 db'"
    using books_resync [OF s2(1)] s2(1) eq(2) by (auto simp: moves_def split: if_splits)
  show ?thesis using moves_trans [OF moves_trans [OF s1(2) s2(2)] s3(2)] s3(1) eq(1) by simp
qed

text \<open>A poll that raises has no session left in its memory.\<close>

lemma poll_tx_raises: "poll_tx now st resync active db = (active', lives', Inl e) \<Longrightarrow> active' = []"
  by (auto simp: poll_tx_def resync_sessions_def split: prod.splits if_splits)

section \<open>Log reading\<close>

text \<open>Changes to other tables do not touch the books.\<close>

definition same_books :: "database \<Rightarrow> database \<Rightarrow> bool" where
  "same_books db db' \<longleftrightarrow> vpn_sessions db' = vpn_sessions db \<and> next_session_id db' = next_session_id db \<and>
     traffic_minute db' = traffic_minute db \<and> traffic_hour db' = traffic_hour db \<and> traffic_day db' = traffic_day db"

lemma same_books_ok:
  assumes "same_books db db'"
  shows "books_ok active db' = books_ok active db" and "moves b db db'"
  using assms
  by (auto simp: same_books_def books_ok_def sessions_inv_def traffic_inv_def active_ok_def linked_def moves_def
      gap_in_def gap_out_def counted_def all_traffic_def bytes_of_def)

lemma same_books_add_rejection: "same_books db (add_rejection t client reason address db)"
  by (simp add: same_books_def add_rejection_def Let_def)

lemma same_books_set_setting: "same_books db (set_setting k v db)"
  by (simp add: same_books_def set_setting_def)

definition level :: "(conn_key \<times> entry) list \<Rightarrow> database \<Rightarrow> database \<Rightarrow> bool" where
  "level active db db' \<longleftrightarrow> (books_ok active db \<longrightarrow> books_ok active db' \<and> moves True db db')"

lemma level_refl [simp]: "level active db db"
  by (simp add: level_def)

lemma level_trans: "level active db1 db2 \<Longrightarrow> level active db2 db3 \<Longrightarrow> level active db1 db3"
  using moves_trans [of True db1 db2 True db3] by (auto simp: level_def)

lemma level_same: "same_books db db' \<Longrightarrow> level active db db'"
  using same_books_ok by (auto simp: level_def)

lemma level_update: "keeps_link g \<Longrightarrow> keeps_bytes g \<Longrightarrow> level active db (update_session i g db)"
  using books_update [of active db g] by (auto simp: level_def intro!: moves_level)

lemma level_set_device: "level active db (set_device sid address p db)"
  unfolding set_device_def by (rule level_update) (auto simp: keeps_link_def keeps_peer_def keeps_bytes_def)

lemma level_insert:
  assumes "insert_session cn address since f db = (sid, db1)" "f_bytes_in f = 0" "f_bytes_out f = 0"
  shows "level active db db1"
proof -
  have "books_ok active db1 \<and> moves True db db1" if ok: "books_ok active db"
  proof -
    note b = books_insert [OF ok assms(1)]
    have z: "vs_bytes_in (last (vpn_sessions db1)) = 0" "vs_bytes_out (last (vpn_sessions db1)) = 0"
      using b(4) assms(2,3) by auto
    have "gap_in c db1 = gap_in c db \<and> gap_out c db1 = gap_out c db" for c
      using b(2) [of c] b(3) [of vs_bytes_in c] b(3) [of vs_bytes_out c] z by (simp add: gap_in_def gap_out_def)
    with b(1) show ?thesis by (simp add: moves_level)
  qed
  then show ?thesis by (simp add: level_def)
qed

lemma level_end_reason: "level active db (update_session i (\<lambda>s. s\<lparr>vs_end_reason := r\<rparr>) db)"
  by (rule level_update) (auto simp: keeps_link_def keeps_peer_def keeps_bytes_def)

lemma level_connection_ended: "level active db (connection_ended ts address cn reason peer db)"
proof (cases "latest_session cn address (case peer of Some p \<Rightarrow> pe_ts p - 30 | None \<Rightarrow> 0) db")
  case (Some r)
  then show ?thesis
    using level_end_reason level_trans [OF level_end_reason level_set_device]
    by (cases peer) (simp_all add: connection_ended_def Let_def)
next
  case None
  show ?thesis
  proof (cases peer)
    case (Some p)
    let ?f = "no_fields\<lparr>f_last_seen := Some ts, f_disconnected_at := Some ts, f_end_reason := Some reason\<rparr>"
    obtain sid db1 where ins: "insert_session cn address (pe_ts p) ?f db = (sid, db1)" by (metis prod.exhaust)
    have "level active db db1" by (rule level_insert [OF ins]) (simp_all add: no_fields_def)
    from level_trans [OF this level_set_device] None Some ins show ?thesis
      by (simp add: connection_ended_def)
  qed (use None in \<open>simp add: connection_ended_def\<close>)
qed

lemma level_connection_line: "level active (snd st) (snd (connection_line ev st))"
proof (cases st)
  case (Pair pending db)
  then show ?thesis
    by (cases ev) (auto simp: Let_def level_connection_ended split: option.splits)
qed

lemma level_log_lines: "level active (snd st) (snd (snd (log_lines mktime ls st)))"
proof (induction mktime ls st rule: log_lines.induct)
  case (2 mktime line ls pending db)
  show ?case
  proof (cases "parse_rejection mktime line")
    case r: (Inr o1)
    show ?thesis
    proof (cases o1)
      case None
      show ?thesis
      proof (cases "parse_connection mktime line")
        case c: (Inr o2)
        show ?thesis
        proof (cases o2)
          case (Some ev)
          have "level active db (snd (connection_line ev (pending, db)))"
            using level_connection_line [of active "(pending, db)" ev] by simp
          from level_trans [OF this] 2(2) [OF r None c Some] r None c Some show ?thesis by simp
        qed (use 2(1) r None c in simp)
      qed (use r None in simp)
    next
      case (Some hit)
      obtain t client reason address where hit: "hit = (t, client, reason, address)" by (metis prod_cases4)
      have "level active db (add_rejection t client reason address db)"
        by (rule level_same) (rule same_books_add_rejection)
      from level_trans [OF this] 2(3) r Some hit show ?thesis by simp
    qed
  qed simp
qed simp

lemma level_read_log: "level active (snd st) (snd (snd (read_log mktime decode name fl st)))"
proof (cases fl)
  case (Some f)
  show ?thesis
  proof (cases "log_position name f (snd st)")
    case pos: (Some pos)
    let ?w = "whole_lines (take MAX_BYTES (drop pos (lf_content f)))"
    obtain r pending db where l: "log_lines mktime (splitlines (decode ?w)) st = (r, pending, db)" by (metis prod_cases3)
    then have "level active (snd st) db" using level_log_lines [of active st mktime "splitlines (decode ?w)"] by simp
    from level_trans [OF this level_same [OF same_books_set_setting]] Some pos l show ?thesis
      by (cases r) (auto simp: read_log_def Let_def)
  qed (use Some in \<open>simp add: read_log_def\<close>)
qed (simp add: read_log_def)

lemma level_read_files: "level active (snd st) (snd (snd (read_files mktime decode files st)))"
proof (induction mktime decode files st rule: read_files.induct)
  case (2 mktime decode name fl files st)
  obtain r st' where l: "read_log mktime decode name fl st = (r, st')" by (metis prod.exhaust)
  then have "level active (snd st) (snd st')" using level_read_log [of active st mktime decode name fl] by simp
  with 2 l level_trans [OF this] show ?case by (cases r) auto
qed simp

lemma level_describe: "level active (snd st) (snd (describe_sessions now st))"
proof -
  have one: "level active (snd st) (snd (describe_session now ap st))" for ap st
    by (cases ap; cases st) (auto simp: describe_session_def level_set_device split: option.splits)
  have "level active (snd st) (snd (fold (describe_session now) aps st))" for aps
  proof (induction aps arbitrary: st)
    case (Cons ap aps)
    from level_trans [OF one [of st ap] Cons.IH] show ?case by simp
  qed simp
  then show ?thesis by (simp add: describe_sessions_def)
qed

lemma level_read_logs:
  assumes "read_logs mktime decode now files co db = (r, co', db')"
  shows "level active db db'" and "co_active co' = co_active co"
proof -
  obtain r1 st where f: "read_files mktime decode files (co_pending co, db) = (r1, st)" by (metis prod.exhaust)
  then have l1: "level active db (snd st)"
    using level_read_files [of active "(co_pending co, db)" mktime decode files] by simp
  obtain p2 d2 where d: "describe_sessions now st = (p2, d2)" by (metis prod.exhaust)
  then have l2: "level active db d2" using level_trans [OF l1 level_describe [of active st now]] by simp
  show "level active db db'" "co_active co' = co_active co"
    using assms f d l1 l2 by (cases st; cases r1; auto simp: read_logs_def)+
qed

section \<open>The life of the collector\<close>

text \<open>
  What happens to the collector and its database, in any order: a poll with a status report, which may raise, an
  outage of the management interface, a failed write that was rolled back, a reading of the logs, a
  restart of the web server, and the hourly roll-up.
\<close>

datatype co_event =
    Poll int "(string \<times> int) list" "string option" "int option" "bool \<times> status"
  | Down int string
  | Failed_write
  | Logs real "(string \<times> log_file option) list"
  | Restart
  | Rollup int

fun co_step :: "(datetime \<Rightarrow> int) \<Rightarrow> (string \<Rightarrow> string) \<Rightarrow> co_event \<Rightarrow> collector \<times> database \<Rightarrow> collector \<times> database" where
  "co_step mktime decode (Poll now load vers since st) (co, db) =
     (case poll_result now load vers since st co db of
        (Inr u, co', db') \<Rightarrow> (co', db') | (Inl e, co', db') \<Rightarrow> (collector_error co', db'))"
| "co_step mktime decode (Down now err) (co, db) = handle_down now err co db"
| "co_step mktime decode Failed_write (co, db) = (collector_error co, db)"
| "co_step mktime decode (Logs now files) (co, db) =
     (case read_logs mktime decode now files co db of (r, co', db') \<Rightarrow> (co', db'))"
| "co_step mktime decode Restart (co, db) = (new_collector, snd (close_stale_sessions None db))"
| "co_step mktime decode (Rollup now) (co, db) = (co, rollup (Some now) now db)"

fun event_ok :: "co_event \<Rightarrow> bool" where
  "event_ok (Poll now load vers since st) \<longleftrightarrow> 0 \<le> now \<and> list_all sane (stt_clients (snd st))"
| "event_ok _ = True"

text \<open>No counter of a live connection goes back; a poll that is skipped reads none.\<close>

fun steady_event :: "co_event \<Rightarrow> collector \<times> database \<Rightarrow> bool" where
  "steady_event (Poll now load vers since st) (co, db) \<longleftrightarrow>
     steady_clients now (stt_time (snd st)) (stt_clients (snd st)) (co_active co, [], db)"
| "steady_event _ st = True"

fun steady_events :: "(datetime \<Rightarrow> int) \<Rightarrow> (string \<Rightarrow> string) \<Rightarrow> co_event list \<Rightarrow> collector \<times> database \<Rightarrow> bool" where
  "steady_events mktime decode [] st = True"
| "steady_events mktime decode (ev # evs) st \<longleftrightarrow>
     steady_event ev st \<and> steady_events mktime decode evs (co_step mktime decode ev st)"

lemma books_rollup:
  assumes "books_ok active db"
  shows "books_ok active (rollup given clock db) \<and> moves True db (rollup given clock db)"
proof -
  let ?db' = "rollup given clock db"
  have rows: "vpn_sessions ?db' = vpn_sessions db" "next_session_id ?db' = next_session_id db"
    by (simp_all add: rollup_def rollup_traffic_def Let_def)
  have "traffic_inv ?db'"
    using assms traffic_inv_rollup_traffic [of db] by (simp add: books_ok_def rollup_def Let_def traffic_inv_def)
  moreover have "counted c ?db' = counted c db" for c
    unfolding counted_def using assms by (intro all_traffic_rollup) (auto simp: books_ok_def coarsen_def)
  ultimately show ?thesis
    using assms rows
    by (simp add: books_ok_def sessions_inv_def active_ok_def linked_def moves_def gap_in_def gap_out_def bytes_of_def)
qed

lemma books_close_stale:
  assumes "books_ok active db"
  shows "books_ok [] (snd (close_stale_sessions t0 db)) \<and> moves True db (snd (close_stale_sessions t0 db))"
proof -
  let ?g = "\<lambda>s. if vs_disconnected_at s = None
      then s\<lparr>vs_disconnected_at := Some (case t0 of None \<Rightarrow> vs_last_seen s | Some t \<Rightarrow> t)\<rparr> else s"
  have "keeps_link ?g" "keeps_bytes ?g" by (auto simp: keeps_link_def keeps_peer_def keeps_bytes_def)
  from books_map [OF assms this] show ?thesis
    by (auto simp: close_stale_sessions_def books_ok_def active_ok_def keys_distinct_def intro!: moves_level)
qed

lemma books_none: "books_ok active db \<Longrightarrow> books_ok [] db"
  by (simp add: books_ok_def active_ok_def keys_distinct_def)

lemma books_poll_result:
  assumes "books_ok (co_active co) db" "0 \<le> now" "list_all sane (stt_clients (snd st))"
    "poll_result now load vers since st co db = (r, co', db')"
  shows "books_ok (co_active co') db' \<and>
    moves (steady_clients now (stt_time (snd st)) (stt_clients (snd st)) (co_active co, [], db)) db db'"
proof -
  obtain from_file status where st: "st = (from_file, status)" by (cases st)
  obtain a l d where p: "poll_tx now status (co_resync co) (co_active co) db = (a, l, d)" by (metis prod_cases3)
  have same: "moves b db db" for b by (simp add: moves_def)
  show ?thesis
  proof (cases d)
    case (Inl e)
    with poll_tx_raises p have "a = []" by blast
    with assms(1,4) p st Inl same books_none [OF assms(1)] show ?thesis by (auto simp: poll_result_def split: if_splits)
  next
    case (Inr d')
    have "books_ok a d' \<and> moves (steady_clients now (stt_time status) (stt_clients status) (co_active co, [], db)) db d'"
      using poll_tx_books [OF assms(1) _ assms(2) p [unfolded Inr]] assms(3) st by simp
    with assms(1,4) p st Inr same show ?thesis by (auto simp: poll_result_def split: if_splits)
  qed
qed

lemma books_co_step:
  assumes "books_ok (co_active co) db" "event_ok ev" "co_step mktime decode ev (co, db) = (co', db')"
  shows "books_ok (co_active co') db' \<and> moves (steady_event ev (co, db)) db db'"
proof (cases ev)
  case (Poll now load vers since st)
  obtain r c1 d1 where p: "poll_result now load vers since st co db = (r, c1, d1)" by (metis prod_cases3)
  have "0 \<le> now" "list_all sane (stt_clients (snd st))" using assms(2) Poll by simp_all
  from books_poll_result [OF assms(1) this p]
  have b: "books_ok (co_active c1) d1" "moves (steady_event ev (co, db)) db d1" using Poll by simp_all
  show ?thesis
    using assms(3) Poll p b books_none [OF b(1)] by (cases r) (auto simp: collector_error_def)
next
  case (Down now err)
  obtain a d where c: "close_sessions now (Some ''server down'') (\<lambda>k. True) (co_active co, db) = (a, d)" by (metis prod.exhaust)
  with books_close_sessions [OF assms(1) c] assms(3) Down show ?thesis by (auto simp: handle_down_def moves_def)
next
  case Failed_write
  with assms show ?thesis by (auto simp: collector_error_def books_ok_def active_ok_def keys_distinct_def)
next
  case (Logs now files)
  obtain r where l: "read_logs mktime decode now files co db = (r, co', db')"
    using assms(3) Logs by (auto split: prod.splits)
  from level_read_logs [OF l] assms(1) Logs show ?thesis by (auto simp: level_def moves_def)
next
  case Restart
  with books_close_stale [OF assms(1)] assms(3) show ?thesis by (auto simp: new_collector_def moves_def)
next
  case (Rollup now)
  with books_rollup [OF assms(1)] assms(3) show ?thesis by (auto simp: moves_def)
qed

lemma books_co_run:
  assumes "books_ok (co_active co) db" "list_all event_ok evs" "fold (co_step mktime decode) evs (co, db) = (co', db')"
  shows "books_ok (co_active co') db' \<and> moves (steady_events mktime decode evs (co, db)) db db'"
  using assms
proof (induction evs arbitrary: co db)
  case (Cons ev evs)
  obtain c1 d1 where s: "co_step mktime decode ev (co, db) = (c1, d1)" by (metis prod.exhaust)
  have s1: "books_ok (co_active c1) d1" "moves (steady_event ev (co, db)) db d1"
    using books_co_step [OF Cons.prems(1) _ s] Cons.prems(2) by auto
  have s2: "books_ok (co_active co') db'" "moves (steady_events mktime decode evs (c1, d1)) d1 db'"
    using Cons.IH [OF s1(1)] Cons.prems s by auto
  show ?case using s2(1) moves_trans [OF s1(2) s2(2)] s by simp
qed simp

text \<open>
  C7. The traffic statistics account for every byte: starting from an empty database, after any
  sequence of polls, outages, failed writes, log readings, restarts and roll-ups, the traffic
  recorded for a client is at least the bytes of its recorded sessions in each direction, and
  exactly that as long as no connection's counter went back: nothing is lost and nothing is
  counted twice.
\<close>

theorem traffic_accounts_for_sessions:
  assumes "list_all event_ok evs" "fold (co_step mktime decode) evs (new_collector, empty_db) = (co, db)"
  shows "bytes_of vs_bytes_in c db \<le> fst (counted c db) \<and> bytes_of vs_bytes_out c db \<le> snd (counted c db) \<and>
         (steady_events mktime decode evs (new_collector, empty_db) \<longrightarrow>
            counted c db = (bytes_of vs_bytes_in c db, bytes_of vs_bytes_out c db))"
proof -
  have e: "books_ok (co_active new_collector) empty_db"
    by (simp add: books_ok_def new_collector_def active_ok_def keys_distinct_def traffic_inv_def traffic_ok_def empty_db_def
        sessions_inv_def)
  have z: "gap_in c empty_db = 0" "gap_out c empty_db = 0"
    by (simp_all add: gap_in_def gap_out_def counted_def all_traffic_def bytes_of_def empty_db_def sum_where_def)
  have "moves (steady_events mktime decode evs (new_collector, empty_db)) empty_db db"
    using books_co_run [OF e assms] by simp
  then show ?thesis
    using z unfolding moves_def gap_in_def gap_out_def
    by (metis diff_ge_0_iff_ge eq_iff_diff_eq_0 prod.collapse)
qed

definition report_of :: "int \<Rightarrow> int \<Rightarrow> int \<Rightarrow> bool \<times> status" where
  "report_of t i out = (False, \<lparr>stt_time = t, stt_clients = [demo_client\<lparr>sc_bytes_in := i, sc_bytes_out := out\<rparr>], stt_stats = []\<rparr>)"

definition demo_life :: "co_event list" where
  "demo_life = [Poll 1700000100 [] None None (report_of 1700000100 120 7), Failed_write,
     Poll 1700000200 [] None None (report_of 1700000200 200 9), Down 1700000300 ''gone'', Rollup 1701000000]"

lemma demo_life_run:
  "steady_events (\<lambda>_. 0) id demo_life (new_collector, empty_db)"
  "counted ''alice'' (snd (fold (co_step (\<lambda>_. 0) id) demo_life (new_collector, empty_db))) = (200, 9)"
  by code_simp+

theorem traffic_accounts_for_sessions_witness:
  "bytes_of vs_bytes_in ''alice'' (snd (fold (co_step (\<lambda>_. 0) id) demo_life (new_collector, empty_db))) = 200"
proof -
  obtain co db where r: "fold (co_step (\<lambda>_. 0) id) demo_life (new_collector, empty_db) = (co, db)" by (metis prod.exhaust)
  have "list_all event_ok demo_life"
    by (simp add: demo_life_def report_of_def sane_def demo_client_def)
  from traffic_accounts_for_sessions [OF this r, of "''alice''"] demo_life_run r show ?thesis by simp
qed

text \<open>
  Once a write has failed, a poll that finds no client connected fails as well, and the next one after it: what the
  pages show stays as it was, and sessions that ended meanwhile stay open, until a client connects.
\<close>

lemma resync_stuck:
  assumes "co_resync co" "list_all (\<lambda>c. \<not> listed c) (stt_clients st)"
    and "co_step mktime decode (Poll now load vers since (False, st)) (co, db) = (co', db')"
  shows "db' = db \<and> co_live co' = co_live co \<and> co_resync co'"
proof -
  have skip: "fold (poll_client now (stt_time st)) cs (active, lives, db) = (active, lives, db)"
    if "list_all (\<lambda>c. \<not> listed c) cs" for cs active lives
    using that by (induction cs) (auto simp: poll_client_def listed_def)
  have "filter listed (stt_clients st) = []" using assms(2) by (auto simp: list_all_iff filter_empty_conv)
  then have "poll_tx now st (co_resync co) (co_active co) db = ([], [], Inl DatabaseError)"
    using skip [OF assms(2), of "co_active co" "[]"] assms(1)
    by (simp add: poll_tx_def close_sessions_def resync_sessions_def)
  with assms(3) show ?thesis by (auto simp: poll_result_def collector_error_def)
qed

end
