(* ===== verification/Ipaddr.thy ===== *)
theory Ipaddr
  imports Prelude "HOL-Library.Word"
begin

unbundle bit_operations_syntax

text \<open>
  Python's \<open>ipaddress\<close> module, as far as the program uses it: IPv4 and IPv6 addresses and networks,
  their strict text forms, containment, and the classes of addresses it asks about. An IPv4
  address is a 32-bit word, an IPv6 address a 128-bit word; every exception of the module that the
  program sees is a \<open>ValueError\<close>.
\<close>

section \<open>IPv4\<close>

type_synonym ipv4 = "32 word"

definition is_ascii :: "string \<Rightarrow> bool" where
  "is_ascii s \<longleftrightarrow> list_all (\<lambda>c. code c < 128) s"

text \<open>\<open>_parse_octet\<close>: one to three ASCII digits, no leading zero, at most 255.\<close>

definition parse_octet :: "string \<Rightarrow> nat result" where
  "parse_octet s =
     (if s = [] \<or> \<not> (is_ascii s \<and> isdigit s) \<or> 3 < length s \<or> (s \<noteq> ''0'' \<and> hd s = CHR ''0'') then Inl ValueError
      else let n = undec s in if 255 < n then Inl ValueError else Inr n)"

definition of_octets :: "nat list \<Rightarrow> nat" where
  "of_octets os = foldl (\<lambda>a x. 256 * a + x) 0 os"

definition IPv4Address :: "string \<Rightarrow> ipv4 result" where
  "IPv4Address s =
     (if CHR ''/'' \<in> set s \<or> s = [] then Inl ValueError
      else let octets = split_on CHR ''.'' s
           in if length octets \<noteq> 4 then Inl ValueError
              else res_bind (map_res parse_octet octets) (\<lambda>os. Inr (of_nat (of_octets os))))"

text \<open>\<open>ip.packed\<close>\<close>

definition octets_of :: "ipv4 \<Rightarrow> nat list" where
  "octets_of a = [unat a div 16777216, unat a div 65536 mod 256, unat a div 256 mod 256, unat a mod 256]"

definition str_ipv4 :: "ipv4 \<Rightarrow> string" where
  "str_ipv4 a = join ''.'' (map dec (octets_of a))"

text \<open>\<open>address + n\<close> for \<open>n \<ge> 0\<close>: leaving the address space raises.\<close>

definition ip_add :: "ipv4 \<Rightarrow> nat \<Rightarrow> ipv4 result" where
  "ip_add a n = (if unat a + n < 2 ^ 32 then Inr (a + of_nat n) else Inl ValueError)"

section \<open>IPv4 networks\<close>

record ipv4_network =
  network_address :: ipv4
  prefixlen :: nat

definition netmask_of :: "nat \<Rightarrow> ipv4" where
  "netmask_of p = NOT (mask (32 - p))"

definition hostmask_of :: "nat \<Rightarrow> ipv4" where
  "hostmask_of p = mask (32 - p)"

definition netmask :: "ipv4_network \<Rightarrow> ipv4" where
  "netmask n = netmask_of (prefixlen n)"

definition broadcast_address :: "ipv4_network \<Rightarrow> ipv4" where
  "broadcast_address n = network_address n OR hostmask_of (prefixlen n)"

text \<open>\<open>_prefix_from_ip_int\<close>: the prefix length whose mask the address is, if there is one.\<close>

definition prefix_from_ip_int :: "ipv4 \<Rightarrow> nat option" where
  "prefix_from_ip_int a = find (\<lambda>p. netmask_of p = a) [0..<33]"

definition prefix_from_prefix_string :: "nat \<Rightarrow> string \<Rightarrow> nat result" where
  "prefix_from_prefix_string max_prefixlen s =
     (if is_ascii s \<and> isdigit s \<and> undec s \<le> max_prefixlen then Inr (undec s) else Inl ValueError)"

text \<open>\<open>_make_netmask\<close>: a prefix length, a mask, or an inverted mask.\<close>

definition make_netmask :: "string \<Rightarrow> nat result" where
  "make_netmask s =
     (case prefix_from_prefix_string 32 s of
        Inr p \<Rightarrow> Inr p
      | Inl e \<Rightarrow>
          res_bind (IPv4Address s) (\<lambda>a.
            case prefix_from_ip_int a of
              Some p \<Rightarrow> Inr p
            | None \<Rightarrow> (case prefix_from_ip_int (NOT a) of Some p \<Rightarrow> Inr p | None \<Rightarrow> Inl ValueError)))"

definition make_network :: "bool \<Rightarrow> ipv4 \<Rightarrow> nat \<Rightarrow> ipv4_network result" where
  "make_network strict a p =
     (if a AND netmask_of p = a then Inr \<lparr>network_address = a, prefixlen = p\<rparr>
      else if strict then Inl ValueError
      else Inr \<lparr>network_address = a AND netmask_of p, prefixlen = p\<rparr>)"

definition IPv4Network :: "bool \<Rightarrow> string \<Rightarrow> ipv4_network result" where
  "IPv4Network strict s =
     (case split_on CHR ''/'' s of
        [a] \<Rightarrow> res_bind (IPv4Address a) (\<lambda>a. make_network strict a 32)
      | [a, m] \<Rightarrow> res_bind (IPv4Address a) (\<lambda>a. res_bind (make_netmask m) (make_network strict a))
      | _ \<Rightarrow> Inl ValueError)"

definition str_network :: "ipv4_network \<Rightarrow> string" where
  "str_network n = str_ipv4 (network_address n) @ ''/'' @ dec (prefixlen n)"

text \<open>\<open>addr in net\<close>, \<open>a.subnet_of(b)\<close>, and the first two elements of
  \<open>list(net.subnets(prefixlen_diff=1))\<close>: a network of one address has itself as its only subnet, so
  that asking for the second one is an \<open>IndexError\<close>.\<close>

definition in_network :: "ipv4 \<Rightarrow> ipv4_network \<Rightarrow> bool" where
  "in_network a n \<longleftrightarrow> a AND netmask n = network_address n"

definition subnet_of :: "ipv4_network \<Rightarrow> ipv4_network \<Rightarrow> bool" where
  "subnet_of a b \<longleftrightarrow> network_address b \<le> network_address a \<and> broadcast_address a \<le> broadcast_address b"

definition halves :: "ipv4_network \<Rightarrow> (ipv4_network \<times> ipv4_network) result" where
  "halves n =
     (if prefixlen n = 32 then Inl IndexError
      else Inr (\<lparr>network_address = network_address n, prefixlen = prefixlen n + 1\<rparr>,
                \<lparr>network_address = network_address n + 2 ^ (31 - prefixlen n), prefixlen = prefixlen n + 1\<rparr>))"

definition valid_network :: "ipv4_network \<Rightarrow> bool" where
  "valid_network n \<longleftrightarrow> prefixlen n \<le> 32 \<and> network_address n AND netmask n = network_address n"

text \<open>The classes of addresses: \<open>is_loopback\<close>, \<open>is_link_local\<close>, \<open>is_multicast\<close>, \<open>is_reserved\<close>.\<close>

definition is_loopback :: "ipv4 \<Rightarrow> bool" where
  "is_loopback a \<longleftrightarrow> in_network a \<lparr>network_address = 0x7F000000, prefixlen = 8\<rparr>"

definition is_link_local :: "ipv4 \<Rightarrow> bool" where
  "is_link_local a \<longleftrightarrow> in_network a \<lparr>network_address = 0xA9FE0000, prefixlen = 16\<rparr>"

definition is_multicast :: "ipv4 \<Rightarrow> bool" where
  "is_multicast a \<longleftrightarrow> in_network a \<lparr>network_address = 0xE0000000, prefixlen = 4\<rparr>"

definition is_reserved :: "ipv4 \<Rightarrow> bool" where
  "is_reserved a \<longleftrightarrow> in_network a \<lparr>network_address = 0xF0000000, prefixlen = 4\<rparr>"

section \<open>Masks as intervals\<close>

lemma and_netmask: "a AND netmask_of p = push_bit (32 - p) (drop_bit (32 - p) a)"
  by (rule bit_eqI) (auto simp: netmask_of_def bit_simps)


lemma unat_lt [simp]: "unat (a :: ipv4) < 4294967296"
  using unsigned_less [of a, where ?'a = nat] by simp

lemma unat_mask_eq: "k \<le> 32 \<Longrightarrow> unat (mask k :: ipv4) = 2 ^ k - 1"
proof -
  assume "k \<le> 32"
  then have "uint (mask k :: ipv4) = mask k" by (simp add: uint_mask_eq min_def)
  then have "uint (mask k :: ipv4) = 2 ^ k - 1" by (metis mask_eq_exp_minus_1)
  then have "unat (mask k :: ipv4) = nat (2 ^ k - 1)" by (metis unat_eq_nat_uint)
  then show ?thesis by (simp add: nat_diff_distrib nat_power_eq)
qed

lemma unat_and_netmask: "unat (a AND netmask_of p) = unat a div 2 ^ (32 - p) * 2 ^ (32 - p)"
proof -
  let ?k = "32 - p"
  have "unat a div 2 ^ ?k * 2 ^ ?k \<le> unat a" by (rule div_times_less_eq_dividend)
  also have "unat a < 2 ^ 32" by simp
  finally have "unat a div 2 ^ ?k * 2 ^ ?k < 2 ^ 32" .
  moreover have "unat (a AND netmask_of p) = take_bit 32 (push_bit ?k (drop_bit ?k (unat a)))"
    by (simp add: and_netmask unsigned_push_bit_eq unsigned_drop_bit_eq take_bit_nat_eq_self)
  ultimately show ?thesis by (simp add: push_bit_eq_mult drop_bit_eq_div take_bit_nat_eq_self)
qed

lemma valid_network_aligned:
  "valid_network n \<longleftrightarrow> prefixlen n \<le> 32 \<and> 2 ^ (32 - prefixlen n) dvd unat (network_address n)"
proof -
  have "network_address n AND netmask n = network_address n \<longleftrightarrow>
      unat (network_address n) div 2 ^ (32 - prefixlen n) * 2 ^ (32 - prefixlen n) = unat (network_address n)"
    by (metis netmask_def unat_and_netmask unsigned_word_eqI)
  also have "\<dots> \<longleftrightarrow> 2 ^ (32 - prefixlen n) dvd unat (network_address n)"
    by (metis dvd_div_mult_self dvd_triv_right)
  finally show ?thesis by (simp add: valid_network_def)
qed

lemma unat_broadcast:
  assumes "valid_network n"
  shows "unat (broadcast_address n) = unat (network_address n) + (2 ^ (32 - prefixlen n) - 1)"
proof -
  let ?k = "32 - prefixlen n" and ?a = "network_address n"
  have "?a AND hostmask_of (prefixlen n) = (?a AND netmask n) AND hostmask_of (prefixlen n)"
    using assms by (simp add: valid_network_def)
  also have "\<dots> = 0" by (simp add: netmask_def netmask_of_def hostmask_of_def and.assoc)
  finally have "broadcast_address n = ?a + hostmask_of (prefixlen n)"
    unfolding broadcast_address_def by (rule disjunctive_add_eq_or [symmetric])
  moreover have "unat ?a + (2 ^ ?k - 1) < 2 ^ 32"
  proof -
    obtain q where q: "unat ?a = 2 ^ ?k * q" using assms valid_network_aligned by auto
    have pow: "(2 :: nat) ^ 32 = 2 ^ ?k * 2 ^ (32 - ?k)" by (simp flip: power_add)
    have "2 ^ ?k * q < 2 ^ ?k * 2 ^ (32 - ?k)" using unat_lt [of ?a] q pow by simp
    then have "Suc q \<le> 2 ^ (32 - ?k)" by simp
    then have "2 ^ ?k * Suc q \<le> 2 ^ 32" unfolding pow by (rule mult_le_mono2)
    with q show ?thesis by simp
  qed
  moreover have "unat (hostmask_of (prefixlen n)) = 2 ^ ?k - 1"
    by (simp add: hostmask_of_def unat_mask_eq)
  ultimately show ?thesis by (simp add: unat_plus_if' unat_word_ariths)
qed

text \<open>A network is the interval from its network address to its broadcast address.\<close>

lemma in_network_iff:
  assumes "valid_network n"
  shows "in_network a n \<longleftrightarrow> network_address n \<le> a \<and> a \<le> broadcast_address n"
proof -
  let ?w = "2 ^ (32 - prefixlen n) :: nat" and ?a = "unat a" and ?n = "unat (network_address n)"
  obtain q where q: "?n = ?w * q" using assms valid_network_aligned by auto
  have b: "unat (broadcast_address n) = ?w * q + (?w - 1)" using unat_broadcast [OF assms] q by simp
  have "in_network a n \<longleftrightarrow> ?a div ?w * ?w = ?n"
    by (metis in_network_def netmask_def unat_and_netmask unsigned_word_eqI)
  also have "\<dots> \<longleftrightarrow> ?a div ?w = q" using q by (simp add: mult.commute)
  also have "\<dots> \<longleftrightarrow> ?w * q \<le> ?a \<and> ?a < ?w * Suc q"
    using div_nat_eqI [of ?w q ?a] by (metis dividend_less_times_div mult.commute mult_Suc_right
        order.refl times_div_less_eq_dividend zero_less_numeral zero_less_power)
  also have "\<dots> \<longleftrightarrow> network_address n \<le> a \<and> a \<le> broadcast_address n"
  proof -
    have "?a < ?w * Suc q \<longleftrightarrow> ?a \<le> ?w * q + (?w - 1)"
      using zero_less_power [of "2 :: nat" "32 - prefixlen n"] by (simp, linarith)
    then show ?thesis using b q by (simp add: word_le_nat_alt)
  qed
  finally show ?thesis .
qed

lemma make_network_valid: "p \<le> 32 \<Longrightarrow> make_network strict a p = Inr n \<Longrightarrow> valid_network n \<and> prefixlen n = p"
  by (auto simp: make_network_def valid_network_def netmask_def split: if_splits)

section \<open>Text forms\<close>

lemma undec_less: "length s \<le> k \<Longrightarrow> list_all is_decimal s \<Longrightarrow> undec s < 10 ^ k"
proof -
  have *: "undec_from a s < (a + 1) * 10 ^ length s" if "list_all is_decimal s" for a
    using that
  proof (induction s arbitrary: a)
    case (Cons c s)
    then have "code c - 48 \<le> 9" "undec_from (10 * a + (code c - 48)) s < (10 * a + (code c - 48) + 1) * 10 ^ length s"
      by (auto simp: is_decimal_def)
    moreover from this have "(10 * a + (code c - 48) + 1) * 10 ^ length s \<le> (10 * (a + 1)) * 10 ^ length s"
      by (intro mult_right_mono) auto
    ultimately have "undec_from (10 * a + (code c - 48)) s < (10 * (a + 1)) * 10 ^ length s"
      by linarith
    then show ?case by (simp add: algebra_simps)
  qed simp
  assume "length s \<le> k" "list_all is_decimal s"
  with *[of 0] have "undec s < 10 ^ length s" "(10 :: nat) ^ length s \<le> 10 ^ k"
    by (auto simp: undec_def intro: power_increasing)
  then show ?thesis by linarith
qed

text \<open>Decimal text without a leading zero is the text of its value.\<close>

lemma dec_undec:
  assumes "list_all is_decimal s" "s \<noteq> []" "s = ''0'' \<or> hd s \<noteq> CHR ''0''"
  shows "dec (undec s) = s"
  using assms
proof (induction s rule: rev_induct)
  case (snoc c s)
  have c: "c = digit_char (code c - 48)" "code c - 48 < 10"
  proof -
    have "48 \<le> code c" "code c \<le> 57" using snoc.prems(1) by (auto simp: is_decimal_def)
    then show "code c - 48 < 10" by simp
    then have "code (digit_char (code c - 48)) = code c"
      using \<open>48 \<le> code c\<close> by (simp add: digit_char_code)
    then show "c = digit_char (code c - 48)" by simp
  qed
  have u: "undec (s @ [c]) = 10 * undec s + (code c - 48)" by (simp add: undec_def undec_from_append)
  show ?case
  proof (cases "s = []")
    case True
    with u c have "undec (s @ [c]) = code c - 48" by (simp add: undec_def)
    with c True show ?thesis by (subst dec.simps) simp
  next
    case False
    with snoc.prems have hd: "hd s \<noteq> CHR ''0''" by (cases s) auto
    with snoc False have IH: "dec (undec s) = s" by auto
    have "undec s \<noteq> 0"
    proof
      assume "undec s = 0"
      with IH have "s = ''0''" by (simp add: dec.simps [of 0] digit_char_def)
      with hd show False by simp
    qed
    then have "\<not> undec (s @ [c]) < 10" using u by simp
    then have "dec (undec (s @ [c])) = dec (undec (s @ [c]) div 10) @ [digit_char (undec (s @ [c]) mod 10)]"
      by (subst dec.simps) simp
    also have "\<dots> = s @ [c]" using u c IH by simp
    finally show ?thesis .
  qed
qed simp

lemma isdigit_ascii: "is_ascii s \<Longrightarrow> isdigit s \<Longrightarrow> list_all is_decimal s"
  by (fastforce simp: is_ascii_def isdigit_def list_all_iff is_digit_def)

lemma decimal_ascii: "list_all is_decimal s \<Longrightarrow> s \<noteq> [] \<Longrightarrow> is_ascii s \<and> isdigit s"
  by (auto simp: is_ascii_def isdigit_def list_all_iff is_digit_def is_decimal_def)

lemma dec_hd: "dec n = ''0'' \<or> hd (dec n) \<noteq> CHR ''0''"
proof (induction n rule: dec.induct)
  case (1 n)
  show ?case
  proof (cases "n < 10")
    case True
    then have "n = 0 \<or> code (digit_char n) \<noteq> code (digit_char 0)" by (auto simp: digit_char_code)
    then have "n = 0 \<or> digit_char n \<noteq> CHR ''0''" by (auto simp: digit_char_def)
    with True show ?thesis by (subst (1 2) dec.simps) (auto simp: digit_char_def)
  next
    case False
    then have "dec (n div 10) \<noteq> ''0''"
      using dec_inject [of "n div 10" 0] by (auto simp: dec.simps [of 0] digit_char_def)
    with 1 False show ?thesis by (subst (2) dec.simps) auto
  qed
qed

lemma length_dec_le: "n < 1000 \<Longrightarrow> length (dec n) \<le> 3"
proof -
  assume n: "n < 1000"
  then have "n div 10 div 10 < 10" by (simp add: less_mult_imp_div_less)
  then have "length (dec (n div 10 div 10)) = 1" by (subst dec.simps) simp
  then have "length (dec (n div 10)) \<le> 2" by (subst dec.simps) simp
  then show ?thesis by (subst dec.simps) simp
qed

lemma parse_octet_dec: "n \<le> 255 \<Longrightarrow> parse_octet (dec n) = Inr n"
  using dec_hd [of n] length_dec_le [of n] decimal_ascii [OF dec_decimal, of n]
  by (auto simp: parse_octet_def)

lemma parse_octet_InrD:
  assumes "parse_octet s = Inr n"
  shows "n \<le> 255 \<and> s = dec n"
proof -
  from assms have s: "is_ascii s" "isdigit s" "s \<noteq> []" "s = ''0'' \<or> hd s \<noteq> CHR ''0''" "n = undec s" "undec s \<le> 255"
    by (auto simp: parse_octet_def Let_def split: if_splits)
  then show ?thesis using dec_undec [OF isdigit_ascii [OF s(1,2)] s(3,4)] by simp
qed

lemma dec_no_char: "\<not> is_decimal c \<Longrightarrow> c \<notin> set (dec n)"
  using dec_decimal [of n] by (auto simp: list_all_iff)

lemma octets_of_le: "x \<in> set (octets_of a) \<Longrightarrow> x \<le> 255"
proof -
  have "unat a div 16777216 < 256" by (simp add: less_mult_imp_div_less)
  then show "x \<in> set (octets_of a) \<Longrightarrow> x \<le> 255" by (auto simp: octets_of_def)
qed

lemma of_octets_octets_of: "of_octets (octets_of a) = unat a"
proof -
  have "unat a div 16777216 = unat a div 256 div 256 div 256" "unat a div 65536 = unat a div 256 div 256"
    by (simp_all add: div_mult2_eq [symmetric])
  then show ?thesis unfolding of_octets_def octets_of_def by simp
qed

lemma octets_of_of_octets:
  assumes "length os = 4" "\<forall>x \<in> set os. x \<le> 255"
  shows "octets_of (of_nat (of_octets os)) = os"
proof -
  obtain a b c d where os: "os = [a, b, c, d]"
    using assms(1) by (auto simp: length_Suc_conv numeral_eq_Suc)
  with assms(2) have le: "a \<le> 255" "b \<le> 255" "c \<le> 255" "d \<le> 255" by auto
  let ?n = "256 * (256 * (256 * a + b) + c) + d"
  have "?n < 2 ^ 32" using le by simp
  then have "unat (of_nat ?n :: ipv4) = ?n" by (simp only: unat_of_nat) simp
  moreover have "?n div 16777216 = a" "?n div 65536 mod 256 = b" "?n div 256 mod 256 = c" "?n mod 256 = d"
  proof -
    have aux: "(256 * m + x) div 256 = m" "(256 * m + x) mod 256 = x" if "x \<le> 255" for m x :: nat
      using that by simp_all
    have "?n div 16777216 = ?n div 256 div 256 div 256" "?n div 65536 = ?n div 256 div 256"
      by (simp_all only: div_mult2_eq [symmetric], simp_all)
    then show "?n div 16777216 = a" "?n div 65536 mod 256 = b" "?n div 256 mod 256 = c" "?n mod 256 = d"
      by (simp_all only: aux le)
  qed
  ultimately show ?thesis by (simp add: os of_octets_def octets_of_def)
qed

text \<open>An address has exactly one accepted text, the one Python prints.\<close>

lemma map_res_dec: "\<forall>x \<in> set os. x \<le> 255 \<Longrightarrow> map_res parse_octet (map dec os) = Inr os"
  by (induction os) (auto simp: parse_octet_dec)

lemma str_ipv4_parts: "split_on CHR ''.'' (str_ipv4 a) = map dec (octets_of a)"
  unfolding str_ipv4_def
  by (rule split_on_join) (auto simp: octets_of_def dec_no_char is_decimal_def code_def)

lemma str_ipv4_chars: "\<not> is_decimal c \<Longrightarrow> c \<noteq> CHR ''.'' \<Longrightarrow> c \<notin> set (str_ipv4 a)"
  by (auto simp: str_ipv4_def octets_of_def dest: dec_no_char)

theorem IPv4Address_str: "IPv4Address (str_ipv4 a) = Inr a"
proof -
  have "str_ipv4 a \<noteq> []" by (simp add: str_ipv4_def octets_of_def)
  moreover have "CHR ''/'' \<notin> set (str_ipv4 a)" by (rule str_ipv4_chars) (auto simp: is_decimal_def code_def)
  moreover have "length (octets_of a) = 4" by (simp add: octets_of_def)
  ultimately show ?thesis
    by (simp add: IPv4Address_def str_ipv4_parts map_res_dec octets_of_le of_octets_octets_of)
qed

theorem str_IPv4Address:
  assumes "IPv4Address s = Inr a"
  shows "str_ipv4 a = s"
proof -
  let ?ps = "split_on CHR ''.'' s"
  obtain os where os: "map_res parse_octet ?ps = Inr os" "a = of_nat (of_octets os)" "length ?ps = 4"
    using assms by (cases "map_res parse_octet ?ps") (auto simp: IPv4Address_def Let_def split: if_splits)
  then have rel: "list_all2 (\<lambda>p n. parse_octet p = Inr n) ?ps os" by (simp add: map_res_Inr_iff)
  then have "list_all2 (\<lambda>p n. p = dec n \<and> n \<le> 255) ?ps os"
    by (rule list_all2_mono) (use parse_octet_InrD in auto)
  then have ps: "?ps = map dec os" and le: "\<forall>x \<in> set os. x \<le> 255"
    by (auto simp: list_all2_conv_all_nth list_eq_iff_nth_eq in_set_conv_nth)
  with os have "octets_of a = os" by (metis length_map octets_of_of_octets)
  then have "str_ipv4 a = join ''.'' ?ps" by (simp add: str_ipv4_def ps)
  then show ?thesis by (simp add: join_split_on)
qed

lemma make_netmask_dec: "p \<le> 32 \<Longrightarrow> make_netmask (dec p) = Inr p"
  using decimal_ascii [OF dec_decimal, of p] by (simp add: make_netmask_def prefix_from_prefix_string_def)

lemma netmask_of_inj:
  assumes "p \<le> 32" "q \<le> 32" "netmask_of p = netmask_of q"
  shows "p = q"
proof -
  have "mask (32 - p) = (mask (32 - q) :: ipv4)" using assms(3) by (simp add: netmask_of_def)
  then have "(2 :: nat) ^ (32 - p) - 1 = 2 ^ (32 - q) - 1" by (metis diff_le_self unat_mask_eq)
  then have "(2 :: nat) ^ (32 - p) = 2 ^ (32 - q)"
    by (metis Suc_pred' One_nat_def zero_less_numeral zero_less_power)
  then have "32 - p = 32 - q" by simp
  with assms(1,2) show ?thesis by simp
qed

lemma prefix_from_netmask: "p \<le> 32 \<Longrightarrow> prefix_from_ip_int (netmask_of p) = Some p"
proof -
  assume p: "p \<le> 32"
  have "find (\<lambda>q. netmask_of q = netmask_of p) xs = (if p \<in> set xs then Some p else None)"
    if "\<forall>q \<in> set xs. q \<le> 32" for xs
    using that by (induction xs) (auto dest: netmask_of_inj [OF _ p])
  from this [of "[0..<33]"] p show ?thesis by (simp add: prefix_from_ip_int_def del: upt.simps)
qed

lemma not_is_digit_dot: "\<not> is_digit CHR ''.''"
  by (simp add: is_digit_def is_decimal_def code_def)

lemma make_netmask_mask: "p \<le> 32 \<Longrightarrow> make_netmask (str_ipv4 (netmask_of p)) = Inr p"
proof -
  assume "p \<le> 32"
  have "CHR ''.'' \<in> set (str_ipv4 (netmask_of p))" by (simp add: str_ipv4_def octets_of_def)
  then have "\<not> isdigit (str_ipv4 (netmask_of p))"
    using not_is_digit_dot unfolding isdigit_def list_all_iff by blast
  with \<open>p \<le> 32\<close> show ?thesis
    by (simp add: make_netmask_def prefix_from_prefix_string_def IPv4Address_str prefix_from_netmask)
qed

lemma split_slash: "CHR ''/'' \<notin> set m \<Longrightarrow> split_on CHR ''/'' (str_ipv4 a @ CHR ''/'' # m) = [str_ipv4 a, m]"
proof -
  assume m: "CHR ''/'' \<notin> set m"
  have "CHR ''/'' \<notin> set (str_ipv4 a)" by (rule str_ipv4_chars) (auto simp: is_decimal_def code_def)
  with m show ?thesis by (simp add: split_on_append split_on_no_sep)
qed

text \<open>A network prints as text it is read from, strictly.\<close>

lemma IPv4Network_str:
  assumes "valid_network n"
  shows "IPv4Network strict (str_network n) = Inr n"
proof -
  have "CHR ''/'' \<notin> set (dec (prefixlen n))" by (rule dec_no_char) (simp add: is_decimal_def code_def)
  then show ?thesis
    using assms by (simp add: IPv4Network_def str_network_def split_slash IPv4Address_str make_netmask_dec
        make_network_def valid_network_def netmask_def)
qed

lemma IPv4Network_mask:
  assumes "valid_network n"
  shows "IPv4Network strict (str_ipv4 (network_address n) @ ''/'' @ str_ipv4 (netmask n)) = Inr n"
proof -
  have "CHR ''/'' \<notin> set (str_ipv4 (netmask n))" by (rule str_ipv4_chars) (auto simp: is_decimal_def code_def)
  then show ?thesis
    using assms by (simp add: IPv4Network_def split_slash IPv4Address_str make_netmask_mask netmask_def
        make_network_def valid_network_def)
qed

lemma prefix_from_ip_int_le: "prefix_from_ip_int a = Some p \<Longrightarrow> p \<le> 32"
  by (auto simp: prefix_from_ip_int_def find_Some_iff)

lemma make_netmask_le: "make_netmask m = Inr p \<Longrightarrow> p \<le> 32"
proof (cases "IPv4Address m")
  case (Inr a)
  then show "make_netmask m = Inr p \<Longrightarrow> p \<le> 32"
    by (auto simp: make_netmask_def prefix_from_prefix_string_def dest: prefix_from_ip_int_le
        split: if_splits option.splits)
qed (auto simp: make_netmask_def prefix_from_prefix_string_def split: if_splits)

lemma IPv4Network_valid:
  assumes "IPv4Network strict s = Inr n"
  shows "valid_network n"
proof -
  consider (addr) a b where "IPv4Address a = Inr b" "make_network strict b 32 = Inr n"
    | (mask) a b m p where "IPv4Address a = Inr b" "make_netmask m = Inr p" "make_network strict b p = Inr n"
    using assms
    by (auto simp: IPv4Network_def split: list.splits elim!: res_bind.elims)
  then show ?thesis
    by cases (use make_network_valid make_netmask_le in blast)+
qed

section \<open>IPv6 and either family\<close>

text \<open>An IPv6 address with its optional scope; only the text form and the prefix length matter here.\<close>

record ipv6 =
  v6_ip :: "128 word"
  v6_scope :: "string option"

definition is_hex :: "char \<Rightarrow> bool" where
  "is_hex c \<longleftrightarrow> is_decimal c \<or> (65 \<le> code c \<and> code c \<le> 70) \<or> (97 \<le> code c \<and> code c \<le> 102)"

definition hex_value :: "char \<Rightarrow> nat" where
  "hex_value c = (if is_decimal c then code c - 48 else if code c \<le> 70 then code c - 55 else code c - 87)"

definition parse_hextet :: "string \<Rightarrow> nat result" where
  "parse_hextet s =
     (if \<not> list_all is_hex s \<or> 4 < length s \<or> s = [] then Inl ValueError
      else Inr (foldl (\<lambda>a c. 16 * a + hex_value c) 0 s))"

fun hex :: "nat \<Rightarrow> string" where
  "hex n = (if n < 16 then [''0123456789abcdef'' ! n] else hex (n div 16) @ [''0123456789abcdef'' ! (n mod 16)])"

declare hex.simps [simp del]

text \<open>An IPv4-style last part stands for two hextets.\<close>

definition expand_ipv4_part :: "string list \<Rightarrow> string list result" where
  "expand_ipv4_part parts =
     (if CHR ''.'' \<in> set (last parts) then
        res_bind (IPv4Address (last parts)) (\<lambda>a.
          Inr (butlast parts @ [hex (unat a div 65536), hex (unat a mod 65536)]))
      else Inr parts)"

definition skip_indices :: "string list \<Rightarrow> nat list" where
  "skip_indices parts = filter (\<lambda>i. parts ! i = []) [1..<length parts - 1]"

definition hextets_value :: "string list \<Rightarrow> nat \<Rightarrow> string list \<Rightarrow> 128 word result" where
  "hextets_value hi skipped lo =
     res_bind (map_res parse_hextet hi) (\<lambda>hs. res_bind (map_res parse_hextet lo) (\<lambda>ls.
       Inr (of_nat (foldl (\<lambda>a x. 65536 * a + x) 0 (hs @ replicate skipped 0 @ ls)))))"

definition ipv6_int :: "string \<Rightarrow> 128 word result" where
  "ipv6_int s =
     (if s = [] \<or> 45 < length s \<or> length (split_on CHR '':'' s) < 3 then Inl ValueError
      else
        res_bind (expand_ipv4_part (split_on CHR '':'' s)) (\<lambda>parts.
          if 9 < length parts then Inl ValueError
          else
            case skip_indices parts of
              [] \<Rightarrow>
                if length parts \<noteq> 8 \<or> hd parts = [] \<or> last parts = [] then Inl ValueError
                else hextets_value parts 0 []
            | [i] \<Rightarrow>
                let lead = hd parts = []; trail = last parts = [];
                    parts_hi = (if lead then i - 1 else i);
                    parts_lo = (if trail then length parts - i - 2 else length parts - i - 1)
                in if (lead \<and> parts_hi \<noteq> 0) \<or> (trail \<and> parts_lo \<noteq> 0) \<or> 8 \<le> parts_hi + parts_lo then Inl ValueError
                   else hextets_value (take parts_hi parts) (8 - (parts_hi + parts_lo))
                          (drop (length parts - parts_lo) parts)
            | _ \<Rightarrow> Inl ValueError))"

definition IPv6Address :: "string \<Rightarrow> ipv6 result" where
  "IPv6Address s =
     (if CHR ''/'' \<in> set s then Inl ValueError
      else
        case partition_on CHR ''%'' s of
          (a, sep, scope) \<Rightarrow>
            if sep \<and> (scope = [] \<or> CHR ''%'' \<in> set scope) then Inl ValueError
            else res_bind (ipv6_int a) (\<lambda>ip. Inr \<lparr>v6_ip = ip, v6_scope = (if sep then Some scope else None)\<rparr>))"

text \<open>The longest run of zero hextets, the first of equally long ones: its start and length.\<close>

fun zero_runs :: "nat \<Rightarrow> nat \<Rightarrow> nat \<Rightarrow> nat \<Rightarrow> nat list \<Rightarrow> nat \<times> nat" where
  "zero_runs i run best_start best_len [] = (best_start, best_len)"
| "zero_runs i run best_start best_len (h # hs) =
     (if h = 0 then
        (if best_len < run + 1 then zero_runs (i + 1) (run + 1) (i - run) (run + 1) hs
         else zero_runs (i + 1) (run + 1) best_start best_len hs)
      else zero_runs (i + 1) 0 best_start best_len hs)"

definition hextets_of :: "128 word \<Rightarrow> nat list" where
  "hextets_of a = map (\<lambda>i. unat a div 65536 ^ (7 - i) mod 65536) [0..<8]"

definition str_ipv6_int :: "128 word \<Rightarrow> string" where
  "str_ipv6_int a =
     (let hs = hextets_of a; strs = map hex hs; (start, len) = zero_runs 0 0 0 0 hs
      in if len \<le> 1 then join '':'' strs
         else join '':'' ((if start = 0 then [[]] else []) @ take start strs @ [[]] @ drop (start + len) strs @
                (if start + len = 8 then [[]] else [])))"

definition str_ipv6 :: "ipv6 \<Rightarrow> string" where
  "str_ipv6 a = str_ipv6_int (v6_ip a) @ (case v6_scope a of None \<Rightarrow> [] | Some s \<Rightarrow> ''%'' @ s)"

datatype ip_net = V4 ipv4_network | V6 ipv6 nat

definition IPv6Network :: "string \<Rightarrow> ip_net result" where
  "IPv6Network s =
     (let check = (\<lambda>a p. if v6_ip a AND NOT (mask (128 - p)) = v6_ip a then Inr (V6 a p) else Inl ValueError)
      in case split_on CHR ''/'' s of
           [a] \<Rightarrow> res_bind (IPv6Address a) (\<lambda>a. check a 128)
         | [a, m] \<Rightarrow> res_bind (IPv6Address a) (\<lambda>a. res_bind (prefix_from_prefix_string 128 m) (check a))
         | _ \<Rightarrow> Inl ValueError)"

text \<open>\<open>ip_network(s, strict=True)\<close> and \<open>ip_address(s)\<close>: IPv4 first, then IPv6.\<close>

definition ip_network :: "string \<Rightarrow> ip_net result" where
  "ip_network s = (case IPv4Network True s of Inr n \<Rightarrow> Inr (V4 n) | Inl e \<Rightarrow> IPv6Network s)"

fun net_prefixlen :: "ip_net \<Rightarrow> nat" where
  "net_prefixlen (V4 n) = prefixlen n"
| "net_prefixlen (V6 a p) = p"

fun net_version :: "ip_net \<Rightarrow> nat" where
  "net_version (V4 n) = 4"
| "net_version (V6 a p) = 6"

fun str_net :: "ip_net \<Rightarrow> string" where
  "str_net (V4 n) = str_network n"
| "str_net (V6 a p) = str_ipv6 a @ ''/'' @ dec p"

definition is_ip_address :: "string \<Rightarrow> bool" where
  "is_ip_address s \<longleftrightarrow> (case IPv4Address s of Inr a \<Rightarrow> True | Inl e \<Rightarrow> (case IPv6Address s of Inr a \<Rightarrow> True | Inl e \<Rightarrow> False))"

end
