(* ===== verification/Netdata.thy ===== *)
theory Netdata
  imports Prelude
begin

text \<open>
  The network settings as data: the models \<open>Service\<close>, \<open>GuestLink\<close>, \<open>Gateway\<close> and \<open>NetworkSettings\<close> of
  \<open>ui/app/network.py\<close>. The settings file holds such a record as JSON; it is given here as the record.
\<close>

record service =
  sv_name :: string
  sv_host :: string
  sv_url :: string
  sv_public :: bool
  sv_paths :: "string list"
  sv_insecure_tls :: bool

record guest_link =
  gl_url :: string
  gl_whole_site :: bool

record gateway =
  gw_domain :: string
  gw_openvpn_host :: string
  gw_openvpn_backend :: string
  gw_relay_host :: string
  gw_relay_backend :: string
  gw_relay_public_url :: string
  gw_portal_listener :: string
  gw_trusted_cidrs :: "string list"
  gw_guest_links :: "guest_link list"
  gw_replace_services :: bool
  gw_services :: "service list"

record network_data =
  nd_vpn_subnet :: string
  nd_pool_first :: string
  nd_pool_last :: string
  nd_guest_subnet :: string
  nd_dns_servers :: "string list"
  nd_routes :: "string list"
  nd_proxy_cidrs :: "string list"
  nd_gateway :: gateway

definition empty_gateway :: gateway where
  "empty_gateway =
     \<lparr>gw_domain = [], gw_openvpn_host = [], gw_openvpn_backend = [], gw_relay_host = [], gw_relay_backend = [],
      gw_relay_public_url = [], gw_portal_listener = [], gw_trusted_cidrs = [], gw_guest_links = [],
      gw_replace_services = False, gw_services = []\<rparr>"

end
