(* ===== verification/Pki.thy ===== *)
theory Pki
  imports Db Names Pytime Ipaddr Netdata "HOL-Library.List_Lexorder"
begin

text \<open>
  Certificates, static addresses, guests and configuration files: \<open>ui/app/pki.py\<close> and the parts of
  \<open>ui/app/settings.py\<close> it asks. The files it reads and writes are the record \<open>files\<close>; what a
  script or OpenSSL prints is a parameter. The memory of parsed certificates (\<open>_cert_cache\<close>) is
  left out: it returns what parsing the unchanged file returns.
\<close>

section \<open>Files\<close>

text \<open>
  A configuration file that is \<open>None\<close> is not there. \<open>fs_bak\<close> holds the copies kept of overwritten ones. Directories are lists of their regular
  files with the text \<open>read_text\<close> gives; the guest directory may be missing altogether.
  Certificates are listed by the name of their file without \<open>.crt\<close>. \<open>fs_refused\<close> names configuration files and backups the
  system refuses to open for writing, with the reason it gives.
  \<open>config/network/settings.conf\<close> is given as what parsing it yields, where a text that is not
  valid JSON counts as incomplete: both raise a \<open>ValueError\<close>.
\<close>

datatype network_file = Net_missing | Net_unreadable | Net_incomplete | Net_saved network_data

record files =
  fs_server_conf :: "string option"
  fs_client_conf :: "string option"
  fs_vars :: "string option"
  fs_vars_template :: "string option"
  fs_static :: "(string \<times> string) list"
  fs_guests :: "string list option"
  fs_oath :: "string option"
  fs_index :: "string option"
  fs_issued :: "(string \<times> string) list"
  fs_renewed :: "(string \<times> string) list"
  fs_revoked :: "(string \<times> string) list"
  fs_crl :: "string option"
  fs_tc2_key :: bool
  fs_bak :: "(string \<times> string) list"
  fs_network :: network_file
  fs_proxies :: "string option"
  fs_refused :: "(string \<times> string) list"

text \<open>The settings these functions ask for.\<close>

record settings =
  st_bin_dir :: string
  st_easyrsa_dir :: string
  st_pki_dir :: string
  st_guest_sub :: string
  st_tfa_issuer :: string

text \<open>Text mode reads every kind of line end as a line feed.\<close>

definition universal_newlines :: "string \<Rightarrow> string" where
  "universal_newlines s = map (\<lambda>c. if c = CHR 0x0D then newline else c) (crlf_to_lf s)"

section \<open>The certificate index\<close>

definition parse_asn1_time :: "string \<Rightarrow> int option" where
  "parse_asn1_time value =
     (case asn1_short (strip value) of
        Inr t \<Rightarrow> Some (utc_timestamp t)
      | Inl e \<Rightarrow> (case asn1_long (strip value) of Inr t \<Rightarrow> Some (utc_timestamp t) | Inl e \<Rightarrow> None))"

definition parse_openssl_time :: "string list \<Rightarrow> string \<Rightarrow> int option" where
  "parse_openssl_time zones value =
     (case openssl_time zones (join '' '' (words value)) of Inr t \<Rightarrow> Some (utc_timestamp t) | Inl e \<Rightarrow> None)"

text \<open>\<open>(?:^|[/,])CN=([^/,]+)\<close>\<close>

definition CN_RE :: re where
  "CN_RE = Cat [Alt Bol (Cls (\<lambda>c. c \<in> set ''/,'')), Lit ''CN='', Grp 1 (Plus (NotIn ''/,''))]"

definition cn_from_dn :: "string \<Rightarrow> string" where
  "cn_from_dn dn = (case re_search CN_RE dn of Some m \<Rightarrow> strip (grp m 1) | None \<Rightarrow> [])"

text \<open>
  \<open>str.upper\<close>. The micro sign and the y with diaeresis, whose capitals lie outside the model's
  alphabet, stay as they are.
\<close>

definition upper_char :: "char \<Rightarrow> string" where
  "upper_char c =
     (if is_lower_ascii c \<or> (224 \<le> code c \<and> code c \<le> 254 \<and> code c \<noteq> 247) then [char_of (code c - 32)]
      else if code c = 223 then ''SS'' else [c])"

definition upper :: "string \<Rightarrow> string" where
  "upper s = concat (map upper_char s)"

record index_entry =
  ie_status :: string
  ie_expires :: "int option"
  ie_revoked_at :: "int option"
  ie_reason :: "string option"
  ie_serial :: string
  ie_cn :: string

definition index_entry_of :: "string list \<Rightarrow> index_entry" where
  "index_entry_of parts =
     (let revocation = parts ! 2; (date_part, sep, reason) = partition_on CHR '','' revocation
      in \<lparr>ie_status = parts ! 0, ie_expires = parse_asn1_time (parts ! 1),
          ie_revoked_at = (if revocation = [] then None else parse_asn1_time date_part),
          ie_reason = (if revocation = [] \<or> reason = [] then None else Some reason),
          ie_serial = upper (parts ! 3), ie_cn = cn_from_dn (parts ! 5)\<rparr>)"

definition index_line_ok :: "string list \<Rightarrow> bool" where
  "index_line_ok parts \<longleftrightarrow> 6 \<le> length parts \<and> parts ! 0 \<in> {''V'', ''R'', ''E''}"

definition index_step :: "string \<Rightarrow> (string \<times> index_entry) list \<Rightarrow> (string \<times> index_entry) list" where
  "index_step line entries =
     (let parts = split_on CHR 0x09 line
      in if index_line_ok parts then AList.update (upper (parts ! 3)) (index_entry_of parts) entries else entries)"

definition parse_index :: "string \<Rightarrow> (string \<times> index_entry) list" where
  "parse_index text = fold index_step (splitlines text) []"

definition read_index :: "files \<Rightarrow> (string \<times> index_entry) list" where
  "read_index fs = (case fs_index fs of Some text \<Rightarrow> parse_index text | None \<Rightarrow> [])"

section \<open>Certificates\<close>

record cert =
  ct_serial :: string
  ct_not_before :: "int option"
  ct_not_after :: "int option"
  ct_cn :: string
  ct_fingerprint :: string

definition cert_line :: "string list \<Rightarrow> string \<Rightarrow> cert \<Rightarrow> cert" where
  "cert_line zones line info =
     (case partition_on CHR ''='' line of
        (k, sep, val) \<Rightarrow>
          let key = lower (strip k)
          in if key = ''serial'' then info\<lparr>ct_serial := upper (strip val)\<rparr>
             else if key = ''notbefore'' then info\<lparr>ct_not_before := parse_openssl_time zones val\<rparr>
             else if key = ''notafter'' then info\<lparr>ct_not_after := parse_openssl_time zones val\<rparr>
             else if key = ''subject'' then info\<lparr>ct_cn := cn_from_dn val\<rparr>
             else if sublist ''fingerprint'' key then info\<lparr>ct_fingerprint := strip val\<rparr>
             else info)"

text \<open>
  \<open>cert_info\<close> of a certificate file, \<open>None\<close> when there is none. \<open>x509\<close> is what
  \<open>openssl x509 -noout -serial -startdate ...\<close> prints for the content of the file.
\<close>

definition cert_info :: "string list \<Rightarrow> (string \<Rightarrow> string result) \<Rightarrow> string option \<Rightarrow> cert option" where
  "cert_info zones x509 content =
     (case content of
        None \<Rightarrow> None
      | Some c \<Rightarrow>
          (case x509 c of
             Inl e \<Rightarrow> None
           | Inr out \<Rightarrow>
               Some (fold (cert_line zones) (splitlines out)
                 \<lparr>ct_serial = [], ct_not_before = None, ct_not_after = None, ct_cn = [], ct_fingerprint = []\<rparr>)))"

section \<open>Configuration files\<close>

definition TFA_LINES :: "string list" where
  "TFA_LINES = [''auth-user-pass-verify /opt/app/bin/oath.sh via-file'', ''auth-gen-token 43200'']"

definition CONFIG_FILES :: "(string \<times> string) list" where
  "CONFIG_FILES = [(''server'', ''server.conf''), (''client'', ''config/client.conf''), (''vars'', ''pki/vars'')]"

text \<open>\<open>config_path(which)\<close> and what the file holds; \<open>pki/vars\<close> falls back to its template.\<close>

definition config_content :: "string \<Rightarrow> files \<Rightarrow> string option result" where
  "config_content which fs =
     (if which = ''server'' then Inr (fs_server_conf fs)
      else if which = ''client'' then Inr (fs_client_conf fs)
      else if which = ''vars'' then Inr (case fs_vars fs of Some t \<Rightarrow> Some t | None \<Rightarrow> fs_vars_template fs)
      else Inl (PkiError ''Unknown configuration file''))"

definition read_config :: "string \<Rightarrow> files \<Rightarrow> string result" where
  "read_config which fs =
     res_bind (config_content which fs) (\<lambda>c. Inr (case c of Some t \<Rightarrow> t | None \<Rightarrow> []))"

definition server_text :: "files \<Rightarrow> string" where
  "server_text fs = (case fs_server_conf fs of Some t \<Rightarrow> t | None \<Rightarrow> [])"

text \<open>
  The network settings, and the guest range they or the server configuration give.
\<close>

definition read_network :: "files \<Rightarrow> network_data option result" where
  "read_network fs =
     (case fs_network fs of
        Net_missing \<Rightarrow> Inr None
      | Net_unreadable \<Rightarrow> Inl OSError
      | Net_incomplete \<Rightarrow> Inl ValueError
      | Net_saved d \<Rightarrow> Inr (Some d))"

text \<open>\<open>(?m)^\s*server\s+(\S+)\s+(\S+)\<close>\<close>

definition SERVER_RE :: re where
  "SERVER_RE = Cat [MBol, Spaces, Lit ''server'', Spaces1, Grp 1 NonSpaces, Spaces1, Grp 2 NonSpaces]"

definition second_half :: "string \<Rightarrow> string result" where
  "second_half text =
     (case re_search SERVER_RE text of
        None \<Rightarrow> Inl TypeError
      | Some m \<Rightarrow>
          res_bind (IPv4Network True (grp m 1 @ ''/'' @ grp m 2)) (\<lambda>net.
          res_bind (halves net) (\<lambda>hs. Inr (str_network (snd hs)))))"

definition guest_sub :: "settings \<Rightarrow> files \<Rightarrow> string result" where
  "guest_sub cfg fs =
     res_bind (read_network fs) (\<lambda>saved.
       if saved \<noteq> None then Inr (nd_guest_subnet (the saved))
       else if st_guest_sub cfg \<noteq> [] then Inr (st_guest_sub cfg)
       else
         case fs_server_conf fs of
           None \<Rightarrow> Inr ''10.8.0.128/25''
         | Some text \<Rightarrow> 
             (case second_half text of
                Inl e \<Rightarrow> if e \<in> {OSError, ValueError, TypeError} then Inr ''10.8.0.128/25'' else Inl e
              | Inr s \<Rightarrow> Inr s))"

section \<open>Static addresses and guests\<close>

text \<open>\<open>^\s*ifconfig-push\s+(\S+)\<close>\<close>

definition PUSH_RE :: re where
  "PUSH_RE = Cat [Bol, Spaces, Lit ''ifconfig-push'', Spaces1, Grp 1 NonSpaces]"

definition push_address :: "string \<Rightarrow> string option" where
  "push_address text =
     (case filter (\<lambda>l. re_match PUSH_RE l \<noteq> None) (splitlines text) of
        [] \<Rightarrow> None
      | l # _ \<Rightarrow> map_option (\<lambda>m. grp m 1) (re_match PUSH_RE l))"

definition static_ips :: "files \<Rightarrow> (string \<times> string) list" where
  "static_ips fs =
     List.map_filter (\<lambda>(name, text). map_option (Pair name) (push_address text))
       (filter (\<lambda>(name, text). \<not> startswith name ''.'') (fs_static fs))"

definition is_dotted :: "char \<Rightarrow> bool" where
  "is_dotted c \<longleftrightarrow> is_decimal c \<or> c = CHR ''.''"

text \<open>\<open>^\s*server\s+([\d.]+)\s+([\d.]+)(\s+nopool)?\<close> and \<open>^\s*ifconfig-pool\s+([\d.]+)\s+([\d.]+)\<close>\<close>

definition SUBNET_RE :: re where
  "SUBNET_RE = Cat [MBol, Spaces, Lit ''server'', Spaces1, Grp 1 (Plus (Cls is_dotted)), Spaces1,
     Grp 2 (Plus (Cls is_dotted)), Opt (Grp 3 (Seq Spaces1 (Lit ''nopool'')))]"

definition POOL_RE :: re where
  "POOL_RE = Cat [MBol, Spaces, Lit ''ifconfig-pool'', Spaces1, Grp 1 (Plus (Cls is_dotted)), Spaces1,
     Grp 2 (Plus (Cls is_dotted))]"

definition pool_of :: "string \<Rightarrow> match \<Rightarrow> ipv4_network \<Rightarrow> (int \<times> int) result" where
  "pool_of text m net =
     (case group m 3 of
        None \<Rightarrow> Inr (int (unat (network_address net)) + 2, int (unat (broadcast_address net)) - 1)
      | Some w \<Rightarrow>
          (case re_search POOL_RE text of
             None \<Rightarrow> Inr (0, -1)
           | Some p \<Rightarrow>
               res_bind (IPv4Address (grp p 1)) (\<lambda>a. res_bind (IPv4Address (grp p 2)) (\<lambda>b.
                 Inr (int (unat a), int (unat b))))))"

definition vpn_subnet :: "files \<Rightarrow> (ipv4_network \<times> int \<times> int) option" where
  "vpn_subnet fs =
     (case re_search SUBNET_RE (server_text fs) of
        None \<Rightarrow> None
      | Some m \<Rightarrow>
          (case res_bind (IPv4Network False (grp m 1 @ ''/'' @ grp m 2)) (\<lambda>net.
                  res_bind (pool_of (server_text fs) m net) (\<lambda>pool. Inr (net, pool))) of
             Inr r \<Rightarrow> Some r
           | Inl e \<Rightarrow> None))"

definition in_guest_range :: "settings \<Rightarrow> files \<Rightarrow> string \<Rightarrow> bool result" where
  "in_guest_range cfg fs ip =
     (if ip = [] then Inr False
      else
        case IPv4Address ip of
          Inl e \<Rightarrow> Inr False
        | Inr a \<Rightarrow>
            (case res_bind (guest_sub cfg fs) (IPv4Network False) of
               Inr net \<Rightarrow> Inr (in_network a net)
             | Inl ValueError \<Rightarrow> Inr False
             | Inl e \<Rightarrow> Inl e))"

definition static_ip_problem :: "settings \<Rightarrow> files \<Rightarrow> string \<Rightarrow> string \<Rightarrow> string option result" where
  "static_ip_problem cfg fs name ip =
     (case IPv4Address ip of
        Inl e \<Rightarrow> Inr (Some ''Invalid IPv4 address'')
      | Inr addr \<Rightarrow>
          let outside = (\<lambda>net.
                 if \<not> in_network addr net then Inr True
                 else res_bind (ip_add (network_address net) 1) (\<lambda>gateway.
                   Inr (addr \<in> {network_address net, gateway, broadcast_address net})));
              rest = res_bind (in_guest_range cfg fs ip) (\<lambda>g.
                 if g then res_bind (guest_sub cfg fs) (\<lambda>range.
                   Inr (Some (ip @ '' is in the guest range '' @ range @ '', where guests get their addresses'')))
                 else case filter (\<lambda>(n, a). a = ip \<and> n \<noteq> name) (static_ips fs) of
                   [] \<Rightarrow> Inr None
                 | (other, _) # _ \<Rightarrow> Inr (Some (ip @ '' is already assigned to '' @ other)))
          in case vpn_subnet fs of
               None \<Rightarrow> rest
             | Some (net, lo, hi) \<Rightarrow>
                 res_bind (outside net) (\<lambda>out.
                 if out
                 then Inr (Some (ip @ '' is not a client address in the VPN subnet '' @ str_network net))
                 else if lo \<le> int (unat addr) \<and> int (unat addr) \<le> hi
                 then Inr (Some (ip @ '' is in the dynamic pool '' @ str_ipv4 (of_int lo) @ ''-'' @
                   str_ipv4 (of_int hi) @ ''; use a free address outside it''))
                 else rest))"

definition guests :: "files \<Rightarrow> string list" where
  "guests fs = (case fs_guests fs of Some names \<Rightarrow> filter (\<lambda>n. re_match NAME_RE n \<noteq> None) names | None \<Rightarrow> [])"

definition touch_guest :: "string \<Rightarrow> files \<Rightarrow> files" where
  "touch_guest name fs =
     (let names = (case fs_guests fs of Some names \<Rightarrow> names | None \<Rightarrow> [])
      in fs\<lparr>fs_guests := Some (if name \<in> set names then names else names @ [name])\<rparr>)"

definition unlink_static :: "string \<Rightarrow> files \<Rightarrow> files" where
  "unlink_static name fs = fs\<lparr>fs_static := AList.delete name (fs_static fs)\<rparr>"

definition set_guest :: "string \<Rightarrow> bool \<Rightarrow> files \<Rightarrow> files result" where
  "set_guest name guest fs =
     res_bind (validate_name name) (\<lambda>_.
       Inr (if guest then touch_guest name (unlink_static name fs)
            else fs\<lparr>fs_guests := map_option (filter (\<lambda>n. n \<noteq> name)) (fs_guests fs)\<rparr>))"

text \<open>The first name that may not be a guest ends the loop; the markers made before it stay.\<close>

fun set_guests :: "string list \<Rightarrow> files \<Rightarrow> unit result \<times> files" where
  "set_guests [] fs = (Inr (), fs)"
| "set_guests (n # ns) fs =
     (case set_guest n True fs of Inl e \<Rightarrow> (Inl e, fs) | Inr fs' \<Rightarrow> set_guests ns fs')"

definition guest_row :: "settings \<Rightarrow> files \<Rightarrow> string \<times> string \<Rightarrow> (string \<times> bool) result" where
  "guest_row cfg fs row = (case row of (n, ip) \<Rightarrow> res_bind (in_guest_range cfg fs ip) (\<lambda>g. Inr (n, g)))"

definition guest_addresses :: "settings \<Rightarrow> files \<Rightarrow> string list result" where
  "guest_addresses cfg fs =
     res_bind (map_res (guest_row cfg fs) (static_ips fs)) (\<lambda>rs.
       Inr (map fst (filter (\<lambda>(n, g). g \<and> re_match NAME_RE n \<noteq> None) rs)))"

definition migrate_guest_static_ips :: "settings \<Rightarrow> files \<Rightarrow> string list result \<times> files" where
  "migrate_guest_static_ips cfg fs =
     (case guest_addresses cfg fs of
        Inl e \<Rightarrow> (Inl e, fs)
      | Inr moved \<Rightarrow> (case set_guests moved fs of (r, fs') \<Rightarrow> (res_bind r (\<lambda>_. Inr moved), fs')))"

definition push_line :: "string \<Rightarrow> files \<Rightarrow> string" where
  "push_line ip fs =
     ''ifconfig-push '' @ ip @ '' '' @
     (case vpn_subnet fs of Some (net, _) \<Rightarrow> str_ipv4 (netmask net) | None \<Rightarrow> ''255.255.255.0'') @ [newline]"

text \<open>An address of \<open>None\<close> is the empty text: both clear the static address.\<close>

definition set_static_ip :: "settings \<Rightarrow> string \<Rightarrow> string \<Rightarrow> files \<Rightarrow> files result" where
  "set_static_ip cfg name ip fs =
     res_bind (validate_name name) (\<lambda>_.
       if ip \<noteq> [] \<and> name \<in> set (guests fs)
       then Inl (PkiError (''Guests get an address from the guest range for each device; make the client '' @
              ''a full-access one to give it a static IP''))
       else if ip = [] then Inr (unlink_static name fs)
       else res_bind (static_ip_problem cfg fs name ip) (\<lambda>problem.
              case problem of
                Some p \<Rightarrow> Inl (PkiError p)
              | None \<Rightarrow> Inr (fs\<lparr>fs_static := AList.update name (push_line ip fs) (fs_static fs)\<rparr>)))"

definition tfa_line :: "string \<Rightarrow> (string \<times> string) list \<Rightarrow> (string \<times> string) list" where
  "tfa_line line result =
     (case partition_on CHR '':'' (strip line) of
        (name, sep, secret) \<Rightarrow> if sep \<and> name \<noteq> [] \<and> secret \<noteq> [] then AList.update name secret result else result)"

definition tfa_secrets :: "files \<Rightarrow> (string \<times> string) list" where
  "tfa_secrets fs = (case fs_oath fs of Some text \<Rightarrow> fold tfa_line (splitlines text) [] | None \<Rightarrow> [])"

end
