(* ===== verification/Config.thy ===== *)
theory Config
  imports Pki
begin

text \<open>
  The configuration editor and the switches that rewrite configuration files: the second half of
  \<open>ui/app/pki.py\<close>. Programs the code runs are a parameter \<open>execute\<close>, from a command and the files to
  the files it leaves and how it ended. The alphabet of the model has no byte order mark, so
  removing one changes nothing here.
\<close>

section \<open>Running programs\<close>

datatype outcome = Expired | Cannot_run string | Exited int string string

record program_call =
  pc_path :: string
  pc_args :: "string list"
  pc_env :: "(string \<times> string) list"

type_synonym runner = "program_call \<Rightarrow> files \<Rightarrow> files \<times> outcome"

text \<open>The last component of a path, and \<open>_run\<close>'s reading of how a program ended.\<close>

definition base_name :: "string \<Rightarrow> string" where
  "base_name path = last (split_on CHR ''/'' path)"

definition last_lines :: "string \<Rightarrow> string \<Rightarrow> string list" where
  "last_lines stderr stdout =
     (let msg = splitlines (if strip stderr \<noteq> [] then strip stderr else strip stdout) in drop (length msg - 3) msg)"

definition run_result :: "string \<Rightarrow> outcome \<Rightarrow> string result" where
  "run_result path out =
     (case out of
        Expired \<Rightarrow> Inl (PkiError (base_name path @ '' timed out''))
      | Cannot_run why \<Rightarrow> Inl (PkiError (''cannot run '' @ path @ '': '' @ why))
      | Exited rc stdout stderr \<Rightarrow>
          if rc \<noteq> 0 then
            Inl (PkiError (if last_lines stderr stdout \<noteq> [] then join '' '' (last_lines stderr stdout)
                           else base_name path @ '' failed ('' @ dec_int rc @ '')''))
          else Inr stdout)"

definition run_program :: "runner \<Rightarrow> program_call \<Rightarrow> files \<Rightarrow> string result \<times> files" where
  "run_program execute call fs = (case execute call fs of (fs', out) \<Rightarrow> (run_result (pc_path call) out, fs'))"

text \<open>\<open>script\<close>: one of the programs in \<open>bin/\<close>; empty variables are not passed on.\<close>

definition script ::
  "settings \<Rightarrow> runner \<Rightarrow> string \<Rightarrow> string list \<Rightarrow> (string \<times> string) list \<Rightarrow> files \<Rightarrow> string result \<times> files" where
  "script cfg execute name args extra_env fs =
     run_program execute
       \<lparr>pc_path = st_bin_dir cfg @ ''/'' @ name, pc_args = args, pc_env = filter (\<lambda>(k, v). v \<noteq> []) extra_env\<rparr> fs"

section \<open>The editor\<close>

definition PRIVILEGED :: "string list" where
  "PRIVILEGED =
     [''up'', ''down'', ''ipchange'', ''route-up'', ''route-pre-down'', ''tls-verify'', ''auth-user-pass-verify'',
      ''client-connect'', ''client-disconnect'', ''client-crresponse'', ''learn-address'', ''dns-updown'',
      ''tls-crypt-v2-verify'', ''tls-export-cert'', ''plugin'',
      ''engine'', ''providers'', ''pkcs11-providers'', ''iproute'',
      ''script-security'', ''setenv'', ''setenv-safe'', ''config'', ''cd'', ''chroot'', ''daemon'',
      ''log'', ''log-append'', ''status'', ''writepid'', ''ifconfig-pool-persist'', ''replay-persist'', ''tmp-dir'',
      ''management-client-user'', ''management-client-group'']"

definition MAX_LINE :: nat where "MAX_LINE = 255"

definition is_c_space :: "char \<Rightarrow> bool" where
  "is_c_space c \<longleftrightarrow> c = CHR '' '' \<or> (9 \<le> code c \<and> code c \<le> 13)"

definition is_blank :: "char \<Rightarrow> bool" where
  "is_blank c \<longleftrightarrow> c = CHR '' '' \<or> c = CHR 0x09"

definition VARS_LINE :: re where
  "VARS_LINE = Cat [Lit ''set_var'', Plus (Cls is_blank), Lit ''EASYRSA_'',
     Grp 1 (Alt (Lit ''DN'') (Alt
       (Seq (Lit ''REQ_'') (Grp 2 (OneOf [''COUNTRY'', ''PROVINCE'', ''CITY'', ''ORG'', ''EMAIL'', ''OU'', ''CN'', ''SERIAL''])))
       (OneOf [''ALGO'', ''CURVE'', ''KEY_SIZE'', ''DIGEST'', ''CA_EXPIRE'', ''CERT_EXPIRE'', ''CRL_DAYS'', ''CERT_RENEW'',
               ''PRE_EXPIRY_WINDOW'', ''RAND_SN'', ''NS_SUPPORT'', ''NS_COMMENT'']))),
     Plus (Cls is_blank),
     Grp 3 (Alt (Cat [Lit [CHR 0x22], Star (NotIn [CHR 0x22, CHR ''$'', CHR 0x60, CHR 0x5C]), Lit [CHR 0x22]])
                (Plus (Cls (\<lambda>c. is_alnum_ascii c \<or> c \<in> set ''_.,@:/+-'')))),
     Opt (Grp 4 (Cat [Plus (Cls is_blank), Lit ''#'', Star Dot]))]"

text \<open>\<open>option_name\<close>: the first parameter of a line, read the way OpenVPN reads it.\<close>

datatype quoting = Start | Plain | Double | Single

definition NUL :: char where "NUL = CHR 0x00"

fun option_loop :: "string \<Rightarrow> quoting \<Rightarrow> bool \<Rightarrow> string \<Rightarrow> string" where
  "option_loop name state backslash [] = name"
| "option_loop name state backslash (ch # chs) =
     (let space = (ch = NUL \<or> is_c_space ch)
      in if ch = CHR 0x5C \<and> \<not> backslash \<and> state \<noteq> Single then option_loop name state True chs
         else if state = Start then
           (if space then option_loop name Start False chs
            else if ch \<in> set '';#'' then name
            else if ch = CHR 0x22 \<and> \<not> backslash then option_loop name Double False chs
            else if ch = CHR 0x27 \<and> \<not> backslash then option_loop name Single False chs
            else option_loop (name @ [ch]) Plain False chs)
         else if (state = Plain \<and> space \<and> \<not> backslash) \<or> (state = Double \<and> ch = CHR 0x22 \<and> \<not> backslash) \<or>
                 (state = Single \<and> ch = CHR 0x27) then name
         else if ch \<noteq> NUL then option_loop (name @ [ch]) state False chs
         else option_loop name state False chs)"

definition option_name :: "string \<Rightarrow> string" where
  "option_name line =
     (let word = option_loop [] Start False (line @ [NUL]);
          word = (if 3 \<le> length word \<and> startswith word ''--'' then drop 2 word else word)
      in if startswith word ''<'' \<and> endswith word ''>'' then butlast (tl word) else word)"

definition is_control :: "char \<Rightarrow> bool" where
  "is_control c \<longleftrightarrow> code c \<le> 8 \<or> (11 \<le> code c \<and> code c \<le> 31) \<or> code c = 127"

text \<open>\<open>len(raw.encode())\<close>\<close>

definition utf8_length :: "string \<Rightarrow> nat" where
  "utf8_length s = sum_list (map (\<lambda>c. if code c < 128 then 1 else 2) s)"

definition known_lines :: "string \<Rightarrow> string list" where
  "known_lines text = map (strip_by is_c_space) (split_on newline text) @ TFA_LINES"

definition line_problem :: "string \<Rightarrow> string list \<Rightarrow> nat \<Rightarrow> string \<Rightarrow> string option" where
  "line_problem which known n raw =
     (let line = strip_by is_c_space raw
      in if line \<in> set known then None
         else if which = ''vars'' then
           (if line \<noteq> [] \<and> \<not> startswith line ''#'' \<and> re_fullmatch VARS_LINE line = None
            then Some (''Line '' @ dec n @ '': only comments and '' @ [CHR 0x27] @ ''set_var EASYRSA_... value'' @ [CHR 0x27] @
              '' lines for the certificate fields, key type and lifetimes can be added here'')
            else None)
         else if MAX_LINE < utf8_length raw
         then Some (''Line '' @ dec n @ '' is longer than '' @ dec MAX_LINE @ '' bytes, which OpenVPN does not read as one line'')
         else if option_name raw \<in> set PRIVILEGED
         then Some (''Line '' @ dec n @ '': '' @ [CHR 0x27] @ option_name raw @ [CHR 0x27] @
           '' runs a program or redirects a file. Such a line cannot be added or changed here - edit '' @
           (case map_of CONFIG_FILES which of Some f \<Rightarrow> f | None \<Rightarrow> []) @ '' on the server instead.'')
         else None)"

fun check_lines :: "string \<Rightarrow> string list \<Rightarrow> nat \<Rightarrow> string list \<Rightarrow> unit result" where
  "check_lines which known n [] = Inr ()"
| "check_lines which known n (raw # raws) =
     (case line_problem which known n raw of
        Some p \<Rightarrow> Inl (PkiError p)
      | None \<Rightarrow> check_lines which known (Suc n) raws)"

text \<open>The byte order mark \<open>check_edit\<close> drops is no character of the model.\<close>

definition check_edit :: "string \<Rightarrow> string \<Rightarrow> files \<Rightarrow> unit result" where
  "check_edit which content fs =
     (let content = crlf_to_lf content
      in if list_ex is_control content then Inl (PkiError ''The file contains control characters'')
         else res_bind (read_config which fs) (\<lambda>current.
           check_lines which (known_lines current) 1 (split_on newline content)))"

text \<open>\<open>^\s*management\s+\<close>\<close>

definition MANAGEMENT_RE :: re where
  "MANAGEMENT_RE = Cat [MBol, Spaces, Lit ''management'', Spaces1]"

text \<open>The file \<open>config_path\<close> names, as its base name, its content and how to replace it.\<close>

definition store_config :: "string \<Rightarrow> string \<Rightarrow> files \<Rightarrow> files" where
  "store_config which content fs =
     (if which = ''server'' then fs\<lparr>fs_server_conf := Some content\<rparr>
      else if which = ''client'' then fs\<lparr>fs_client_conf := Some content\<rparr>
      else if fs_vars fs = None then fs\<lparr>fs_vars_template := Some content\<rparr>
      else fs\<lparr>fs_vars := Some content\<rparr>)"

definition config_file_name :: "string \<Rightarrow> files \<Rightarrow> string" where
  "config_file_name which fs =
     (if which = ''server'' then ''server.conf'' else if which = ''client'' then ''client.conf''
      else if fs_vars fs = None then ''easy-rsa.vars'' else ''vars'')"

definition final_newline :: "string \<Rightarrow> string" where
  "final_newline s = (if endswith s [newline] then s else s @ [newline])"

text \<open>
  A file the system refuses to open for writing raises \<open>OSError\<close>, which the caller sees as an error that
  names the file. The backup is written first: it is there also when the file itself cannot be written.
\<close>

definition cannot_write :: "string \<Rightarrow> string \<Rightarrow> exc" where
  "cannot_write name reason = PkiError (''cannot write '' @ name @ '': '' @ reason)"

definition write_config :: "string \<Rightarrow> string \<Rightarrow> files \<Rightarrow> unit result \<times> files" where
  "write_config which content fs =
     (case config_content which fs of
        Inl e \<Rightarrow> (Inl e, fs)
      | Inr current \<Rightarrow>
          if 200000 < length content then (Inl (PkiError ''Configuration file too large''), fs)
          else
            let content = final_newline (crlf_to_lf content); name = config_file_name which fs
            in if which = ''server'' \<and> re_search MANAGEMENT_RE content = None
               then (Inl (PkiError (''server.conf must keep the '' @ [CHR 0x27] @ ''management'' @ [CHR 0x27] @
                 '' line - the UI needs it'')), fs)
               else
                 case (current, map_of (fs_refused fs) (name @ ''.bak'')) of
                   (Some old, Some reason) \<Rightarrow> (Inl (cannot_write name reason), fs)
                 | (_, _) \<Rightarrow>
                     let fs1 = (case current of
                                  None \<Rightarrow> fs
                                | Some old \<Rightarrow> fs\<lparr>fs_bak := AList.update (name @ ''.bak'') old (fs_bak fs)\<rparr>)
                     in case map_of (fs_refused fs) name of
                          Some reason \<Rightarrow> (Inl (cannot_write name reason), fs1)
                        | None \<Rightarrow> (Inr (), store_config which (universal_newlines content) fs1))"

section \<open>Profiles and the public endpoint\<close>

text \<open>Names whose profile could not be made; the others have been made again.\<close>

fun make_profiles :: "settings \<Rightarrow> runner \<Rightarrow> string list \<Rightarrow> files \<Rightarrow> string list \<times> files" where
  "make_profiles cfg execute [] fs = ([], fs)"
| "make_profiles cfg execute (name # names) fs =
     (case script cfg execute ''mkovpn.sh'' [name] [] fs of
        (r, fs1) \<Rightarrow>
          (case make_profiles cfg execute names fs1 of
             (failed, fs2) \<Rightarrow> (if isl r then name # failed else failed, fs2)))"

definition regenerate_profiles :: "settings \<Rightarrow> runner \<Rightarrow> files \<Rightarrow> string list \<times> files" where
  "regenerate_profiles cfg execute fs =
     make_profiles cfg execute (filter (\<lambda>n. n \<notin> set RESERVED) (map fst (fs_issued fs))) fs"

text \<open>
  \<open>^\s*proto\s+(udp|tcp)\<close>, \<open>^\s*port\s+(\d+)\<close>, \<open>^\s*remote\s+(\S+)\s+(\d+)(?:\s+(udp|tcp)\S*)?\<close>,
  \<open>^\s*local\s+\S+(?:\s+(\d+))?(?:\s+(udp|tcp)\S*)?\<close>, \<open>^[A-Za-z0-9.\-:]{1,253}$\<close>
\<close>

definition PROTO_RE :: re where
  "PROTO_RE = Cat [MBol, Spaces, Lit ''proto'', Spaces1, Grp 1 (OneOf [''udp'', ''tcp''])]"

definition PORT_RE :: re where
  "PORT_RE = Cat [MBol, Spaces, Lit ''port'', Spaces1, Grp 1 Digits]"

definition proto_suffix :: "nat \<Rightarrow> re" where
  "proto_suffix n = Opt (Cat [Spaces1, Grp n (OneOf [''udp'', ''tcp'']), Star (Cls (\<lambda>c. \<not> is_space c))])"

definition REMOTE_RE :: re where
  "REMOTE_RE = Cat [MBol, Spaces, Lit ''remote'', Spaces1, Grp 1 NonSpaces, Spaces1, Grp 2 Digits, proto_suffix 3]"

definition LOCAL_RE :: re where
  "LOCAL_RE = Cat [MBol, Spaces, Lit ''local'', Spaces1, NonSpaces, Opt (Seq Spaces1 (Grp 1 Digits)), proto_suffix 2]"

definition HOST_RE :: re where
  "HOST_RE = Cat [Bol, Cls (\<lambda>c. is_alnum_ascii c \<or> c \<in> set ''.-:''),
     UpTo 252 (Cls (\<lambda>c. is_alnum_ascii c \<or> c \<in> set ''.-:'')), Eol]"

record endpoint =
  ep_port :: string
  ep_proto :: string

definition client_text :: "files \<Rightarrow> string" where
  "client_text fs = (case fs_client_conf fs of Some t \<Rightarrow> t | None \<Rightarrow> [])"

definition default_proto :: "string \<Rightarrow> string" where
  "default_proto text = (case re_search PROTO_RE text of Some m \<Rightarrow> grp m 1 | None \<Rightarrow> ''udp'')"

definition or_else :: "string \<Rightarrow> string \<Rightarrow> string" where
  "or_else s t = (if s = [] then t else s)"

definition get_remote :: "files \<Rightarrow> string \<times> endpoint list" where
  "get_remote fs =
     (let text = client_text fs; found = re_findall REMOTE_RE text
      in (case found of [] \<Rightarrow> [] | m # _ \<Rightarrow> grp m 1,
          map (\<lambda>m. \<lparr>ep_port = grp m 2, ep_proto = or_else (grp m 3) (default_proto text)\<rparr>) found))"

definition server_listen :: "files \<Rightarrow> endpoint list" where
  "server_listen fs =
     (let text = server_text fs; proto = default_proto text;
          port = (case re_search PORT_RE text of Some m \<Rightarrow> grp m 1 | None \<Rightarrow> ''1194'');
          local = map (\<lambda>m. \<lparr>ep_port = or_else (grp m 1) port, ep_proto = or_else (grp m 2) proto\<rparr>) (re_findall LOCAL_RE text)
      in if local \<noteq> [] then local else [\<lparr>ep_port = port, ep_proto = proto\<rparr>])"

text \<open>The sockets with UDP first; the ports given by protocol, as text.\<close>

definition udp_first :: "endpoint list \<Rightarrow> endpoint list" where
  "udp_first es = filter (\<lambda>e. ep_proto e = ''udp'') es @ filter (\<lambda>e. ep_proto e \<noteq> ''udp'') es"

definition public_port :: "(string \<times> string) list \<Rightarrow> (string \<times> string) list \<Rightarrow> endpoint \<Rightarrow> string" where
  "public_port ports current sock =
     (case map_of ports (ep_proto sock) of
        Some p \<Rightarrow> p
      | None \<Rightarrow> or_else (case map_of current (ep_proto sock) of Some p \<Rightarrow> p | None \<Rightarrow> []) (ep_port sock))"

definition remote_line :: "string \<Rightarrow> (string \<times> string) list \<Rightarrow> (string \<times> string) list \<Rightarrow> endpoint \<Rightarrow> string result" where
  "remote_line host ports current sock =
     (let port = public_port ports current sock;
          bad = Inl (PkiError (''Invalid '' @ upper (ep_proto sock) @ '' port''))
      in if \<not> isdigit port then bad
         else res_bind (py_int port) (\<lambda>n.
           if 1 \<le> n \<and> n \<le> 65535 then Inr (''remote '' @ host @ '' '' @ port @ '' '' @ ep_proto sock) else bad))"

definition current_ports :: "files \<Rightarrow> (string \<times> string) list" where
  "current_ports fs = fold (\<lambda>e. AList.update (ep_proto e) (ep_port e)) (snd (get_remote fs)) []"

definition validate_remote :: "string \<Rightarrow> (string \<times> string) list \<Rightarrow> files \<Rightarrow> string list result" where
  "validate_remote host ports fs =
     (let host = strip host
      in if re_match HOST_RE host = None then Inl (PkiError ''Invalid host name or IP address'')
         else map_res (remote_line host ports (current_ports fs)) (udp_first (server_listen fs)))"

text \<open>\<open>^\s*(remote|proto)\s+\<close>\<close>

definition ENDPOINT_RE :: re where
  "ENDPOINT_RE = Cat [Bol, Spaces, Grp 1 (OneOf [''remote'', ''proto'']), Spaces1]"

text \<open>Where new lines go: after the first \<open>client\<close> line, or at the start.\<close>

fun after_client :: "nat \<Rightarrow> string list \<Rightarrow> nat" where
  "after_client i [] = 0"
| "after_client i (l # ls) = (if strip l = ''client'' then Suc i else after_client (Suc i) ls)"

definition remote_text :: "string list \<Rightarrow> files \<Rightarrow> string" where
  "remote_text remotes fs =
     (let ls = filter (\<lambda>l. re_match ENDPOINT_RE l = None) (splitlines (client_text fs)); at = after_client 0 ls
      in join [newline] (take at ls @ remotes @ drop at ls) @ [newline])"

definition set_remote :: "settings \<Rightarrow> runner \<Rightarrow> string \<Rightarrow> (string \<times> string) list \<Rightarrow> files \<Rightarrow> unit result \<times> files" where
  "set_remote cfg execute host ports fs =
     (case validate_remote host ports fs of
        Inl e \<Rightarrow> (Inl e, fs)
      | Inr remotes \<Rightarrow>
          (case write_config ''client'' (remote_text remotes fs) fs of
             (Inl e, fs1) \<Rightarrow> (Inl e, fs1)
           | (Inr u, fs1) \<Rightarrow> (Inr (), snd (regenerate_profiles cfg execute fs1))))"

definition sync_remotes :: "settings \<Rightarrow> runner \<Rightarrow> files \<Rightarrow> bool result \<times> files" where
  "sync_remotes cfg execute fs =
     (case get_remote fs of
        (host, remotes) \<Rightarrow>
          if host = [] \<or> sort (map ep_proto remotes) = sort (map ep_proto (server_listen fs)) then (Inr False, fs)
          else (case set_remote cfg execute host [] fs of (r, fs') \<Rightarrow> (res_bind r (\<lambda>_. Inr True), fs')))"

section \<open>The control channel and the second factor\<close>

text \<open>\<open>^\s*(tls-crypt-v2|tls-crypt|tls-auth)\s\<close>, and the same line to its end\<close>

definition TLS_RE :: re where
  "TLS_RE = Cat [MBol, Spaces, Grp 1 (OneOf [''tls-crypt-v2'', ''tls-crypt'', ''tls-auth'']), Cls is_space]"

definition TLS_LINE_RE :: re where
  "TLS_LINE_RE = Cat [MBol, Spaces, Grp 1 (OneOf [''tls-crypt-v2'', ''tls-crypt'', ''tls-auth'']), Cls is_space,
     Star Dot, MEol]"

definition control_channel :: "files \<Rightarrow> string" where
  "control_channel fs = (case re_search TLS_RE (server_text fs) of Some m \<Rightarrow> grp m 1 | None \<Rightarrow> ''none'')"

definition tls_line :: "bool \<Rightarrow> string" where
  "tls_line per_client = (if per_client then ''tls-crypt-v2 pki/tc2-server.key'' else ''tls-crypt pki/ta.key'')"

definition server_key :: "settings \<Rightarrow> runner \<Rightarrow> bool \<Rightarrow> files \<Rightarrow> unit result \<times> files" where
  "server_key cfg execute per_client fs =
     (if per_client \<and> \<not> fs_tc2_key fs then
        (case run_program execute
                \<lparr>pc_path = ''openvpn'', pc_args = [''--genkey'', ''tls-crypt-v2-server'', st_pki_dir cfg @ ''/tc2-server.key''],
                 pc_env = []\<rparr> fs of
           (r, fs') \<Rightarrow> (res_bind r (\<lambda>_. Inr ()), fs'))
      else (Inr (), fs))"

definition set_control_channel :: "settings \<Rightarrow> runner \<Rightarrow> bool \<Rightarrow> files \<Rightarrow> unit result \<times> files" where
  "set_control_channel cfg execute per_client fs =
     (case server_key cfg execute per_client fs of
        (Inl e, fs1) \<Rightarrow> (Inl e, fs1)
      | (Inr u, fs1) \<Rightarrow>
          (case write_config ''server'' (re_sub1 TLS_LINE_RE (tls_line per_client) (server_text fs1)) fs1 of
             (Inl e, fs2) \<Rightarrow> (Inl e, fs2)
           | (Inr u, fs2) \<Rightarrow> (Inr (), snd (regenerate_profiles cfg execute fs2))))"

text \<open>\<open>^\s*auth-user-pass-verify\s+\<close> and \<open>^\s*#?\s*(auth-user-pass-verify|auth-gen-token)\s+\<close>\<close>

definition VERIFY_RE :: re where
  "VERIFY_RE = Cat [MBol, Spaces, Lit ''auth-user-pass-verify'', Spaces1]"

definition TFA_LINE_RE :: re where
  "TFA_LINE_RE = Cat [Bol, Spaces, Opt (Lit ''#''), Spaces,
     Grp 1 (OneOf [''auth-user-pass-verify'', ''auth-gen-token'']), Spaces1]"

definition tfa_enforced :: "files \<Rightarrow> bool" where
  "tfa_enforced fs \<longleftrightarrow> re_search VERIFY_RE (server_text fs) \<noteq> None"

definition tfa_text :: "bool \<Rightarrow> string \<Rightarrow> string" where
  "tfa_text enabled text =
     (let ls = filter (\<lambda>l. re_match TFA_LINE_RE l = None) (splitlines text)
      in join [newline] (ls @ (if enabled then TFA_LINES else map ((#) CHR ''#'') TFA_LINES)) @ [newline])"

definition set_tfa_enforced :: "bool \<Rightarrow> files \<Rightarrow> unit result \<times> files" where
  "set_tfa_enforced enabled fs = write_config ''server'' (tfa_text enabled (server_text fs)) fs"

end
