(* ===== verification/Edits.thy ===== *)
theory Edits
  imports Config "HOL-Library.Code_Target_Nat"
begin

text \<open>
  What edits and switches can do to the configuration files: which privileged lines the editor lets through,
  what it lets into the easy-rsa variables, which a shell runs, and that the second-factor switch does
  what the interface then shows. Two lemmas at the end show what the check does not refuse.
\<close>

section \<open>Texts as lines\<close>

definition unlines :: "string list \<Rightarrow> string" where
  "unlines ls = concat (map (\<lambda>l. l @ [newline]) ls)"

lemma unlines_simps [simp]: "unlines [] = []" "unlines (l # ls) = l @ newline # unlines ls" "unlines (xs @ ys) = unlines xs @ unlines ys"
  by (simp_all add: unlines_def)

lemma join_unlines: "ls \<noteq> [] \<Longrightarrow> join [newline] ls @ [newline] = unlines ls"
  by (induction "[newline]" ls rule: join.induct) auto

lemma crlf_to_lf_id: "CHR 0x0D \<notin> set s \<Longrightarrow> crlf_to_lf s = s"
  by (induction s rule: crlf_to_lf.induct) auto

lemma universal_newlines_id: "CHR 0x0D \<notin> set s \<Longrightarrow> universal_newlines s = s"
  by (auto simp: universal_newlines_def crlf_to_lf_id intro!: map_idI)

lemma final_newline_id [simp]: "final_newline (s @ [newline]) = s @ [newline]"
  by (simp add: final_newline_def endswith_iff)

lemma splitlines_from_plain:
  "list_all (\<lambda>c. \<not> is_line_end c) acc \<Longrightarrow> list_all (list_all (\<lambda>c. \<not> is_line_end c)) (splitlines_from acc s)"
  by (induction acc s rule: splitlines_from.induct) auto

lemma splitlines_plain: "l \<in> set (splitlines s) \<Longrightarrow> list_all (\<lambda>c. \<not> is_line_end c) l"
  using splitlines_from_plain [of "[]" s] by (auto simp: splitlines_def list_all_iff)

lemma plain_no_break:
  "list_all (\<lambda>c. \<not> is_line_end c) l \<Longrightarrow> newline \<notin> set l" "list_all (\<lambda>c. \<not> is_line_end c) l \<Longrightarrow> CHR 0x0D \<notin> set l"
  by (auto simp: list_all_iff is_line_end_def newline_def code_def)

lemma first_break:
  assumes "newline \<notin> set a" "newline \<notin> set b" "a @ newline # x = b @ newline # y"
  shows "a = b \<and> x = y"
proof -
  have "partition_on newline (a @ newline # x) = partition_on newline (b @ newline # y)" using assms(3) by simp
  with assms(1,2) show ?thesis by simp
qed

text \<open>A position at the start of a line cuts the text between two lines.\<close>

lemma unlines_cut:
  assumes "unlines ls = a @ t" "a = [] \<or> last a = newline" "\<forall>l \<in> set ls. newline \<notin> set l"
  shows "\<exists>ls1 ls2. ls = ls1 @ ls2 \<and> a = unlines ls1 \<and> t = unlines ls2"
  using assms
proof (induction ls arbitrary: a)
  case (Cons l ls)
  show ?case
  proof (cases "a = []")
    case True
    with Cons.prems(1) show ?thesis by (intro exI [of _ "[]"] exI [of _ "l # ls"]) simp
  next
    case False
    have nl: "newline \<notin> set l" using Cons.prems(3) by simp
    have "newline \<in> set a" using False Cons.prems(2) last_in_set by metis
    then obtain a1 a2 where a: "a = a1 @ newline # a2" "newline \<notin> set a1" by (meson split_list_first)
    with Cons.prems(1) have eq: "l @ newline # unlines ls = a1 @ newline # (a2 @ t)" by simp
    then have "l = a1 \<and> unlines ls = a2 @ t" using nl a(2) first_break by blast
    moreover have "a2 = [] \<or> last a2 = newline" using a(1) Cons.prems(2) by (cases a2) auto
    ultimately obtain ls1 ls2 where "ls = ls1 @ ls2" "a2 = unlines ls1" "t = unlines ls2"
      using Cons.IH [of a2] Cons.prems(3) by auto
    then show ?thesis using a \<open>l = a1 \<and> _\<close> by (intro exI [of _ "l # ls1"] exI [of _ ls2]) simp
  qed
qed simp

lemma last_break: "\<exists>a w. s = a @ w \<and> (a = [] \<or> last a = newline) \<and> newline \<notin> set w"
proof (induction s rule: rev_induct)
  case (snoc c s)
  then obtain a w where "s = a @ w" "a = [] \<or> last a = newline" "newline \<notin> set w" by blast
  then show ?case
    by (cases "c = newline") (auto intro: exI [of _ "s @ [c]"] exI [of _ a])
qed simp

text \<open>A pattern for a directive at the start of a line finds a line with that directive.\<close>

lemma directive_line:
  assumes "unlines ls = u @ w @ kw @ c # rest" "u = [] \<or> last u = newline" "list_all is_space w" "is_space c"
    and "\<forall>l \<in> set ls. newline \<notin> set l" "newline \<notin> set kw"
  shows "\<exists>l \<in> set ls. \<exists>w' r. l = w' @ kw @ r \<and> list_all is_space w' \<and> (r = [] \<or> is_space (hd r))"
proof -
  obtain a w' where aw: "w = a @ w'" "a = [] \<or> last a = newline" "newline \<notin> set w'" using last_break by blast
  have "u @ a = [] \<or> last (u @ a) = newline" using assms(2) aw(2) by (cases "a = []") auto
  moreover have "unlines ls = (u @ a) @ (w' @ kw @ c # rest)" using assms(1) aw(1) by simp
  ultimately obtain ls1 ls2 where ls: "ls = ls1 @ ls2" "w' @ kw @ c # rest = unlines ls2"
    using unlines_cut assms(5) by blast
  then obtain l ls3 where l: "ls2 = l # ls3" by (cases ls2) auto
  define k where "k = w' @ kw"
  have nk: "newline \<notin> set k" using aw(3) assms(6) by (simp add: k_def)
  have "k @ c # rest = l @ newline # unlines ls3" using ls l by (simp add: k_def)
  then consider us where "k @ us = l" "c # rest = us @ newline # unlines ls3"
    | us where "k = l @ us" "us @ c # rest = newline # unlines ls3" unfolding append_eq_append_conv2 by blast
  then have "\<exists>r. l = k @ r \<and> (r = [] \<or> hd r = c)"
  proof cases
    case (1 us)
    then show ?thesis by (cases us) auto
  next
    case (2 us)
    with nk show ?thesis by (cases us) auto
  qed
  then obtain r where "l = w' @ kw @ r" "r = [] \<or> hd r = c" by (auto simp: k_def)
  moreover have "l \<in> set ls" "list_all is_space w'" using ls(1) l assms(3) aw(1) by auto
  ultimately show ?thesis using assms(4) by blast
qed

lemma directive_rel:
  "((rev u, v), q) \<in> rel (Cat [MBol, Spaces, Lit kw, Spaces1]) \<Longrightarrow>
     \<exists>w c rest. v = w @ kw @ c # rest \<and> (u = [] \<or> last u = newline) \<and> list_all is_space w \<and> is_space c"
  by (cases q) (fastforce simp: rel_iffs Spaces_def Spaces1_def Plus_def hd_rev)

section \<open>The second factor\<close>

lemma in_splitlines_tfa:
  "\<forall>l \<in> set (filter P (splitlines t) @ (if enabled then TFA_LINES else map ((#) CHR ''#'') TFA_LINES)).
     list_all (\<lambda>c. \<not> is_line_end c) l"
  using splitlines_plain [of _ t] by (auto simp: TFA_LINES_def is_line_end_def code_def)

definition switched :: "bool \<Rightarrow> string \<Rightarrow> string list" where
  "switched enabled t =
     filter (\<lambda>l. re_match TFA_LINE_RE l = None) (splitlines t) @
     (if enabled then TFA_LINES else map ((#) CHR ''#'') TFA_LINES)"

lemma switched_plain: "l \<in> set (switched enabled t) \<Longrightarrow> list_all (\<lambda>c. \<not> is_line_end c) l"
  using in_splitlines_tfa unfolding switched_def by blast

lemma tfa_text_eq: "tfa_text enabled t = unlines (switched enabled t)"
  by (simp add: tfa_text_def switched_def Let_def join_unlines TFA_LINES_def)

lemma set_unlines: "set (unlines ls) \<subseteq> insert newline (\<Union> (set ` set ls))"
  by (induction ls) auto

lemma write_config_server:
  assumes "write_config ''server'' content fs = (Inr (), fs')"
  shows "server_text fs' = universal_newlines (final_newline (crlf_to_lf content))"
proof -
  obtain fs1 where "fs' = store_config ''server'' (universal_newlines (final_newline (crlf_to_lf content))) fs1"
    using assms by (auto simp: write_config_def config_content_def Let_def split: if_splits option.splits)
  then show ?thesis by (simp add: store_config_def server_text_def)
qed

lemma set_tfa_enforced_text:
  assumes "set_tfa_enforced enabled fs = (Inr (), fs')"
  shows "server_text fs' = unlines (switched enabled (server_text fs))"
proof -
  let ?t = "unlines (switched enabled (server_text fs))"
  have "CHR 0x0D \<noteq> newline" by (simp add: newline_def)
  then have cr: "CHR 0x0D \<notin> set ?t"
    using set_unlines [of "switched enabled (server_text fs)"] plain_no_break(2) [OF switched_plain] by blast
  have "switched enabled (server_text fs) \<noteq> []" by (simp add: switched_def TFA_LINES_def)
  then have f: "final_newline ?t = ?t" using final_newline_id by (metis join_unlines)
  show ?thesis
    using write_config_server [OF assms [unfolded set_tfa_enforced_def tfa_text_eq]] crlf_to_lf_id [OF cr]
      universal_newlines_id [OF cr] f by simp
qed

lemma tfa_enforced_lines:
  assumes "server_text fs = unlines ls" "\<forall>l \<in> set ls. newline \<notin> set l" "tfa_enforced fs"
  shows "\<exists>l \<in> set ls. \<exists>w r. l = w @ ''auth-user-pass-verify'' @ r \<and> list_all is_space w \<and> (r = [] \<or> is_space (hd r))"
proof -
  have "\<not> (\<forall>u v q. unlines ls = u @ v \<longrightarrow> ((rev u, v), q) \<notin> rel VERIFY_RE)"
    using assms(1,3) by (simp only: tfa_enforced_def re_search_None) blast
  then obtain u v q where v: "unlines ls = u @ v" "((rev u, v), q) \<in> rel VERIFY_RE" by blast
  from directive_rel [OF v(2) [unfolded VERIFY_RE_def]] obtain w c rest where
    "v = w @ ''auth-user-pass-verify'' @ c # rest" "u = [] \<or> last u = newline" "list_all is_space w" "is_space c" by blast
  with v(1) have "unlines ls = u @ w @ ''auth-user-pass-verify'' @ c # rest" "u = [] \<or> last u = newline"
    "list_all is_space w" "is_space c" by simp_all
  then show ?thesis using directive_line [of ls u w "''auth-user-pass-verify''" c rest] assms(2) by (simp add: newline_def)
qed

lemma directive_piece:
  assumes "b = [] \<or> hd b = newline" "list_all is_space w" "is_space c"
  shows "((b, w @ k @ [c] @ r), (rev [c] @ rev k @ rev w @ b, r)) \<in> rel (Cat [MBol, Spaces, Lit k, Spaces1])"
proof -
  have 1: "((b, w @ k @ [c] @ r), (b, w @ k @ [c] @ r)) \<in> rel MBol" using assms(1) by (simp add: rel_mem)
  have 2: "((b, w @ k @ [c] @ r), (rev w @ b, k @ [c] @ r)) \<in> rel Spaces"
    unfolding Spaces_def by (rule rel_Star_piece [OF assms(2)])
  have 3: "((rev w @ b, k @ [c] @ r), (rev k @ rev w @ b, [c] @ r)) \<in> rel (Lit k)" by (rule rel_Lit_piece)
  have 4: "((rev k @ rev w @ b, [c] @ r), (rev [c] @ rev k @ rev w @ b, r)) \<in> rel Spaces1"
    unfolding Spaces1_def by (rule rel_Plus_piece) (simp_all add: assms(3))
  show ?thesis by (rule rel_Cat_Cons 1 2 3 4 rel_Cat_Nil)+
qed

lemma tfa_enforced_line:
  assumes "server_text fs = unlines (ls1 @ (''auth-user-pass-verify '' @ r) # ls2)"
  shows "tfa_enforced fs"
proof -
  let ?u = "unlines ls1" and ?kw = "''auth-user-pass-verify''"
  let ?v = "[] @ ?kw @ [CHR '' ''] @ r @ newline # unlines ls2"
  have u: "rev ?u = [] \<or> hd (rev ?u) = newline" by (cases ls1 rule: rev_cases) simp_all
  have "is_space CHR '' ''" by (simp add: is_space_def code_def)
  from directive_piece [OF u _ this, of "[]" ?kw]
  have "((rev ?u, ?v), (rev [CHR '' ''] @ rev ?kw @ rev [] @ rev ?u, r @ newline # unlines ls2)) \<in> rel VERIFY_RE"
    unfolding VERIFY_RE_def by (simp only: list.pred_inject simp_thms)
  moreover have "server_text fs = ?u @ ?v" using assms by simp
  ultimately show ?thesis unfolding tfa_enforced_def re_search_None by blast
qed

lemma tfa_line_piece:
  assumes "list_all is_space w" "is_space c"
  shows "(([], w @ k @ [c] @ r), (rev [c] @ rev k @ rev w, r)) \<in>
    rel (Cat [Bol, Spaces, Opt (Lit ''#''), Spaces, Grp 1 (Alt (Lit k) q), Spaces1])"
proof -
  have 1: "(([], w @ k @ [c] @ r), ([], w @ k @ [c] @ r)) \<in> rel Bol" by (simp add: rel_mem)
  have 2: "(([], w @ k @ [c] @ r), (rev w, k @ [c] @ r)) \<in> rel Spaces"
    using rel_Star_piece [OF assms(1), of "[]"] by (simp add: Spaces_def)
  have 3: "((rev w, k @ [c] @ r), (rev w, k @ [c] @ r)) \<in> rel Spaces"
    by (simp add: Spaces_def rel_Star_Cls)
  have 4: "((rev w, k @ [c] @ r), (rev k @ rev w, [c] @ r)) \<in> rel (Grp 1 (Alt (Lit k) q))"
    by (simp add: rel_mem rel_Lit)
  have 5: "((rev k @ rev w, [c] @ r), (rev [c] @ rev k @ rev w, r)) \<in> rel Spaces1"
    unfolding Spaces1_def by (rule rel_Plus_piece) (simp_all add: assms(2))
  show ?thesis by (rule rel_Cat_Cons 1 2 rel_Opt_none 3 4 5 rel_Cat_Nil)+
qed

lemma tfa_line_kept:
  assumes "re_match TFA_LINE_RE l = None" "l = w @ ''auth-user-pass-verify'' @ [c] @ r" "list_all is_space w"
  shows "\<not> is_space c"
proof
  assume "is_space c"
  from tfa_line_piece [OF assms(3) this] assms(1) show False
    unfolding re_match_def match_at_None assms(2) TFA_LINE_RE_def OneOf.simps by blast
qed

text \<open>
  The second-factor switch works: after \<open>set_tfa_enforced\<close> the interface reports what was asked
  for, every line of \<open>server.conf\<close> that is not about the second factor is still there, in order, and
  the two lines of the switch stand at the end, live or commented out. The one configuration left
  out is a bare \<open>auth-user-pass-verify\<close> without its program, which OpenVPN refuses.
\<close>

theorem tfa_switch:
  assumes "set_tfa_enforced enabled fs = (Inr (), fs')"
    and "\<forall>l \<in> set (splitlines (server_text fs)). lstrip_by is_space l \<noteq> ''auth-user-pass-verify''"
  shows "(tfa_enforced fs' \<longleftrightarrow> enabled) \<and>
    splitlines (server_text fs') =
      filter (\<lambda>l. re_match TFA_LINE_RE l = None) (splitlines (server_text fs)) @
      (if enabled then TFA_LINES else map ((#) CHR ''#'') TFA_LINES)"
proof -
  let ?ls = "switched enabled (server_text fs)"
  note t = set_tfa_enforced_text [OF assms(1)]
  have "list_all (list_all (\<lambda>c. \<not> is_line_end c)) ?ls" using switched_plain by (auto simp: list_all_iff)
  then have s: "splitlines (server_text fs') = ?ls" using splitlines_lines [of ?ls] t by (simp add: unlines_def)
  have "tfa_enforced fs'" if "enabled"
    by (rule tfa_enforced_line [of _ "filter (\<lambda>l. re_match TFA_LINE_RE l = None) (splitlines (server_text fs))"
          "''/opt/app/bin/oath.sh via-file''" "[''auth-gen-token 43200'']"])
       (simp add: t switched_def that TFA_LINES_def)
  moreover have "\<not> tfa_enforced fs'" if off: "\<not> enabled"
  proof
    assume "tfa_enforced fs'"
    then obtain l w r where l: "l \<in> set ?ls" "l = w @ ''auth-user-pass-verify'' @ r" "list_all is_space w" "r = [] \<or> is_space (hd r)"
      using tfa_enforced_lines [OF t] switched_plain plain_no_break(1) by blast
    have "hd l \<noteq> CHR ''#''" using l(2,3) by (cases w) (auto simp: is_space_def code_def)
    then have "l \<notin> set (map ((#) CHR ''#'') TFA_LINES)" by (auto simp: TFA_LINES_def)
    then have k: "l \<in> set (splitlines (server_text fs))" "re_match TFA_LINE_RE l = None" using l(1) off by (auto simp: switched_def)
    have "lstrip_by is_space l = ''auth-user-pass-verify'' @ r"
      using l(2,3) takeWhile_stop [of is_space w "''auth-user-pass-verify'' @ r"]
      by (simp add: lstrip_by_def is_space_def [of "CHR ''a''"] code_def)
    then have "r \<noteq> []" using assms(2) k(1) by auto
    then show False using tfa_line_kept [OF k(2), of w "hd r" "tl r"] l by (cases r) auto
  qed
  ultimately show ?thesis using s by (auto simp: switched_def)
qed

section \<open>The editor\<close>

lemma write_config_read:
  assumes "write_config which content fs = (Inr (), fs')"
  shows "read_config which fs' = Inr (universal_newlines (final_newline (crlf_to_lf content)))"
proof -
  let ?new = "universal_newlines (final_newline (crlf_to_lf content))"
  obtain fs1 where fs1: "fs' = store_config which ?new fs1" and w: "which \<in> {''server'', ''client'', ''vars''}"
    using assms by (cases "config_content which fs") (auto simp: write_config_def config_content_def Let_def split: if_splits option.splits)
  show ?thesis
    using w by (auto simp: fs1 read_config_def config_content_def store_config_def split: option.splits)
qed

lemma split_on_snoc: "split_on c (s @ [c]) = split_on c s @ [[]]"
  by (induction s) (auto split: list.splits)

lemma split_final_newline: "set (split_on newline (final_newline s)) \<subseteq> insert [] (set (split_on newline s))"
  by (auto simp: final_newline_def split_on_snoc)

lemma check_lines_ok: "check_lines which known n raws = Inr () \<Longrightarrow> raw \<in> set raws \<Longrightarrow> \<exists>m. line_problem which known m raw = None"
  by (induction which known n raws rule: check_lines.induct) (auto split: option.splits)

lemma not_control_no_cr: "\<not> list_ex is_control s \<Longrightarrow> CHR 0x0D \<notin> set s"
proof
  assume "\<not> list_ex is_control s" "CHR 0x0D \<in> set s"
  moreover have "is_control CHR 0x0D" by (simp add: is_control_def code_def)
  ultimately show False by (auto simp: list_ex_iff)
qed

text \<open>Every line of the new file is the empty last one or has passed the check against the old file.\<close>

lemma edit_lines:
  assumes "check_edit which content fs = Inr ()" "write_config which content fs = (Inr (), fs')"
    and "read_config which fs = Inr old" "read_config which fs' = Inr new" "l \<in> set (split_on newline new)"
  shows "l = [] \<or> (\<exists>m. line_problem which (known_lines old) m l = None)"
proof -
  let ?c = "crlf_to_lf content"
  have c: "\<not> list_ex is_control ?c" "check_lines which (known_lines old) 1 (split_on newline ?c) = Inr ()"
    using assms(1,3) by (auto simp: check_edit_def Let_def split: if_splits)
  have "CHR 0x0D \<notin> set ?c" using not_control_no_cr c(1) .
  then have "CHR 0x0D \<notin> set (final_newline ?c)" by (auto simp: final_newline_def newline_def)
  then have "new = final_newline ?c"
    using write_config_read [OF assms(2)] assms(4) by (simp add: universal_newlines_id)
  then have "l = [] \<or> l \<in> set (split_on newline ?c)" using assms(5) split_final_newline by blast
  then show ?thesis using check_lines_ok [OF c(2)] by blast
qed

text \<open>A line of the old file, up to the space around it.\<close>

definition old_line :: "string \<Rightarrow> string \<Rightarrow> bool" where
  "old_line old l \<longleftrightarrow> (\<exists>k \<in> set (split_on newline old). strip_by is_c_space l = strip_by is_c_space k)"

lemma known_old: "strip_by is_c_space l \<in> set (known_lines old) \<longleftrightarrow> old_line old l \<or> strip_by is_c_space l \<in> set TFA_LINES"
  by (auto simp: known_lines_def old_line_def)

lemma option_loop_space: "list_all is_c_space w \<Longrightarrow> option_loop [] Start False (w @ s) = option_loop [] Start False s"
  by (induction w) (auto simp: is_c_space_def code_def)

lemma strip_by_split: "\<exists>a b. s = a @ strip_by P s @ b \<and> list_all P a \<and> list_all P b"
proof -
  let ?t = "dropWhile P s"
  have "s = takeWhile P s @ strip_by P s @ rev (takeWhile P (rev ?t))"
    by (simp add: strip_by_def lstrip_by_def rstrip_by_def flip: rev_append)
  moreover have "list_all P (takeWhile P s)" "list_all P (rev (takeWhile P (rev ?t)))"
    by (auto simp: list_all_iff dest: set_takeWhileD)
  ultimately show ?thesis by blast
qed

lemma token_line_plain:
  assumes "strip_by is_c_space l = ''auth-gen-token 43200''"
  shows "option_name l \<notin> set PRIVILEGED"
proof -
  obtain a b where "l = a @ ''auth-gen-token 43200'' @ b" "list_all is_c_space a"
    using strip_by_split [of l is_c_space] assms by auto
  then have "option_loop [] Start False (l @ [NUL]) = ''auth-gen-token''"
    using option_loop_space [of a "''auth-gen-token 43200'' @ b @ [NUL]"] by (simp add: is_c_space_def code_def NUL_def)
  then show ?thesis by (simp add: option_name_def startswith_def PRIVILEGED_def)
qed

text \<open>
  C24. Editing \<open>server.conf\<close> or the client template in the browser adds one privileged line at most. In the
  file an accepted edit leaves behind, a line whose option, read as OpenVPN reads it, runs a program, loads
  code or writes a file is, up to the space around it, a line of the old file or the line that switches on the
  second factor with the program that belongs to it. A line longer than OpenVPN reads at once is, up to the
  space around it, a line of the old file or one of the two lines of the switch.
\<close>

theorem edit_adds_no_privilege:
  assumes "check_edit which content fs = Inr ()" "write_config which content fs = (Inr (), fs')" "which \<noteq> ''vars''"
    and "read_config which fs = Inr old" "read_config which fs' = Inr new"
  shows "\<forall>l \<in> set (split_on newline new).
    (option_name l \<in> set PRIVILEGED \<longrightarrow>
       old_line old l \<or> strip_by is_c_space l = ''auth-user-pass-verify /opt/app/bin/oath.sh via-file'') \<and>
    (MAX_LINE < utf8_length l \<longrightarrow> old_line old l \<or> strip_by is_c_space l \<in> set TFA_LINES)"
proof
  fix l
  assume "l \<in> set (split_on newline new)"
  with edit_lines [OF assms(1,2,4,5)] consider "l = []" | m where "line_problem which (known_lines old) m l = None" by blast
  then have "strip_by is_c_space l \<in> set (known_lines old) \<or> (utf8_length l \<le> MAX_LINE \<and> option_name l \<notin> set PRIVILEGED)"
  proof cases
    case 1
    have "option_name [] \<notin> set PRIVILEGED" by code_simp
    then show ?thesis using 1 by (simp add: utf8_length_def)
  next
    case 2
    then show ?thesis using assms(3) by (auto simp: line_problem_def Let_def split: if_splits)
  qed
  moreover have "strip_by is_c_space l = ''auth-user-pass-verify /opt/app/bin/oath.sh via-file''"
    if "strip_by is_c_space l \<in> set TFA_LINES" "option_name l \<in> set PRIVILEGED"
    using that token_line_plain [of l] unfolding TFA_LINES_def by auto
  ultimately show "(option_name l \<in> set PRIVILEGED \<longrightarrow>
       old_line old l \<or> strip_by is_c_space l = ''auth-user-pass-verify /opt/app/bin/oath.sh via-file'') \<and>
    (MAX_LINE < utf8_length l \<longrightarrow> old_line old l \<or> strip_by is_c_space l \<in> set TFA_LINES)"
    unfolding known_old by (meson not_le)
qed

text \<open>What the variables file of easy-rsa, a shell script, may be extended with.\<close>

definition VARS_NAMES :: "string list" where
  "VARS_NAMES = [''DN'', ''REQ_COUNTRY'', ''REQ_PROVINCE'', ''REQ_CITY'', ''REQ_ORG'', ''REQ_EMAIL'', ''REQ_OU'', ''REQ_CN'',
     ''REQ_SERIAL'', ''ALGO'', ''CURVE'', ''KEY_SIZE'', ''DIGEST'', ''CA_EXPIRE'', ''CERT_EXPIRE'', ''CRL_DAYS'', ''CERT_RENEW'',
     ''PRE_EXPIRY_WINDOW'', ''RAND_SN'', ''NS_SUPPORT'', ''NS_COMMENT'']"

definition inert_value :: "string \<Rightarrow> bool" where
  "inert_value v \<longleftrightarrow>
     (\<exists>t. v = CHR 0x22 # t @ [CHR 0x22] \<and> set t \<inter> {CHR 0x22, CHR ''$'', CHR 0x60, CHR 0x5C} = {}) \<or>
     (v \<noteq> [] \<and> list_all (\<lambda>c. is_alnum_ascii c \<or> c \<in> set ''_.,@:/+-'') v)"

definition blanks :: "string \<Rightarrow> bool" where
  "blanks b \<longleftrightarrow> b \<noteq> [] \<and> list_all is_blank b"

definition inert_assignment :: "string \<Rightarrow> bool" where
  "inert_assignment l \<longleftrightarrow>
     (\<exists>b1 name b2 v rest. l = ''set_var'' @ b1 @ ''EASYRSA_'' @ name @ b2 @ v @ rest \<and> blanks b1 \<and> blanks b2 \<and>
        name \<in> set VARS_NAMES \<and> inert_value v \<and> (rest = [] \<or> (\<exists>b3 t. rest = b3 @ CHR ''#'' # t \<and> blanks b3 \<and> newline \<notin> set t)))"

lemma value_rel:
  assumes "((b, s), (b', s')) \<in> rel (Grp 3 (Alt (Cat [Lit [CHR 0x22], Star (NotIn [CHR 0x22, CHR ''$'', CHR 0x60, CHR 0x5C]), Lit [CHR 0x22]])
    (Plus (Cls (\<lambda>c. is_alnum_ascii c \<or> c \<in> set ''_.,@:/+-'')))))"
  shows "\<exists>v. s = v @ s' \<and> inert_value v"
proof -
  from assms consider (quoted) "((b, s), (b', s')) \<in> rel (Cat [Lit [CHR 0x22], Star (NotIn [CHR 0x22, CHR ''$'', CHR 0x60, CHR 0x5C]), Lit [CHR 0x22]])"
    | (bare) "((b, s), (b', s')) \<in> rel (Plus (Cls (\<lambda>c. is_alnum_ascii c \<or> c \<in> set ''_.,@:/+-'')))"
    unfolding rel_mem by blast
  then show ?thesis
  proof cases
    case quoted
    then obtain t where "s = CHR 0x22 # t @ CHR 0x22 # s'" "list_all (\<lambda>x. x \<notin> set [CHR 0x22, CHR ''$'', CHR 0x60, CHR 0x5C]) t"
      by (auto simp: NotIn_def Chr_def rel_mem rel_Star_Cls)
    then show ?thesis by (intro exI [of _ "CHR 0x22 # t @ [CHR 0x22]"]) (auto simp: inert_value_def list_all_iff)
  next
    case bare
    then show ?thesis unfolding rel_Plus_Cls inert_value_def by blast
  qed
qed

lemma rest_rel:
  assumes "((b, s), (b', s')) \<in> rel (Opt (Grp 4 (Cat [Plus (Cls is_blank), Lit ''#'', Star Dot])))"
  shows "\<exists>r. s = r @ s' \<and> (r = [] \<or> (\<exists>b3 t. r = b3 @ CHR ''#'' # t \<and> blanks b3 \<and> newline \<notin> set t))"
proof -
  from assms consider "s = s'" | "((b, s), (b', s')) \<in> rel (Cat [Plus (Cls is_blank), Lit ''#'', Star Dot])"
    unfolding rel_mem Opt_def by blast
  then show ?thesis
  proof cases
    case 2
    then obtain b3 t where "s = b3 @ CHR ''#'' # t @ s'" "b3 \<noteq> []" "list_all is_blank b3" "list_all (\<lambda>x. x \<noteq> newline) t"
      by (auto simp: rel_mem rel_Plus_Cls rel_Star_Cls Dot_def Chr_def)
    then show ?thesis by (intro exI [of _ "b3 @ CHR ''#'' # t"]) (auto simp: blanks_def list_all_iff)
  qed simp
qed

lemma alternatives_rel:
  assumes "((b, s), (b', s')) \<in> rel (Grp 1 (Alt (Lit d) (Alt (Seq (Lit q) (Grp 2 (OneOf req))) (OneOf other))))"
  shows "\<exists>n \<in> set (d # map ((@) q) req @ other). s = n @ s'"
  using assms by (auto simp: rel_mem rel_Lit rel_OneOf)

lemma Cat_split:
  "((b, s), q) \<in> rel (Cat (r # rs)) \<Longrightarrow> \<exists>b1 s1. ((b, s), (b1, s1)) \<in> rel r \<and> ((b1, s1), q) \<in> rel (Cat rs)"
  by (cases q) (simp add: rel_mem)

lemma assignment_rel:
  assumes "((b, l), (b', [])) \<in> rel (Cat [Lit p, Plus (Cls is_blank), Lit e, nm, Plus (Cls is_blank), vl, rs])"
    and nm: "\<And>b s b' s'. ((b, s), (b', s')) \<in> rel nm \<Longrightarrow> \<exists>n \<in> N. s = n @ s'"
    and vl: "\<And>b s b' s'. ((b, s), (b', s')) \<in> rel vl \<Longrightarrow> \<exists>v. s = v @ s' \<and> V v"
    and rs: "\<And>b s b' s'. ((b, s), (b', s')) \<in> rel rs \<Longrightarrow> \<exists>r. s = r @ s' \<and> R r"
  shows "\<exists>b1 name b2 v r. l = p @ b1 @ e @ name @ b2 @ v @ r \<and> blanks b1 \<and> blanks b2 \<and> name \<in> N \<and> V v \<and> R r"
proof -
  from Cat_split [OF assms(1)] obtain b1 s1 where 1: "l = p @ s1"
    and "((b1, s1), (b', [])) \<in> rel (Cat [Plus (Cls is_blank), Lit e, nm, Plus (Cls is_blank), vl, rs])" by (auto simp only: rel_Lit)
  from Cat_split [OF this(2)] obtain t2 b2 s2 where 2: "s1 = t2 @ s2" "blanks t2"
    and "((b2, s2), (b', [])) \<in> rel (Cat [Lit e, nm, Plus (Cls is_blank), vl, rs])" by (auto simp only: rel_Plus_Cls blanks_def)
  from Cat_split [OF this(3)] obtain b3 s3 where 3: "s2 = e @ s3"
    and "((b3, s3), (b', [])) \<in> rel (Cat [nm, Plus (Cls is_blank), vl, rs])" by (auto simp only: rel_Lit)
  from Cat_split [OF this(2)] obtain n b4 s4 where 4: "s3 = n @ s4" "n \<in> N"
    and "((b4, s4), (b', [])) \<in> rel (Cat [Plus (Cls is_blank), vl, rs])" using nm by blast
  from Cat_split [OF this(3)] obtain t5 b5 s5 where 5: "s4 = t5 @ s5" "blanks t5"
    and "((b5, s5), (b', [])) \<in> rel (Cat [vl, rs])" by (auto simp only: rel_Plus_Cls blanks_def)
  from Cat_split [OF this(3)] obtain v b6 s6 where 6: "s5 = v @ s6" "V v" and "((b6, s6), (b', [])) \<in> rel (Cat [rs])" using vl by blast
  from Cat_split [OF this(3)] obtain r b7 s7 where 7: "s6 = r @ s7" "R r" and "((b7, s7), (b', [])) \<in> rel (Cat [])" using rs by blast
  then have "s7 = []" by (simp add: rel_mem)
  then have "l = p @ t2 @ e @ n @ t5 @ v @ r" using 1 2(1) 3 4(1) 5(1) 6(1) 7(1) by simp
  then show ?thesis using 2(2) 4(2) 5(2) 6(2) 7(2) by blast
qed

lemma VARS_LINE_inert:
  assumes "re_fullmatch VARS_LINE l \<noteq> None"
  shows "inert_assignment l"
proof -
  let ?req = "[''COUNTRY'', ''PROVINCE'', ''CITY'', ''ORG'', ''EMAIL'', ''OU'', ''CN'', ''SERIAL'']"
  let ?other = "[''ALGO'', ''CURVE'', ''KEY_SIZE'', ''DIGEST'', ''CA_EXPIRE'', ''CERT_EXPIRE'', ''CRL_DAYS'', ''CERT_RENEW'',
               ''PRE_EXPIRY_WINDOW'', ''RAND_SN'', ''NS_SUPPORT'', ''NS_COMMENT'']"
  have names: "''DN'' # map ((@) ''REQ_'') ?req @ ?other = VARS_NAMES" by (simp add: VARS_NAMES_def)
  have "(([], l), (rev l, [])) \<in> rel VARS_LINE" using assms re_fullmatch_iff by blast
  from assignment_rel [OF this [unfolded VARS_LINE_def] alternatives_rel [of _ _ _ _ "''DN''" "''REQ_''" ?req ?other, unfolded names]
      value_rel rest_rel]
  show ?thesis unfolding inert_assignment_def .
qed

text \<open>
  C25. Editing the easy-rsa variables, which a shell runs, adds nothing to run but what is fixed in the program:
  every line of the file an accepted edit leaves behind is, up to the space around it, one that was there
  before, one of the two lines of the second-factor switch, which the check lets through in this file
  too, blank, a comment, or one assignment of a certificate field whose value the shell takes literally.
\<close>

theorem vars_edit_inert:
  assumes "check_edit ''vars'' content fs = Inr ()" "write_config ''vars'' content fs = (Inr (), fs')"
    and "read_config ''vars'' fs = Inr old" "read_config ''vars'' fs' = Inr new"
  shows "\<forall>l \<in> set (split_on newline new).
    let line = strip_by is_c_space l
    in old_line old l \<or>
       line \<in> {''auth-user-pass-verify /opt/app/bin/oath.sh via-file'', ''auth-gen-token 43200''} \<or>
       line = [] \<or> startswith line ''#'' \<or> inert_assignment line"
proof
  fix l
  assume "l \<in> set (split_on newline new)"
  with edit_lines [OF assms] consider "l = []" | m where "line_problem ''vars'' (known_lines old) m l = None" by blast
  then show "let line = strip_by is_c_space l
    in old_line old l \<or>
       line \<in> {''auth-user-pass-verify /opt/app/bin/oath.sh via-file'', ''auth-gen-token 43200''} \<or>
       line = [] \<or> startswith line ''#'' \<or> inert_assignment line"
  proof cases
    case 1
    then show ?thesis by (simp add: strip_by_def lstrip_by_def rstrip_by_def)
  next
    case 2
    then have "strip_by is_c_space l \<in> set (known_lines old) \<or> strip_by is_c_space l = [] \<or> startswith (strip_by is_c_space l) ''#'' \<or>
        inert_assignment (strip_by is_c_space l)"
      using VARS_LINE_inert [of "strip_by is_c_space l"] by (auto simp: line_problem_def Let_def split: if_splits)
    then show ?thesis unfolding known_old Let_def TFA_LINES_def by auto
  qed
qed

section \<open>Examples\<close>

definition demo_conf :: files where
  "demo_conf =
     \<lparr>fs_server_conf = Some (unlines [''management localhost 2080'', ''#up /etc/openvpn/up.sh'',
        ''# auth-user-pass-verify /opt/app/bin/oath.sh via-file'']),
      fs_client_conf = None, fs_vars = Some (unlines [''set_var EASYRSA_ALGO ec'']), fs_vars_template = None,
      fs_static = [], fs_guests = None, fs_oath = None, fs_index = None, fs_issued = [], fs_renewed = [], fs_revoked = [],
      fs_crl = None, fs_tc2_key = False, fs_bak = [], fs_network = Net_missing, fs_proxies = None, fs_refused = []\<rparr>"

lemma fst_Inr: "fst x = Inr u \<Longrightarrow> x = (Inr u, snd x)"
  by (cases x) simp

lemma Inr_projr: "\<not> isl x \<Longrightarrow> x = Inr (projr x)"
  by (cases x) auto

theorem tfa_switch_witness: "tfa_enforced (snd (set_tfa_enforced True demo_conf))"
proof -
  have "fst (set_tfa_enforced True demo_conf) = Inr ()" by code_simp
  moreover have "\<forall>l \<in> set (splitlines (server_text demo_conf)). lstrip_by is_space l \<noteq> ''auth-user-pass-verify''" by code_simp
  ultimately show ?thesis using tfa_switch [OF fst_Inr] by blast
qed

definition demo_edit :: string where
  "demo_edit = unlines [''management localhost 2080'', ''#up /etc/openvpn/up.sh'', ''verb 4'']"

theorem edit_adds_no_privilege_witness:
  "\<exists>new. read_config ''server'' (snd (write_config ''server'' demo_edit demo_conf)) = Inr new \<and>
     list_all (\<lambda>l. option_name l \<in> set PRIVILEGED \<longrightarrow> old_line (server_text demo_conf) l \<or>
       strip_by is_c_space l = ''auth-user-pass-verify /opt/app/bin/oath.sh via-file'') (split_on newline new)"
proof -
  have c: "check_edit ''server'' demo_edit demo_conf = Inr ()" by code_simp
  have w: "fst (write_config ''server'' demo_edit demo_conf) = Inr ()" by code_simp
  have o: "read_config ''server'' demo_conf = Inr (server_text demo_conf)" by code_simp
  have r: "\<not> isl (read_config ''server'' (snd (write_config ''server'' demo_edit demo_conf)))" by code_simp
  have n: "''server'' \<noteq> ''vars''" by simp
  show ?thesis
    unfolding list_all_iff using edit_adds_no_privilege [OF c fst_Inr [OF w] n o Inr_projr [OF r]] Inr_projr [OF r] by blast
qed

definition demo_vars :: string where
  "demo_vars = unlines [''set_var EASYRSA_ALGO ec'', ''set_var EASYRSA_REQ_ORG '' @ [CHR 0x22] @ ''Example Ltd'' @ [CHR 0x22] @ '' # name'']"

theorem vars_edit_inert_witness:
  "\<exists>new. read_config ''vars'' (snd (write_config ''vars'' demo_vars demo_conf)) = Inr new \<and>
     list_all (\<lambda>l. let line = strip_by is_c_space l
      in old_line (projr (read_config ''vars'' demo_conf)) l \<or>
         line \<in> {''auth-user-pass-verify /opt/app/bin/oath.sh via-file'', ''auth-gen-token 43200''} \<or>
         line = [] \<or> startswith line ''#'' \<or> inert_assignment line) (split_on newline new)"
proof -
  have c: "check_edit ''vars'' demo_vars demo_conf = Inr ()" by code_simp
  have w: "fst (write_config ''vars'' demo_vars demo_conf) = Inr ()" by code_simp
  have o: "\<not> isl (read_config ''vars'' demo_conf)" by code_simp
  have r: "\<not> isl (read_config ''vars'' (snd (write_config ''vars'' demo_vars demo_conf)))" by code_simp
  show ?thesis
    unfolding list_all_iff
    using vars_edit_inert [OF c fst_Inr [OF w] Inr_projr [OF o] Inr_projr [OF r]] Inr_projr [OF r] by blast
qed

text \<open>
  The two lines of the second-factor switch are let through in the variables of easy-rsa as well, where they are
  commands for the shell and not assignments.
\<close>

lemma switch_line_in_vars:
  "check_edit ''vars'' (unlines TFA_LINES) demo_conf = Inr ()"
  "isl (check_edit ''vars'' ''auth-user-pass-verify /opt/app/bin/oath.sh via-env'' demo_conf)"
  by code_simp+

text \<open>
  The length of a line is not checked when the line, without the space around it, is already in
  the file. A first edit may add any comment; a second one may then pad it so far that OpenVPN's
  line buffer ends right after the comment mark, and what follows is a line of its own: here \<open>up\<close>,
  which neither edit could have added directly.
\<close>

definition comment_edit :: string where
  "comment_edit = unlines [''management localhost 2080'', ''#up /tmp/x'']"

definition padded_line :: string where
  "padded_line = replicate 254 CHR '' '' @ ''#up /tmp/x''"

definition padded_edit :: string where
  "padded_edit = unlines [''management localhost 2080'', padded_line]"

lemma padding_evades_check:
  "check_edit ''server'' comment_edit demo_conf = Inr ()"
  "check_edit ''server'' padded_edit (snd (write_config ''server'' comment_edit demo_conf)) = Inr ()"
  "take MAX_LINE padded_line = replicate 254 CHR '' '' @ ''#''" "drop MAX_LINE padded_line = ''up /tmp/x''"
  "isl (check_edit ''server'' (unlines [''management localhost 2080'', drop MAX_LINE padded_line]) demo_conf)"
  by code_simp+

end
