(* ===== verification/Clients.thy ===== *)
theory Clients
  imports Complex_Main Config "HOL-Library.Multiset"
begin

text \<open>
  Clients and their certificates: the listing, the start of an identity, the operations that run
  the scripts, and the revocation list. What OpenSSL prints for a certificate (\<open>x509\<close>), for its
  public key (\<open>pubkey_out\<close>) and for the revocation list (\<open>crl_out\<close>), and SHA-256, are parameters.
\<close>

section \<open>The listing\<close>

record cert_row =
  cr_serial :: string
  cr_cn :: string
  cr_state :: string
  cr_not_before :: "int option"
  cr_not_after :: "int option"
  cr_revoked_at :: "int option"
  cr_reason :: "string option"
  cr_fingerprint :: string

record client_info =
  ci_name :: string
  ci_cert :: cert_row
  ci_previous :: "cert_row option"
  ci_history :: "cert_row list"

text \<open>\<open>info.get("not_after") or entry.get("expires")\<close>: an end at the epoch counts as unknown.\<close>

definition expiry_of :: "cert \<Rightarrow> index_entry option \<Rightarrow> int option" where
  "expiry_of info entry =
     (if ct_not_after info = None \<or> ct_not_after info = Some 0
      then (case entry of Some e \<Rightarrow> ie_expires e | None \<Rightarrow> None) else ct_not_after info)"

definition cert_state :: "int \<Rightarrow> (string \<times> index_entry) list \<Rightarrow> cert \<Rightarrow> cert_row" where
  "cert_state now index info =
     (let entry = map_of index (ct_serial info);
          status = (case entry of Some e \<Rightarrow> ie_status e | None \<Rightarrow> ''V'');
          expires = expiry_of info entry;
          state = (if status = ''R'' then ''revoked''
                   else if (case expires of Some t \<Rightarrow> t \<le> now | None \<Rightarrow> False) then ''expired'' else ''valid'')
      in \<lparr>cr_serial = ct_serial info, cr_cn = ct_cn info, cr_state = state, cr_not_before = ct_not_before info,
          cr_not_after = expires, cr_revoked_at = (case entry of Some e \<Rightarrow> ie_revoked_at e | None \<Rightarrow> None),
          cr_reason = (case entry of Some e \<Rightarrow> ie_reason e | None \<Rightarrow> None), cr_fingerprint = ct_fingerprint info\<rparr>)"

text \<open>\<open>sorted(dir.glob("*.crt"))\<close>: by file name.\<close>

definition by_file_name :: "(string \<times> string) list \<Rightarrow> (string \<times> string) list" where
  "by_file_name fl = sort_key (\<lambda>(name, content). name @ ''.crt'') fl"

type_synonym reader = "string option \<Rightarrow> cert option"

definition issued_client ::
  "(cert \<Rightarrow> cert_row) \<Rightarrow> reader \<Rightarrow> (string \<times> string) list \<Rightarrow> string \<times> string \<Rightarrow> (string \<times> client_info) list
    \<Rightarrow> (string \<times> client_info) list" where
  "issued_client state info renewed file clients =
     (case file of (name, content) \<Rightarrow>
        if name \<in> set RESERVED then clients
        else
          case info (Some content) of
            None \<Rightarrow> clients
          | Some i \<Rightarrow>
              AList.update name
                \<lparr>ci_name = name, ci_cert = state i, ci_previous = map_option state (info (map_of renewed name)),
                 ci_history = []\<rparr> clients)"

definition revoked_client ::
  "(cert \<Rightarrow> cert_row) \<Rightarrow> reader \<Rightarrow> string list \<Rightarrow> string \<times> string \<Rightarrow> (string \<times> client_info) list
    \<Rightarrow> (string \<times> client_info) list" where
  "revoked_client state info hidden_serials file clients =
     (case info (Some (snd file)) of
        None \<Rightarrow> clients
      | Some i \<Rightarrow>
          if ct_serial i \<in> set hidden_serials then clients
          else
            let name = or_else (ct_cn i) (ct_serial i)
            in case map_of clients name of
                 Some c \<Rightarrow> AList.update name (c\<lparr>ci_history := ci_history c @ [state i]\<rparr>) clients
               | None \<Rightarrow>
                   AList.update name \<lparr>ci_name = name, ci_cert = state i, ci_previous = None, ci_history = []\<rparr> clients)"

text \<open>Newest first; Python's reversed sort keeps equal elements in order.\<close>

definition sort_history :: "client_info \<Rightarrow> client_info" where
  "sort_history c =
     c\<lparr>ci_history := sort_key (\<lambda>r. - (case cr_not_before r of Some t \<Rightarrow> t | None \<Rightarrow> 0)) (ci_history c)\<rparr>"

definition list_clients :: "int \<Rightarrow> reader \<Rightarrow> string list \<Rightarrow> files \<Rightarrow> (string \<times> client_info) list" where
  "list_clients now info hidden_serials fs =
     (let state = cert_state now (read_index fs);
          clients = fold (issued_client state info (fs_renewed fs)) (by_file_name (fs_issued fs)) [];
          clients = fold (revoked_client state info hidden_serials) (by_file_name (fs_revoked fs)) clients
      in map (\<lambda>(n, c). (n, sort_history c)) clients)"

text \<open>\<open>identity_start\<close>: the earliest certificate with the public key of the current one.\<close>

definition pubkey :: "(string \<Rightarrow> string) \<Rightarrow> (string \<Rightarrow> string result) \<Rightarrow> string option \<Rightarrow> string" where
  "pubkey sha256 pubkey_out content =
     (case content of
        None \<Rightarrow> []
      | Some c \<Rightarrow> (case pubkey_out c of Inl e \<Rightarrow> [] | Inr out \<Rightarrow> sha256 out))"

definition known_start :: "cert \<Rightarrow> int option" where
  "known_start i = (if ct_not_before i = Some 0 then None else ct_not_before i)"

definition earlier ::
  "reader \<Rightarrow> (string option \<Rightarrow> string) \<Rightarrow> string \<Rightarrow> string \<Rightarrow> string option \<Rightarrow> int \<Rightarrow> int" where
  "earlier info key_of name key other start =
     (case info other of
        None \<Rightarrow> start
      | Some i \<Rightarrow>
          (case known_start i of
             Some t \<Rightarrow> if ct_cn i = name \<and> key_of other = key then min start t else start
           | None \<Rightarrow> start))"

definition identity_start :: "reader \<Rightarrow> (string option \<Rightarrow> string) \<Rightarrow> string \<Rightarrow> files \<Rightarrow> int option" where
  "identity_start info key_of name fs =
     (let current = map_of (fs_issued fs) name
      in case info current of
           None \<Rightarrow> None
         | Some i \<Rightarrow>
             (case known_start i of
                None \<Rightarrow> None
              | Some t \<Rightarrow>
                  Some (fold (earlier info key_of name (key_of current))
                    (map_of (fs_renewed fs) name # map (Some \<circ> snd) (fs_revoked fs)) t)))"

section \<open>Operations\<close>

definition REVOKE_REASONS :: "string list" where
  "REVOKE_REASONS = [''unspecified'', ''keyCompromise'', ''CACompromise'', ''affiliationChanged'', ''superseded'',
     ''cessationOfOperation'', ''certificateHold'']"

definition days_ok :: "int option \<Rightarrow> bool" where
  "days_ok days \<longleftrightarrow> (case days of None \<Rightarrow> True | Some d \<Rightarrow> 1 \<le> d \<and> d \<le> 3650)"

definition days_text :: "int option \<Rightarrow> string" where
  "days_text days = (case days of None \<Rightarrow> [] | Some d \<Rightarrow> if d = 0 then [] else dec_int d)"

definition finished :: "string result \<times> files \<Rightarrow> unit result \<times> files" where
  "finished r = (res_bind (fst r) (\<lambda>_. Inr ()), snd r)"

text \<open>Absent passphrases and addresses are empty texts.\<close>

definition create_client ::
  "settings \<Rightarrow> runner \<Rightarrow> string \<Rightarrow> int option \<Rightarrow> string \<Rightarrow> string \<Rightarrow> files \<Rightarrow> unit result \<times> files" where
  "create_client cfg execute name days passphrase static_ip fs =
     (case validate_name name of
        Inl e \<Rightarrow> (Inl e, fs)
      | Inr _ \<Rightarrow>
          if \<not> days_ok days then (Inl (PkiError ''Validity must be between 1 and 3650 days''), fs)
          else
            (case (if static_ip = [] then Inr None else static_ip_problem cfg fs name static_ip) of
               Inl e \<Rightarrow> (Inl e, fs)
             | Inr (Some problem) \<Rightarrow> (Inl (PkiError problem), fs)
             | Inr None \<Rightarrow>
                 if passphrase \<noteq> [] \<and> length passphrase < 4
                 then (Inl (PkiError ''Passphrase must be at least 4 characters''), fs)
                 else
                   finished (script cfg execute ''genclient.sh'' (name # (if static_ip = [] then [] else [static_ip]))
                     [(''OVPN_CERT_DAYS'', days_text days), (''OVPN_KEY_PASSPHRASE'', passphrase)] fs)))"

definition revoke_client :: "settings \<Rightarrow> runner \<Rightarrow> string \<Rightarrow> string \<Rightarrow> files \<Rightarrow> unit result \<times> files" where
  "revoke_client cfg execute name reason fs =
     (case validate_name name of
        Inl e \<Rightarrow> (Inl e, fs)
      | Inr _ \<Rightarrow>
          if reason \<noteq> [] \<and> reason \<notin> set REVOKE_REASONS then (Inl (PkiError ''Invalid revocation reason''), fs)
          else finished (script cfg execute ''revoke.sh'' (name # (if reason = [] then [] else [reason])) [] fs))"

definition revoke_previous :: "settings \<Rightarrow> runner \<Rightarrow> string \<Rightarrow> files \<Rightarrow> unit result \<times> files" where
  "revoke_previous cfg execute name fs =
     (case validate_name name of
        Inl e \<Rightarrow> (Inl e, fs)
      | Inr _ \<Rightarrow> finished (script cfg execute ''revoke.sh'' [''--renewed'', name] [] fs))"

definition renew_client :: "settings \<Rightarrow> runner \<Rightarrow> string \<Rightarrow> int option \<Rightarrow> files \<Rightarrow> unit result \<times> files" where
  "renew_client cfg execute name days fs =
     (case validate_name name of
        Inl e \<Rightarrow> (Inl e, fs)
      | Inr _ \<Rightarrow>
          if \<not> days_ok days then (Inl (PkiError ''Validity must be between 1 and 3650 days''), fs)
          else finished (script cfg execute ''renew.sh'' [name] [(''OVPN_CERT_DAYS'', days_text days)] fs))"

definition remove_client :: "settings \<Rightarrow> runner \<Rightarrow> string \<Rightarrow> files \<Rightarrow> unit result \<times> files" where
  "remove_client cfg execute name fs =
     (case validate_name name of
        Inl e \<Rightarrow> (Inl e, fs)
      | Inr _ \<Rightarrow> finished (script cfg execute ''rmcert.sh'' [name] [] fs))"

text \<open>The second factor of a client: the secret, then a new profile if the client has a certificate.\<close>

definition refresh_profile :: "settings \<Rightarrow> runner \<Rightarrow> string \<Rightarrow> files \<Rightarrow> unit result \<times> files" where
  "refresh_profile cfg execute name fs =
     (if map_of (fs_issued fs) name \<noteq> None then finished (script cfg execute ''mkovpn.sh'' [name] [] fs) else (Inr (), fs))"

definition enable_tfa :: "settings \<Rightarrow> runner \<Rightarrow> string \<Rightarrow> files \<Rightarrow> string result \<times> files" where
  "enable_tfa cfg execute name fs =
     (case validate_name name of
        Inl e \<Rightarrow> (Inl e, fs)
      | Inr _ \<Rightarrow>
          (case script cfg execute ''oath-sec-gen.sh'' [name, st_tfa_issuer cfg] [] fs of
             (Inl e, fs1) \<Rightarrow> (Inl e, fs1)
           | (Inr out, fs1) \<Rightarrow>
               (case refresh_profile cfg execute name fs1 of
                  (Inl e, fs2) \<Rightarrow> (Inl e, fs2)
                | (Inr u, fs2) \<Rightarrow> (Inr (case splitlines (strip out) of [] \<Rightarrow> [] | l # _ \<Rightarrow> l), fs2))))"

definition disable_tfa :: "settings \<Rightarrow> runner \<Rightarrow> string \<Rightarrow> files \<Rightarrow> unit result \<times> files" where
  "disable_tfa cfg execute name fs =
     (case validate_name name of
        Inl e \<Rightarrow> (Inl e, fs)
      | Inr _ \<Rightarrow>
          (case script cfg execute ''oath-sec-rm.sh'' [name] [] fs of
             (Inl e, fs1) \<Rightarrow> (Inl e, fs1)
           | (Inr out, fs1) \<Rightarrow> refresh_profile cfg execute name fs1))"

section \<open>The revocation list\<close>

record crl_state =
  cs_exists :: bool
  cs_last_update :: "int option"
  cs_next_update :: "int option"
  cs_revoked :: nat

definition crl_line :: "string list \<Rightarrow> string \<Rightarrow> crl_state \<Rightarrow> crl_state" where
  "crl_line zones line st =
     (case partition_on CHR ''='' line of
        (key, sep, val) \<Rightarrow>
          if key = ''lastUpdate'' then st\<lparr>cs_last_update := parse_openssl_time zones val\<rparr>
          else if key = ''nextUpdate'' then st\<lparr>cs_next_update := parse_openssl_time zones val\<rparr>
          else st)"

definition crl_info :: "string list \<Rightarrow> (string \<Rightarrow> string result) \<Rightarrow> files \<Rightarrow> crl_state" where
  "crl_info zones crl_out fs =
     (case fs_crl fs of
        None \<Rightarrow> \<lparr>cs_exists = False, cs_last_update = None, cs_next_update = None, cs_revoked = 0\<rparr>
      | Some c \<Rightarrow>
          (let st = \<lparr>cs_exists = True, cs_last_update = None, cs_next_update = None, cs_revoked = 0\<rparr>
           in (case crl_out c of Inl e \<Rightarrow> st | Inr out \<Rightarrow> fold (crl_line zones) (splitlines out) st)
                \<lparr>cs_revoked := length (filter (\<lambda>(s, e). ie_status e = ''R'') (read_index fs))\<rparr>))"

definition gen_crl :: "settings \<Rightarrow> runner \<Rightarrow> files \<Rightarrow> unit result \<times> files" where
  "gen_crl cfg execute fs =
     finished (run_program execute \<lparr>pc_path = st_easyrsa_dir cfg @ ''/easyrsa'', pc_args = [''gen-crl''], pc_env = []\<rparr> fs)"

definition ensure_crl_fresh ::
  "settings \<Rightarrow> runner \<Rightarrow> string list \<Rightarrow> (string \<Rightarrow> string result) \<Rightarrow> int \<Rightarrow> rat \<Rightarrow> files \<Rightarrow> bool result \<times> files" where
  "ensure_crl_fresh cfg execute zones crl_out min_days now fs =
     (let st = crl_info zones crl_out fs
      in if cs_exists st \<and> (case cs_next_update st of None \<Rightarrow> False | Some t \<Rightarrow> t \<noteq> 0 \<and> of_int t - now > of_int (min_days * 86400))
         then (Inr False, fs)
         else (case gen_crl cfg execute fs of (r, fs') \<Rightarrow> (res_bind r (\<lambda>_. Inr True), fs')))"

end
