(* ===== verification/Listing.thy ===== *)
theory Listing
  imports Clients
begin

text \<open>
  The client listing accounts for every certificate: those in \<open>issued\<close> and their predecessors, and
  the revoked ones that have not been hidden, each exactly once.
\<close>

definition certs_of :: "client_info \<Rightarrow> cert_row list" where
  "certs_of c = ci_cert c # (case ci_previous c of None \<Rightarrow> [] | Some p \<Rightarrow> [p]) @ ci_history c"

definition listed_certs :: "(string \<times> client_info) list \<Rightarrow> cert_row multiset" where
  "listed_certs cl = mset (concat (map (certs_of \<circ> snd) cl))"

text \<open>What one file of each directory contributes.\<close>

definition issued_certs :: "(cert \<Rightarrow> cert_row) \<Rightarrow> reader \<Rightarrow> (string \<times> string) list \<Rightarrow> string \<times> string \<Rightarrow> cert_row list" where
  "issued_certs state info renewed fl1 =
     (if fst fl1 \<in> set RESERVED then []
      else
        case info (Some (snd fl1)) of
          None \<Rightarrow> []
        | Some i \<Rightarrow> state i # (case info (map_of renewed (fst fl1)) of None \<Rightarrow> [] | Some j \<Rightarrow> [state j]))"

definition revoked_certs :: "(cert \<Rightarrow> cert_row) \<Rightarrow> reader \<Rightarrow> string list \<Rightarrow> string \<times> string \<Rightarrow> cert_row list" where
  "revoked_certs state info hidden fl1 =
     (case info (Some (snd fl1)) of
        None \<Rightarrow> []
      | Some i \<Rightarrow> if ct_serial i \<in> set hidden then [] else [state i])"

lemma listed_certs_simps [simp]:
  "listed_certs [] = {#}" "listed_certs ((n, c) # cl) = mset (certs_of c) + listed_certs cl"
  by (simp_all add: listed_certs_def)

lemma listed_certs_new:
  "map_of cl n = None \<Longrightarrow> listed_certs (AList.update n c cl) = listed_certs cl + mset (certs_of c)"
  by (induction cl) (auto split: if_splits)

lemma listed_certs_old:
  "map_of cl n = Some c \<Longrightarrow> listed_certs (AList.update n c' cl) + mset (certs_of c) = listed_certs cl + mset (certs_of c')"
  by (induction cl) (auto split: if_splits)

lemma issued_client_step:
  assumes "fst fl1 \<notin> fst ` set clients"
  shows "listed_certs (issued_client state info renewed fl1 clients) = listed_certs clients + mset (issued_certs state info renewed fl1)"
    and "fst ` set (issued_client state info renewed fl1 clients) \<subseteq> insert (fst fl1) (fst ` set clients)"
proof -
  have "map_of clients (fst fl1) = None" using assms by (simp add: map_of_eq_None_iff)
  then show "listed_certs (issued_client state info renewed fl1 clients) = listed_certs clients + mset (issued_certs state info renewed fl1)"
    by (cases fl1) (auto simp: issued_client_def issued_certs_def listed_certs_new certs_of_def split: option.splits)
  show "fst ` set (issued_client state info renewed fl1 clients) \<subseteq> insert (fst fl1) (fst ` set clients)"
    using dom_update [of "fst fl1" _ clients]
    by (cases fl1) (auto simp: issued_client_def dom_map_of_conv_image_fst [symmetric] split: option.splits)
qed

lemma disjoint_insert_sub: "A \<subseteq> insert x B \<Longrightarrow> x \<notin> C \<Longrightarrow> C \<inter> B = {} \<Longrightarrow> C \<inter> A = {}"
  by blast

lemma issued_fold:
  assumes "distinct (map fst fl)" "fst ` set fl \<inter> fst ` set clients = {}"
  shows "listed_certs (fold (issued_client state info renewed) fl clients) =
    listed_certs clients + mset (concat (map (issued_certs state info renewed) fl))"
  using assms
proof (induction fl arbitrary: clients)
  case (Cons f fl)
  note s = issued_client_step [of f clients state info renewed]
  have f: "fst f \<notin> fst ` set clients" "fst f \<notin> fst ` set fl" "fst ` set fl \<inter> fst ` set clients = {}" "distinct (map fst fl)"
    using Cons.prems by auto
  have "fst ` set fl \<inter> fst ` set (issued_client state info renewed f clients) = {}"
    using disjoint_insert_sub [OF s(2) [OF f(1)]] f(2,3) by simp
  from Cons.IH [OF f(4) this] s(1) [OF f(1)] show ?case by simp
qed simp

lemma revoked_client_step:
  "listed_certs (revoked_client state info hidden fl1 clients) = listed_certs clients + mset (revoked_certs state info hidden fl1)"
proof (cases "info (Some (snd fl1))")
  case None
  then show ?thesis by (simp add: revoked_client_def revoked_certs_def)
next
  case (Some i)
  let ?n = "or_else (ct_cn i) (ct_serial i)"
  show ?thesis
  proof (cases "map_of clients ?n")
    case None
    with Some show ?thesis by (simp add: revoked_client_def revoked_certs_def listed_certs_new certs_of_def Let_def)
  next
    case old: (Some c)
    let ?c' = "c\<lparr>ci_history := ci_history c @ [state i]\<rparr>"
    have "mset (certs_of ?c') = mset (certs_of c) + {#state i#}" by (simp add: certs_of_def)
    with listed_certs_old [OF old, of ?c'] have "listed_certs (AList.update ?n ?c' clients) = listed_certs clients + {#state i#}"
      by (simp add: ac_simps)
    with old Some show ?thesis by (simp add: revoked_client_def revoked_certs_def Let_def)
  qed
qed

lemma revoked_fold:
  "listed_certs (fold (revoked_client state info hidden) fl clients) =
     listed_certs clients + mset (concat (map (revoked_certs state info hidden) fl))"
  by (induction fl arbitrary: clients) (simp_all add: revoked_client_step ac_simps)

lemma listed_certs_sort: "listed_certs (map (\<lambda>(n, c). (n, sort_history c)) cl) = listed_certs cl"
  by (induction cl) (auto simp: sort_history_def certs_of_def)

lemma mset_concat_sorted: "mset (concat (map f (by_file_name fl))) = mset (concat (map f fl))"
  unfolding by_file_name_def by (simp only: mset_concat mset_map sum_mset_sum_list [symmetric] map_map [symmetric] mset_sort)

text \<open>Well-formed tables: one row per name, under that name.\<close>

definition rows_ok :: "(string \<times> client_info) list \<Rightarrow> bool" where
  "rows_ok cl \<longleftrightarrow> distinct (map fst cl) \<and> (\<forall>(n, c) \<in> set cl. ci_name c = n)"

lemma rows_ok_update: "rows_ok cl \<Longrightarrow> ci_name c = n \<Longrightarrow> rows_ok (AList.update n c cl)"
proof -
  assume ok: "rows_ok cl" and c: "ci_name c = n"
  have "set (AList.update n c cl) \<subseteq> insert (n, c) (set cl)" by (induction cl) auto
  with ok c distinct_update [of cl n c] show ?thesis unfolding rows_ok_def by blast
qed

lemma rows_ok_issued: "rows_ok cl \<Longrightarrow> rows_ok (fold (issued_client state info renewed) fl cl)"
proof (induction fl arbitrary: cl)
  case (Cons f fl)
  have "rows_ok (issued_client state info renewed f cl)"
    using Cons.prems by (cases f) (auto simp: issued_client_def intro: rows_ok_update split: option.splits)
  with Cons.IH show ?case by simp
qed simp

lemma rows_ok_revoked: "rows_ok cl \<Longrightarrow> rows_ok (fold (revoked_client state info hidden) fl cl)"
proof (induction fl arbitrary: cl)
  case (Cons f fl)
  have n: "map_of cl n = Some c \<Longrightarrow> ci_name c = n" for n c
    using Cons.prems map_of_SomeD [of cl n c] unfolding rows_ok_def by blast
  have "rows_ok (revoked_client state info hidden f cl)"
    using Cons.prems by (auto simp: revoked_client_def Let_def dest: n intro!: rows_ok_update split: option.splits)
  with Cons.IH show ?case by simp
qed simp

lemma rows_ok_list: "rows_ok (list_clients now info hidden fs)"
proof -
  have "rows_ok (fold (revoked_client (cert_state now (read_index fs)) info hidden) (by_file_name (fs_revoked fs))
      (fold (issued_client (cert_state now (read_index fs)) info (fs_renewed fs)) (by_file_name (fs_issued fs)) []))"
    by (intro rows_ok_revoked rows_ok_issued) (simp add: rows_ok_def)
  then show ?thesis by (auto simp: list_clients_def Let_def rows_ok_def sort_history_def comp_def case_prod_unfold)
qed

definition newest_first_history :: "client_info \<Rightarrow> bool" where
  "newest_first_history c \<longleftrightarrow>
     sorted (map (\<lambda>r. - (case cr_not_before r of Some t \<Rightarrow> t | None \<Rightarrow> 0)) (ci_history c))"

text \<open>
  C33. The client list shows every certificate exactly once: the certificate of each client in
  \<open>issued\<close> and the one it was renewed from, and every revoked certificate that has not been hidden,
  with the state the index gives it. There is one row per name, under that name, with its history
  newest first.
\<close>

theorem list_clients_accounts:
  assumes "distinct (map fst (fs_issued fs))"
  shows "listed_certs (list_clients now info hidden fs) =
      mset (concat (map (issued_certs (cert_state now (read_index fs)) info (fs_renewed fs)) (fs_issued fs))) +
      mset (concat (map (revoked_certs (cert_state now (read_index fs)) info hidden) (fs_revoked fs)))
    \<and> rows_ok (list_clients now info hidden fs)
    \<and> (\<forall>(n, c) \<in> set (list_clients now info hidden fs). newest_first_history c)"
proof -
  let ?st = "cert_state now (read_index fs)"
  let ?a = "fold (issued_client ?st info (fs_renewed fs)) (by_file_name (fs_issued fs)) []"
  let ?b = "fold (revoked_client ?st info hidden) (by_file_name (fs_revoked fs)) ?a"
  have l: "list_clients now info hidden fs = map (\<lambda>(n, c). (n, sort_history c)) ?b"
    by (simp add: list_clients_def Let_def)
  have d: "distinct (map fst (by_file_name (fs_issued fs)))"
  proof -
    have "mset (map fst (by_file_name (fs_issued fs))) = mset (map fst (fs_issued fs))" by (simp add: by_file_name_def)
    then show ?thesis using assms by (metis mset_eq_imp_distinct_iff)
  qed
  have "listed_certs ?a = mset (concat (map (issued_certs ?st info (fs_renewed fs)) (fs_issued fs)))"
    using issued_fold [OF d, of "[]"] by (simp add: mset_concat_sorted)
  then have 1: "listed_certs (list_clients now info hidden fs) =
      mset (concat (map (issued_certs ?st info (fs_renewed fs)) (fs_issued fs))) +
      mset (concat (map (revoked_certs ?st info hidden) (fs_revoked fs)))"
    by (simp add: l listed_certs_sort revoked_fold mset_concat_sorted)
  note 2 = rows_ok_list [of now info hidden fs]
  have "newest_first_history (sort_history c)" for c
    by (simp add: newest_first_history_def sort_history_def)
  then have "\<forall>(n, c) \<in> set (list_clients now info hidden fs). newest_first_history c" by (auto simp: l)
  with 1 2 show ?thesis by blast
qed

text \<open>A certificate directory to try it on; a certificate file stands for what OpenSSL prints.\<close>

definition demo_reader :: reader where
  "demo_reader content =
     (case content of
        None \<Rightarrow> None
      | Some c \<Rightarrow> Some \<lparr>ct_serial = c, ct_not_before = Some 1000, ct_not_after = Some 9000, ct_cn = ''alice'', ct_fingerprint = []\<rparr>)"

definition demo_pki :: files where
  "demo_pki =
     \<lparr>fs_server_conf = None, fs_client_conf = None, fs_vars = None, fs_vars_template = None, fs_static = [],
      fs_guests = None, fs_oath = None, fs_index = None, fs_issued = [(''server'', ''01''), (''alice'', ''03'')],
      fs_renewed = [(''alice'', ''02'')], fs_revoked = [(''A'', ''0A''), (''B'', ''0B'')], fs_crl = None, fs_tc2_key = False,
      fs_bak = [], fs_network = Net_missing, fs_proxies = None, fs_refused = []\<rparr>"

theorem list_clients_accounts_witness:
  "size (listed_certs (list_clients 5000 demo_reader [''0B''] demo_pki)) = 3"
proof -
  have "distinct (map fst (fs_issued demo_pki))" by (simp add: demo_pki_def)
  from list_clients_accounts [OF this, of 5000 demo_reader "[''0B'']"] show ?thesis
    by (simp add: demo_pki_def demo_reader_def issued_certs_def revoked_certs_def RESERVED_def cert_state_def)
qed

section \<open>What the operations run\<close>

datatype client_op =
    Create string "int option" string string
  | Revoke string string
  | Revoke_previous string
  | Renew string "int option"
  | Remove string

fun client_step :: "settings \<Rightarrow> runner \<Rightarrow> client_op \<Rightarrow> files \<Rightarrow> unit result \<times> files" where
  "client_step cfg execute (Create name days passphrase ip) fs = create_client cfg execute name days passphrase ip fs"
| "client_step cfg execute (Revoke name reason) fs = revoke_client cfg execute name reason fs"
| "client_step cfg execute (Revoke_previous name) fs = revoke_previous cfg execute name fs"
| "client_step cfg execute (Renew name days) fs = renew_client cfg execute name days fs"
| "client_step cfg execute (Remove name) fs = remove_client cfg execute name fs"

definition checked_arg :: "string \<Rightarrow> bool" where
  "checked_arg a \<longleftrightarrow> safe_name a \<or> a \<in> set (''--renewed'' # REVOKE_REASONS) \<or> \<not> isl (IPv4Address a)"

definition checked_variable :: "string \<times> string \<Rightarrow> bool" where
  "checked_variable kv \<longleftrightarrow>
     (fst kv = ''OVPN_CERT_DAYS'' \<and> (\<exists>d. 1 \<le> d \<and> d \<le> 3650 \<and> snd kv = dec_int d)) \<or>
     (fst kv = ''OVPN_KEY_PASSPHRASE'' \<and> 4 \<le> length (snd kv))"

definition checked_call :: "program_call \<Rightarrow> bool" where
  "checked_call call \<longleftrightarrow> list_all checked_arg (pc_args call) \<and> list_all checked_variable (pc_env call)"

definition refused :: "(runner \<Rightarrow> unit result \<times> files) \<Rightarrow> files \<Rightarrow> bool" where
  "refused step fs \<longleftrightarrow> (\<exists>e. \<forall>execute. step execute = (Inl e, fs))"

definition runs_checked :: "(runner \<Rightarrow> unit result \<times> files) \<Rightarrow> files \<Rightarrow> bool" where
  "runs_checked step fs \<longleftrightarrow> (\<exists>call. checked_call call \<and> (\<forall>execute. step execute = finished (run_program execute call fs)))"

lemma checked_name: "validate_name name = Inr v \<Longrightarrow> checked_arg name"
  using validate_name_Inr NAME_RE_safe by (auto simp: checked_arg_def)

lemma runs_checked_script:
  assumes "list_all checked_arg args" "list_all checked_variable (filter (\<lambda>(k, v). v \<noteq> []) env)"
  shows "runs_checked (\<lambda>execute. finished (script cfg execute prog args env fs)) fs"
  unfolding runs_checked_def script_def using assms
  by (intro exI [of _ "\<lparr>pc_path = st_bin_dir cfg @ ''/'' @ prog, pc_args = args, pc_env = filter (\<lambda>(k, v). v \<noteq> []) env\<rparr>"])
     (simp add: checked_call_def)

lemma checked_days: "days_ok days \<Longrightarrow> days_text days \<noteq> [] \<Longrightarrow> checked_variable (''OVPN_CERT_DAYS'', days_text days)"
  by (auto simp: days_ok_def days_text_def checked_variable_def split: option.splits if_splits)

lemma checked_passphrase: "\<not> length p < 4 \<Longrightarrow> checked_variable (''OVPN_KEY_PASSPHRASE'', p)"
  by (simp add: checked_variable_def)

lemma free_address_parses: "static_ip_problem cfg fs name ip = Inr None \<Longrightarrow> \<not> isl (IPv4Address ip)"
  by (cases "IPv4Address ip") (auto simp: static_ip_problem_def)

lemma create_checked:
  "refused (\<lambda>execute. create_client cfg execute name days p ip fs) fs \<or>
   runs_checked (\<lambda>execute. create_client cfg execute name days p ip fs) fs"
proof (cases "\<exists>v. validate_name name = Inr v \<and> days_ok days \<and> (ip = [] \<or> static_ip_problem cfg fs name ip = Inr None) \<and>
    \<not> (p \<noteq> [] \<and> length p < 4)")
  case True
  then have 1: "create_client cfg execute name days p ip fs =
      finished (script cfg execute ''genclient.sh'' (name # (if ip = [] then [] else [ip]))
        [(''OVPN_CERT_DAYS'', days_text days), (''OVPN_KEY_PASSPHRASE'', p)] fs)" for execute
    by (auto simp: create_client_def)
  have 2: "list_all checked_arg (name # (if ip = [] then [] else [ip]))"
    using True checked_name free_address_parses by (auto simp: checked_arg_def [of ip])
  have 3: "list_all checked_variable (filter (\<lambda>(k, v). v \<noteq> []) [(''OVPN_CERT_DAYS'', days_text days), (''OVPN_KEY_PASSPHRASE'', p)])"
    using True checked_days [of days] checked_passphrase [of p] by (cases "p = []"; cases "days_text days = []") auto
  show ?thesis unfolding 1 using runs_checked_script [OF 2 3] by blast
next
  case False
  let ?check = "if ip = [] then Inr None else static_ip_problem cfg fs name ip"
  from False consider e where "validate_name name = Inl e" | v where "validate_name name = Inr v" "\<not> days_ok days"
    | v e where "validate_name name = Inr v" "days_ok days" "?check = Inl e"
    | v q where "validate_name name = Inr v" "days_ok days" "?check = Inr (Some q)"
    | v where "validate_name name = Inr v" "days_ok days" "?check = Inr None" "p \<noteq> [] \<and> length p < 4"
    by (metis (no_types, lifting) option.exhaust sum.exhaust)
  then have "refused (\<lambda>execute. create_client cfg execute name days p ip fs) fs"
    unfolding refused_def create_client_def by cases simp_all
  then show ?thesis ..
qed

text \<open>
  C32. The scripts that handle keys only ever see checked arguments: an operation on a client either
  is refused before any program runs and changes nothing, or runs one program whose arguments are
  safe names, addresses, known revocation reasons or the one fixed option, and whose environment
  holds at most a validity of 1 to 3650 days and a passphrase of at least four characters.
\<close>

theorem client_operations_checked:
  "refused (\<lambda>execute. client_step cfg execute op fs) fs \<or> runs_checked (\<lambda>execute. client_step cfg execute op fs) fs"
proof (cases op)
  case (Create name days p ip)
  then show ?thesis using create_checked by simp
next
  case (Revoke name reason)
  show ?thesis
  proof (cases "validate_name name")
    case (Inr v)
    have "list_all checked_arg (name # (if reason = [] then [] else [reason]))" if "reason = [] \<or> reason \<in> set REVOKE_REASONS"
      using that checked_name [OF Inr] by (auto simp: checked_arg_def [of reason])
    then show ?thesis using Inr Revoke
      by (cases "reason = [] \<or> reason \<in> set REVOKE_REASONS") (auto simp: revoke_client_def refused_def intro!: runs_checked_script)
  qed (use Revoke in \<open>simp add: revoke_client_def refused_def\<close>)
next
  case (Revoke_previous name)
  have "checked_arg ''--renewed''" by (simp add: checked_arg_def)
  with Revoke_previous show ?thesis
    by (cases "validate_name name") (auto simp: revoke_previous_def refused_def checked_name intro!: runs_checked_script)
next
  case (Renew name days)
  then show ?thesis
    by (cases "validate_name name"; cases "days_ok days")
       (auto simp: renew_client_def refused_def checked_name checked_days intro!: runs_checked_script)
next
  case (Remove name)
  then show ?thesis
    by (cases "validate_name name") (auto simp: remove_client_def refused_def checked_name intro!: runs_checked_script)
qed

end
