(* ===== verification/Addresses.thy ===== *)
theory Addresses
  imports Pki "HOL-Library.Code_Target_Nat"
begin

text \<open>
  Static addresses and guests, as files: what \<open>set_static_ip\<close> writes is read back, and no sequence
  of changes gives two clients the same address, a client an address the server hands out itself,
  or a guest a static address.
\<close>

section \<open>Reading back what was written\<close>

lemma str_ipv4_all: "list_all (\<lambda>c. is_decimal c \<or> c = CHR ''.'') (str_ipv4 a)"
  using str_ipv4_chars [of _ a] by (auto simp: list_all_iff)

lemma dotted_plain: "is_decimal c \<or> c = CHR ''.'' \<Longrightarrow> \<not> is_space c \<and> \<not> is_line_end c"
  by (auto simp: is_decimal_def is_space_def is_line_end_def code_def)

lemma str_ipv4_plain:
  "list_all (\<lambda>c. \<not> is_space c) (str_ipv4 a)" "list_all (\<lambda>c. \<not> is_line_end c) (str_ipv4 a)"
  using str_ipv4_all [of a] dotted_plain by (auto simp: list_all_iff)

lemma str_ipv4_ne [simp]: "str_ipv4 a \<noteq> []"
  by (simp add: str_ipv4_def octets_of_def)

definition push_mask :: "files \<Rightarrow> ipv4" where
  "push_mask fs = (case vpn_subnet fs of Some (net, _) \<Rightarrow> netmask net | None \<Rightarrow> 0xFFFFFF00)"

lemma push_line_eq: "push_line ip fs = (''ifconfig-push '' @ ip @ '' '' @ str_ipv4 (push_mask fs)) @ [newline]"
proof -
  have "str_ipv4 0xFFFFFF00 = ''255.255.255.0''"
    by (simp add: str_ipv4_def octets_of_def dec.simps digit_char_def)
  then show ?thesis by (simp add: push_line_def push_mask_def split: option.splits prod.splits)
qed

lemma push_match:
  assumes "list_all (\<lambda>c. \<not> is_space c) ip" "ip \<noteq> []"
  shows "\<exists>m. re_match PUSH_RE (''ifconfig-push '' @ ip @ '' '' @ rest) = Some m \<and> grp m 1 = ip"
proof -
  let ?l = "''ifconfig-push'' @ '' '' @ ip @ '' '' @ rest"
  have hd: "\<not> is_space (hd (''ifconfig-push'' @ s))" for s by (simp add: is_space_def code_def)
  have sp: "list_all is_space '' ''" by (simp add: is_space_def code_def)
  have nsp: "\<not> is_space (hd (ip @ s))" for s using assms by (cases ip) auto
  have 1: "best Spaces ([], ?l, []) = Some ([], ?l, [])"
    using best_Star_pieces [of is_space "[]" ?l "[]" "[]"] hd by (simp add: Spaces_def)
  have 2: "best (Lit ''ifconfig-push'') ([], ?l, []) = Some (rev ''ifconfig-push'' @ [], '' '' @ ip @ '' '' @ rest, [])"
    by (rule best_Lit)
  have 3: "best Spaces1 (b, '' '' @ ip @ '' '' @ rest, g) = Some (rev '' '' @ b, ip @ '' '' @ rest, g)" for b g
    unfolding Spaces1_def by (rule best_Plus_pieces) (use sp nsp in auto)
  have "best NonSpaces (b, ip @ '' '' @ rest, g) = Some (rev ip @ b, '' '' @ rest, g)" for b g
    unfolding NonSpaces_def by (rule best_Plus_pieces) (use assms in \<open>auto simp: is_space_def code_def\<close>)
  from best_Grp [OF this] have 4: "best (Grp 1 NonSpaces) (b, ip @ '' '' @ rest, g) = Some (rev ip @ b, '' '' @ rest, (1, ip) # g)" for b g
    by simp
  have 5: "best Bol ([], ?l, []) = Some ([], ?l, [])" by simp
  have "best PUSH_RE ([], ?l, []) = Some (rev ip @ rev '' '' @ rev ''ifconfig-push'' @ [], '' '' @ rest, [(1, ip)])"
    unfolding PUSH_RE_def Cat.simps by (rule best_Seq best_simps 5 1 2 3 4)+
  then show ?thesis by (simp add: re_match_def match_at_best grp_def group_def)
qed

lemma push_address_push_line:
  assumes "IPv4Address ip = Inr a"
  shows "push_address (push_line ip fs) = Some ip"
proof -
  have ip: "ip = str_ipv4 a" using str_IPv4Address [OF assms] by simp
  let ?l = "''ifconfig-push '' @ ip @ '' '' @ str_ipv4 (push_mask fs)"
  have "list_all (\<lambda>c. \<not> is_line_end c) ?l"
    using str_ipv4_plain(2) ip by (simp add: is_line_end_def code_def)
  then have "splitlines (push_line ip fs) = [?l]"
    using splitlines_lines [of "[?l]"] by (simp add: push_line_eq)
  then show ?thesis
    using push_match [of ip "str_ipv4 (push_mask fs)"] str_ipv4_plain(1) [of a] ip by (auto simp: push_address_def)
qed

section \<open>The table of static addresses\<close>

definition table :: "(string \<times> string) list \<Rightarrow> (string \<times> string) list" where
  "table fl = List.map_filter (\<lambda>(name, text). map_option (Pair name) (push_address text))
     (filter (\<lambda>(name, text). \<not> startswith name ''.'') fl)"

lemma static_ips_table: "static_ips fs = table (fs_static fs)"
  by (simp add: static_ips_def table_def)

lemma in_table_iff: "(n, ip) \<in> set (table fl) \<longleftrightarrow> (\<exists>t. (n, t) \<in> set fl \<and> \<not> startswith n ''.'' \<and> push_address t = Some ip)"
  by (force simp: table_def List.map_filter_def)

lemma in_static_ips_iff:
  assumes "distinct (map fst (fs_static fs))"
  shows "(n, ip) \<in> set (static_ips fs) \<longleftrightarrow>
    \<not> startswith n ''.'' \<and> (\<exists>t. map_of (fs_static fs) n = Some t \<and> push_address t = Some ip)"
  using assms by (auto simp: static_ips_table in_table_iff)

lemma valid_name_visible:
  assumes "validate_name n = Inr v"
  shows "\<not> startswith n ''.''"
proof -
  have "is_alnum_ascii (hd n)" using validate_name_Inr [OF assms] NAME_RE_iff [of n] by simp
  moreover have "\<not> is_alnum_ascii CHR ''.''" by code_simp
  ultimately show ?thesis by (auto simp: startswith_iff)
qed

section \<open>The operations keep what they should\<close>

lemma text_frame [simp]:
  "server_text (fs\<lparr>fs_static := x\<rparr>) = server_text fs" "server_text (fs\<lparr>fs_guests := g\<rparr>) = server_text fs"
  "guest_sub cfg (fs\<lparr>fs_static := x\<rparr>) = guest_sub cfg fs" "guest_sub cfg (fs\<lparr>fs_guests := g\<rparr>) = guest_sub cfg fs"
  by (simp_all add: server_text_def guest_sub_def read_network_def cong: if_cong)

lemma conf_frame [simp]:
  "vpn_subnet (fs\<lparr>fs_static := x\<rparr>) = vpn_subnet fs" "vpn_subnet (fs\<lparr>fs_guests := g\<rparr>) = vpn_subnet fs"
  "in_guest_range cfg (fs\<lparr>fs_static := x\<rparr>) ip = in_guest_range cfg fs ip"
  "in_guest_range cfg (fs\<lparr>fs_guests := g\<rparr>) ip = in_guest_range cfg fs ip"
  unfolding vpn_subnet_def in_guest_range_def text_frame by simp_all

definition addresses_ok :: "files \<Rightarrow> bool" where
  "addresses_ok fs \<longleftrightarrow>
     distinct (map fst (fs_static fs)) \<and>
     (\<forall>(n, ip) \<in> set (static_ips fs). n \<notin> set (guests fs) \<and> (\<forall>(m, jp) \<in> set (static_ips fs). ip = jp \<longrightarrow> n = m))"

lemma addresses_okD:
  assumes "addresses_ok fs"
  shows "distinct (map fst (fs_static fs))" "(n, ip) \<in> set (static_ips fs) \<Longrightarrow> n \<notin> set (guests fs)"
    "(n, ip) \<in> set (static_ips fs) \<Longrightarrow> (m, ip) \<in> set (static_ips fs) \<Longrightarrow> n = m"
  using assms unfolding addresses_ok_def by blast+

lemma addresses_okI:
  assumes "distinct (map fst (fs_static fs))" "\<And>n ip. (n, ip) \<in> set (static_ips fs) \<Longrightarrow> n \<notin> set (guests fs)"
    "\<And>n m ip. (n, ip) \<in> set (static_ips fs) \<Longrightarrow> (m, ip) \<in> set (static_ips fs) \<Longrightarrow> n = m"
  shows "addresses_ok fs"
  using assms unfolding addresses_ok_def by blast

text \<open>An address the server can hand to one client and to nobody else.\<close>

definition client_address :: "settings \<Rightarrow> files \<Rightarrow> string \<Rightarrow> bool" where
  "client_address cfg fs ip \<longleftrightarrow>
     (case IPv4Address ip of
        Inl e \<Rightarrow> False
      | Inr a \<Rightarrow>
          (case vpn_subnet fs of
             None \<Rightarrow> True
           | Some (net, lo, hi) \<Rightarrow>
               network_address net < a \<and> network_address net + 1 \<noteq> a \<and> a < broadcast_address net \<and>
               \<not> (lo \<le> int (unat a) \<and> int (unat a) \<le> hi)) \<and>
          in_guest_range cfg fs ip = Inr False)"

lemma vpn_subnet_valid: "vpn_subnet fs = Some (net, pool) \<Longrightarrow> valid_network net"
  by (auto simp: vpn_subnet_def split: option.splits sum.splits dest: IPv4Network_valid)

text \<open>The part of the check that looks at the server's network, and the part after it.\<close>

definition outside :: "ipv4 \<Rightarrow> ipv4_network \<Rightarrow> bool result" where
  "outside addr net =
     (if \<not> in_network addr net then Inr True
      else res_bind (ip_add (network_address net) 1) (\<lambda>gateway.
        Inr (addr \<in> {network_address net, gateway, broadcast_address net})))"

lemma outside_False:
  assumes "outside a net = Inr False" "valid_network net"
  shows "network_address net < a \<and> network_address net + 1 \<noteq> a \<and> a < broadcast_address net"
  using assms by (auto simp: outside_def ip_add_def in_network_iff order.strict_iff_order split: if_splits)

lemma checks_passed:
  "res_bind r (\<lambda>out. if out then Inr (Some t) else if p then Inr (Some u) else q) = Inr None \<Longrightarrow>
     r = Inr False \<and> \<not> p \<and> q = Inr None"
  by (cases r) (auto split: if_splits)

lemma free_address_cases:
  assumes "static_ip_problem cfg fs name ip = Inr None" "IPv4Address ip = Inr a"
  shows "in_guest_range cfg fs ip = Inr False \<and> filter (\<lambda>(n, x). x = ip \<and> n \<noteq> name) (static_ips fs) = [] \<and>
    (\<forall>net lo hi. vpn_subnet fs = Some (net, lo, hi) \<longrightarrow>
       outside a net = Inr False \<and> \<not> (lo \<le> int (unat a) \<and> int (unat a) \<le> hi))"
proof -
  let ?rest = "res_bind (in_guest_range cfg fs ip) (\<lambda>g.
                 if g then res_bind (guest_sub cfg fs) (\<lambda>range.
                   Inr (Some (ip @ '' is in the guest range '' @ range @ '', where guests get their addresses'')))
                 else case filter (\<lambda>(n, a). a = ip \<and> n \<noteq> name) (static_ips fs) of
                   [] \<Rightarrow> Inr None
                 | (other, _) # _ \<Rightarrow> Inr (Some (ip @ '' is already assigned to '' @ other)))"
  have rest: "?rest = Inr None \<Longrightarrow>
      in_guest_range cfg fs ip = Inr False \<and> filter (\<lambda>(n, x). x = ip \<and> n \<noteq> name) (static_ips fs) = []"
    by (auto split: if_splits list.splits)
  show ?thesis
  proof (cases "vpn_subnet fs")
    case None
    with assms have "?rest = Inr None" by (simp add: static_ip_problem_def Let_def)
    with rest None show ?thesis by simp
  next
    case (Some s)
    obtain net lo hi where s: "s = (net, lo, hi)" by (metis prod.exhaust)
    let ?pool = "lo \<le> int (unat a) \<and> int (unat a) \<le> hi"
    obtain t u where "static_ip_problem cfg fs name ip =
        res_bind (outside a net) (\<lambda>out. if out then Inr (Some t) else if ?pool then Inr (Some u) else ?rest)"
      unfolding static_ip_problem_def assms(2) Some s outside_def Let_def sum.case option.case prod.case by blast
    then have "outside a net = Inr False \<and> \<not> ?pool \<and> ?rest = Inr None"
      using assms(1) by (intro checks_passed) (rule trans [OF sym])
    with rest Some s show ?thesis by simp
  qed
qed

lemma static_ip_problem_None:
  assumes "static_ip_problem cfg fs name ip = Inr None"
  shows "client_address cfg fs ip \<and> (\<forall>(n, a) \<in> set (static_ips fs). a = ip \<longrightarrow> n = name)"
proof -
  obtain a where a: "IPv4Address ip = Inr a" using assms by (cases "IPv4Address ip") (auto simp: static_ip_problem_def)
  note f = free_address_cases [OF assms a]
  have "client_address cfg fs ip"
  proof (cases "vpn_subnet fs")
    case None
    with a f show ?thesis by (simp add: client_address_def)
  next
    case (Some s)
    obtain net lo hi where s: "s = (net, lo, hi)" by (metis prod.exhaust)
    with f Some have "outside a net = Inr False" "\<not> (lo \<le> int (unat a) \<and> int (unat a) \<le> hi)" by blast+
    with outside_False vpn_subnet_valid Some s a f show ?thesis by (simp add: client_address_def)
  qed
  with f show ?thesis by (auto simp: filter_empty_conv)
qed

section \<open>What each operation does to the table\<close>

lemma static_ips_unlink:
  assumes "distinct (map fst (fs_static fs))"
  shows "(n, x) \<in> set (static_ips (unlink_static name fs)) \<longleftrightarrow> n \<noteq> name \<and> (n, x) \<in> set (static_ips fs)"
proof -
  have d: "distinct (map fst (AList.delete name (fs_static fs)))" using assms by (rule distinct_delete)
  show ?thesis using assms d
    by (auto simp: in_static_ips_iff unlink_static_def delete_conv')
qed

lemma static_ips_write:
  assumes "distinct (map fst (fs_static fs))" "validate_name name = Inr v" "IPv4Address ip = Inr a"
  shows "(n, x) \<in> set (static_ips (fs\<lparr>fs_static := AList.update name (push_line ip fs) (fs_static fs)\<rparr>)) \<longleftrightarrow>
    (if n = name then x = ip else (n, x) \<in> set (static_ips fs))"
proof -
  have d: "distinct (map fst (AList.update name (push_line ip fs) (fs_static fs)))" using assms(1) by (rule distinct_update)
  show ?thesis using assms(1) d valid_name_visible [OF assms(2)] push_address_push_line [OF assms(3)]
    by (auto simp: in_static_ips_iff update_conv')
qed

lemma guests_simps:
  "guests (fs\<lparr>fs_static := x\<rparr>) = guests fs" "guests (unlink_static name fs) = guests fs"
  "set (guests (touch_guest name fs)) = (if re_match NAME_RE name = None then set (guests fs) else insert name (set (guests fs)))"
  "set (guests (fs\<lparr>fs_guests := map_option (filter (\<lambda>n. n \<noteq> name)) (fs_guests fs)\<rparr>)) = set (guests fs) - {name}"
  by (auto simp: guests_def touch_guest_def unlink_static_def split: option.splits)

lemma static_ips_guests [simp]: "static_ips (fs\<lparr>fs_guests := g\<rparr>) = static_ips fs"
  by (simp add: static_ips_def)

lemma static_ips_touch [simp]: "static_ips (touch_guest name fs) = static_ips fs"
  by (simp add: touch_guest_def Let_def)

lemma set_guest_ok:
  assumes "addresses_ok fs" "set_guest name guest fs = Inr fs'"
  shows "addresses_ok fs' \<and> set (static_ips fs') \<subseteq> set (static_ips fs)"
proof -
  note d = addresses_okD [OF assms(1)]
  have u: "(n, x) \<in> set (static_ips (unlink_static name fs)) \<longleftrightarrow> n \<noteq> name \<and> (n, x) \<in> set (static_ips fs)" for n x
    by (rule static_ips_unlink [OF d(1)])
  have "distinct (map fst (fs_static (touch_guest name (unlink_static name fs))))"
    using d(1) by (simp add: touch_guest_def unlink_static_def distinct_delete Let_def)
  then have 1: "addresses_ok (touch_guest name (unlink_static name fs))"
    by (rule addresses_okI) (use d(2,3) u in \<open>auto simp: guests_simps split: if_splits\<close>)
  have 2: "addresses_ok (fs\<lparr>fs_guests := map_option (filter (\<lambda>n. n \<noteq> name)) (fs_guests fs)\<rparr>)"
    by (rule addresses_okI) (use d in \<open>auto simp: guests_simps\<close>)
  show ?thesis using assms(2) 1 2 u by (cases guest) (auto simp: set_guest_def)
qed

lemma set_guests_ok:
  "addresses_ok fs \<Longrightarrow> set_guests ns fs = (r, fs') \<Longrightarrow> addresses_ok fs' \<and> set (static_ips fs') \<subseteq> set (static_ips fs)"
proof (induction ns fs rule: set_guests.induct)
  case (2 n ns fs)
  show ?case
  proof (cases "set_guest n True fs")
    case (Inr fs1)
    with 2 set_guest_ok [OF 2(2) Inr] show ?thesis by auto
  qed (use 2 in auto)
qed simp

lemma set_static_ip_InrD:
  assumes "set_static_ip cfg name ip fs = Inr fs'" "ip \<noteq> []"
  shows "\<exists>a. validate_name name = Inr name \<and> name \<notin> set (guests fs) \<and> IPv4Address ip = Inr a \<and>
    static_ip_problem cfg fs name ip = Inr None \<and>
    fs' = fs\<lparr>fs_static := AList.update name (push_line ip fs) (fs_static fs)\<rparr>"
proof -
  obtain v where v: "validate_name name = Inr v" using assms by (cases "validate_name name") (auto simp: set_static_ip_def)
  then have n: "v = name" using validate_name_Inr by blast
  have p: "static_ip_problem cfg fs name ip = Inr None \<and> name \<notin> set (guests fs) \<and>
      fs' = fs\<lparr>fs_static := AList.update name (push_line ip fs) (fs_static fs)\<rparr>"
    using assms v by (cases "static_ip_problem cfg fs name ip") (auto simp: set_static_ip_def split: if_splits option.splits)
  then have "client_address cfg fs ip" using static_ip_problem_None by blast
  then show ?thesis using p v n by (cases "IPv4Address ip") (auto simp: client_address_def)
qed

lemma set_static_ip_clear: "set_static_ip cfg name [] fs = Inr fs' \<Longrightarrow> fs' = unlink_static name fs"
  by (cases "validate_name name") (auto simp: set_static_ip_def)

lemma set_static_ip_ok:
  assumes "addresses_ok fs" "set_static_ip cfg name ip fs = Inr fs'"
  shows "addresses_ok fs' \<and>
    (\<forall>(n, x) \<in> set (static_ips fs'). (n, x) \<in> set (static_ips fs) \<or> client_address cfg fs x)"
proof (cases "ip = []")
  case True
  note d = addresses_okD [OF assms(1)]
  have u: "(n, x) \<in> set (static_ips (unlink_static name fs)) \<longleftrightarrow> n \<noteq> name \<and> (n, x) \<in> set (static_ips fs)" for n x
    by (rule static_ips_unlink [OF d(1)])
  have "distinct (map fst (fs_static (unlink_static name fs)))" using d(1) by (simp add: unlink_static_def distinct_delete)
  then have "addresses_ok (unlink_static name fs)"
    by (rule addresses_okI) (use d(2,3) u in \<open>auto simp: guests_simps\<close>)
  with u True assms(2) set_static_ip_clear show ?thesis by blast
next
  case False
  note d = addresses_okD [OF assms(1)]
  obtain a where a: "validate_name name = Inr name" "name \<notin> set (guests fs)" "IPv4Address ip = Inr a"
    and p: "static_ip_problem cfg fs name ip = Inr None"
    and fs': "fs' = fs\<lparr>fs_static := AList.update name (push_line ip fs) (fs_static fs)\<rparr>"
    using set_static_ip_InrD [OF assms(2) False] by blast
  have w: "(n, x) \<in> set (static_ips fs') \<longleftrightarrow> (if n = name then x = ip else (n, x) \<in> set (static_ips fs))" for n x
    unfolding fs' by (rule static_ips_write [OF d(1) a(1,3)])
  have g: "guests fs' = guests fs" by (simp add: fs' guests_simps)
  have free: "(n, ip) \<in> set (static_ips fs) \<Longrightarrow> n = name" for n using static_ip_problem_None [OF p] by blast
  have "distinct (map fst (fs_static fs'))" using d(1) by (simp add: fs' distinct_update)
  then have "addresses_ok fs'"
  proof (rule addresses_okI)
    show "n \<notin> set (guests fs')" if "(n, x) \<in> set (static_ips fs')" for n x
      using that a(2) d(2) [of n x] unfolding w g by (metis (full_types))
    show "n = m" if "(n, x) \<in> set (static_ips fs')" "(m, x) \<in> set (static_ips fs')" for n m x
      using that d(3) [of n x m] free unfolding w by (metis (full_types))
  qed
  moreover have "\<forall>(n, x) \<in> set (static_ips fs'). (n, x) \<in> set (static_ips fs) \<or> client_address cfg fs x"
    using static_ip_problem_None [OF p] w by (metis (no_types, lifting) case_prodI2)
  ultimately show ?thesis by blast
qed

section \<open>Any sequence of changes\<close>

datatype address_op = Set_static string string | Set_guest string bool | Migrate

fun address_step :: "settings \<Rightarrow> address_op \<Rightarrow> files \<Rightarrow> files" where
  "address_step cfg (Set_static name ip) fs = (case set_static_ip cfg name ip fs of Inl e \<Rightarrow> fs | Inr fs' \<Rightarrow> fs')"
| "address_step cfg (Set_guest name guest) fs = (case set_guest name guest fs of Inl e \<Rightarrow> fs | Inr fs' \<Rightarrow> fs')"
| "address_step cfg Migrate fs = snd (migrate_guest_static_ips cfg fs)"

lemma client_address_frame [simp]:
  "client_address cfg (fs\<lparr>fs_static := x\<rparr>) ip = client_address cfg fs ip"
  "client_address cfg (fs\<lparr>fs_guests := g\<rparr>) ip = client_address cfg fs ip"
  unfolding client_address_def conf_frame by simp_all

lemma client_address_set_guest:
  "set_guest name guest fs = Inr fs' \<Longrightarrow> client_address cfg fs' ip = client_address cfg fs ip"
  by (cases guest) (auto simp: set_guest_def touch_guest_def unlink_static_def Let_def)

lemma client_address_set_guests: "client_address cfg (snd (set_guests ns fs)) ip = client_address cfg fs ip"
  by (induction ns fs rule: set_guests.induct) (auto simp: client_address_set_guest split: sum.splits)

lemma client_address_set_static:
  assumes "set_static_ip cfg name ip fs = Inr fs'"
  shows "client_address cfg fs' x = client_address cfg fs x"
proof (cases "ip = []")
  case True
  with set_static_ip_clear [of cfg name fs fs'] assms show ?thesis by (simp add: unlink_static_def)
next
  case False
  with set_static_ip_InrD [OF assms False] show ?thesis by auto
qed

lemma snd_migrate:
  "snd (migrate_guest_static_ips cfg fs) =
     (case guest_addresses cfg fs of Inl e \<Rightarrow> fs | Inr moved \<Rightarrow> snd (set_guests moved fs))"
  by (auto simp: migrate_guest_static_ips_def split: sum.splits prod.splits)

lemma client_address_step: "client_address cfg (address_step cfg op fs) ip = client_address cfg fs ip"
  by (cases op)
     (auto simp: client_address_set_guest client_address_set_static client_address_set_guests snd_migrate
       split: sum.splits)

lemma address_step_ok:
  assumes "addresses_ok fs"
  shows "addresses_ok (address_step cfg op fs) \<and>
    (\<forall>(n, x) \<in> set (static_ips (address_step cfg op fs)). (n, x) \<in> set (static_ips fs) \<or> client_address cfg fs x)"
proof (cases op)
  case (Set_static name ip)
  with assms set_static_ip_ok [OF assms] show ?thesis by (cases "set_static_ip cfg name ip fs") auto
next
  case (Set_guest name guest)
  with assms set_guest_ok [OF assms] show ?thesis by (cases "set_guest name guest fs") auto
next
  case Migrate
  have "addresses_ok (snd (set_guests ns fs)) \<and> set (static_ips (snd (set_guests ns fs))) \<subseteq> set (static_ips fs)" for ns
    using set_guests_ok [OF assms, of ns] by (cases "set_guests ns fs") auto
  then show ?thesis using assms Migrate
    by (cases "guest_addresses cfg fs") (auto simp: snd_migrate)
qed

lemma address_run_ok:
  assumes "addresses_ok fs"
  shows "addresses_ok (fold (address_step cfg) ops fs)"
    and "(n, ip) \<in> set (static_ips (fold (address_step cfg) ops fs)) \<Longrightarrow>
      (n, ip) \<in> set (static_ips fs) \<or> client_address cfg fs ip"
  using assms
proof (induction ops arbitrary: fs)
  case (Cons op ops)
  note s = address_step_ok [of _ cfg op]
  {
    case 1
    with Cons.IH(1) s show ?case by simp
  next
    case 2
    then have "(n, ip) \<in> set (static_ips (address_step cfg op fs)) \<or> client_address cfg fs ip"
      using Cons.IH(2) [of "address_step cfg op fs"] s [of fs] by (simp add: client_address_step)
    with s [OF 2(2)] show ?case by blast
  }
qed auto

text \<open>
  C22. Static addresses never collide: from files in order, any sequence of changes to static
  addresses and guests, failed ones and the migration of old guests included, leaves every
  address with one client only, gives no guest a static address, and every address that was not
  there before is one the server can hand out: a host address of its network that is neither its
  own, nor in the dynamic pool, nor in the guest range.
\<close>

theorem addresses_stay_apart:
  assumes "addresses_ok fs"
  shows "addresses_ok (fold (address_step cfg) ops fs) \<and>
    (\<forall>(n, ip) \<in> set (static_ips (fold (address_step cfg) ops fs)).
       (n, ip) \<in> set (static_ips fs) \<or> client_address cfg fs ip)"
  using address_run_ok [OF assms] by blast

text \<open>
  What is set is what is read: a successful \<open>set_static_ip\<close> makes \<open>static_ips\<close> show that address
  for that client, or none when it was cleared, and changes no other client's.
\<close>

theorem set_static_ip_read_back:
  assumes "addresses_ok fs" "set_static_ip cfg name ip fs = Inr fs'"
  shows "(n, x) \<in> set (static_ips fs') \<longleftrightarrow> (if n = name then ip \<noteq> [] \<and> x = ip else (n, x) \<in> set (static_ips fs))"
proof (cases "ip = []")
  case True
  with set_static_ip_clear [of cfg name fs fs'] assms(2) static_ips_unlink [OF addresses_okD(1) [OF assms(1)]]
  show ?thesis by simp
next
  case False
  with set_static_ip_InrD [OF assms(2) False] static_ips_write [OF addresses_okD(1) [OF assms(1)]]
  show ?thesis by auto
qed

lemma set_guests_effect:
  assumes "set_guests ns fs = (Inr u, fs')" "distinct (map fst (fs_static fs))"
  shows "set (guests fs') = set ns \<union> set (guests fs) \<and>
    set (static_ips fs') = {(n, x). (n, x) \<in> set (static_ips fs) \<and> n \<notin> set ns}"
  using assms
proof (induction ns fs rule: set_guests.induct)
  case (2 n ns fs)
  let ?fs1 = "touch_guest n (unlink_static n fs)"
  have v: "set_guest n True fs = Inr ?fs1" "re_match NAME_RE n \<noteq> None"
    using 2(2) validate_name_Inr [of n] by (cases "validate_name n"; auto simp: set_guest_def)+
  have d: "distinct (map fst (fs_static ?fs1))"
    using 2(3) by (simp add: touch_guest_def unlink_static_def distinct_delete Let_def)
  from 2(1) [OF v(1)] 2(2) v d have "set (guests fs') = set ns \<union> set (guests ?fs1)"
    "set (static_ips fs') = {(m, x). (m, x) \<in> set (static_ips ?fs1) \<and> m \<notin> set ns}" by simp_all
  moreover have "set (guests ?fs1) = insert n (set (guests fs))" using v(2) by (auto simp: guests_simps)
  moreover have "set (static_ips ?fs1) = {(m, x). (m, x) \<in> set (static_ips fs) \<and> m \<noteq> n}"
    using static_ips_unlink [OF 2(3), of _ _ n] by auto
  ultimately show ?case by auto
qed auto

lemma guest_addresses_iff:
  assumes "guest_addresses cfg fs = Inr moved"
  shows "n \<in> set moved \<longleftrightarrow>
    (\<exists>ip. (n, ip) \<in> set (static_ips fs) \<and> in_guest_range cfg fs ip = Inr True \<and> re_match NAME_RE n \<noteq> None)"
proof -
  obtain rs where rs: "map_res (guest_row cfg fs) (static_ips fs) = Inr rs" "moved = map fst (filter (\<lambda>(n, g). g \<and> re_match NAME_RE n \<noteq> None) rs)"
    using assms by (auto simp: guest_addresses_def)
  have "list_all2 (\<lambda>x y. guest_row cfg fs x = Inr y) (static_ips fs) rs" using rs(1) by (simp add: map_res_Inr_iff)
  then have "(m, g) \<in> set rs \<longleftrightarrow> (\<exists>ip. (m, ip) \<in> set (static_ips fs) \<and> in_guest_range cfg fs ip = Inr g)" for m g
    by (induction rule: list_all2_induct) (auto simp: guest_row_def)
  moreover have "n \<in> set moved \<longleftrightarrow> (n, True) \<in> set rs \<and> re_match NAME_RE n \<noteq> None"
    by (force simp: rs(2))
  ultimately show ?thesis by blast
qed

text \<open>
  The migration of old guests does all its work: when it succeeds, every client whose static
  address lay in the guest range is a guest without a static address, nobody else has become a
  guest or lost an address, and the names it returns are these clients.
\<close>

theorem migrate_guests_complete:
  assumes "addresses_ok fs" "migrate_guest_static_ips cfg fs = (Inr moved, fs')"
  shows "(n \<in> set moved \<longleftrightarrow>
      (\<exists>ip. (n, ip) \<in> set (static_ips fs) \<and> in_guest_range cfg fs ip = Inr True \<and> re_match NAME_RE n \<noteq> None)) \<and>
    (n \<in> set (guests fs') \<longleftrightarrow> n \<in> set moved \<or> n \<in> set (guests fs)) \<and>
    ((n, ip) \<in> set (static_ips fs') \<longleftrightarrow> (n, ip) \<in> set (static_ips fs) \<and> n \<notin> set moved)"
proof -
  have g: "guest_addresses cfg fs = Inr moved" and s: "set_guests moved fs = (Inr (), fs')"
    using assms(2) by (auto simp: migrate_guest_static_ips_def split: sum.splits prod.splits)
  show ?thesis
    using guest_addresses_iff [OF g] set_guests_effect [OF s addresses_okD(1) [OF assms(1)]] by auto
qed

text \<open>Files to try the properties on: a network with a pool of its own, one static address, one guest.\<close>

definition lines :: "string list \<Rightarrow> string" where
  "lines ls = concat (map (\<lambda>l. l @ [newline]) ls)"

definition demo_files :: files where
  "demo_files =
     \<lparr>fs_server_conf = Some (lines [''server 10.8.0.0 255.255.255.0 nopool'', ''ifconfig-pool 10.8.0.100 10.8.0.127'']),
      fs_client_conf = None, fs_vars = None, fs_vars_template = None,
      fs_static = [(''alice'', lines [''ifconfig-push 10.8.0.5 255.255.255.0'']),
                   (''carol'', lines [''ifconfig-push 10.8.0.200 255.255.255.0''])],
      fs_guests = Some [''bob''], fs_oath = None, fs_index = None, fs_issued = [], fs_renewed = [], fs_revoked = [],
      fs_crl = None, fs_tc2_key = False, fs_bak = [], fs_network = Net_missing, fs_proxies = None, fs_refused = []\<rparr>"

definition demo_settings :: settings where
  "demo_settings = \<lparr>st_bin_dir = ''/opt/app/bin'', st_easyrsa_dir = ''/usr/share/easy-rsa'', st_pki_dir = ''/etc/openvpn/pki'', st_guest_sub = [], st_tfa_issuer = ''OpenVPN''\<rparr>"

lemma demo_files_ok: "addresses_ok demo_files"
  by code_simp

theorem addresses_stay_apart_witness:
  "addresses_ok (fold (address_step demo_settings)
     [Set_static ''dave'' ''10.8.0.5'', Set_static ''dave'' ''10.8.0.6'', Set_guest ''alice'' True, Migrate] demo_files)"
  by (rule addresses_stay_apart [OF demo_files_ok, THEN conjunct1])

theorem set_static_ip_read_back_witness:
  "(''dave'', ''10.8.0.6'') \<in> set (static_ips (projr (set_static_ip demo_settings ''dave'' ''10.8.0.6'' demo_files)))"
proof -
  have "isl (set_static_ip demo_settings ''dave'' ''10.8.0.6'' demo_files) = False" by code_simp
  then have "set_static_ip demo_settings ''dave'' ''10.8.0.6'' demo_files =
      Inr (projr (set_static_ip demo_settings ''dave'' ''10.8.0.6'' demo_files))" by (simp add: sum.collapse(2))
  from set_static_ip_read_back [OF demo_files_ok this] show ?thesis by simp
qed

theorem migrate_guests_complete_witness:
  "''carol'' \<in> set (guests (snd (migrate_guest_static_ips demo_settings demo_files))) \<and>
   (''alice'', ''10.8.0.5'') \<in> set (static_ips (snd (migrate_guest_static_ips demo_settings demo_files)))"
proof -
  have "fst (migrate_guest_static_ips demo_settings demo_files) = Inr [''carol'']" by code_simp
  then have m: "migrate_guest_static_ips demo_settings demo_files =
      (Inr [''carol''], snd (migrate_guest_static_ips demo_settings demo_files))" by (simp only: prod_eq_iff fst_conv snd_conv)
  have "(''alice'', ''10.8.0.5'') \<in> set (static_ips demo_files)" by code_simp
  then show ?thesis
    using migrate_guests_complete [OF demo_files_ok m, of "''carol''"]
      migrate_guests_complete [OF demo_files_ok m, of "''alice''" "''10.8.0.5''"]
    by (simp only: list.set insert_iff empty_iff simp_thms list.inject char.inject)
qed

end
