(* ===== verification/Urls.thy ===== *)
theory Urls
  imports Ipaddr Py_Re Names
begin

text \<open>
  \<open>urllib.parse.urlsplit\<close> and the parts of its result the program asks for: scheme, network
  location with user, password, host and port, path, query and fragment.
\<close>

record url =
  u_scheme :: string
  u_netloc :: string
  u_path :: string
  u_query :: string
  u_fragment :: string

definition is_scheme_char :: "char \<Rightarrow> bool" where
  "is_scheme_char c \<longleftrightarrow> is_alnum_ascii c \<or> c \<in> set ''+-.''"

definition split_scheme :: "string \<Rightarrow> string \<times> string" where
  "split_scheme s =
     (case partition_on CHR '':'' s of
        (h, f, t) \<Rightarrow>
          if f \<and> h \<noteq> [] \<and> (is_upper_ascii (hd h) \<or> is_lower_ascii (hd h)) \<and> list_all is_scheme_char h
          then (lower h, t) else ([], s))"

text \<open>Without a leading control character or space, and without tabs and line breaks.\<close>

definition clean_url :: "string \<Rightarrow> string" where
  "clean_url s = filter (\<lambda>c. c \<notin> {CHR 0x09, CHR 0x0D, CHR 0x0A}) (dropWhile (\<lambda>c. code c \<le> 32) s)"

definition is_netloc_char :: "char \<Rightarrow> bool" where
  "is_netloc_char c \<longleftrightarrow> c \<notin> set ''/?#''"

text \<open>Host and port text of a network location, with or without brackets.\<close>

definition hostinfo :: "string \<Rightarrow> string \<times> string" where
  "hostinfo netloc =
     (case rpartition_on CHR ''@'' netloc of
        (user, at_sign, h) \<Rightarrow>
          (case partition_on CHR ''['' h of
             (before, True, bracketed) \<Rightarrow>
               (case partition_on CHR '']'' bracketed of
                  (host, f, r) \<Rightarrow> (host, snd (snd (partition_on CHR '':'' r))))
           | (before, False, none) \<Rightarrow>
               (case partition_on CHR '':'' h of (host, f, port) \<Rightarrow> (host, port))))"

definition bracketed_host_ok :: "string \<Rightarrow> bool" where
  "bracketed_host_ok host \<longleftrightarrow>
     (if startswith host ''v''
      then re_fullmatch (Cat [Lit ''v'', Plus (Cls is_hex), Lit ''.'', Plus Dot]) host \<noteq> None
      else \<not> isl (IPv6Address host) \<and> isl (IPv4Address host))"

text \<open>The checks on brackets: nothing before them, only a port after them, and an address inside.\<close>

definition bracketed_ok :: "string \<Rightarrow> bool" where
  "bracketed_ok netloc \<longleftrightarrow>
     (case rpartition_on CHR ''@'' netloc of
        (user, at_sign, h) \<Rightarrow>
          (case partition_on CHR ''['' h of
             (before, True, bracketed) \<Rightarrow>
               (case partition_on CHR '']'' bracketed of
                  (host, f, r) \<Rightarrow> before = [] \<and> (r = [] \<or> startswith r '':'') \<and> bracketed_host_ok host)
           | (before, False, none) \<Rightarrow> bracketed_host_ok (fst (partition_on CHR '':'' h))))"

definition netloc_ok :: "string \<Rightarrow> bool" where
  "netloc_ok netloc \<longleftrightarrow>
     (CHR ''['' \<in> set netloc \<longleftrightarrow> CHR '']'' \<in> set netloc) \<and> (CHR ''['' \<in> set netloc \<longrightarrow> bracketed_ok netloc)"

definition urlsplit :: "string \<Rightarrow> url result" where
  "urlsplit s =
     (case split_scheme (clean_url s) of
        (scheme, rest) \<Rightarrow>
          let has_netloc = startswith rest ''//'';
              netloc = (if has_netloc then takeWhile is_netloc_char (drop 2 rest) else []);
              rest = (if has_netloc then dropWhile is_netloc_char (drop 2 rest) else rest)
          in if \<not> netloc_ok netloc then Inl ValueError
             else
               case partition_on CHR ''#'' rest of
                 (rest, f, fragment) \<Rightarrow>
                   (case partition_on CHR ''?'' rest of
                      (path, q, query) \<Rightarrow>
                        Inr \<lparr>u_scheme = scheme, u_netloc = netloc, u_path = path, u_query = query, u_fragment = fragment\<rparr>))"

definition url_hostname :: "url \<Rightarrow> string option" where
  "url_hostname u =
     (let host = fst (hostinfo (u_netloc u))
      in if host = [] then None
         else case partition_on CHR ''%'' host of
                (h, f, zone) \<Rightarrow> Some (lower h @ (if f then CHR ''%'' # zone else [])))"

definition url_port :: "url \<Rightarrow> int option result" where
  "url_port u =
     (let port = snd (hostinfo (u_netloc u))
      in if port = [] then Inr None
         else if isdigit port \<and> is_ascii port
         then res_bind (py_int port) (\<lambda>p. if 0 \<le> p \<and> p \<le> 65535 then Inr (Some p) else Inl ValueError)
         else Inl ValueError)"

definition url_username :: "url \<Rightarrow> string option" where
  "url_username u =
     (case rpartition_on CHR ''@'' (u_netloc u) of
        (user, f, h) \<Rightarrow> if f then Some (fst (partition_on CHR '':'' user)) else None)"

definition url_password :: "url \<Rightarrow> string option" where
  "url_password u =
     (case rpartition_on CHR ''@'' (u_netloc u) of
        (user, f, h) \<Rightarrow>
          if f then (case partition_on CHR '':'' user of (n, g, pw) \<Rightarrow> if g then Some pw else None) else None)"

section \<open>What a split address says about the text\<close>

lemma urlsplit_https:
  assumes "urlsplit s = Inr u" "u_scheme u = ''https''" "u_netloc u \<noteq> []" "u_path u = []" "u_query u = []" "u_fragment u = []"
  shows "\<exists>sch rest. clean_url s = sch @ ''://'' @ u_netloc u @ rest \<and> lower sch = ''https'' \<and> list_all is_netloc_char (u_netloc u) \<and>
    (rest = [] \<or> rest = ''?'' \<or> rest = ''#'' \<or> rest = ''?#'')"
proof -
  obtain scheme r where ss: "split_scheme (clean_url s) = (scheme, r)" by (cases "split_scheme (clean_url s)")
  have sl: "startswith r ''//''" using assms(1,3) ss
    by (auto simp: urlsplit_def Let_def split: if_splits prod.splits)
  then obtain t where t: "r = ''//'' @ t" by (auto simp: startswith_iff)
  let ?n = "takeWhile is_netloc_char t" and ?d = "dropWhile is_netloc_char t"
  have n: "u_netloc u = ?n" "scheme = ''https''" using assms(1,2) ss t sl
    by (auto simp: urlsplit_def Let_def split: if_splits prod.splits)
  obtain p1 f1 fr where p1: "partition_on CHR ''#'' ?d = (p1, f1, fr)" by (metis prod.exhaust)
  obtain p2 f2 q where p2: "partition_on CHR ''?'' p1 = (p2, f2, q)" by (metis prod.exhaust)
  have e: "fr = []" "p2 = []" "q = []" using assms(1,4-6) ss t sl p1 p2
    by (auto simp: urlsplit_def Let_def split: if_splits)
  have d1: "?d = (if f1 then p1 @ ''#'' else p1)"
    using p1 e(1) partition_on_found [of "CHR ''#''" ?d p1 fr] partition_on_not_found [of "CHR ''#''" ?d p1 fr] by (cases f1) auto
  have d2: "p1 = (if f2 then ''?'' else [])"
    using p2 e partition_on_found [of "CHR ''?''" p1 p2 q] partition_on_not_found [of "CHR ''?''" p1 p2 q] by (cases f2) auto
  obtain h f where h: "partition_on CHR '':'' (clean_url s) = (h, f, r)" "f" "lower h = ''https''"
    using ss n(2) by (auto simp: split_scheme_def split: prod.splits if_splits)
  then have "clean_url s = h @ CHR '':'' # r" using partition_on_found [of "CHR '':''" "clean_url s" h r] by simp
  moreover have "t = ?n @ ?d" by simp
  ultimately have "clean_url s = h @ ''://'' @ u_netloc u @ ?d" using t n(1) by simp
  moreover have "list_all is_netloc_char (u_netloc u)" by (auto simp: n(1) list_all_iff dest: set_takeWhileD)
  moreover have "?d = [] \<or> ?d = ''?'' \<or> ?d = ''#'' \<or> ?d = ''?#''" using d1 d2 by (auto split: if_splits)
  ultimately show ?thesis using h(3) by blast
qed

end
