(* ===== verification/Shlex.thy ===== *)
theory Shlex
  imports Prelude
begin

text \<open>
  \<open>shlex.split(text, comments)\<close> of Python's library: words in the manner of a POSIX shell, with
  quotes, backslashes and, where asked for, comments.
\<close>

datatype mode = Blank | Word | Quoted char | Escaped "char option"

definition is_sh_space :: "char \<Rightarrow> bool" where
  "is_sh_space c \<longleftrightarrow> c \<in> {CHR '' '', CHR 0x09, CHR 0x0D, CHR 0x0A}"

definition is_quote :: "char \<Rightarrow> bool" where
  "is_quote c \<longleftrightarrow> c = CHR 0x22 \<or> c = CHR 0x27"

definition emit :: "string \<Rightarrow> bool \<Rightarrow> string list result \<Rightarrow> string list result" where
  "emit token quoted rest = (if token \<noteq> [] \<or> quoted then res_bind rest (\<lambda>ws. Inr (token # ws)) else rest)"

text \<open>The rest of the text after the current line.\<close>

fun next_line :: "string \<Rightarrow> string" where
  "next_line [] = []"
| "next_line (c # cs) = (if c = newline then cs else next_line cs)"

lemma next_line_length [simp]: "length (next_line s) \<le> length s"
  by (induction s) auto

function sh_words :: "bool \<Rightarrow> mode \<Rightarrow> string \<Rightarrow> bool \<Rightarrow> string \<Rightarrow> string list result" where
  "sh_words comments Blank token quoted [] = emit token quoted (Inr [])"
| "sh_words comments Word token quoted [] = emit token quoted (Inr [])"
| "sh_words comments (Quoted q) token quoted [] = Inl ValueError"
| "sh_words comments (Escaped e) token quoted [] = Inl ValueError"
| "sh_words comments Blank token quoted (c # cs) =
     (if is_sh_space c then emit token quoted (sh_words comments Blank [] False cs)
      else if comments \<and> c = CHR ''#'' then sh_words comments Blank token quoted (next_line cs)
      else if c = CHR 0x5C then sh_words comments (Escaped None) token quoted cs
      else if is_quote c then sh_words comments (Quoted c) token quoted cs
      else sh_words comments Word [c] quoted cs)"
| "sh_words comments (Quoted q) token quoted (c # cs) =
     (if c = q then sh_words comments Word token True cs
      else if c = CHR 0x5C \<and> q = CHR 0x22 then sh_words comments (Escaped (Some q)) token True cs
      else sh_words comments (Quoted q) (token @ [c]) True cs)"
| "sh_words comments (Escaped e) token quoted (c # cs) =
     (case e of
        Some q \<Rightarrow> sh_words comments (Quoted q) (token @ (if c \<noteq> CHR 0x5C \<and> c \<noteq> q then [CHR 0x5C, c] else [c])) quoted cs
      | None \<Rightarrow> sh_words comments Word (token @ [c]) quoted cs)"
| "sh_words comments Word token quoted (c # cs) =
     (if is_sh_space c then emit token quoted (sh_words comments Blank [] False cs)
      else if comments \<and> c = CHR ''#'' then emit token quoted (sh_words comments Blank [] False (next_line cs))
      else if is_quote c then sh_words comments (Quoted c) token quoted cs
      else if c = CHR 0x5C then sh_words comments (Escaped None) token quoted cs
      else sh_words comments Word (token @ [c]) quoted cs)"
  by pat_completeness auto
termination
proof (relation "measure (\<lambda>(comments, m, token, quoted, s). length s)")
qed (auto simp: le_imp_less_Suc)

definition shlex_split :: "bool \<Rightarrow> string \<Rightarrow> string list result" where
  "shlex_split comments s = sh_words comments Blank [] False s"

end
