(* ===== verification/Network.thy ===== *)
theory Network
  imports Config Urls Shlex
begin

text \<open>
  The network settings of \<open>ui/app/network.py\<close>: the checks on addresses and on what the gateway is
  told, the lines they put into \<open>server.conf\<close>, and what guests may reach.
\<close>

definition RELAY_BACKEND_PORT :: int where "RELAY_BACKEND_PORT = 8444"

section \<open>Validation helpers\<close>

definition is_label_char :: "char \<Rightarrow> bool" where
  "is_label_char c \<longleftrightarrow> is_lower_ascii c \<or> is_decimal c"

text \<open>\<open>[a-z0-9](?:[a-z0-9-]{0,61}[a-z0-9])?\<close>, and two or more of them with dots between\<close>

definition LABEL :: re where
  "LABEL = Seq (Cls is_label_char)
     (Opt (Seq (UpTo 61 (Cls (\<lambda>c. is_label_char c \<or> c = CHR ''-''))) (Cls is_label_char)))"

definition HOSTNAME :: re where
  "HOSTNAME = Seq (Plus (Seq LABEL (Lit ''.''))) LABEL"

definition is_unsafe :: "char \<Rightarrow> bool" where
  "is_unsafe c \<longleftrightarrow> is_space c \<or> c \<in> {CHR 0x60, CHR ''{'', CHR ''}'', CHR 0x5C}"

definition hostname :: "string \<Rightarrow> string result" where
  "hostname value =
     (let v = rstrip_by (\<lambda>c. c = CHR ''.'') (lower (strip value))
      in if 253 < length v \<or> re_fullmatch HOSTNAME v = None
         then Inl (PkiError ''Enter a DNS hostname without a scheme, path or port'') else Inr v)"

definition cidrs :: "bool \<Rightarrow> string list \<Rightarrow> string list result" where
  "cidrs ipv4 values =
     (let bad = Inl (PkiError ''Enter network CIDRs such as 192.0.2.0/24; /0 networks are not allowed'')
      in case map_res (\<lambda>v. ip_network (strip v)) values of
           Inl e \<Rightarrow> (if e = ValueError then bad else Inl e)
         | Inr nets \<Rightarrow>
             if list_ex (\<lambda>n. net_prefixlen n = 0 \<or> (ipv4 \<and> net_version n \<noteq> 4)) nets then bad
             else Inr (dedup (map str_net nets)))"

definition host_port :: "string \<Rightarrow> string result" where
  "host_port value =
     (case rpartition_on CHR '':'' value of
        (host, f, port) \<Rightarrow>
          let bad = Inl (PkiError ''Enter an address and port, such as 192.0.2.20:8444'')
          in if host = [] \<or> \<not> isdigit port then bad
             else res_bind (py_int port) (\<lambda>p.
               if \<not> (1 \<le> p \<and> p \<le> 65535) \<or> list_ex (\<lambda>c. is_unsafe c \<or> c \<in> set ''/@?#'') host then bad
               else Inr (host @ '':'' @ dec_int p)))"

definition portal_listener :: "string \<Rightarrow> string result" where
  "portal_listener value =
     (case rpartition_on CHR '':'' value of
        (host, f, port) \<Rightarrow>
          (case res_bind (IPv4Address host) (\<lambda>ip.
                  if \<not> isdigit port then Inl ValueError
                  else res_bind (py_int port) (\<lambda>p.
                    if \<not> (1024 \<le> p \<and> p \<le> 65535) \<or> hd (octets_of ip) = 0 \<or> is_loopback ip \<or> is_link_local ip \<or>
                       is_multicast ip \<or> is_reserved ip
                    then Inl ValueError else Inr (str_ipv4 ip @ '':'' @ dec_int p))) of
             Inr v \<Rightarrow> Inr v
           | Inl e \<Rightarrow>
               if e = ValueError
               then Inl (PkiError (''Guest portal listener: enter the gateway's LAN IPv4 address and a port of 1024 or '' @
                      ''higher, such as 192.0.2.10:9443''))
               else Inl e))"

definition is_set :: "string option \<Rightarrow> bool" where
  "is_set s \<longleftrightarrow> s \<noteq> None \<and> s \<noteq> Some []"

definition backend_url :: "string \<Rightarrow> string result" where
  "backend_url value =
     (case res_bind (urlsplit value) (\<lambda>u.
             if u_scheme u \<notin> {''http'', ''https''} \<or> \<not> is_set (url_hostname u) \<or> is_set (url_username u) \<or>
                is_set (url_password u) \<or> list_ex is_unsafe value
             then Inl ValueError else res_bind (url_port u) (\<lambda>_. Inr value)) of
        Inr v \<Rightarrow> Inr v
      | Inl e \<Rightarrow>
          if e = ValueError
          then Inl (PkiError ''Enter an HTTP(S) address without credentials, such as http://192.0.2.20:8080'') else Inl e)"

definition is_pki_error :: "exc \<Rightarrow> bool" where
  "is_pki_error e \<longleftrightarrow> (case e of PkiError m \<Rightarrow> True | SigningUnavailable m \<Rightarrow> True | _ \<Rightarrow> False)"

text \<open>\<open>or ""\<close>\<close>

definition text_or_empty :: "string option \<Rightarrow> string" where
  "text_or_empty s = (case s of Some t \<Rightarrow> t | None \<Rightarrow> [])"

definition is_ip :: "string \<Rightarrow> bool" where
  "is_ip value \<longleftrightarrow> is_ip_address value"

definition url_host :: "string \<Rightarrow> string" where
  "url_host u =
     (case res_bind (urlsplit u) (\<lambda>p. hostname (text_or_empty (url_hostname p))) of
        Inl e \<Rightarrow> []
      | Inr host \<Rightarrow> if is_ip host then [] else host)"

section \<open>What guests may reach\<close>

definition link_rule :: "guest_link \<Rightarrow> (string option \<times> string) result" where
  "link_rule link =
     res_bind (urlsplit (gl_url link)) (\<lambda>u.
       Inr (url_hostname u, if gl_whole_site link then ''/'' else if u_path u = [] then ''/'' else u_path u))"

text \<open>\<open>sorted({...})\<close> of host names, where \<open>None\<close> does not compare with a name.\<close>

definition sorted_hosts :: "string option list \<Rightarrow> string option list result" where
  "sorted_hosts hs =
     (if None \<in> set hs then (if list_all (\<lambda>h. h = None) hs then Inr [None] else Inl TypeError)
      else Inr (map Some (sort (remdups (map the hs)))))"

record portal =
  po_host :: string
  po_target :: string
  po_hosts :: "string option list"

definition guest_portal :: "files \<Rightarrow> portal option result" where
  "guest_portal fs =
     res_bind (read_network fs) (\<lambda>saved.
       case saved of
         None \<Rightarrow> Inr None
       | Some d \<Rightarrow>
           let g = nd_gateway d
           in if gw_openvpn_host g = [] \<or> gw_portal_listener g = [] then Inr None
              else res_bind (map_res link_rule (gw_guest_links g)) (\<lambda>rules.
                res_bind (sorted_hosts (map fst rules)) (\<lambda>hosts.
                  Inr (Some \<lparr>po_host = gw_openvpn_host g, po_target = gw_portal_listener g, po_hosts = hosts\<rparr>))))"

definition guest_links :: "files \<Rightarrow> string list result" where
  "guest_links fs =
     res_bind (read_network fs) (\<lambda>saved.
       Inr (case saved of None \<Rightarrow> [] | Some d \<Rightarrow> map gl_url (gw_guest_links (nd_gateway d))))"

section \<open>Validation\<close>

text \<open>The checks on the subnets and the pool, with the values they go on with.\<close>

definition check_ranges :: "network_data \<Rightarrow> (ipv4_network \<times> ipv4_network \<times> ipv4 \<times> ipv4 \<times> string list) result" where
  "check_ranges d =
     res_bind (IPv4Network True (nd_vpn_subnet d)) (\<lambda>net.
     res_bind (IPv4Network True (nd_guest_subnet d)) (\<lambda>guest.
     res_bind (IPv4Address (nd_pool_first d)) (\<lambda>lo.
     res_bind (IPv4Address (nd_pool_last d)) (\<lambda>hi.
       if 28 < prefixlen net \<or> \<not> subnet_of guest net \<or> \<not> (prefixlen net < prefixlen guest \<and> prefixlen guest \<le> 30)
       then Inl ValueError
       else res_bind (ip_add (network_address net) 1) (\<lambda>own.
         if \<not> (own < lo \<and> lo \<le> hi \<and> hi < broadcast_address net) then Inl ValueError
         else if lo \<le> broadcast_address guest \<and> network_address guest \<le> hi then Inl ValueError
         else if in_network own guest then Inl ValueError
         else res_bind (map_res IPv4Address (nd_dns_servers d)) (\<lambda>dns.
           Inr (net, guest, lo, hi, dedup (map str_ipv4 dns))))))))"

definition static_conflict :: "ipv4_network \<Rightarrow> ipv4_network \<Rightarrow> ipv4 \<Rightarrow> ipv4 \<Rightarrow> ipv4 \<Rightarrow> bool" where
  "static_conflict net guest lo hi addr \<longleftrightarrow>
     \<not> in_network addr net \<or> in_network addr guest \<or> (lo \<le> addr \<and> addr \<le> hi) \<or>
     addr \<in> {network_address net, network_address net + 1, broadcast_address net}"

fun check_static :: "(ipv4 \<Rightarrow> bool) \<Rightarrow> string list \<Rightarrow> unit result" where
  "check_static conflict [] = Inr ()"
| "check_static conflict (ip # ips) =
     res_bind (IPv4Address ip) (\<lambda>addr.
       if conflict addr then Inl (PkiError ''Move existing static client addresses before changing these networks'')
       else check_static conflict ips)"

definition validate_addressing :: "files \<Rightarrow> network_data \<Rightarrow> network_data result" where
  "validate_addressing fs d =
     (case check_ranges d of
        Inl e \<Rightarrow>
          if e = ValueError
          then Inl (PkiError ''Use a valid VPN subnet, a client pool inside it and a separate guest subnet inside it'')
          else Inl e
      | Inr (net, guest, lo, hi, dns) \<Rightarrow>
          res_bind (check_static (static_conflict net guest lo hi) (map snd (static_ips fs))) (\<lambda>_.
          res_bind (cidrs True (nd_routes d)) (\<lambda>routes.
          res_bind (cidrs False (nd_proxy_cidrs d)) (\<lambda>proxies.
            if proxies = [] then Inl (PkiError ''Keep at least one trusted proxy address'')
            else Inr (d\<lparr>nd_vpn_subnet := str_network net, nd_guest_subnet := str_network guest,
                        nd_pool_first := str_ipv4 lo, nd_pool_last := str_ipv4 hi, nd_dns_servers := dns,
                        nd_routes := routes, nd_proxy_cidrs := proxies\<rparr>)))))"

text \<open>\<open>urlunsplit(("https", host, path or "/", query, fragment))\<close>\<close>

definition https_url :: "string \<Rightarrow> string \<Rightarrow> string \<Rightarrow> string \<Rightarrow> string" where
  "https_url host path query fragment =
     ''https://'' @ host @ (if startswith path ''/'' then path else CHR ''/'' # path) @
     (if query = [] then [] else CHR ''?'' # query) @ (if fragment = [] then [] else CHR ''#'' # fragment)"

text \<open>\<open>repr\<close> of a text\<close>

definition printable :: "char \<Rightarrow> bool" where
  "printable c \<longleftrightarrow> (32 \<le> code c \<and> code c \<le> 126) \<or> (161 \<le> code c \<and> code c \<noteq> 173)"

definition hex_digit :: "nat \<Rightarrow> char" where
  "hex_digit n = ''0123456789abcdef'' ! (n mod 16)"

definition repr_char :: "char \<Rightarrow> char \<Rightarrow> string" where
  "repr_char q c =
     (if c = q \<or> c = CHR 0x5C then [CHR 0x5C, c]
      else if c = CHR 0x09 then [CHR 0x5C, CHR ''t''] else if c = newline then [CHR 0x5C, CHR ''n'']
      else if c = CHR 0x0D then [CHR 0x5C, CHR ''r''] else if printable c then [c]
      else [CHR 0x5C, CHR ''x'', hex_digit (code c div 16), hex_digit (code c)])"

definition repr :: "string \<Rightarrow> string" where
  "repr s =
     (let q = (if CHR 0x27 \<in> set s \<and> CHR 0x22 \<notin> set s then CHR 0x22 else CHR 0x27)
      in q # concat (map (repr_char q) s) @ [q])"

definition link_error :: "string \<Rightarrow> string \<Rightarrow> exc" where
  "link_error raw why = PkiError (''Guest link '' @ repr raw @ '': '' @ why)"

definition validate_guest_link :: "string \<Rightarrow> string list \<Rightarrow> guest_link \<Rightarrow> guest_link result" where
  "validate_guest_link domain reserved link =
     (let raw = strip (gl_url link)
      in case res_bind (urlsplit raw) (\<lambda>u. res_bind (hostname (text_or_empty (url_hostname u))) (\<lambda>host.
                if u_scheme u \<noteq> ''https'' then Inl ValueError
                else res_bind (url_port u) (\<lambda>port.
                  if port \<notin> {None, Some 443} \<or> is_set (url_username u) \<or> is_set (url_password u) \<or> list_ex is_unsafe raw
                  then Inl ValueError else Inr (u, host)))) of
           Inl e \<Rightarrow>
             if e = ValueError \<or> is_pki_error e
             then Inl (link_error raw ''enter an https:// address without a port or credentials'') else Inl e
         | Inr (u, host) \<Rightarrow>
             if domain = [] \<or> \<not> endswith host (CHR ''.'' # domain)
             then Inl (link_error raw (''only websites under your domain ('' @ (if domain = [] then ''not set'' else domain) @
                    '') can be opened by guests''))
             else if host \<in> set reserved then Inl (link_error raw ''this hostname cannot be a guest link'')
             else Inr (link\<lparr>gl_url := https_url host (if u_path u = [] then ''/'' else u_path u) (u_query u) (u_fragment u)\<rparr>))"

text \<open>\<open>validate_url\<close> of \<open>ui/app/relay.py\<close>: the relay's public origin.\<close>

definition validate_url :: "string \<Rightarrow> string result" where
  "validate_url s =
     (let v = rstrip_by (\<lambda>c. c = CHR ''/'') (strip s)
      in case res_bind (urlsplit v) (\<lambda>u. res_bind (url_port u) (\<lambda>port.
                if u_scheme u \<noteq> ''https'' \<or> \<not> is_set (url_hostname u) \<or> url_username u \<noteq> None \<or> url_password u \<noteq> None \<or>
                   u_query u \<noteq> [] \<or> u_fragment u \<noteq> [] \<or> u_path u \<noteq> [] \<or> port = Some 0 \<or>
                   list_ex (\<lambda>c. is_space c \<or> c \<in> {CHR ''{'', CHR ''}'', CHR 0x5C}) v
                then Inl ValueError else Inr v)) of
           Inr w \<Rightarrow> Inr w
         | Inl e \<Rightarrow>
             if e = ValueError
             then Inl (PkiError ''Relay URL must be an HTTPS origin, e.g. https://relay.example.com:8443'') else Inl e)"

definition SERVICE_NAME :: re where
  "SERVICE_NAME = Seq (Cls is_lower_ascii) (UpTo 39 (Cls (\<lambda>c. is_label_char c \<or> c = CHR ''-'')))"

fun validate_services :: "string list \<Rightarrow> string list \<Rightarrow> service list \<Rightarrow> service list result" where
  "validate_services reserved names [] = Inr []"
| "validate_services reserved names (s # ss) =
     (if re_fullmatch SERVICE_NAME (sv_name s) = None \<or> sv_name s \<in> set names
      then Inl (PkiError ''Give each service a unique lowercase name'')
      else
        res_bind (hostname (sv_host s)) (\<lambda>host.
        res_bind (backend_url (sv_url s)) (\<lambda>u.
          if host \<in> set reserved
          then Inl (PkiError ''Additional services cannot use the OpenVPN website or dashboard hostname'')
          else if list_ex (\<lambda>p. \<not> startswith p ''/'' \<or> list_ex is_unsafe p) (sv_paths s)
          then Inl (PkiError ''Service paths must start with / and contain no whitespace or template characters'')
          else res_bind (validate_services reserved (sv_name s # names) ss) (\<lambda>rest.
            Inr (s\<lparr>sv_host := host, sv_url := u\<rparr> # rest)))))"

definition if_set :: "(string \<Rightarrow> string result) \<Rightarrow> string \<Rightarrow> string result" where
  "if_set f s = (if s = [] then Inr [] else f s)"

definition rename_error :: "string \<Rightarrow> string result \<Rightarrow> string result" where
  "rename_error m r = (case r of Inl e \<Rightarrow> if is_pki_error e then Inl (PkiError m) else Inl e | Inr v \<Rightarrow> Inr v)"

definition validate_gateway :: "gateway \<Rightarrow> gateway result" where
  "validate_gateway g =
     res_bind (if_set hostname (gw_domain g)) (\<lambda>domain.
     res_bind (if_set hostname (gw_openvpn_host g)) (\<lambda>openvpn_host.
     res_bind (if_set hostname (gw_relay_host g)) (\<lambda>relay_host.
     res_bind (if_set (\<lambda>v. rename_error (''VPN server web address: enter an HTTP(S) URL with the web UI port, '' @
                 ''such as http://192.0.2.20:8080'') (backend_url v)) (gw_openvpn_backend g)) (\<lambda>openvpn_backend.
     res_bind (if_set (\<lambda>v. rename_error
                 ''Relay backend: enter this server's address and relay port, such as 192.0.2.20:8444'' (host_port v))
                 (gw_relay_backend g)) (\<lambda>relay_backend.
     res_bind (if_set validate_url (gw_relay_public_url g)) (\<lambda>relay_public_url.
     res_bind (if_set portal_listener (gw_portal_listener g)) (\<lambda>listener.
       if gw_portal_listener g \<noteq> [] \<and> openvpn_host = []
       then Inl (PkiError ''Set the website hostname before the guest portal listener'')
       else
         res_bind (cidrs False (gw_trusted_cidrs g)) (\<lambda>trusted.
           let reserved = [openvpn_host, ''dashboard.'' @ domain]
           in res_bind (map_res (validate_guest_link domain (relay_host # reserved)) (gw_guest_links g)) (\<lambda>links.
              res_bind (validate_services reserved [] (gw_services g)) (\<lambda>services.
                Inr (g\<lparr>gw_domain := domain, gw_openvpn_host := openvpn_host, gw_relay_host := relay_host,
                       gw_openvpn_backend := openvpn_backend, gw_relay_backend := relay_backend,
                       gw_relay_public_url := relay_public_url, gw_portal_listener := listener,
                       gw_trusted_cidrs := trusted, gw_guest_links := links, gw_services := services,
                       gw_replace_services := (gw_replace_services g \<or> services \<noteq> [])\<rparr>)))))))))))"

definition validate :: "files \<Rightarrow> network_data \<Rightarrow> network_data result" where
  "validate fs body =
     res_bind (validate_addressing fs body) (\<lambda>d.
     res_bind (validate_gateway (nd_gateway d)) (\<lambda>g. Inr (d\<lparr>nd_gateway := g\<rparr>)))"

section \<open>Saving\<close>

text \<open>
  The lines of \<open>server.conf\<close> that stay: a subnet, pool, route or DNS line is dropped. A pushed
  option is split once more.
\<close>

definition replaced :: "string \<Rightarrow> bool result" where
  "replaced line =
     res_bind (shlex_split True line) (\<lambda>ws.
       if ws \<noteq> [] \<and> hd ws \<in> {''server'', ''ifconfig-pool''} then Inr True
       else if 1 < length ws \<and> hd ws = ''push''
       then res_bind (shlex_split False (ws ! 1)) (\<lambda>pushed.
         Inr (pushed \<noteq> [] \<and> (hd pushed \<in> {''route'', ''dns''} \<or> take 2 pushed = [''dhcp-option'', ''DNS''])))
       else Inr False)"

fun kept_lines :: "string list \<Rightarrow> string list result" where
  "kept_lines [] = Inr []"
| "kept_lines (line # lines) =
     res_bind (replaced line) (\<lambda>drop. res_bind (kept_lines lines) (\<lambda>rest. Inr (if drop then rest else line # rest)))"

definition quoted_push :: "string \<Rightarrow> string" where
  "quoted_push s = ''push '' @ [CHR 0x22] @ s @ [CHR 0x22]"

definition dns_lines :: "nat \<times> string \<Rightarrow> string list" where
  "dns_lines p =
     (case p of (i, dns) \<Rightarrow>
        [quoted_push (''dns server '' @ dec i @ '' address '' @ dns), quoted_push (''dhcp-option DNS '' @ dns)])"

definition route_line :: "string \<Rightarrow> string result" where
  "route_line value =
     res_bind (IPv4Network True value) (\<lambda>route.
       Inr (quoted_push (''route '' @ str_ipv4 (network_address route) @ '' '' @ str_ipv4 (netmask route))))"

definition server_conf_lines :: "files \<Rightarrow> network_data \<Rightarrow> string list result" where
  "server_conf_lines fs d =
     (case fs_server_conf fs of
        None \<Rightarrow> Inl OSError
      | Some text \<Rightarrow>
          res_bind (kept_lines (splitlines text)) (\<lambda>kept.
          res_bind (IPv4Network True (nd_vpn_subnet d)) (\<lambda>net.
          res_bind (map_res route_line (nd_routes d)) (\<lambda>routes.
            Inr (kept @
              [''server '' @ str_ipv4 (network_address net) @ '' '' @ str_ipv4 (netmask net) @ '' nopool'',
               ''ifconfig-pool '' @ nd_pool_first d @ '' '' @ nd_pool_last d] @
              concat (map dns_lines (enumerate 0 (nd_dns_servers d))) @ routes)))))"

text \<open>
  \<open>save_settings\<close> under the lock: \<open>server.conf\<close>, then the settings file, then the copy of the proxy
  list the relay reads.
\<close>

definition save_settings :: "network_data \<Rightarrow> files \<Rightarrow> network_data result \<times> files" where
  "save_settings body fs =
     (case res_bind (validate fs body) (\<lambda>d. res_bind (server_conf_lines fs d) (\<lambda>lines. Inr (d, lines))) of
        Inl e \<Rightarrow> (Inl e, fs)
      | Inr (d, lines) \<Rightarrow>
          (case write_config ''server'' (join [newline] lines @ [newline]) fs of
             (Inl e, fs1) \<Rightarrow> (Inl e, fs1)
           | (Inr u, fs1) \<Rightarrow>
               (Inr d, fs1\<lparr>fs_network := Net_saved d,
                  fs_proxies := Some (''PROXY_CIDRS='' @ join '' '' (nd_proxy_cidrs d) @ [newline])\<rparr>)))"

end
