(* ===== verification/Relay.thy ===== *)
theory Relay
  imports Network Clients Base64
begin

text \<open>
  Apple Network Relay profiles and credentials: \<open>ui/app/relay.py\<close>, the settings and the signing of
  profiles in \<open>ui/app/relay_services.py\<close>, and the policy server \<open>ui/app/policy_server.py\<close>.

  Parameters: \<open>model\<close> is what \<open>RelaySettings(**object)\<close> of the pydantic library gives, \<open>sha\<close> the
  hexadecimal SHA-256 of a text, \<open>uuid5\<close> the identifier \<open>uuid.uuid5\<close> derives from a name, and
  \<open>secret\<close> and \<open>uuid4\<close> the random values drawn. What the signer answers and what
  \<open>openssl cms -verify\<close> prints are parameters too. The memory of the parsed index (\<open>_index\<close>) is left
  out: it returns what parsing the unchanged file returns. A dash or an arrow in a message is written
  in ASCII.
\<close>

section \<open>Settings\<close>

record relay_settings =
  rl_enabled :: bool
  rl_url :: string

text \<open>The values of \<open>Settings\<close> the relay asks for.\<close>

record relay_env =
  en_transport :: string
  en_signer_url :: string
  en_signer_token :: string
  en_signing_required :: bool
  en_profile_base_url :: string
  en_forwarded_allow_ips :: "string option"

type_synonym model = "(string \<times> json) list \<Rightarrow> relay_settings result"

definition loads :: "sval \<Rightarrow> json result" where
  "loads v = (case v of Json j \<Rightarrow> Inr j | Text t \<Rightarrow> Inl ValueError)"

definition item :: "string \<Rightarrow> json \<Rightarrow> json result" where
  "item key j =
     (case j of JObj kvs \<Rightarrow> (case map_of kvs key of Some v \<Rightarrow> Inr v | None \<Rightarrow> Inl KeyError) | _ \<Rightarrow> Inl TypeError)"

text \<open>A value a text method is called on.\<close>

definition as_text :: "json \<Rightarrow> string result" where
  "as_text j = (case j of JStr s \<Rightarrow> Inr s | _ \<Rightarrow> Inl AttributeError)"

definition truthy :: "json \<Rightarrow> bool" where
  "truthy j =
     (case j of JNull \<Rightarrow> False | JBool b \<Rightarrow> b | JInt i \<Rightarrow> i \<noteq> 0 | JStr s \<Rightarrow> s \<noteq> [] | JList l \<Rightarrow> l \<noteq> [] | JObj o' \<Rightarrow> o' \<noteq> [])"

definition relay_get_settings :: "model \<Rightarrow> database \<Rightarrow> relay_settings result" where
  "relay_get_settings model db =
     res_bind (case get_setting db ''apple_relay'' of Some v \<Rightarrow> loads v | None \<Rightarrow> Inr (JObj [])) (\<lambda>j.
       case j of JObj kvs \<Rightarrow> model kvs | _ \<Rightarrow> Inl TypeError)"

definition validate_settings :: "relay_settings \<Rightarrow> relay_settings result" where
  "validate_settings body =
     res_bind (if strip (rl_url body) = [] then Inr [] else validate_url (rl_url body)) (\<lambda>u.
       if rl_enabled body \<and> u = []
       then Inl (PkiError ''Enabling Apple relay profiles requires the relay's public HTTPS URL'')
       else Inr (body\<lparr>rl_url := u\<rparr>))"

definition settings_json :: "relay_settings \<Rightarrow> (string \<times> json) list" where
  "settings_json c = [(''enabled'', JBool (rl_enabled c)), (''url'', JStr (rl_url c))]"

definition relay_save_settings :: "relay_settings \<Rightarrow> database \<Rightarrow> (relay_settings \<times> database) result" where
  "relay_save_settings body db =
     res_bind (validate_settings body) (\<lambda>c.
       Inr (c, set_setting ''apple_relay'' (Json (JObj (settings_json c))) db))"

section \<open>Who may use the relay\<close>

text \<open>\<open>cert\<close> reads a certificate file with \<open>cert_info\<close>; \<open>now\<close> is \<open>time.time()\<close>.\<close>

definition eligible :: "(string option \<Rightarrow> cert option) \<Rightarrow> rat \<Rightarrow> files \<Rightarrow> string \<Rightarrow> cert option result" where
  "eligible cert now fs name =
     res_bind (validate_name name) (\<lambda>_.
       case cert (map_of (fs_issued fs) name) of
         None \<Rightarrow> Inr None
       | Some c \<Rightarrow>
           if ct_cn c \<noteq> name then Inr None
           else
             case fs_index fs of
               None \<Rightarrow> Inr None
             | Some text \<Rightarrow>
                 if map_option ie_status (map_of (parse_index text) (ct_serial c)) \<noteq> Some ''V'' \<or>
                    (case ct_not_after c of None \<Rightarrow> True | Some t \<Rightarrow> t = 0 \<or> of_int t \<le> now) \<or>
                    now < of_int (case ct_not_before c of None \<Rightarrow> 0 | Some t \<Rightarrow> t)
                 then Inr None else Inr (Some c))"

definition is_guest :: "files \<Rightarrow> string \<Rightarrow> bool" where
  "is_guest fs name \<longleftrightarrow> (case fs_guests fs of Some gs \<Rightarrow> name \<in> set gs | None \<Rightarrow> False)"

definition client_key :: "string \<Rightarrow> string" where
  "client_key name = ''relay_client:'' @ name"

definition revoke :: "string \<Rightarrow> database \<Rightarrow> database" where
  "revoke name db = delete_setting (client_key name) db"

text \<open>\<open>if raw\<close> for a stored text\<close>

definition stored :: "sval option \<Rightarrow> bool" where
  "stored v \<longleftrightarrow> v \<noteq> None \<and> v \<noteq> Some (Text [])"

definition grant_secret :: "json \<Rightarrow> string result" where
  "grant_secret grant = res_bind (item ''secret'' grant) as_text"

definition credential_id :: "(string \<Rightarrow> string) \<Rightarrow> database \<Rightarrow> string \<Rightarrow> string result" where
  "credential_id sha db name =
     (let raw = get_setting db (client_key name)
      in if stored raw then res_bind (loads (the raw)) (\<lambda>g. res_bind (grant_secret g) (\<lambda>s. Inr (sha s))) else Inr [])"

definition new_grant :: "string \<Rightarrow> string \<Rightarrow> json" where
  "new_grant serial secret = JObj [(''serial'', JStr serial), (''secret'', JStr secret)]"

text \<open>The transaction of \<open>profile\<close>: the instance identifier and the grant, made where they are missing.
  The instance identifier is never JSON.\<close>

definition ensure_instance :: "string \<Rightarrow> database \<Rightarrow> (string \<times> database) result" where
  "ensure_instance uuid4 db =
     (case get_setting db ''relay_instance'' of
        Some (Text t) \<Rightarrow> Inr (t, db)
      | Some (Json j) \<Rightarrow> Inl TypeError
      | None \<Rightarrow> Inr (uuid4, set_setting ''relay_instance'' (Text uuid4) db))"

definition ensure_grant :: "string \<Rightarrow> string \<Rightarrow> string \<Rightarrow> database \<Rightarrow> (json \<times> database) result" where
  "ensure_grant secret serial name db =
     res_bind (case get_setting db (client_key name) of Some v \<Rightarrow> loads v | None \<Rightarrow> Inr JNull) (\<lambda>grant.
     res_bind (if truthy grant then res_bind (item ''serial'' grant) (\<lambda>s. Inr (s \<noteq> JStr serial)) else Inr True) (\<lambda>fresh.
       if fresh
       then Inr (new_grant serial secret, set_setting (client_key name) (Json (new_grant serial secret)) db)
       else Inr (grant, db)))"

definition update_serial :: "string \<Rightarrow> json \<Rightarrow> json" where
  "update_serial serial grant =
     (case grant of JObj kvs \<Rightarrow> JObj (AList.update ''serial'' (JStr serial) kvs) | _ \<Rightarrow> grant)"

definition renewed :: "(string option \<Rightarrow> cert option) \<Rightarrow> rat \<Rightarrow> files \<Rightarrow> string \<Rightarrow> string option \<Rightarrow> database \<Rightarrow> database result" where
  "renewed cert now fs name previous_serial db =
     res_bind (eligible cert now fs name) (\<lambda>c.
       case c of
         None \<Rightarrow> Inr db
       | Some c \<Rightarrow>
           (case get_setting db (client_key name) of
              None \<Rightarrow> Inr db
            | Some v \<Rightarrow>
                res_bind (loads v) (\<lambda>grant.
                res_bind (item ''serial'' grant) (\<lambda>s.
                  if s = (case previous_serial of Some p \<Rightarrow> JStr p | None \<Rightarrow> JNull)
                  then Inr (set_setting (client_key name) (Json (update_serial (ct_serial c) grant)) db)
                  else Inr db))))"

record policy =
  pl_client :: string
  pl_credential_id :: string
  pl_guest :: bool
  pl_url :: string
  pl_allowed_cidrs :: "string list"
  pl_blocked_cidrs :: "string list"
  pl_portal :: "portal option"

definition guest_routes :: "files \<Rightarrow> string list result" where
  "guest_routes fs = res_bind (read_network fs) (\<lambda>saved. Inr (case saved of None \<Rightarrow> [] | Some d \<Rightarrow> nd_routes d))"

text \<open>What the network settings add to a guest's policy.\<close>

definition guest_state :: "bool \<Rightarrow> files \<Rightarrow> (portal option \<times> string list) result" where
  "guest_state guest fs =
     (if guest then res_bind (guest_portal fs) (\<lambda>p. res_bind (guest_routes fs) (\<lambda>r. Inr (p, r))) else Inr (None, []))"

definition authorize ::
  "(string \<Rightarrow> string) \<Rightarrow> model \<Rightarrow> (string option \<Rightarrow> cert option) \<Rightarrow> rat \<Rightarrow> files \<Rightarrow> database \<Rightarrow> string \<Rightarrow> bool \<Rightarrow> policy option result" where
  "authorize sha model cert now fs db authorization strict_state =
     (if \<not> startswith authorization ''Bearer '' \<or> 512 < length authorization then Inr None
      else
        case partition_on CHR '':'' (drop 7 authorization) of
          (name, sep, secret) \<Rightarrow>
            if \<not> sep then Inr None
            else
              let raw = get_setting db (client_key name)
              in if \<not> stored raw then Inr None
                 else
                   res_bind (loads (the raw)) (\<lambda>grant.
                   res_bind (grant_secret grant) (\<lambda>expected.
                     if secret \<noteq> expected then Inr None
                     else
                       res_bind (eligible cert now fs name) (\<lambda>c.
                       res_bind (relay_get_settings model db) (\<lambda>config.
                         let guest = is_guest fs name
                         in if \<not> rl_enabled config \<or> c = None then Inr None
                            else
                              res_bind (item ''serial'' grant) (\<lambda>serial.
                                if serial \<noteq> JStr (ct_serial (the c)) then Inr None
                                else
                                  case guest_state guest fs of
                                    Inr (portal, routes) \<Rightarrow>
                                      Inr (Some \<lparr>pl_client = name, pl_credential_id = sha expected, pl_guest = guest,
                                                 pl_url = rl_url config, pl_allowed_cidrs = [''0.0.0.0/0'', ''::/0''],
                                                 pl_blocked_cidrs = routes, pl_portal = portal\<rparr>)
                                  | Inl e \<Rightarrow>
                                      if e \<in> {OSError, ValueError} \<and> \<not> strict_state then Inr None else Inl e))))))"

section \<open>Signing profiles\<close>

record signing =
  sg_url :: string
  sg_token :: string
  sg_required :: bool

definition text_item :: "string \<Rightarrow> string \<Rightarrow> (string \<times> json) list \<Rightarrow> string result" where
  "text_item key fallback kvs =
     (case map_of kvs key of None \<Rightarrow> Inr fallback | Some (JStr s) \<Rightarrow> Inr s | Some j \<Rightarrow> Inl TypeError)"

text \<open>Stored values of other types than the ones the program saves count as a \<open>TypeError\<close> here.\<close>

definition signing_config :: "relay_env \<Rightarrow> database option \<Rightarrow> signing result" where
  "signing_config env db =
     res_bind (case db of
                 None \<Rightarrow> Inr (JObj [])
               | Some db \<Rightarrow> (case get_setting db ''relay_signing'' of Some v \<Rightarrow> loads v | None \<Rightarrow> Inr (JObj []))) (\<lambda>j.
       case j of
         JObj kvs \<Rightarrow>
           res_bind (text_item ''url'' (en_signer_url env) kvs) (\<lambda>u.
           res_bind (text_item ''token'' (en_signer_token env) kvs) (\<lambda>token.
             Inr \<lparr>sg_url = u, sg_token = token,
                  sg_required = (case map_of kvs ''required'' of None \<Rightarrow> en_signing_required env | Some j \<Rightarrow> truthy j)\<rparr>))
       | _ \<Rightarrow> Inl AttributeError)"

definition validate_signer_url :: "string \<Rightarrow> unit result" where
  "validate_signer_url s =
     (case res_bind (urlsplit s) (\<lambda>u. res_bind (url_port u) (\<lambda>port. Inr (u, port \<noteq> Some 0))) of
        Inl e \<Rightarrow> if e = ValueError then Inl (PkiError ''Signing URL must be a valid HTTPS URL'') else Inl e
      | Inr (u, valid_port) \<Rightarrow>
          if u_scheme u \<noteq> ''https'' \<or> \<not> is_set (url_hostname u) \<or> url_username u \<noteq> None \<or> url_password u \<noteq> None \<or>
             u_query u \<noteq> [] \<or> u_fragment u \<noteq> [] \<or> \<not> valid_port \<or> u_path u \<noteq> ''/internal/relay-sign'' \<or>
             list_ex is_space s \<or> CHR 0x5C \<in> set s
          then Inl (PkiError ''Signing URL must be HTTPS and end in /internal/relay-sign'') else Inr ())"

definition token_ok :: "string \<Rightarrow> bool" where
  "token_ok t \<longleftrightarrow> 32 \<le> length t \<and> length t \<le> 512 \<and> \<not> list_ex (\<lambda>c. code c < 33 \<or> 126 < code c) t"

record signing_body =
  sb_url :: string
  sb_token :: "string option"
  sb_required :: bool
  sb_use_environment :: bool

text \<open>What \<open>save_signing\<close> stores; the status it returns to the browser asks the signer and is left out.\<close>

definition save_signing :: "relay_env \<Rightarrow> signing_body \<Rightarrow> database \<Rightarrow> database result" where
  "save_signing env body db =
     (if sb_use_environment body then Inr (delete_setting ''relay_signing'' db)
      else
        res_bind (signing_config env (Some db)) (\<lambda>current.
          let u = strip (sb_url body)
          in res_bind (if u = [] then Inr () else validate_signer_url u) (\<lambda>_.
             let token = (case sb_token body of None \<Rightarrow> sg_token current | Some t \<Rightarrow> strip t)
             in if token \<noteq> [] \<and> \<not> token_ok token
                then Inl (PkiError (''Use the shared signing token from Traefik (32-512 printable characters)''))
                else Inr (set_setting ''relay_signing''
                       (Json (JObj [(''url'', JStr u), (''token'', JStr token), (''required'', JBool (sb_required body))])) db))))"


text \<open>What came of sending a request to the signer.\<close>

datatype signer_answer = Answered string | Refused nat | Unreachable

definition refusal :: "nat \<Rightarrow> string" where
  "refusal status =
     (if status = 403 then ''check the shared token and allowed source IP''
      else if status = 404 then ''the Traefik signing route was not found''
      else if status = 422 then ''check the signing certificate and ACME store on the Pi''
      else if status = 503 then ''the signer is temporarily unavailable''
      else ''check the signer service'')"

definition signing_request :: "(signing \<Rightarrow> string option \<Rightarrow> signer_answer) \<Rightarrow> string option \<Rightarrow> signing \<Rightarrow> string result" where
  "signing_request signer content config =
     res_bind (validate_signer_url (sg_url config)) (\<lambda>_.
       if \<not> token_ok (sg_token config)
       then Inl (PkiError ''Configure the valid shared profile signing token on both hosts'')
       else
         case signer config content of
           Answered body \<Rightarrow>
             if 256 * 1024 < length body then Inl (PkiError ''Profile signer returned an oversized response'') else Inr body
         | Refused status \<Rightarrow> Inl (PkiError (''Cannot reach the profile signer: '' @ refusal status))
         | Unreachable \<Rightarrow>
             Inl (PkiError ''Cannot reach the profile signer; check its certificate, token and Traefik route''))"

definition sign_profile ::
  "relay_env \<Rightarrow> (signing \<Rightarrow> string option \<Rightarrow> signer_answer) \<Rightarrow> (string \<Rightarrow> string \<Rightarrow> string option) \<Rightarrow> database option \<Rightarrow> string \<Rightarrow> string option \<Rightarrow> string result" where
  "sign_profile env signer cms_verify db content host =
     res_bind (signing_config env db) (\<lambda>config.
       if sg_url config = []
       then (if sg_required config
             then Inl (SigningUnavailable (''Signed relay downloads require setup in Relay -> Profile signing. '' @
                    ''Configure the HTTPS signer URL and shared Traefik token.''))
             else Inr content)
       else
         case signing_request signer (Some content) config of
           Inl e \<Rightarrow> (case e of PkiError m \<Rightarrow> Inl (SigningUnavailable m) | SigningUnavailable m \<Rightarrow> Inl (SigningUnavailable m) | _ \<Rightarrow> Inl e)
         | Inr reply \<Rightarrow>
             (case host of
                None \<Rightarrow> Inl TypeError
              | Some h \<Rightarrow>
                  (case cms_verify reply h of
                     None \<Rightarrow> Inl (SigningUnavailable ''Profile signature could not be verified; no unsigned profile was returned'')
                   | Some verified \<Rightarrow>
                       if verified \<noteq> content then Inl (SigningUnavailable ''Profile signer changed the profile contents'')
                       else Inr reply)))"

section \<open>Profiles\<close>

text \<open>
  Property lists and the XML \<open>plistlib.dumps\<close> writes for them. Floating-point numbers and dates stand as
  the text they are written as.
\<close>

datatype plist =
    PStr string
  | PInt int
  | PBool bool
  | PReal string
  | PDate string
  | PData bytes
  | PArray "plist list"
  | PDict "(string \<times> plist) list"

definition xml_control :: "char \<Rightarrow> bool" where
  "xml_control c \<longleftrightarrow> code c < 32 \<and> code c \<notin> {9, 10, 13}"

definition xml_escape :: "string \<Rightarrow> string result" where
  "xml_escape s =
     (if list_ex xml_control s then Inl ValueError
      else Inr (replace_char CHR ''>'' ''&gt;'' (replace_char CHR ''<'' ''&lt;'' (replace_char CHR ''&'' ''&amp;''
             (universal_newlines s)))))"

definition xml_line :: "nat \<Rightarrow> string \<Rightarrow> string" where
  "xml_line level t = replicate level CHR 0x09 @ t @ [newline]"

definition xml_element :: "nat \<Rightarrow> string \<Rightarrow> string \<Rightarrow> string result" where
  "xml_element level tag v =
     res_bind (xml_escape v) (\<lambda>t. Inr (xml_line level (''<'' @ tag @ ''>'' @ t @ ''</'' @ tag @ ''>'')))"

text \<open>Binary data: base64 in lines that fit the indentation.\<close>

fun data_lines :: "nat \<Rightarrow> nat \<Rightarrow> bytes \<Rightarrow> string" where
  "data_lines level width [] = []"
| "data_lines level width (b # bs) =
     xml_line level (b64encode (take width (b # bs))) @ data_lines level width (drop (width - 1) bs)"

definition xml_data :: "nat \<Rightarrow> bytes \<Rightarrow> string" where
  "xml_data level bs =
     xml_line level ''<data>'' @ data_lines level (max 16 (76 - 8 * level) div 4 * 3) bs @ xml_line level ''</data>''"

fun xml_value :: "nat \<Rightarrow> plist \<Rightarrow> string result"
and xml_items :: "nat \<Rightarrow> (string \<times> plist) list \<Rightarrow> string result"
and xml_elements :: "nat \<Rightarrow> plist list \<Rightarrow> string result" where
  "xml_value level (PStr s) = xml_element level ''string'' s"
| "xml_value level (PInt i) =
     (if - (2 ^ 63) \<le> i \<and> i < 2 ^ 64 then xml_element level ''integer'' (dec_int i) else Inl OverflowError)"
| "xml_value level (PBool b) = Inr (xml_line level (if b then ''<true/>'' else ''<false/>''))"
| "xml_value level (PReal t) = xml_element level ''real'' t"
| "xml_value level (PDate t) = xml_element level ''date'' t"
| "xml_value level (PData bs) = Inr (xml_data level bs)"
| "xml_value level (PArray xs) =
     (if xs = [] then Inr (xml_line level ''<array/>'')
      else res_bind (xml_elements (level + 1) xs) (\<lambda>t. Inr (xml_line level ''<array>'' @ t @ xml_line level ''</array>'')))"
| "xml_value level (PDict kvs) =
     (if kvs = [] then Inr (xml_line level ''<dict/>'')
      else res_bind (xml_items (level + 1) kvs) (\<lambda>t. Inr (xml_line level ''<dict>'' @ t @ xml_line level ''</dict>'')))"
| "xml_items level [] = Inr []"
| "xml_items level ((k, v) # kvs) =
     res_bind (xml_element level ''key'' k) (\<lambda>a.
     res_bind (xml_value level v) (\<lambda>b. res_bind (xml_items level kvs) (\<lambda>c. Inr (a @ b @ c))))"
| "xml_elements level [] = Inr []"
| "xml_elements level (x # xs) =
     res_bind (xml_value level x) (\<lambda>a. res_bind (xml_elements level xs) (\<lambda>b. Inr (a @ b)))"

definition in_quotes :: "string \<Rightarrow> string" where
  "in_quotes s = CHR 0x22 # s @ [CHR 0x22]"

definition plist_dumps :: "plist \<Rightarrow> string result" where
  "plist_dumps p =
     res_bind (xml_value 0 p) (\<lambda>t.
       Inr (xml_line 0 (''<?xml version='' @ in_quotes ''1.0'' @ '' encoding='' @ in_quotes ''UTF-8'' @ ''?>'') @
            xml_line 0 (''<!DOCTYPE plist PUBLIC '' @ in_quotes ''-//Apple//DTD PLIST 1.0//EN'' @ '' '' @
              in_quotes ''http://www.apple.com/DTDs/PropertyList-1.0.dtd'' @ ''>'') @
            xml_line 0 (''<plist version='' @ in_quotes ''1.0'' @ ''>'') @ t @ xml_line 0 ''</plist>''))"

definition payload :: "(string \<Rightarrow> string) \<Rightarrow> string \<Rightarrow> string \<Rightarrow> string \<Rightarrow> string \<Rightarrow> (string \<times> plist) list" where
  "payload uuid5 identifier kind sfx title =
     [(''PayloadType'', PStr kind), (''PayloadVersion'', PInt 1), (''PayloadIdentifier'', PStr (identifier @ sfx)),
      (''PayloadUUID'', PStr (upper (uuid5 (identifier @ sfx)))), (''PayloadDisplayName'', PStr title)]"

definition profile_payload ::
  "(string \<Rightarrow> string) \<Rightarrow> (string \<Rightarrow> string) \<Rightarrow> string \<Rightarrow> string \<Rightarrow> string \<Rightarrow> string \<Rightarrow> bool \<Rightarrow> string \<Rightarrow> plist" where
  "profile_payload sha uuid5 transport address instance_id name guest token =
     (let identifier = ''org.openvpn.apple-relay.'' @ sha (instance_id @ ''/'' @ name);
          title = (if guest then ''Guest Relay '' else ''Full Access Relay '') @ [CHR 0xB7] @ '' '' @ name;
          url_key = (if transport = ''http2'' then ''HTTP2RelayURL'' else ''HTTP3RelayURL'');
          relay = payload uuid5 identifier ''com.apple.relay.managed'' ''.relay'' title @
            [(''Relays'', PArray [PDict
               [(url_key, PStr (address @ ''/.well-known/masque/udp/{target_host}/{target_port}/'')),
                (''AdditionalHTTPHeaderFields'', PDict [(''Authorization'', PStr (''Bearer '' @ token))])]]),
             (''MatchDomains'', PArray [])]
      in PDict (payload uuid5 identifier ''Configuration'' [] title @
           [(''PayloadContent'', PArray [PDict relay]),
            (''PayloadDescription'', PStr
               ((if guest then ''Internet access through your server, without your local network. ''
                 else ''Internet and LAN access through your server. '') @
                ''This profile contains a personal access credential.''))]))"

text \<open>
  \<open>profile\<close>: the grant is committed before the profile is signed, so it stays when signing fails.
\<close>

definition profile ::
  "relay_env \<Rightarrow> (string \<Rightarrow> string) \<Rightarrow> (string \<Rightarrow> string) \<Rightarrow> model \<Rightarrow> (string option \<Rightarrow> cert option) \<Rightarrow>
   (signing \<Rightarrow> string option \<Rightarrow> signer_answer) \<Rightarrow> (string \<Rightarrow> string \<Rightarrow> string option) \<Rightarrow>
   rat \<Rightarrow> string \<Rightarrow> string \<Rightarrow> files \<Rightarrow> string \<Rightarrow> database \<Rightarrow> string result \<times> database" where
  "profile env sha uuid5 model cert signer cms_verify now uuid4 secret fs name db =
     (case res_bind (relay_get_settings model db) (\<lambda>config.
           res_bind (eligible cert now fs name) (\<lambda>c.
             if \<not> rl_enabled config
             then Inl (PkiError ''Configure and enable Apple Network Relay in Settings first'')
             else if c = None then Inl (PkiError ''Relay profiles require a valid client certificate'')
             else
               res_bind (ensure_instance uuid4 db) (\<lambda>(instance_id, db1).
               res_bind (ensure_grant secret (ct_serial (the c)) name db1) (\<lambda>(grant, db2).
                 Inr (config, instance_id, grant, db2))))) of
        Inl e \<Rightarrow> (Inl e, db)
      | Inr (config, instance_id, grant, db2) \<Rightarrow>
          (res_bind (grant_secret grant) (\<lambda>s.
           res_bind (plist_dumps (profile_payload sha uuid5 (en_transport env) (rl_url config) instance_id name
                       (is_guest fs name) (name @ '':'' @ s))) (\<lambda>content.
           res_bind (urlsplit (rl_url config)) (\<lambda>u.
             sign_profile env signer cms_verify (Some db2) content (url_hostname u)))), db2))"

section \<open>The policy server\<close>

text \<open>
  \<open>policy_view\<close> is the view \<open>relay_policy_settings\<close> of the database the policy login may read, and
  \<open>pdb\<close> that database, or \<open>None\<close> when it cannot be reached. An answer is a status with the policy a
  200 carries; \<open>None\<close> stands for a connection closed without an answer, after an exception the handler
  does not catch.
\<close>

definition policy_view :: "database \<Rightarrow> database" where
  "policy_view db = db\<lparr>settings_tab := filter (\<lambda>(k, v). k = ''apple_relay'' \<or> startswith k ''relay_client:'') (settings_tab db)\<rparr>"

definition check_metadata :: "files \<Rightarrow> unit result" where
  "check_metadata fs = (if fs_index fs = None then Inl OSError else if fs_guests fs = None then Inl OSError else Inr ())"

datatype answer = Answer nat "policy option" | Closed

definition do_GET :: "files \<Rightarrow> database option \<Rightarrow> string \<Rightarrow> answer" where
  "do_GET fs pdb path =
     (if path \<noteq> ''/healthz'' then Answer 404 None
      else
        case pdb of
          None \<Rightarrow> Answer 503 None
        | Some db \<Rightarrow> (case check_metadata fs of Inl e \<Rightarrow> Answer 503 None | Inr u \<Rightarrow> Answer 200 None))"

definition do_POST ::
  "(string \<Rightarrow> string) \<Rightarrow> model \<Rightarrow> (string option \<Rightarrow> cert option) \<Rightarrow> rat \<Rightarrow> files \<Rightarrow> database option \<Rightarrow> string \<Rightarrow> string option \<Rightarrow> answer" where
  "do_POST sha model cert now fs pdb path header =
     (if path \<noteq> ''/api/relay/authorize'' then Answer 404 None
      else
        case pdb of
          None \<Rightarrow> Answer 503 None
        | Some db \<Rightarrow>
            (case res_bind (check_metadata fs) (\<lambda>_.
                    authorize sha model cert now fs (policy_view db) (case header of Some h \<Rightarrow> h | None \<Rightarrow> []) True) of
               Inr (Some policy) \<Rightarrow> Answer 200 (Some policy)
             | Inr None \<Rightarrow> Answer 403 None
             | Inl e \<Rightarrow> if e \<in> {OSError, DatabaseError, ValueError, KeyError, TypeError} then Answer 503 None else Closed))"

text \<open>
  The bounded number of requests served at once: \<open>slots\<close> is what is left of the semaphore. A request
  takes a slot or is shut down; a finished one, or one whose thread could not start, gives it back.
\<close>

definition SLOTS :: nat where "SLOTS = 64"

datatype slot_event = Request bool | Finished

fun slot_step :: "nat \<times> nat \<Rightarrow> slot_event \<Rightarrow> nat \<times> nat" where
  "slot_step (slots, running) (Request started) =
     (if slots = 0 then (slots, running) else if started then (slots - 1, running + 1) else (slots, running))"
| "slot_step (slots, running) Finished =
     (if running = 0 then (slots, running) else (slots + 1, running - 1))"

end
