(* ===== verification/Access.thy ===== *)
theory Access
  imports Relay "HOL-Library.Code_Target_Nat"
begin

text \<open>
  Theorems on the relay: whom \<open>authorize\<close> lets in, how credentials are issued, renewed and revoked, and
  that the policy server and the signing of profiles fail closed.
\<close>

section \<open>Grants\<close>

text \<open>The secret and the certificate a client's stored grant names.\<close>

definition granted :: "database \<Rightarrow> string \<Rightarrow> string \<Rightarrow> string \<Rightarrow> bool" where
  "granted db name secret serial \<longleftrightarrow>
     (\<exists>j. get_setting db (client_key name) = Some (Json j) \<and> grant_secret j = Inr secret \<and> item ''serial'' j = Inr (JStr serial))"

lemma client_key_inject [simp]: "client_key a = client_key b \<longleftrightarrow> a = b"
  by (simp add: client_key_def)

lemma client_key_other [simp]: "client_key a \<noteq> ''apple_relay''" "client_key a \<noteq> ''relay_instance''"
  "''apple_relay'' \<noteq> client_key a" "''relay_instance'' \<noteq> client_key a"
  by (simp_all add: client_key_def)

lemma loads_Inr [simp]: "loads v = Inr j \<longleftrightarrow> v = Json j"
  by (auto simp: loads_def split: sval.splits)

lemma stored_Json [simp]: "stored (Some (Json j))"
  by (simp add: stored_def)

declare settings_kv.get_put [simp] settings_kv.get_del [simp]

lemma relay_settings_frame:
  "get_setting db' ''apple_relay'' = get_setting db ''apple_relay'' \<Longrightarrow> relay_get_settings model db' = relay_get_settings model db"
  by (simp add: relay_get_settings_def)

lemma new_grant_simps [simp]:
  "grant_secret (new_grant serial secret) = Inr secret" "item ''serial'' (new_grant serial secret) = Inr (JStr serial)"
  by (simp_all add: new_grant_def grant_secret_def item_def as_text_def)

lemma JNull_simps [simp]: "\<not> truthy JNull" "new_grant serial secret \<noteq> JNull"
  by (simp_all add: truthy_def new_grant_def)

lemma update_serial_simps:
  assumes "item ''serial'' j = Inr s"
  shows "grant_secret (update_serial serial j) = grant_secret j" "item ''serial'' (update_serial serial j) = Inr (JStr serial)"
  using assms by (auto simp: update_serial_def grant_secret_def item_def update_conv' split: json.splits)

section \<open>Whom the relay lets in\<close>

lemma bearer_split:
  assumes "CHR '':'' \<notin> set name"
  shows "partition_on CHR '':'' (drop 7 (''Bearer '' @ name @ '':'' @ secret)) = (name, True, secret)"
  using assms by (simp add: partition_on_append)

lemma eligible_Some:
  "eligible cert now fs name = Inr (Some c) \<longleftrightarrow>
     validate_name name = Inr name \<and> cert (map_of (fs_issued fs) name) = Some c \<and> ct_cn c = name \<and>
     (\<exists>text e. fs_index fs = Some text \<and> map_of (parse_index text) (ct_serial c) = Some e \<and> ie_status e = ''V'') \<and>
     (\<exists>t. ct_not_after c = Some t \<and> t \<noteq> 0 \<and> now < of_int t) \<and>
     of_int (case ct_not_before c of None \<Rightarrow> 0 | Some t \<Rightarrow> t) \<le> now"
  using validate_name_Inr [of name]
  by (cases "validate_name name"; cases "cert (map_of (fs_issued fs) name)"; cases "fs_index fs"; cases "ct_not_after c")
    (auto simp: eligible_def not_less not_le split: if_splits)


definition policy_of :: "(string \<Rightarrow> string) \<Rightarrow> string \<Rightarrow> string \<Rightarrow> bool \<Rightarrow> relay_settings \<Rightarrow> portal option \<Rightarrow> string list \<Rightarrow> policy" where
  "policy_of sha name secret guest config portal routes =
     \<lparr>pl_client = name, pl_credential_id = sha secret, pl_guest = guest, pl_url = rl_url config,
      pl_allowed_cidrs = [''0.0.0.0/0'', ''::/0''], pl_blocked_cidrs = routes, pl_portal = portal\<rparr>"

lemma bearer_text:
  "startswith h ''Bearer '' \<Longrightarrow> partition_on CHR '':'' (drop 7 h) = (name, True, secret) \<Longrightarrow>
     h = ''Bearer '' @ name @ '':'' @ secret \<and> CHR '':'' \<notin> set name"
  by (auto simp: startswith_iff dest!: partition_on_found)

lemma authorize_cases:
  assumes "authorize sha model cert now fs db h strict = Inr (Some p)"
  shows "\<exists>name secret c config portal routes.
    h = ''Bearer '' @ name @ '':'' @ secret \<and> CHR '':'' \<notin> set name \<and> length h \<le> 512 \<and>
    granted db name secret (ct_serial c) \<and> eligible cert now fs name = Inr (Some c) \<and>
    relay_get_settings model db = Inr config \<and> rl_enabled config \<and>
    guest_state (is_guest fs name) fs = Inr (portal, routes) \<and>
    p = policy_of sha name secret (is_guest fs name) config portal routes"
proof -
  obtain name sep secret where p3: "partition_on CHR '':'' (drop 7 h) = (name, sep, secret)" by (metis prod.exhaust)
  have h: "startswith h ''Bearer ''" "\<not> 512 < length h" "sep" "stored (get_setting db (client_key name))"
    using assms by (auto simp: authorize_def p3 Let_def split: if_splits)
  then obtain v where v: "get_setting db (client_key name) = Some v" by (auto simp: stored_def)
  note simps = authorize_def p3 Let_def h v
  obtain j where j: "v = Json j" using assms h(4) by (auto simp: simps)
  obtain c config s where c: "grant_secret j = Inr secret" "eligible cert now fs name = Inr (Some c)"
    "relay_get_settings model db = Inr config" "rl_enabled config" "item ''serial'' j = Inr (JStr (ct_serial c))"
    using assms h(4) by (auto simp: simps j split: if_splits)
  have "\<exists>portal routes. guest_state (is_guest fs name) fs = Inr (portal, routes) \<and>
      p = policy_of sha name secret (is_guest fs name) config portal routes"
    using assms h(4) by (auto simp: simps j c policy_of_def split: sum.splits if_splits)
  moreover have "h = ''Bearer '' @ name @ '':'' @ secret \<and> CHR '':'' \<notin> set name"
    using bearer_text [OF h(1)] p3 h(3) by simp
  ultimately show ?thesis using h(2) v j c unfolding granted_def not_less by blast
qed

lemma authorize_intro:
  assumes "CHR '':'' \<notin> set name" "length (''Bearer '' @ name @ '':'' @ secret) \<le> 512"
    "granted db name secret (ct_serial c)" "eligible cert now fs name = Inr (Some c)"
    "relay_get_settings model db = Inr config" "rl_enabled config"
    "guest_state (is_guest fs name) fs = Inr (portal, routes)"
  shows "authorize sha model cert now fs db (''Bearer '' @ name @ '':'' @ secret) strict =
    Inr (Some (policy_of sha name secret (is_guest fs name) config portal routes))"
proof -
  obtain j where j: "get_setting db (client_key name) = Some (Json j)" "grant_secret j = Inr secret"
    "item ''serial'' j = Inr (JStr (ct_serial c))" using assms(3) unfolding granted_def by blast
  have len: "\<not> 512 < length (''Bearer '' @ name @ '':'' @ secret)" using assms(2) by linarith
  have ld: "loads (the (Some (Json j))) = Inr j" by simp
  show ?thesis
    unfolding authorize_def bearer_split [OF assms(1)] prod.case Let_def j(1)
    using len by (simp add: startswith_def ld j(2,3) assms(4-7) policy_of_def)
qed

lemma eligible_safe: "eligible cert now fs name = Inr (Some c) \<Longrightarrow> safe_name name"
  unfolding eligible_Some using NAME_RE_safe validate_name_Inr by blast

lemma safe_no_colon: "safe_name name \<Longrightarrow> CHR '':'' \<notin> set name"
  by (auto simp: safe_name_def hostile_def list_all_iff)

section \<open>Issuing and renewing credentials\<close>

lemma ensure_grant_granted:
  assumes "ensure_grant secret serial name db = Inr (grant, db')" "grant_secret grant = Inr s"
  shows "granted db' name s serial \<and> (s = secret \<or> granted db name s serial) \<and>
    get_setting db' ''apple_relay'' = get_setting db ''apple_relay''"
  using assms by (auto simp: ensure_grant_def granted_def split: option.splits if_splits)

lemma ensure_grant_other:
  assumes "ensure_grant secret serial name db = Inr (grant, db')" "key \<noteq> client_key name"
  shows "get_setting db' key = get_setting db key"
  using assms by (auto simp: ensure_grant_def split: option.splits if_splits)

lemma ensure_instance_get:
  assumes "ensure_instance uuid4 db = Inr (i, db')" "key \<noteq> ''relay_instance''"
  shows "get_setting db' key = get_setting db key"
  using assms by (auto simp: ensure_instance_def split: option.splits sval.splits)

lemma granted_frame:
  "get_setting db' (client_key name) = get_setting db (client_key name) \<Longrightarrow> granted db' name s serial = granted db name s serial"
  by (simp add: granted_def)

text \<open>The profile a call returns, and the state it leaves.\<close>

lemma sign_profile_Inr:
  assumes "sign_profile env signer cms_verify db content host = Inr out"
  shows "\<exists>config. signing_config env db = Inr config \<and>
    (sg_url config = [] \<and> \<not> sg_required config \<and> out = content \<or>
     (\<exists>h. host = Some h \<and> validate_signer_url (sg_url config) = Inr () \<and> token_ok (sg_token config) \<and>
        signer config (Some content) = Answered out \<and> length out \<le> 256 * 1024 \<and> cms_verify out h = Some content))"
proof -
  obtain config where config: "signing_config env db = Inr config" using assms by (auto simp: sign_profile_def)
  show ?thesis
  proof (cases "sg_url config = []")
    case True
    then show ?thesis using assms config by (simp add: sign_profile_def split: if_splits)
  next
    case False
    then obtain reply h where r: "signing_request signer (Some content) config = Inr reply" "host = Some h"
      "cms_verify reply h = Some content" "out = reply"
      using assms config by (auto simp: sign_profile_def split: sum.splits exc.splits option.splits if_splits)
    then have "validate_signer_url (sg_url config) = Inr () \<and> token_ok (sg_token config) \<and>
        signer config (Some content) = Answered reply \<and> length reply \<le> 256 * 1024"
      by (auto simp: signing_request_def split: if_splits signer_answer.splits)
    with r config show ?thesis by blast
  qed
qed

lemma profile_Inr:
  assumes "profile env sha uuid5 model cert signer cms_verify now uuid4 secret fs name db = (Inr content, db')"
  shows "\<exists>config c instance_id s unsigned u.
    relay_get_settings model db' = Inr config \<and> rl_enabled config \<and> eligible cert now fs name = Inr (Some c) \<and>
    granted db' name s (ct_serial c) \<and> (s = secret \<or> granted db name s (ct_serial c)) \<and>
    plist_dumps (profile_payload sha uuid5 (en_transport env) (rl_url config) instance_id name (is_guest fs name)
      (name @ '':'' @ s)) = Inr unsigned \<and> urlsplit (rl_url config) = Inr u \<and>
    sign_profile env signer cms_verify (Some db') unsigned (url_hostname u) = Inr content"
proof -
  let ?body = "\<lambda>config instance_id s. plist_dumps (profile_payload sha uuid5 (en_transport env) (rl_url config) instance_id name
      (is_guest fs name) (name @ '':'' @ s))"
  obtain config c instance_id db1 grant s unsigned u where
    a: "relay_get_settings model db = Inr config" "rl_enabled config" "eligible cert now fs name = Inr (Some c)"
    "ensure_instance uuid4 db = Inr (instance_id, db1)" "ensure_grant secret (ct_serial c) name db1 = Inr (grant, db')"
    "grant_secret grant = Inr s" "?body config instance_id s = Inr unsigned" "urlsplit (rl_url config) = Inr u"
    "sign_profile env signer cms_verify (Some db') unsigned (url_hostname u) = Inr content"
    using assms by (auto simp: profile_def split: sum.splits if_splits prod.splits)
  have g: "granted db' name s (ct_serial c)" "s = secret \<or> granted db1 name s (ct_serial c)"
    "get_setting db' ''apple_relay'' = get_setting db1 ''apple_relay''"
    using ensure_grant_granted [OF a(5,6)] by blast+
  have i: "get_setting db1 (client_key name) = get_setting db (client_key name)"
    "get_setting db1 ''apple_relay'' = get_setting db ''apple_relay''"
    using ensure_instance_get [OF a(4)] by simp_all
  have "relay_get_settings model db' = Inr config" using a(1) g(3) i(2) relay_settings_frame by metis
  then show ?thesis using a g i(1) granted_frame by blast
qed

section \<open>Sequences of operations\<close>

text \<open>
  The operations that change relay credentials or the relay's settings, each with the files, the time
  and the random values it meets.
\<close>

datatype relay_op =
    Profile files rat string string string
  | Renewed files rat string "string option"
  | Revoke string
  | Save_settings relay_settings

text \<open>What the operations take from outside, apart from what changes between them.\<close>

record relay_world =
  rw_env :: relay_env
  rw_sha :: "string \<Rightarrow> string"
  rw_uuid5 :: "string \<Rightarrow> string"
  rw_model :: model
  rw_cert :: "string option \<Rightarrow> cert option"
  rw_signer :: "signing \<Rightarrow> string option \<Rightarrow> signer_answer"
  rw_cms_verify :: "string \<Rightarrow> string \<Rightarrow> string option"

fun relay_step :: "relay_world \<Rightarrow> relay_op \<Rightarrow> database \<Rightarrow> database" where
  "relay_step w (Profile fs now uuid4 secret name) db =
     snd (profile (rw_env w) (rw_sha w) (rw_uuid5 w) (rw_model w) (rw_cert w) (rw_signer w) (rw_cms_verify w)
       now uuid4 secret fs name db)"
| "relay_step w (Renewed fs now name previous) db =
     (case renewed (rw_cert w) now fs name previous db of Inr db' \<Rightarrow> db' | Inl e \<Rightarrow> db)"
| "relay_step w (Revoke name) db = revoke name db"
| "relay_step w (Save_settings body) db = (case relay_save_settings body db of Inr (c, db') \<Rightarrow> db' | Inl e \<Rightarrow> db)"

definition relay_run :: "relay_world \<Rightarrow> relay_op list \<Rightarrow> database \<Rightarrow> database" where
  "relay_run w ops db = fold (relay_step w) ops db"

fun draws :: "string \<Rightarrow> relay_op \<Rightarrow> bool" where
  "draws s (Profile fs now uuid4 secret name) \<longleftrightarrow> secret = s"
| "draws s op \<longleftrightarrow> False"

text \<open>No grant of the client has this secret.\<close>

definition dead :: "string \<Rightarrow> string \<Rightarrow> database \<Rightarrow> bool" where
  "dead name s db \<longleftrightarrow> (\<forall>j. get_setting db (client_key name) = Some (Json j) \<longrightarrow> grant_secret j \<noteq> Inr s)"

lemma dead_frame:
  "get_setting db' (client_key name) = get_setting db (client_key name) \<Longrightarrow> dead name s db \<Longrightarrow> dead name s db'"
  by (simp add: dead_def)

lemma dead_ensure_grant:
  assumes "dead name s db" "ensure_grant secret serial n db = Inr (grant, db')" "secret \<noteq> s"
  shows "dead name s db'"
proof (cases "n = name")
  case True
  with assms show ?thesis by (auto simp: ensure_grant_def dead_def split: option.splits if_splits)
next
  case False
  then show ?thesis using assms(1) ensure_grant_other [OF assms(2)] by (intro dead_frame [OF _ assms(1)]) simp
qed

lemma profile_state:
  "snd (profile env sha uuid5 model cert signer cms_verify now uuid4 secret fs name db) = db \<or>
   (\<exists>i db1 serial grant. ensure_instance uuid4 db = Inr (i, db1) \<and>
      ensure_grant secret serial name db1 =
        Inr (grant, snd (profile env sha uuid5 model cert signer cms_verify now uuid4 secret fs name db)))"
  by (auto simp: profile_def split: sum.splits prod.splits if_splits)

lemma renewed_cases:
  assumes "renewed cert now fs n previous db = Inr db'"
  obtains "db' = db"
  | c j t where "eligible cert now fs n = Inr (Some c)" "get_setting db (client_key n) = Some (Json j)"
      "item ''serial'' j = Inr t" "t = (case previous of Some p \<Rightarrow> JStr p | None \<Rightarrow> JNull)"
      "db' = set_setting (client_key n) (Json (update_serial (ct_serial c) j)) db"
proof -
  obtain c where c: "eligible cert now fs n = Inr c" using assms by (auto simp: renewed_def)
  show thesis
  proof (cases "c = None \<or> get_setting db (client_key n) = None")
    case True
    then show thesis using assms c that(1) by (auto simp: renewed_def split: option.splits)
  next
    case False
    then obtain c' v where cv: "c = Some c'" "get_setting db (client_key n) = Some v" by auto
    then obtain j t where "v = Json j" "item ''serial'' j = Inr t" using assms c by (auto simp: renewed_def)
    then show thesis using assms c cv that by (auto simp: renewed_def split: if_splits)
  qed
qed

lemma dead_renewed:
  assumes "dead name s db" "renewed cert now fs n previous db = Inr db'"
  shows "dead name s db'"
  using assms(2)
proof (cases rule: renewed_cases)
  case (2 c j t)
  with assms(1) show ?thesis by (auto simp: dead_def update_serial_simps split: if_splits)
qed (use assms(1) in simp)

lemma dead_step:
  assumes "dead name s db" "\<not> draws s op"
  shows "dead name s (relay_step w op db)"
proof (cases op)
  case (Profile fs now uuid4 secret n)
  let ?db' = "relay_step w op db"
  consider "?db' = db" | i db1 serial grant where "ensure_instance uuid4 db = Inr (i, db1)"
      "ensure_grant secret serial n db1 = Inr (grant, ?db')"
    using profile_state unfolding Profile relay_step.simps by metis
  then show ?thesis
  proof cases
    case 2
    have "dead name s db1" using ensure_instance_get [OF 2(1)] by (intro dead_frame [OF _ assms(1)]) simp
    with 2(2) show ?thesis using assms(2) dead_ensure_grant Profile by simp
  qed (use assms in simp)
next
  case (Save_settings body)
  then show ?thesis using assms(1)
    by (auto simp: relay_save_settings_def dead_def split: sum.splits)
qed (use assms in \<open>auto simp: revoke_def dead_def dest: dead_renewed [unfolded dead_def, rotated] split: sum.splits\<close>)

lemma dead_run: "dead name s db \<Longrightarrow> \<forall>op \<in> set ops. \<not> draws s op \<Longrightarrow> dead name s (relay_run w ops db)"
  unfolding relay_run_def by (induction ops arbitrary: db) (auto simp: dead_step)

lemma dead_denied:
  assumes "dead name s db" "CHR '':'' \<notin> set name"
  shows "authorize sha model cert now fs db (''Bearer '' @ name @ '':'' @ s) strict \<noteq> Inr (Some p)"
proof
  assume a: "authorize sha model cert now fs db (''Bearer '' @ name @ '':'' @ s) strict = Inr (Some p)"
  show False using authorize_cases [OF a]
  proof (elim exE conjE)
    fix n s' c
    assume t: "''Bearer '' @ name @ '':'' @ s = ''Bearer '' @ n @ '':'' @ s'"
      and n: "CHR '':'' \<notin> set n" and g: "granted db n s' (ct_serial c)"
    have "partition_on CHR '':'' (name @ CHR '':'' # s) = partition_on CHR '':'' (n @ CHR '':'' # s')" using t by simp
    then have "n = name" "s' = s" using n assms(2) by simp_all
    with g assms(1) show False by (auto simp: granted_def dead_def)
  qed
qed

lemma granted_unique: "granted db name s a \<Longrightarrow> granted db name t b \<Longrightarrow> s = t \<and> a = b"
  by (auto simp: granted_def)

lemma renewed_granted:
  assumes "renewed cert now fs name (Some serial) db = Inr db'" "eligible cert now fs name = Inr (Some c)"
    "granted db name s serial"
  shows "granted db' name s (ct_serial c) \<and> get_setting db' ''apple_relay'' = get_setting db ''apple_relay''"
  using assms by (auto simp: renewed_def granted_def update_serial_simps)

lemma replaced_denied:
  assumes "CHR '':'' \<notin> set name" "granted db name s serial" "eligible cert now fs name = Inr (Some c)"
    "relay_get_settings model db = Inr config" "rl_enabled config" "serial \<noteq> ct_serial c"
  shows "authorize sha model cert now fs db (''Bearer '' @ name @ '':'' @ s) strict = Inr None"
proof -
  obtain j where j: "get_setting db (client_key name) = Some (Json j)" "grant_secret j = Inr s"
    "item ''serial'' j = Inr (JStr serial)" using assms(2) unfolding granted_def by blast
  have ld: "loads (the (Some (Json j))) = Inr j" by simp
  show ?thesis
    unfolding authorize_def bearer_split [OF assms(1)] prod.case Let_def j(1)
    by (simp add: startswith_def ld j(2,3) assms(3-6))
qed

text \<open>The view the policy login reads shows \<open>authorize\<close> everything it asks for.\<close>

lemma get_policy_view:
  "get_setting (policy_view db) key =
     (if key = ''apple_relay'' \<or> startswith key ''relay_client:'' then get_setting db key else None)"
  by (simp add: get_setting_def policy_view_def map_of_filter_keys)

lemma policy_view_client [simp]: "get_setting (policy_view db) (client_key name) = get_setting db (client_key name)"
  by (simp add: get_policy_view client_key_def startswith_def)

lemma authorize_policy_view:
  "authorize sha model cert now fs (policy_view db) h strict = authorize sha model cert now fs db h strict"
proof -
  have rs: "relay_get_settings model (policy_view db) = relay_get_settings model db"
    by (simp add: relay_get_settings_def get_policy_view)
  show ?thesis unfolding authorize_def policy_view_client rs ..
qed

section \<open>Properties\<close>

text \<open>
  C1. Whoever the relay lets in presented the secret of a stored grant, and the grant is bound to the
  client's own issued certificate: it carries the client's name, is valid in the index, and is neither
  expired nor not yet valid. The relay is enabled, and the policy is a guest's exactly when the client
  has the guest marker, with the routes and the portal of the network settings.
\<close>

theorem authorize_sound:
  assumes "authorize sha model cert now fs db h strict = Inr (Some p)"
  shows "\<exists>secret c. h = ''Bearer '' @ pl_client p @ '':'' @ secret \<and> safe_name (pl_client p) \<and>
    granted db (pl_client p) secret (ct_serial c) \<and> pl_credential_id p = sha secret \<and>
    cert (map_of (fs_issued fs) (pl_client p)) = Some c \<and> ct_cn c = pl_client p \<and>
    (\<exists>text e. fs_index fs = Some text \<and> map_of (parse_index text) (ct_serial c) = Some e \<and> ie_status e = ''V'') \<and>
    (\<exists>t. ct_not_after c = Some t \<and> now < of_int t) \<and> of_int (case ct_not_before c of None \<Rightarrow> 0 | Some t \<Rightarrow> t) \<le> now \<and>
    (\<exists>config. relay_get_settings model db = Inr config \<and> rl_enabled config \<and> pl_url p = rl_url config) \<and>
    pl_guest p = is_guest fs (pl_client p) \<and>
    (if pl_guest p then guest_portal fs = Inr (pl_portal p) \<and> guest_routes fs = Inr (pl_blocked_cidrs p)
     else pl_portal p = None \<and> pl_blocked_cidrs p = [])"
  using authorize_cases [OF assms]
proof (elim exE conjE)
  fix name secret c config portal routes
  assume h: "h = ''Bearer '' @ name @ '':'' @ secret" and g: "granted db name secret (ct_serial c)"
    and e: "eligible cert now fs name = Inr (Some c)" and r: "relay_get_settings model db = Inr config" "rl_enabled config"
    and gs: "guest_state (is_guest fs name) fs = Inr (portal, routes)"
    and p: "p = policy_of sha name secret (is_guest fs name) config portal routes"
  have f: "pl_client p = name" "pl_credential_id p = sha secret" "pl_guest p = is_guest fs name" "pl_url p = rl_url config"
    "pl_portal p = portal" "pl_blocked_cidrs p = routes" by (simp_all add: p policy_of_def)
  have "if pl_guest p then guest_portal fs = Inr (pl_portal p) \<and> guest_routes fs = Inr (pl_blocked_cidrs p)
     else pl_portal p = None \<and> pl_blocked_cidrs p = []"
    using gs by (auto simp: f guest_state_def split: if_splits)
  then show ?thesis using g e r eligible_safe [OF e] unfolding f eligible_Some h by (intro exI [of _ secret] exI [of _ c]) auto
qed

text \<open>
  What a device reads in a profile: the relays of its payloads, and of each the header it sends with every
  request and the address it sends them to.
\<close>

fun plist_field :: "string \<Rightarrow> plist \<Rightarrow> plist option" where
  "plist_field k (PDict kvs) = map_of kvs k"
| "plist_field k _ = None"

fun plist_items :: "plist option \<Rightarrow> plist list" where
  "plist_items (Some (PArray xs)) = xs"
| "plist_items _ = []"

definition profile_relays :: "plist \<Rightarrow> plist list" where
  "profile_relays prof = concat (map (\<lambda>p. plist_items (plist_field ''Relays'' p)) (plist_items (plist_field ''PayloadContent'' prof)))"

definition relay_header :: "string \<Rightarrow> plist \<Rightarrow> plist option" where
  "relay_header k r = Option.bind (plist_field ''AdditionalHTTPHeaderFields'' r) (plist_field k)"

definition relay_urls_in :: "plist \<Rightarrow> plist option list" where
  "relay_urls_in r = [plist_field ''HTTP2RelayURL'' r, plist_field ''HTTP3RelayURL'' r]"

lemma profile_payload_relay:
  "\<exists>r. profile_relays (profile_payload sha uuid5 transport address instance_id name guest token) = [r] \<and>
     relay_header ''Authorization'' r = Some (PStr (''Bearer '' @ token)) \<and>
     relay_urls_in r = (let u = Some (PStr (address @ ''/.well-known/masque/udp/{target_host}/{target_port}/''))
       in if transport = ''http2'' then [u, None] else [None, u])"
  by (simp add: profile_relays_def profile_payload_def payload_def Let_def relay_header_def relay_urls_in_def)

text \<open>
  C14. A profile that is handed out works. The bytes are a property list, as it is when no signer is set and
  signing is not required, or signed so that the signature verifies for the relay's host over exactly that
  property list. It has one relay, at the configured address, and the authorization header the device sends
  there is authorized for the client, at any time and with any files in which the certificate in use is still
  the client's valid one. The credential is that of the grant in the database.
\<close>

theorem profile_authorizes:
  assumes issued: "profile env sha uuid5 model cert signer cms_verify now uuid4 secret fs name db = (Inr content, db')"
    and short: "\<forall>s serial. s = secret \<or> granted db name s serial \<longrightarrow> length s \<le> 400"
    and later: "eligible cert now' fs' name = eligible cert now fs name"
    and readable: "guest_state (is_guest fs' name) fs' = Inr (portal, routes)"
  shows "\<exists>config sc prof bytes r header s c p.
    relay_get_settings model db' = Inr config \<and> signing_config env (Some db') = Inr sc \<and> plist_dumps prof = Inr bytes \<and>
    (sg_url sc = [] \<and> \<not> sg_required sc \<and> content = bytes \<or>
     (\<exists>u h. urlsplit (rl_url config) = Inr u \<and> url_hostname u = Some h \<and> cms_verify content h = Some bytes)) \<and>
    profile_relays prof = [r] \<and> relay_header ''Authorization'' r = Some (PStr header) \<and>
    relay_urls_in r = (let u = Some (PStr (rl_url config @ ''/.well-known/masque/udp/{target_host}/{target_port}/''))
      in if en_transport env = ''http2'' then [u, None] else [None, u]) \<and>
    eligible cert now fs name = Inr (Some c) \<and> granted db' name s (ct_serial c) \<and>
    authorize sha model cert now' fs' db' header strict = Inr (Some p) \<and>
    pl_client p = name \<and> pl_credential_id p = sha s \<and> pl_url p = rl_url config \<and> pl_guest p = is_guest fs' name"
  using profile_Inr [OF issued]
proof (elim exE conjE)
  fix config :: relay_settings and c instance_id s unsigned u
  let ?prof = "profile_payload sha uuid5 (en_transport env) (rl_url config) instance_id name (is_guest fs name) (name @ '':'' @ s)"
  assume r: "relay_get_settings model db' = Inr config" "rl_enabled config" and e: "eligible cert now fs name = Inr (Some c)"
    and g: "granted db' name s (ct_serial c)" "s = secret \<or> granted db name s (ct_serial c)"
    and d: "plist_dumps ?prof = Inr unsigned" and u: "urlsplit (rl_url config) = Inr u"
    and sig: "sign_profile env signer cms_verify (Some db') unsigned (url_hostname u) = Inr content"
  have n: "safe_name name" by (rule eligible_safe [OF e])
  have "length s \<le> 400" "length name \<le> 64" using short g(2) n by (auto simp: safe_name_def)
  then have len: "length (''Bearer '' @ name @ '':'' @ s) \<le> 512" by simp
  obtain sc where sc: "signing_config env (Some db') = Inr sc"
    "sg_url sc = [] \<and> \<not> sg_required sc \<and> content = unsigned \<or> (\<exists>h. url_hostname u = Some h \<and> cms_verify content h = Some unsigned)"
    using sign_profile_Inr [OF sig] by blast
  obtain x where x: "profile_relays ?prof = [x]" "relay_header ''Authorization'' x = Some (PStr (''Bearer '' @ name @ '':'' @ s))"
    "relay_urls_in x = (let u = Some (PStr (rl_url config @ ''/.well-known/masque/udp/{target_host}/{target_port}/''))
      in if en_transport env = ''http2'' then [u, None] else [None, u])"
    using profile_payload_relay by blast
  let ?p = "policy_of sha name s (is_guest fs' name) config portal routes"
  have a: "authorize sha model cert now' fs' db' (''Bearer '' @ name @ '':'' @ s) strict = Inr (Some ?p)"
    by (rule authorize_intro [OF safe_no_colon [OF n] len g(1) later [unfolded e] r readable])
  have p: "pl_client ?p = name \<and> pl_credential_id ?p = sha s \<and> pl_url ?p = rl_url config \<and> pl_guest ?p = is_guest fs' name"
    by (simp add: policy_of_def)
  have out: "sg_url sc = [] \<and> \<not> sg_required sc \<and> content = unsigned \<or>
     (\<exists>u h. urlsplit (rl_url config) = Inr u \<and> url_hostname u = Some h \<and> cms_verify content h = Some unsigned)"
    using sc(2) u by blast
  show ?thesis
    by (intro exI [of _ config] exI [of _ sc] exI [of _ ?prof] exI [of _ unsigned] exI [of _ x]
        exI [of _ "''Bearer '' @ name @ '':'' @ s"] exI [of _ s] exI [of _ c] exI [of _ ?p] conjI)
      (rule r(1) sc(1) d out x e g(1) a conjunct1 [OF p] p [THEN conjunct2, THEN conjunct1]
        p [THEN conjunct2, THEN conjunct2, THEN conjunct1] p [THEN conjunct2, THEN conjunct2, THEN conjunct2])+
qed

text \<open>
  C2. A revoked credential stays dead: whatever profiles are issued, renewals reported, settings saved and
  credentials revoked afterwards, the relay never authorizes the client's old secret again, as long as no
  new secret is drawn equal to it.
\<close>

theorem revoked_stays_dead:
  assumes "safe_name name" "\<forall>op \<in> set ops. \<not> draws s op"
  shows "authorize sha model cert now fs (relay_run w ops (revoke name db)) (''Bearer '' @ name @ '':'' @ s) strict \<noteq> Inr (Some p)"
proof -
  have "dead name s (revoke name db)" by (simp add: dead_def revoke_def)
  then show ?thesis using dead_denied dead_run assms safe_no_colon by blast
qed

text \<open>
  C15. A renewal made through the program keeps the credential that is already installed: the same token is
  authorized with the new certificate under the same credential identity. A certificate that was
  replaced without such a renewal is refused.
\<close>

theorem renewal_keeps_credential:
  assumes before: "authorize sha model cert now fs db h strict = Inr (Some p)"
    and old: "cert (map_of (fs_issued fs) (pl_client p)) = Some c"
    and renewal: "renewed cert now' fs' (pl_client p) (Some (ct_serial c)) db = Inr db'"
    and new: "eligible cert now' fs' (pl_client p) = Inr (Some c')"
    and readable: "guest_state (is_guest fs' (pl_client p)) fs' = Inr (portal, routes)"
  shows "(\<exists>p'. authorize sha model cert now' fs' db' h strict = Inr (Some p') \<and>
      pl_client p' = pl_client p \<and> pl_credential_id p' = pl_credential_id p) \<and>
    (ct_serial c' = ct_serial c \<or> authorize sha model cert now' fs' db h strict = Inr None)"
  using authorize_cases [OF before]
proof (elim exE conjE)
  fix name s c0 config portal0 routes0
  assume h: "h = ''Bearer '' @ name @ '':'' @ s" "CHR '':'' \<notin> set name" "length h \<le> 512"
    and g: "granted db name s (ct_serial c0)" and e: "eligible cert now fs name = Inr (Some c0)"
    and r: "relay_get_settings model db = Inr config" "rl_enabled config"
    and p: "p = policy_of sha name s (is_guest fs name) config portal0 routes0"
  have f: "pl_client p = name" "pl_credential_id p = sha s" by (simp_all add: p policy_of_def)
  have "c0 = c" using e old unfolding f eligible_Some by simp
  with g have g': "granted db name s (ct_serial c)" by simp
  have n: "granted db' name s (ct_serial c')" "relay_get_settings model db' = Inr config"
    using renewed_granted [OF renewal new] g' r(1) relay_settings_frame unfolding f by metis+
  have "authorize sha model cert now' fs' db' h strict =
      Inr (Some (policy_of sha name s (is_guest fs' name) config portal routes))"
    unfolding h(1) by (rule authorize_intro [OF h(2) _ n(1) new [unfolded f] n(2) r(2) readable [unfolded f]]) (use h in simp)
  moreover have "ct_serial c' = ct_serial c \<or> authorize sha model cert now' fs' db h strict = Inr None"
    using replaced_denied [OF h(2) g' new [unfolded f] r] unfolding h(1) by metis
  ultimately show ?thesis by (simp add: f policy_of_def)
qed

text \<open>
  C17. The policy server fails closed: it grants access exactly when its database, the certificate index
  and the guest markers are there and the check on the full database grants it, and it says "denied" only
  when all of them are there and the check denies. Everything else is neither.
\<close>

theorem policy_server_fails_closed:
  "(do_POST sha model cert now fs pdb path header = Answer 200 q) =
     (path = ''/api/relay/authorize'' \<and> (\<exists>db p. pdb = Some db \<and> fs_index fs \<noteq> None \<and> fs_guests fs \<noteq> None \<and> q = Some p \<and>
        authorize sha model cert now fs db (case header of Some h \<Rightarrow> h | None \<Rightarrow> []) True = Inr (Some p))) \<and>
   (do_POST sha model cert now fs pdb path header = Answer 403 q) =
     (path = ''/api/relay/authorize'' \<and> (\<exists>db. pdb = Some db \<and> fs_index fs \<noteq> None \<and> fs_guests fs \<noteq> None \<and> q = None \<and>
        authorize sha model cert now fs db (case header of Some h \<Rightarrow> h | None \<Rightarrow> []) True = Inr None))"
proof (cases pdb)
  case (Some db)
  obtain H where H: "(case header of Some h \<Rightarrow> h | None \<Rightarrow> []) = H" by blast
  obtain r where r: "authorize sha model cert now fs db H True = r" by blast
  show ?thesis unfolding do_POST_def Some option.case authorize_policy_view H option.inject check_metadata_def
    by (cases r; cases "projr r") (simp_all add: r eq_commute [of q])
qed (simp add: do_POST_def)

text \<open>
  C18. A relay profile leaves the server signed or not at all: an unsigned one is returned only when no
  signer is set and signing is switched off. A signed one was returned by the configured HTTPS signer, and
  its signature verifies for the relay's host name over exactly the bytes that were sent.
\<close>

theorem sign_profile_verified:
  assumes "sign_profile env signer cms_verify db content host = Inr out"
  shows "\<exists>config. signing_config env db = Inr config \<and>
    (sg_url config = [] \<and> \<not> sg_required config \<and> out = content \<or>
     (\<exists>h. host = Some h \<and> validate_signer_url (sg_url config) = Inr () \<and> token_ok (sg_token config) \<and>
        signer config (Some content) = Answered out \<and> length out \<le> 256 * 1024 \<and> cms_verify out h = Some content))"
  by (rule sign_profile_Inr [OF assms])

section \<open>Witnesses\<close>

definition demo_cert :: "string option \<Rightarrow> cert option" where
  "demo_cert content =
     map_option (\<lambda>c. \<lparr>ct_serial = c, ct_not_before = Some 1000, ct_not_after = Some 9000, ct_cn = ''alice'', ct_fingerprint = []\<rparr>) content"

definition index_line :: "string \<Rightarrow> string" where
  "index_line serial = join [CHR 0x09] [''V'', ''700101023000Z'', [], serial, ''unknown'', ''/CN=alice''] @ [newline]"

definition demo_relay_files :: "string \<Rightarrow> files" where
  "demo_relay_files serial =
     \<lparr>fs_server_conf = None, fs_client_conf = None, fs_vars = None, fs_vars_template = None, fs_static = [],
      fs_guests = Some [], fs_oath = None, fs_index = Some (index_line ''03'' @ index_line ''04''),
      fs_issued = [(''alice'', serial)], fs_renewed = [], fs_revoked = [], fs_crl = None, fs_tc2_key = False,
      fs_bak = [], fs_network = Net_missing, fs_proxies = None, fs_refused = []\<rparr>"

definition demo_model :: model where
  "demo_model kvs =
     (case (map_of kvs ''enabled'', map_of kvs ''url'') of
        (Some (JBool b), Some (JStr u)) \<Rightarrow> Inr \<lparr>rl_enabled = b, rl_url = u\<rparr>
      | (None, None) \<Rightarrow> Inr \<lparr>rl_enabled = False, rl_url = []\<rparr>
      | _ \<Rightarrow> Inl ValueError)"

definition demo_origin :: string where "demo_origin = ''https://relay.example.com''"

definition demo_env :: relay_env where
  "demo_env = \<lparr>en_transport = ''http2'', en_signer_url = [], en_signer_token = [], en_signing_required = False,
     en_profile_base_url = [], en_forwarded_allow_ips = None\<rparr>"

definition demo_relay_db :: database where
  "demo_relay_db =
     empty_db\<lparr>settings_tab := [(''apple_relay'', Json (JObj (settings_json \<lparr>rl_enabled = True, rl_url = demo_origin\<rparr>))),
       (client_key ''alice'', Json (new_grant ''03'' ''secret''))]\<rparr>"

lemma demo_eligible:
  "eligible demo_cert 5000 (demo_relay_files ''03'') ''alice'' =
     Inr (Some \<lparr>ct_serial = ''03'', ct_not_before = Some 1000, ct_not_after = Some 9000, ct_cn = ''alice'', ct_fingerprint = []\<rparr>)"
  by code_simp

lemma demo_eligible_renewed:
  "eligible demo_cert 5000 (demo_relay_files ''04'') ''alice'' =
     Inr (Some \<lparr>ct_serial = ''04'', ct_not_before = Some 1000, ct_not_after = Some 9000, ct_cn = ''alice'', ct_fingerprint = []\<rparr>)"
  by code_simp

definition demo_policy :: policy where
  "demo_policy = policy_of (\<lambda>s. s) ''alice'' ''secret'' False \<lparr>rl_enabled = True, rl_url = demo_origin\<rparr> None []"

lemma demo_authorized:
  "authorize (\<lambda>s. s) demo_model demo_cert 5000 (demo_relay_files ''03'') demo_relay_db (''Bearer '' @ ''alice'' @ '':'' @ ''secret'') True =
     Inr (Some demo_policy)"
  by code_simp

theorem authorize_sound_witness:
  "\<exists>secret serial. safe_name (pl_client demo_policy) \<and> granted demo_relay_db (pl_client demo_policy) secret serial"
  using authorize_sound [OF demo_authorized] by blast

definition demo_issue :: "string result \<times> database" where
  "demo_issue = profile demo_env (\<lambda>s. s) (\<lambda>s. s) demo_model demo_cert (\<lambda>c m. Unreachable) (\<lambda>s h. None) 5000 ''u'' ''fresh''
     (demo_relay_files ''03'') ''alice'' demo_relay_db"

lemma demo_issue_ok: "\<not> isl (fst demo_issue)"
  by code_simp

lemma demo_granted: "granted demo_relay_db ''alice'' s serial \<Longrightarrow> s = ''secret''"
proof -
  have "get_setting demo_relay_db (client_key ''alice'') = Some (Json (new_grant ''03'' ''secret''))" by code_simp
  then show "granted demo_relay_db ''alice'' s serial \<Longrightarrow> s = ''secret''" by (simp add: granted_def)
qed

theorem profile_authorizes_witness:
  "\<exists>prof r header p. plist_dumps prof = Inr (projr (fst demo_issue)) \<and>
     profile_relays prof = [r] \<and> relay_header ''Authorization'' r = Some (PStr header) \<and>
     authorize (\<lambda>s. s) demo_model demo_cert 5000 (demo_relay_files ''03'') (snd demo_issue) header True = Inr (Some p) \<and>
     pl_client p = ''alice''"
proof -
  have i: "profile demo_env (\<lambda>s. s) (\<lambda>s. s) demo_model demo_cert (\<lambda>c m. Unreachable) (\<lambda>s h. None) 5000 ''u'' ''fresh''
     (demo_relay_files ''03'') ''alice'' demo_relay_db = (Inr (projr (fst demo_issue)), snd demo_issue)"
    using demo_issue_ok unfolding demo_issue_def [symmetric] by (simp add: prod_eq_iff sum.collapse(2))
  have "s = ''fresh'' \<or> s = ''secret''" if "s = ''fresh'' \<or> granted demo_relay_db ''alice'' s serial" for s serial
    using that demo_granted by blast
  then have s: "\<forall>s serial. s = ''fresh'' \<or> granted demo_relay_db ''alice'' s serial \<longrightarrow> length s \<le> 400"
    by fastforce
  have r: "guest_state (is_guest (demo_relay_files ''03'') ''alice'') (demo_relay_files ''03'') = Inr (None, [])" by code_simp
  obtain prof bytes x header p where "plist_dumps prof = Inr bytes" "projr (fst demo_issue) = bytes" "profile_relays prof = [x]"
    "relay_header ''Authorization'' x = Some (PStr header)"
    "authorize (\<lambda>s. s) demo_model demo_cert 5000 (demo_relay_files ''03'') (snd demo_issue) header True = Inr (Some p)"
    "pl_client p = ''alice''"
    using profile_authorizes [OF i s refl r, where strict = True] by blast
  then show ?thesis by blast
qed

theorem revoked_stays_dead_witness:
  "authorize (\<lambda>s. s) demo_model demo_cert 5000 (demo_relay_files ''03'')
     (relay_run \<lparr>rw_env = demo_env, rw_sha = (\<lambda>s. s), rw_uuid5 = (\<lambda>s. s), rw_model = demo_model, rw_cert = demo_cert,
         rw_signer = (\<lambda>c m. Unreachable), rw_cms_verify = (\<lambda>s h. None)\<rparr>
       [Profile (demo_relay_files ''03'') 5000 ''u'' ''fresh'' ''alice''] (revoke ''alice'' demo_relay_db))
     (''Bearer '' @ ''alice'' @ '':'' @ ''secret'') True \<noteq> Inr (Some demo_policy)"
proof (rule revoked_stays_dead)
  show "safe_name ''alice''" by code_simp
qed simp

theorem renewal_keeps_credential_witness:
  "\<exists>p'. authorize (\<lambda>s. s) demo_model demo_cert 5000 (demo_relay_files ''04'')
      (projr (renewed demo_cert 5000 (demo_relay_files ''04'') ''alice'' (Some ''03'') demo_relay_db))
      (''Bearer '' @ ''alice'' @ '':'' @ ''secret'') True = Inr (Some p') \<and> pl_credential_id p' = ''secret''"
proof -
  have c: "pl_client demo_policy = ''alice''" "pl_credential_id demo_policy = ''secret''"
    by (simp_all add: demo_policy_def policy_of_def)
  have o: "demo_cert (map_of (fs_issued (demo_relay_files ''03'')) (pl_client demo_policy)) =
      Some \<lparr>ct_serial = ''03'', ct_not_before = Some 1000, ct_not_after = Some 9000, ct_cn = ''alice'', ct_fingerprint = []\<rparr>"
    unfolding c by code_simp
  have "\<not> isl (renewed demo_cert 5000 (demo_relay_files ''04'') ''alice'' (Some ''03'') demo_relay_db)" by code_simp
  then have r: "renewed demo_cert 5000 (demo_relay_files ''04'') (pl_client demo_policy)
      (Some (ct_serial \<lparr>ct_serial = ''03'', ct_not_before = Some 1000, ct_not_after = Some 9000, ct_cn = ''alice'', ct_fingerprint = []\<rparr>))
      demo_relay_db = Inr (projr (renewed demo_cert 5000 (demo_relay_files ''04'') ''alice'' (Some ''03'') demo_relay_db))"
    unfolding c by (simp add: sum.collapse(2))
  have g: "guest_state (is_guest (demo_relay_files ''04'') (pl_client demo_policy)) (demo_relay_files ''04'') = Inr (None, [])"
    unfolding c by code_simp
  show ?thesis using renewal_keeps_credential [OF demo_authorized o r demo_eligible_renewed [folded c(1)] g] unfolding c by blast
qed

theorem sign_profile_verified_witness:
  "\<exists>config. signing_config (demo_env\<lparr>en_signer_url := ''https://vpn.example.com/internal/relay-sign'',
       en_signer_token := replicate 32 CHR ''t''\<rparr>) None = Inr config \<and> token_ok (sg_token config)"
proof -
  have "sign_profile (demo_env\<lparr>en_signer_url := ''https://vpn.example.com/internal/relay-sign'',
       en_signer_token := replicate 32 CHR ''t''\<rparr>) (\<lambda>c m. Answered ''signed'') (\<lambda>s h. Some ''content'') None ''content''
       (Some ''relay.example.com'') = Inr ''signed''" by code_simp
  from sign_profile_verified [OF this] show ?thesis by auto
qed

end
