(* ===== verification/Gateways.thy ===== *)
theory Gateways
  imports Network Addresses
begin

text \<open>
  Theorems on the network settings: the ranges an accepted change leaves apart, and where every static
  address lies after it.
\<close>

section \<open>Addresses\<close>

lemma check_ranges_Inr:
  assumes "check_ranges d = Inr (net, guest, lo, hi, dns)"
  shows "IPv4Network True (nd_vpn_subnet d) = Inr net \<and> IPv4Network True (nd_guest_subnet d) = Inr guest \<and>
    IPv4Address (nd_pool_first d) = Inr lo \<and> IPv4Address (nd_pool_last d) = Inr hi \<and>
    prefixlen net \<le> 28 \<and> prefixlen guest \<le> 30 \<and> subnet_of guest net \<and>
    network_address net + 1 < lo \<and> lo \<le> hi \<and> hi < broadcast_address net \<and>
    (broadcast_address guest < lo \<or> hi < network_address guest) \<and> \<not> in_network (network_address net + 1) guest"
proof -
  have *: "ip_add (network_address net) (Suc 0) = Inr own \<Longrightarrow> own = network_address net + 1" for own
    by (simp add: ip_add_def split: if_splits)
  show ?thesis using assms unfolding check_ranges_def
    by (clarsimp simp: not_le not_less split: if_splits) (auto dest!: *)
qed

lemma check_static_Inr:
  "check_static conflict ips = Inr () \<longleftrightarrow> (\<forall>ip \<in> set ips. \<exists>a. IPv4Address ip = Inr a \<and> \<not> conflict a)"
  by (induction ips) auto

lemma unat_next: "unat (a :: ipv4) < unat (b :: ipv4) \<Longrightarrow> unat (a + 1) = Suc (unat a)"
proof -
  assume "unat a < unat b"
  then have "unat a + 1 < 4294967296" using unat_lt [of b] by linarith
  then show ?thesis by (simp add: unat_word_ariths)
qed

lemma small_network:
  assumes "valid_network n" "prefixlen n \<le> 30"
  shows "unat (network_address n) + 3 \<le> unat (broadcast_address n)"
proof -
  have "(2 :: nat) ^ 2 \<le> 2 ^ (32 - prefixlen n)" using assms(2) by (intro power_increasing) auto
  then show ?thesis using unat_broadcast [OF assms(1)] by simp
qed

text \<open>A guest range inside the network that leaves out the server's address leaves out the network address too.\<close>

lemma guest_leaves_start:
  assumes "valid_network net" "valid_network guest" "prefixlen guest \<le> 30" "subnet_of guest net"
    "\<not> in_network (network_address net + 1) guest"
  shows "\<not> in_network (network_address net) guest"
proof
  let ?n = "network_address net"
  assume "in_network ?n guest"
  then have b: "network_address guest = ?n" using assms(4) unfolding in_network_iff [OF assms(2)] subnet_of_def by (blast intro: order.antisym)
  have s: "unat ?n + 3 \<le> unat (broadcast_address guest)" using small_network [OF assms(2,3)] b by simp
  have "unat (?n + 1) = Suc (unat ?n)" using s by (intro unat_next [of _ "broadcast_address guest"]) simp
  then have "in_network (?n + 1) guest" using s unfolding in_network_iff [OF assms(2)] b word_le_nat_alt by simp
  with assms(5) show False by blast
qed

text \<open>
  C23. Accepted network settings keep every kind of address apart: the pool lies inside the network and
  outside the guest range, the guest range lies inside the network and leaves out the network's and the
  server's own address, and every static address already given out is in neither, nor reserved.
\<close>

theorem addressing_apart:
  assumes "validate_addressing fs d = Inr d'"
  shows "\<exists>net guest lo hi. IPv4Network True (nd_vpn_subnet d') = Inr net \<and> IPv4Network True (nd_guest_subnet d') = Inr guest \<and>
    IPv4Address (nd_pool_first d') = Inr lo \<and> IPv4Address (nd_pool_last d') = Inr hi \<and> lo \<le> hi \<and>
    (\<forall>a. lo \<le> a \<and> a \<le> hi \<longrightarrow> in_network a net \<and> \<not> in_network a guest \<and>
       a \<notin> {network_address net, network_address net + 1, broadcast_address net}) \<and>
    (\<forall>a. in_network a guest \<longrightarrow> in_network a net \<and> a \<noteq> network_address net \<and> a \<noteq> network_address net + 1) \<and>
    (\<forall>ip \<in> set (map snd (static_ips fs)). \<exists>a. IPv4Address ip = Inr a \<and> in_network a net \<and> \<not> in_network a guest \<and>
       \<not> (lo \<le> a \<and> a \<le> hi) \<and> a \<notin> {network_address net, network_address net + 1, broadcast_address net})"
proof -
  obtain net guest lo hi dns where r: "check_ranges d = Inr (net, guest, lo, hi, dns)"
    using assms by (auto simp: validate_addressing_def split: sum.splits if_splits)
  have d': "nd_vpn_subnet d' = str_network net" "nd_guest_subnet d' = str_network guest"
    "nd_pool_first d' = str_ipv4 lo" "nd_pool_last d' = str_ipv4 hi"
    and st: "check_static (static_conflict net guest lo hi) (map snd (static_ips fs)) = Inr ()"
    using assms r by (auto simp: validate_addressing_def split: if_splits)
  note c = check_ranges_Inr [OF r]
  have v: "valid_network net" "valid_network guest" using c IPv4Network_valid by blast+
  have own: "network_address net < network_address net + 1"
  proof -
    have "unat (network_address net) + 3 \<le> unat (broadcast_address net)" using small_network v(1) c by simp
    then have "unat (network_address net + 1) = Suc (unat (network_address net))"
      by (intro unat_next [of _ "broadcast_address net"]) simp
    then show ?thesis by (simp add: word_less_nat_alt)
  qed
  have pool: "in_network a net \<and> \<not> in_network a guest \<and>
       a \<notin> {network_address net, network_address net + 1, broadcast_address net}" if "lo \<le> a" "a \<le> hi" for a
    using that c own unfolding in_network_iff [OF v(1)] in_network_iff [OF v(2)] by auto
  have inside: "in_network a net \<and> a \<noteq> network_address net \<and> a \<noteq> network_address net + 1" if "in_network a guest" for a
    using that c guest_leaves_start [OF v] unfolding subnet_of_def
    by (auto simp: in_network_iff [OF v(1)] in_network_iff [OF v(2)])
  have statics: "\<exists>a. IPv4Address ip = Inr a \<and> in_network a net \<and> \<not> in_network a guest \<and>
       \<not> (lo \<le> a \<and> a \<le> hi) \<and> a \<notin> {network_address net, network_address net + 1, broadcast_address net}"
    if "ip \<in> set (map snd (static_ips fs))" for ip
    using st that unfolding check_static_Inr static_conflict_def by blast
  show ?thesis unfolding d' IPv4Address_str IPv4Network_str [OF v(1)] IPv4Network_str [OF v(2)]
    using c pool inside statics by (intro exI [of _ net] exI [of _ guest] exI [of _ lo] exI [of _ hi]) blast
qed

definition demo_network :: network_data where
  "demo_network =
     \<lparr>nd_vpn_subnet = ''10.8.0.0/24'', nd_pool_first = ''10.8.0.10'', nd_pool_last = ''10.8.0.99'',
      nd_guest_subnet = ''10.8.0.128/25'', nd_dns_servers = [''10.8.0.1''], nd_routes = [''192.168.1.0/24''],
      nd_proxy_cidrs = [''127.0.0.1/32''], nd_gateway = empty_gateway\<rparr>"

definition one_static :: files where
  "one_static = demo_files\<lparr>fs_static := [(''alice'', ''ifconfig-push 10.8.0.5 255.255.255.0'' @ [newline])]\<rparr>"

theorem addressing_apart_witness:
  "\<exists>net guest a. IPv4Network True (nd_vpn_subnet (projr (validate_addressing one_static demo_network))) = Inr net \<and>
     IPv4Network True (nd_guest_subnet (projr (validate_addressing one_static demo_network))) = Inr guest \<and>
     IPv4Address ''10.8.0.5'' = Inr a \<and> in_network a net \<and> \<not> in_network a guest"
proof -
  have "\<not> isl (validate_addressing one_static demo_network)" by code_simp
  then have v: "validate_addressing one_static demo_network = Inr (projr (validate_addressing one_static demo_network))"
    by (simp add: sum.collapse(2))
  have "''10.8.0.5'' \<in> set (map snd (static_ips one_static))" by code_simp
  with addressing_apart [OF v] show ?thesis by blast
qed

end
