(* ===== verification/Web.thy ===== *)
theory Web
  imports Relay Limiter Auth Collector
begin

text \<open>
  Requests, access control and accounts of the web API: the first half of \<open>ui/app/main.py\<close>.

  A handler is a computation on the state of the program that returns a value or raises. The clock
  stands still while one request is handled, and the random values a handler draws come with the
  request. What lies outside the program is the record \<open>world\<close>.
\<close>

section \<open>State, world and requests\<close>

record app =
  ap_db :: database
  ap_fs :: files
  ap_limiter :: limiter
  ap_mgmt :: management
  ap_conns :: "sock option list"
  ap_live :: live

record world =
  w_cfg :: settings
  w_env :: relay_env
  w_session_ttl :: int
  w_secure_cookies :: string
  w_sha :: "string \<Rightarrow> string"
  w_hmac :: "string \<Rightarrow> string \<Rightarrow> string"
  w_scrypt :: scrypt
  w_uuid5 :: "string \<Rightarrow> string"
  w_model :: model
  w_cert :: reader
  w_signer :: "signing \<Rightarrow> string option \<Rightarrow> signer_answer"
  w_cms_verify :: "string \<Rightarrow> string \<Rightarrow> string option"
  w_execute :: runner
  w_read_path :: "string \<Rightarrow> string result"
  w_clients_dir :: string
  w_decode :: "string \<Rightarrow> string"
  w_mgmt_password :: "string option"

text \<open>Header names are in lower case, as Starlette keeps them. \<open>rq_time\<close> is \<open>time.time()\<close>.\<close>

record request =
  rq_headers :: "(string \<times> string) list"
  rq_cookies :: "(string \<times> string) list"
  rq_client :: "string option"
  rq_scheme :: string
  rq_path :: string
  rq_base_url :: string
  rq_body :: string
  rq_time :: rat
  rq_monotonic :: real
  rq_token :: string
  rq_secret :: string
  rq_uuid4 :: string
  rq_salt :: bytes

type_synonym 'a act = "app \<Rightarrow> 'a result \<times> app"

definition now_of :: "request \<Rightarrow> int" where
  "now_of rq = \<lfloor>rq_time rq\<rfloor>"

section \<open>Computations\<close>

definition ret :: "'a \<Rightarrow> 'a act" where
  "ret x s = (Inr x, s)"

definition raise :: "exc \<Rightarrow> 'a act" where
  "raise e s = (Inl e, s)"

definition act_bind :: "'a act \<Rightarrow> ('a \<Rightarrow> 'b act) \<Rightarrow> 'b act" where
  "act_bind m f s = (case m s of (Inl e, s') \<Rightarrow> (Inl e, s') | (Inr x, s') \<Rightarrow> f x s')"

text \<open>One statement after another.\<close>

definition act_then :: "'a act \<Rightarrow> 'b act \<Rightarrow> 'b act" where
  "act_then m n = act_bind m (\<lambda>_. n)"

definition lift :: "'a result \<Rightarrow> 'a act" where
  "lift r s = (r, s)"

definition asks :: "(app \<Rightarrow> 'a) \<Rightarrow> 'a act" where
  "asks f s = (Inr (f s), s)"

definition db_do :: "(database \<Rightarrow> database) \<Rightarrow> unit act" where
  "db_do f s = (Inr (), s\<lparr>ap_db := f (ap_db s)\<rparr>)"

definition db_run :: "(database \<Rightarrow> 'a \<times> database) \<Rightarrow> 'a act" where
  "db_run f s = (case f (ap_db s) of (x, db) \<Rightarrow> (Inr x, s\<lparr>ap_db := db\<rparr>))"

text \<open>A transaction: an exception leaves the database as it was.\<close>

definition db_try :: "(database \<Rightarrow> ('a \<times> database) result) \<Rightarrow> 'a act" where
  "db_try f s = (case f (ap_db s) of Inl e \<Rightarrow> (Inl e, s) | Inr (x, db) \<Rightarrow> (Inr x, s\<lparr>ap_db := db\<rparr>))"

definition fs_run :: "(files \<Rightarrow> 'a result \<times> files) \<Rightarrow> 'a act" where
  "fs_run f s = (case f (ap_fs s) of (r, fs) \<Rightarrow> (r, s\<lparr>ap_fs := fs\<rparr>))"

definition fs_try :: "(files \<Rightarrow> files result) \<Rightarrow> unit act" where
  "fs_try f s = (case f (ap_fs s) of Inl e \<Rightarrow> (Inl e, s) | Inr fs \<Rightarrow> (Inr (), s\<lparr>ap_fs := fs\<rparr>))"

definition mgmt_run ::
  "(sock option list \<Rightarrow> management \<Rightarrow> 'a result \<times> sock option list \<times> management) \<Rightarrow> 'a act" where
  "mgmt_run f s = (case f (ap_conns s) (ap_mgmt s) of (r, cs, m) \<Rightarrow> (r, s\<lparr>ap_conns := cs, ap_mgmt := m\<rparr>))"

text \<open>\<open>except\<close> clauses\<close>

definition act_catch :: "'a act \<Rightarrow> (exc \<Rightarrow> 'a act) \<Rightarrow> 'a act" where
  "act_catch m h s = (case m s of (Inl e, s') \<Rightarrow> h e s' | (Inr x, s') \<Rightarrow> (Inr x, s'))"

lemmas act_defs =
  ret_def raise_def act_bind_def act_then_def lift_def asks_def db_do_def db_run_def db_try_def fs_run_def fs_try_def
  mgmt_run_def act_catch_def

section \<open>Requests\<close>

definition COOKIE :: string where "COOKIE = ''ovpn_session''"
definition IP_ATTEMPTS :: int where "IP_ATTEMPTS = 20"

definition header :: "request \<Rightarrow> string \<Rightarrow> string option" where
  "header rq name = map_of (rq_headers rq) name"

definition cookie :: "request \<Rightarrow> string option" where
  "cookie rq = map_of (rq_cookies rq) COOKIE"

definition client_ip :: "request \<Rightarrow> string" where
  "client_ip rq = (case rq_client rq of Some h \<Rightarrow> h | None \<Rightarrow> ''?'')"

definition cookie_secure :: "world \<Rightarrow> request \<Rightarrow> bool" where
  "cookie_secure w rq =
     (if w_secure_cookies w \<in> {''true'', ''1'', ''yes''} then True
      else if w_secure_cookies w \<in> {''false'', ''0'', ''no''} then False
      else rq_scheme rq = ''https'')"

definition portal_only :: "request \<Rightarrow> bool" where
  "portal_only rq \<longleftrightarrow> header rq ''x-openvpn-portal-only'' = Some ''1''"

definition eligible_now :: "world \<Rightarrow> request \<Rightarrow> string \<Rightarrow> cert option act" where
  "eligible_now w rq name s = (eligible (w_cert w) (rq_time rq) (ap_fs s) name, s)"

definition signed_in_user :: "world \<Rightarrow> request \<Rightarrow> session_user act" where
  "signed_in_user w rq =
     act_bind (db_run (get_session_user (w_sha w) (now_of rq) (cookie rq) (w_session_ttl w) True)) (\<lambda>u.
       case u of
         None \<Rightarrow> raise (HTTPException 401 ''Not authenticated'')
       | Some u \<Rightarrow>
           if su_role u = ''admin'' \<and> portal_only rq then raise (HTTPException 401 ''Not authenticated'')
           else if su_role u = ''client''
           then act_bind (eligible_now w rq (text_or_empty (su_client_name u))) (\<lambda>cert.
             if cert = None \<or> Some (ct_serial (the cert)) \<noteq> su_client_serial u
             then act_then (db_do (delete_session (w_sha w) (cookie rq)))
                    (raise (HTTPException 401 ''Client access is no longer valid''))
             else ret u)
           else ret u)"

definition current_user :: "world \<Rightarrow> request \<Rightarrow> session_user act" where
  "current_user w rq =
     act_bind (signed_in_user w rq) (\<lambda>u.
       if su_role u \<noteq> ''admin'' then raise (HTTPException 403 ''Administrator access required'') else ret u)"

definition cross_origin :: "request \<Rightarrow> bool result" where
  "cross_origin rq =
     (case header rq ''origin'' of
        None \<Rightarrow> Inr False
      | Some origin \<Rightarrow>
          if origin = [] \<or> origin = ''null'' then Inr False
          else res_bind (urlsplit origin) (\<lambda>u. Inr (lower (u_netloc u) \<noteq> lower (text_or_empty (header rq ''host'')))))"

definition csrf_check :: "request \<Rightarrow> unit result" where
  "csrf_check rq =
     (if header rq ''x-requested-with'' \<noteq> Some ''fetch''
      then Inl (HTTPException 403 ''Missing X-Requested-With header'')
      else res_bind (cross_origin rq) (\<lambda>cross.
        if cross then Inl (HTTPException 403 ''Cross-origin request rejected'') else Inr ()))"

definition profile_download_token :: "world \<Rightarrow> request \<Rightarrow> string \<Rightarrow> string" where
  "profile_download_token w rq path = w_hmac w (text_or_empty (cookie rq)) (''profile-download:'' @ path)"

text \<open>
  The token of a form: \<open>parse_qs(body, max_num_fields=1).get("csrf", [""])[0]\<close>. A byte outside ASCII
  stands for itself; whatever Python makes of it, it is no hexadecimal digest.
\<close>

fun unquote :: "string \<Rightarrow> string" where
  "unquote (c # a # b # s) =
     (if c = CHR ''%'' \<and> is_hex a \<and> is_hex b then char_of (16 * hex_value a + hex_value b) # unquote s
      else c # unquote (a # b # s))"
| "unquote s = s"

definition form_token :: "string \<Rightarrow> string result" where
  "form_token body =
     (if CHR ''&'' \<in> set body then Inl ValueError
      else
        case partition_on CHR ''='' body of
          (name, f, v) \<Rightarrow>
            let plain = (\<lambda>t. unquote (replace_char CHR ''+'' '' '' t))
            in Inr (if v \<noteq> [] \<and> plain name = ''csrf'' then plain v else []))"

definition profile_download_csrf :: "world \<Rightarrow> request \<Rightarrow> unit result" where
  "profile_download_csrf w rq =
     (if header rq ''x-requested-with'' = Some ''fetch'' then csrf_check rq
      else res_bind (cross_origin rq) (\<lambda>cross.
        if cross then Inl (HTTPException 403 ''Cross-origin request rejected'')
        else if 256 < length (rq_body rq)
        then Inl (HTTPException 413 ''Refresh the page before downloading your profile'')
        else
          let token = (case form_token (rq_body rq) of Inr t \<Rightarrow> t | Inl e \<Rightarrow> [])
          in if text_or_empty (cookie rq) = [] \<or> token \<noteq> profile_download_token w rq (rq_path rq)
             then Inl (HTTPException 403 ''Refresh the page before downloading your profile'') else Inr ()))"

section \<open>Signing in\<close>

definition event :: "request \<Rightarrow> string \<Rightarrow> session_user option \<Rightarrow> string option \<Rightarrow> string option \<Rightarrow> unit act" where
  "event rq kind user client detail =
     db_do (add_event (now_of rq) kind client (map_option su_username user) detail)"

definition user_by_name :: "string \<Rightarrow> database \<Rightarrow> user option" where
  "user_by_name name db = find (\<lambda>u. u_username u = name) (users db)"

definition update_user :: "int \<Rightarrow> (user \<Rightarrow> user) \<Rightarrow> database \<Rightarrow> database" where
  "update_user i f db = db\<lparr>users := map (\<lambda>u. if u_id u = i then f u else u) (users db)\<rparr>"

text \<open>\<open>limiter.attempt\<close>: a wait becomes a 429.\<close>

definition limited :: "(string \<times> int) list \<Rightarrow> request \<Rightarrow> unit act" where
  "limited limits rq s =
     (case attempt limits (rq_monotonic rq) (ap_limiter s) of
        Inl e \<Rightarrow> (Inl e, s)
      | Inr (wait, L) \<Rightarrow>
          if wait \<noteq> 0 then (Inl (HTTPException 429 (''Too many attempts, try again in '' @ dec_int wait @ ''s'')), s\<lparr>ap_limiter := L\<rparr>)
          else (Inr (), s\<lparr>ap_limiter := L\<rparr>))"

definition limiter_success :: "string \<Rightarrow> unit act" where
  "limiter_success key s = (Inr (), s\<lparr>ap_limiter := success key (ap_limiter s)\<rparr>)"

record signed_in =
  si_username :: string
  si_guest_sub :: string
  si_role :: string
  si_client_name :: "string option"
  si_cookie :: string
  si_secure :: bool

definition login_key :: "request \<Rightarrow> string \<Rightarrow> string" where
  "login_key rq username = client_ip rq @ ''|'' @ lower username"

text \<open>
  Whether the password and the account let this request in. For an unknown user the source verifies
  the password against a throw-away hash and ignores the outcome.
\<close>

definition valid_client :: "world \<Rightarrow> request \<Rightarrow> user \<Rightarrow> bool act" where
  "valid_client w rq row =
     (case u_client_name row of
        None \<Rightarrow> ret True
      | Some name \<Rightarrow> act_bind (eligible_now w rq name) (\<lambda>cert.
          ret (cert \<noteq> None \<and> Some (ct_serial (the cert)) = u_client_serial row)))"

definition credentials_ok :: "world \<Rightarrow> request \<Rightarrow> string \<Rightarrow> user \<Rightarrow> bool act" where
  "credentials_ok w rq password row =
     act_bind (valid_client w rq row) (\<lambda>valid.
     act_bind (lift (verify_password (w_scrypt w) password (u_password_hash row))) (\<lambda>right.
       ret (right \<and> valid \<and> \<not> (u_client_name row = None \<and> portal_only rq))))"

definition login_failed :: "request \<Rightarrow> string \<Rightarrow> 'a act" where
  "login_failed rq username =
     act_then (db_do (add_event (now_of rq) ''login_failed'' None (Some (take 64 username)) (Some (client_ip rq))))
       (raise (HTTPException 401 ''Invalid username or password''))"

definition rehash :: "world \<Rightarrow> request \<Rightarrow> string \<Rightarrow> user \<Rightarrow> unit act" where
  "rehash w rq password row =
     (if needs_rehash (u_password_hash row)
      then act_bind (lift (hash_password (w_scrypt w) (rq_salt rq) password)) (\<lambda>h.
        db_do (update_user (u_id row) (\<lambda>u. u\<lparr>u_password_hash := h\<rparr>)))
      else ret ())"

definition open_session :: "world \<Rightarrow> request \<Rightarrow> user \<Rightarrow> signed_in act" where
  "open_session w rq row =
     act_bind (db_try (create_session (w_sha w) (rq_token rq) (now_of rq) (u_id row) (w_session_ttl w)
                 (Some (client_ip rq)) (header rq ''user-agent''))) (\<lambda>token.
     act_then (db_do (update_user (u_id row) (\<lambda>u. u\<lparr>u_last_login := Some (now_of rq)\<rparr>)))
     (act_then (db_do (add_event (now_of rq) ''login'' None (Some (u_username row)) (Some (client_ip rq))))
     (\<lambda>s. case guest_sub (w_cfg w) (ap_fs s) of
            Inl e \<Rightarrow> (Inl e, s)
          | Inr sub \<Rightarrow>
              (Inr \<lparr>si_username = u_username row, si_guest_sub = sub,
                    si_role = (if u_client_name row \<noteq> None then ''client'' else ''admin''),
                    si_client_name = u_client_name row, si_cookie = token, si_secure = cookie_secure w rq\<rparr>, s))))"

definition login :: "world \<Rightarrow> string \<Rightarrow> string \<Rightarrow> request \<Rightarrow> signed_in act" where
  "login w username password rq =
     act_then (lift (csrf_check rq))
     (act_then (\<lambda>s. limited [(client_ip rq, IP_ATTEMPTS), (login_key rq username, lm_threshold (ap_limiter s))] rq s)
     (act_bind (asks (\<lambda>s. user_by_name username (ap_db s))) (\<lambda>row.
       case row of
         None \<Rightarrow> login_failed rq username
       | Some row \<Rightarrow> act_bind (credentials_ok w rq password row) (\<lambda>ok.
           if \<not> ok then login_failed rq username
           else act_then (limiter_success (client_ip rq))
             (act_then (limiter_success (login_key rq username))
             (act_then (rehash w rq password row) (open_session w rq row)))))))"

definition logout :: "world \<Rightarrow> request \<Rightarrow> unit act" where
  "logout w rq = act_then (lift (csrf_check rq)) (db_do (delete_session (w_sha w) (cookie rq)))"

definition change_password :: "world \<Rightarrow> string \<Rightarrow> string \<Rightarrow> request \<Rightarrow> unit act" where
  "change_password w current replacement rq =
     act_then (lift (csrf_check rq))
     (act_bind (signed_in_user w rq) (\<lambda>user.
      act_bind (asks (\<lambda>s. user_by_id (su_id user) (ap_db s))) (\<lambda>row.
      act_bind (case row of None \<Rightarrow> ret False | Some r \<Rightarrow> lift (verify_password (w_scrypt w) current (u_password_hash r))) (\<lambda>right.
        if \<not> right then raise (HTTPException 400 ''Current password is incorrect'')
        else
          act_bind (lift (hash_password (w_scrypt w) (rq_salt rq) replacement)) (\<lambda>h.
          act_then (db_do (update_user (su_id user) (\<lambda>u. u\<lparr>u_password_hash := h\<rparr>)))
          (act_then (db_do (delete_user_sessions (w_sha w) (su_id user) (cookie rq)))
            (event rq ''password_changed'' (Some user) None None)))))))"

end
