(* ===== verification/Reports.thy ===== *)
theory Reports
  imports Web
begin

text \<open>
  What the pages of the web API show: time ranges, series, the table of clients and the list of
  sessions (\<open>ui/app/main.py\<close>).
\<close>

section \<open>Ranges and series\<close>

definition RANGES :: "(string \<times> int option) list" where
  "RANGES = [(''today'', None), (''24h'', Some 86400), (''7d'', Some (7 * 86400)), (''30d'', Some (30 * 86400)),
     (''90d'', Some (90 * 86400)), (''all'', None)]"

definition range_bounds :: "string \<Rightarrow> int \<Rightarrow> int \<Rightarrow> database \<Rightarrow> (int \<times> int) result" where
  "range_bounds name tz now db =
     (case map_of RANGES name of
        None \<Rightarrow> Inl (HTTPException 400 ''Unknown range'')
      | Some secs \<Rightarrow>
          let start = (if name = ''today'' then (now + tz) div 86400 * 86400 - tz
                       else if name = ''all''
                       then (case first_traffic_ts db of None \<Rightarrow> now - 86400 | Some t \<Rightarrow> if t = 0 then now - 86400 else t)
                       else now - (case secs of Some n \<Rightarrow> n | None \<Rightarrow> 0))
          in Inr (start, now + 1))"

definition bucket_for :: "string \<Rightarrow> int" where
  "bucket_for name = (if name \<in> {''today'', ''24h''} then 600 else if name = ''7d'' then 3600 else 86400)"

text \<open>
  The loop of \<open>fill_series\<close>: one point per bucket, those without traffic at zero. A bucket of zero
  seconds, with which the source would loop for ever, ends at once here; the callers pass 60 or more.
\<close>

function fill_from :: "(int \<Rightarrow> point option) \<Rightarrow> int \<Rightarrow> int \<Rightarrow> int \<Rightarrow> point list" where
  "fill_from by_ts bucket stop t =
     (if t < stop \<and> 0 < bucket
      then (case by_ts t of Some p \<Rightarrow> \<lparr>pt_ts = t, pt_in = pt_in p, pt_out = pt_out p\<rparr> | None \<Rightarrow> \<lparr>pt_ts = t, pt_in = 0, pt_out = 0\<rparr>)
             # fill_from by_ts bucket stop (t + bucket)
      else [])"
  by pat_completeness auto
termination
  by (relation "measure (\<lambda>(by_ts, bucket, stop, t). nat (stop - t))") auto

declare fill_from.simps [simp del]

definition fill_series :: "point list \<Rightarrow> int \<Rightarrow> int \<Rightarrow> int \<Rightarrow> int \<Rightarrow> point list" where
  "fill_series points start stop bucket tz =
     fill_from (map_of (map (\<lambda>p. (pt_ts p, p)) (rev points))) bucket stop ((start + tz) div bucket * bucket - tz)"

section \<open>The table of clients\<close>

record client_table_row =
  tr_client :: client_info
  tr_days_left :: "int option"
  tr_static_ip :: "string option"
  tr_guest :: bool
  tr_relay_available :: bool
  tr_tfa :: bool
  tr_sessions_live :: "live_client list"
  tr_traffic :: "int \<times> int"
  tr_total :: "client_stats option"
  tr_note :: string

definition tr_name :: "client_table_row \<Rightarrow> string" where
  "tr_name r = ci_name (tr_client r)"

definition tr_state :: "client_table_row \<Rightarrow> string" where
  "tr_state r = cr_state (ci_cert (tr_client r))"

definition hidden_serials :: "database \<Rightarrow> string list" where
  "hidden_serials db = map fst (hidden_certs db)"

definition days_left :: "int \<Rightarrow> cert_row \<Rightarrow> int option" where
  "days_left now c = (case cr_not_after c of None \<Rightarrow> None | Some t \<Rightarrow> if t = 0 then None else Some ((t - now) div 86400))"

definition state_order :: "string \<Rightarrow> nat" where
  "state_order st = (if st = ''valid'' then 0 else if st = ''expired'' then 1 else if st = ''revoked'' then 2 else 3)"

definition row_key :: "client_table_row \<Rightarrow> bool \<times> nat \<times> string" where
  "row_key r = (tr_sessions_live r = [], state_order (tr_state r), lower (tr_name r))"

text \<open>\<open>clients_payload\<close>; the keys of the returned dictionary that repeat others are left out.\<close>

definition clients_payload :: "world \<Rightarrow> int \<Rightarrow> string \<Rightarrow> int \<Rightarrow> app \<Rightarrow> client_table_row list result" where
  "clients_payload w now range_name tz s =
     (let db = ap_db s; fs = ap_fs s; statics = static_ips fs; tfa = tfa_secrets fs; stats = session_stats_by_client db
      in res_bind (range_bounds range_name tz now db) (\<lambda>(start, stop).
         res_bind (relay_get_settings (w_model w) db) (\<lambda>relay.
           let period = totals_by_client start stop db
           in Inr (sort_key row_key (map (\<lambda>(name, c).
                \<lparr>tr_client = c, tr_days_left = days_left now (ci_cert c), tr_static_ip = map_of (rev statics) name,
                 tr_guest = (name \<in> set (guests fs)),
                 tr_relay_available = (rl_enabled relay \<and> cr_state (ci_cert c) = ''valid''),
                 tr_tfa = (map_of tfa name \<noteq> None),
                 tr_sessions_live = filter (\<lambda>l. sc_cn (lc_client l) = name) (lv_clients (ap_live s)),
                 tr_traffic = (case map_of period name of Some t \<Rightarrow> t | None \<Rightarrow> (0, 0)),
                 tr_total = map_of stats name,
                 tr_note = (case map_of (clients_tab db) name of Some (note, t) \<Rightarrow> note | None \<Rightarrow> [])\<rparr>)
                (list_clients now (w_cert w) (hidden_serials db) fs))))))"

definition find_client :: "world \<Rightarrow> request \<Rightarrow> string \<Rightarrow> client_table_row act" where
  "find_client w rq name =
     act_then (lift (validate_name name))
     (act_bind (\<lambda>s. (clients_payload w (now_of rq) ''today'' 0 s, s)) (\<lambda>rows.
       case find (\<lambda>r. tr_name r = name) rows of
         Some r \<Rightarrow> ret r
       | None \<Rightarrow> raise (HTTPException 404 ''Client not found'')))"

section \<open>Sessions and traffic\<close>

definition clamp :: "int \<Rightarrow> int \<Rightarrow> int \<Rightarrow> int" where
  "clamp lo hi n = max lo (min n hi)"

text \<open>\<open>/api/sessions\<close>: the visits when merged, else the plain sessions.\<close>

definition named :: "string option \<Rightarrow> vpn_session \<Rightarrow> bool" where
  "named name v \<longleftrightarrow> (case name of None \<Rightarrow> True | Some n \<Rightarrow> n = [] \<or> vs_client_name v = n)"

definition check_filter :: "string option \<Rightarrow> unit result" where
  "check_filter name =
     (case name of None \<Rightarrow> Inr () | Some n \<Rightarrow> if n = [] then Inr () else res_bind (validate_name n) (\<lambda>_. Inr ()))"

definition list_visits :: "string option \<Rightarrow> int \<Rightarrow> int \<Rightarrow> bool \<Rightarrow> database \<Rightarrow> (int \<times> visit list) result" where
  "list_visits name limit offset active db =
     res_bind (check_filter name) (\<lambda>_.
       Inr (visits (named name) (nat (clamp 1 500 limit)) (nat (max 0 offset)) active db))"

definition list_sessions :: "string option \<Rightarrow> int \<Rightarrow> int \<Rightarrow> bool \<Rightarrow> database \<Rightarrow> (int \<times> vpn_session list) result" where
  "list_sessions name limit offset active db =
     res_bind (check_filter name) (\<lambda>_.
       let rows = filter (\<lambda>v. named name v \<and> (active \<longrightarrow> vs_disconnected_at v = None)) (vpn_sessions db)
       in Inr (int (length rows),
               take (nat (clamp 1 500 limit)) (drop (nat (max 0 offset)) (sort_key (\<lambda>v. - vs_connected_at v) rows))))"

definition traffic_report :: "string \<Rightarrow> string option \<Rightarrow> int \<Rightarrow> int \<Rightarrow> database \<Rightarrow> (point list \<times> int \<times> int) result" where
  "traffic_report range_name name tz now db =
     res_bind (check_filter name) (\<lambda>_.
     res_bind (range_bounds range_name tz now db) (\<lambda>(start, stop).
       let bucket = bucket_for range_name
       in Inr (fill_series (series start stop bucket name tz db) start stop bucket tz, totals start stop name db)))"

definition connections_report :: "string \<Rightarrow> int \<Rightarrow> int \<Rightarrow> database \<Rightarrow> (conn_stats \<times> int option) list result" where
  "connections_report range_name tz now db =
     res_bind (range_bounds range_name tz now db) (\<lambda>(start, stop). Inr (connection_stats start stop db))"

definition events_list :: "int \<Rightarrow> database \<Rightarrow> event_row list" where
  "events_list limit db = take (nat (clamp 1 1000 limit)) (sort_key (\<lambda>e. - ev_id e) (events db))"

end
