(* ===== verification/Api.thy ===== *)
theory Api
  imports Reports
begin

text \<open>
  The handlers of the web API that change something: portal accounts, share links, the life cycle of
  clients, server and network settings, and the start of the program (\<open>ui/app/main.py\<close>), with the
  boundary a gateway puts around guests (\<open>ui/app/portal_boundary.py\<close>).

  Every handler below begins with the checks its route declares: \<open>admin\<close> is \<open>Csrf\<close> with \<open>Authed\<close>.
\<close>

definition admin :: "world \<Rightarrow> request \<Rightarrow> (session_user \<Rightarrow> 'a act) \<Rightarrow> 'a act" where
  "admin w rq body = act_then (lift (csrf_check rq)) (act_bind (current_user w rq) body)"

section \<open>The portal boundary\<close>

definition portal_path :: "string \<Rightarrow> bool" where
  "portal_path path \<longleftrightarrow> path \<in> {''/portal'', ''/api/portal''} \<or> startswith path ''/api/portal/'' \<or> startswith path ''/static/''"

datatype boundary = Pass | Redirect string | Not_found

definition portal_boundary :: "bool \<Rightarrow> (string \<times> string) list \<Rightarrow> string \<Rightarrow> boundary" where
  "portal_boundary is_http headers path =
     (let restricted = (is_http \<and> list_ex (\<lambda>(k, v). k = ''x-openvpn-portal-only'' \<and> v = ''1'') headers)
      in if restricted \<and> \<not> portal_path path then (if path = ''/'' then Redirect ''/portal'' else Not_found) else Pass)"

section \<open>Portal accounts\<close>

definition user_of_client :: "string \<Rightarrow> database \<Rightarrow> user option" where
  "user_of_client name db = find (\<lambda>u. u_client_name u = Some name) (users db)"

definition delete_user :: "int \<Rightarrow> database \<Rightarrow> database" where
  "delete_user i db = db\<lparr>users := filter (\<lambda>u. u_id u \<noteq> i) (users db)\<rparr>"

definition disable_portal :: "world \<Rightarrow> string \<Rightarrow> database \<Rightarrow> database" where
  "disable_portal w name db =
     (case user_of_client name db of
        None \<Rightarrow> db
      | Some u \<Rightarrow> delete_user (u_id u) (delete_user_sessions (w_sha w) (u_id u) None db))"

text \<open>The transaction of \<open>set_portal_account\<close>.\<close>

definition store_account :: "string \<Rightarrow> string \<Rightarrow> string \<Rightarrow> string \<Rightarrow> int \<Rightarrow> database \<Rightarrow> (unit \<times> database) result" where
  "store_account name username hash serial now db =
     (if (case user_by_name username db of Some u \<Rightarrow> u_client_name u \<noteq> Some name | None \<Rightarrow> False)
      then Inl (HTTPException 400 ''This username is already in use'')
      else
        case user_of_client name db of
          Some row \<Rightarrow>
            Inr ((), update_user (u_id row)
                  (\<lambda>u. u\<lparr>u_username := username, u_password_hash := hash, u_client_serial := Some serial\<rparr>)
                  (db\<lparr>web_sessions := filter (\<lambda>(h, s). ws_user_id s \<noteq> u_id row) (web_sessions db)\<rparr>))
        | None \<Rightarrow>
            Inr ((), db\<lparr>users := users db @
                    [\<lparr>u_id = next_user_id db, u_username = username, u_password_hash = hash, u_created_at = now,
                      u_last_login = None, u_client_name = Some name, u_client_serial = Some serial\<rparr>],
                  next_user_id := next_user_id db + 1\<rparr>))"

definition set_portal_account :: "world \<Rightarrow> string \<Rightarrow> string \<Rightarrow> string \<Rightarrow> request \<Rightarrow> unit act" where
  "set_portal_account w name username password rq =
     admin w rq (\<lambda>user.
       act_then (find_client w rq name)
       (act_bind (eligible_now w rq name) (\<lambda>cert.
         case cert of
           None \<Rightarrow> raise (HTTPException 400 ''Portal access requires a valid client certificate'')
         | Some c \<Rightarrow>
             act_bind (lift (hash_password (w_scrypt w) (rq_salt rq) password)) (\<lambda>h.
             act_then (db_try (store_account name username h (ct_serial c) (now_of rq)))
               (event rq ''portal_access_set'' (Some user) (Some name) None)))))"

definition remove_portal_account :: "world \<Rightarrow> string \<Rightarrow> request \<Rightarrow> unit act" where
  "remove_portal_account w name rq =
     admin w rq (\<lambda>user.
       act_then (find_client w rq name)
       (act_then (db_do (disable_portal w name)) (event rq ''portal_access_disabled'' (Some user) (Some name) None)))"

text \<open>A client's own pages: administrators are turned away.\<close>

definition as_client :: "world \<Rightarrow> request \<Rightarrow> (session_user \<Rightarrow> string \<Rightarrow> 'a act) \<Rightarrow> 'a act" where
  "as_client w rq body =
     act_bind (signed_in_user w rq) (\<lambda>user.
       if su_role user \<noteq> ''client'' then raise (HTTPException 400 ''This page is for client accounts'')
       else body user (text_or_empty (su_client_name user)))"

definition build_profile :: "world \<Rightarrow> string \<Rightarrow> string act" where
  "build_profile w name =
     act_then (lift (validate_name name))
     (act_bind (fs_run (script (w_cfg w) (w_execute w) ''mkovpn.sh'' [name] [])) (\<lambda>out.
       lift (w_read_path w (if strip out = [] then w_clients_dir w @ ''/'' @ name @ ''.ovpn'' else last (splitlines (strip out))))))"

definition own_openvpn_profile :: "world \<Rightarrow> request \<Rightarrow> string act" where
  "own_openvpn_profile w rq =
     as_client w rq (\<lambda>user name.
       act_bind (build_profile w name) (\<lambda>content.
       act_then (event rq ''portal_openvpn_downloaded'' (Some user) (Some name) None) (ret content)))"

definition relay_profile :: "world \<Rightarrow> request \<Rightarrow> string \<Rightarrow> string act" where
  "relay_profile w rq name s =
     (case profile (w_env w) (w_sha w) (w_uuid5 w) (w_model w) (w_cert w) (w_signer w) (w_cms_verify w)
             (rq_time rq) (rq_uuid4 rq) (rq_secret rq) (ap_fs s) name (ap_db s) of
        (r, db) \<Rightarrow> (r, s\<lparr>ap_db := db\<rparr>))"

definition signing_now :: "world \<Rightarrow> signing act" where
  "signing_now w s = (signing_config (w_env w) (Some (ap_db s)), s)"

definition own_relay_profile :: "world \<Rightarrow> request \<Rightarrow> string act" where
  "own_relay_profile w rq =
     act_then (lift (profile_download_csrf w rq))
     (as_client w rq (\<lambda>user name.
       act_bind (act_catch (relay_profile w rq name) (\<lambda>e.
           if is_pki_error e
           then act_bind (signing_now w) (\<lambda>config.
             if sg_required config \<or> sg_url config \<noteq> []
             then raise (HTTPException 503 (''Signed relay profiles are temporarily unavailable. '' @
                    ''Please retry or contact the administrator.''))
             else raise e)
           else raise e)) (\<lambda>content.
       act_then (event rq ''portal_relay_downloaded'' (Some user) (Some name) None) (ret content))))"

definition download_relay_profile :: "world \<Rightarrow> string \<Rightarrow> request \<Rightarrow> string act" where
  "download_relay_profile w name rq =
     act_then (lift (profile_download_csrf w rq))
     (act_bind (current_user w rq) (\<lambda>user.
       act_then (find_client w rq name)
       (act_bind (relay_profile w rq name) (\<lambda>content.
        act_then (event rq ''relay_profile_downloaded'' (Some user) (Some name) None) (ret content)))))"

definition download_profile :: "world \<Rightarrow> string \<Rightarrow> request \<Rightarrow> string act" where
  "download_profile w name rq =
     act_bind (current_user w rq) (\<lambda>user.
     act_then (lift (validate_name name))
     (act_bind (asks (\<lambda>s. map_of (fs_issued (ap_fs s)) name)) (\<lambda>crt.
       if crt = None then raise (HTTPException 404 ''This client has no valid certificate'')
       else act_bind (build_profile w name) (\<lambda>content.
         act_then (event rq ''profile_downloaded'' (Some user) (Some name) None) (ret content)))))"

definition authorize_relay :: "world \<Rightarrow> request \<Rightarrow> policy act" where
  "authorize_relay w rq =
     act_bind (\<lambda>s. (authorize (w_sha w) (w_model w) (w_cert w) (rq_time rq) (ap_fs s) (ap_db s)
                      (text_or_empty (header rq ''authorization'')) False, s)) (\<lambda>p.
       case p of Some policy \<Rightarrow> ret policy | None \<Rightarrow> raise (HTTPException 403 ''Relay access denied''))"

section \<open>Share links\<close>

definition share_profile :: "world \<Rightarrow> string \<Rightarrow> int \<Rightarrow> request \<Rightarrow> string act" where
  "share_profile w name hours rq =
     admin w rq (\<lambda>user.
       act_bind (find_client w rq name) (\<lambda>row.
         if tr_state row \<noteq> ''valid'' then raise (HTTPException 400 ''Only a client with a valid certificate can be shared'')
         else
           act_then (db_try (\<lambda>db.
             if w_sha w (rq_token rq) \<in> fst ` set (share_tokens db) then Inl DatabaseError
             else Inr ((), db\<lparr>share_tokens := share_tokens db @
               [(w_sha w (rq_token rq),
                 \<lparr>st_client_name = name, st_created_at = now_of rq, st_expires_at = now_of rq + hours * 3600,
                  st_used_at = None, st_created_by = Some (su_username user)\<rparr>)]\<rparr>)))
           (act_then (event rq ''profile_link_created'' (Some user) (Some name) (Some (''valid '' @ dec_int hours @ '' h'')))
             (ret (rq_token rq)))))"

definition gone :: exc where
  "gone = HTTPException 404 ''This link is invalid, expired or already used''"

definition open_link :: "string \<Rightarrow> int \<Rightarrow> database \<Rightarrow> string option" where
  "open_link h now db =
     (case map_of (share_tokens db) h of
        None \<Rightarrow> None
      | Some t \<Rightarrow> if st_used_at t = None \<and> now < st_expires_at t then Some (st_client_name t) else None)"

definition shared_client :: "world \<Rightarrow> string \<Rightarrow> request \<Rightarrow> string act" where
  "shared_client w token rq =
     (let key = ''share|'' @ client_ip rq
      in act_then (\<lambda>s. limited [(key, lm_threshold (ap_limiter s))] rq s)
         (act_bind (asks (\<lambda>s. (open_link (w_sha w token) (now_of rq) (ap_db s), fs_issued (ap_fs s)))) (\<lambda>(row, issued).
           case row of
             None \<Rightarrow> raise gone
           | Some name \<Rightarrow>
               if map_of issued name = None then raise gone else act_then (limiter_success key) (ret name))))"

text \<open>The transaction that spends a link; its result is whether this request got it.\<close>

definition spend_link :: "string \<Rightarrow> string \<Rightarrow> string \<Rightarrow> int \<Rightarrow> database \<Rightarrow> bool \<times> database" where
  "spend_link h name ip now db =
     (if (case map_of (share_tokens db) h of Some t \<Rightarrow> st_used_at t = None | None \<Rightarrow> False)
      then (True, add_event now ''profile_link_used'' (Some name) None (Some ip)
              (db\<lparr>share_tokens := map (\<lambda>(k, t). (k, if k = h then t\<lparr>st_used_at := Some now\<rparr> else t)) (share_tokens db)\<rparr>))
      else (False, db))"

definition shared_profile :: "world \<Rightarrow> string \<Rightarrow> request \<Rightarrow> string act" where
  "shared_profile w token rq =
     act_bind (shared_client w token rq) (\<lambda>name.
     act_bind (build_profile w name) (\<lambda>content.
     act_bind (db_run (spend_link (w_sha w token) name (client_ip rq) (now_of rq))) (\<lambda>spent.
       if spent then ret content else raise gone)))"

definition drop_share_links :: "string \<Rightarrow> database \<Rightarrow> database" where
  "drop_share_links name db = db\<lparr>share_tokens := filter (\<lambda>(k, t). st_client_name t \<noteq> name) (share_tokens db)\<rparr>"

section \<open>The life cycle of clients\<close>

record new_client =
  nc_name :: string
  nc_days :: "int option"
  nc_passphrase :: "string option"
  nc_static_ip :: "string option"
  nc_tfa :: bool
  nc_guest :: bool
  nc_note :: string

definition set_client_note :: "string \<Rightarrow> string \<Rightarrow> int option \<Rightarrow> int \<Rightarrow> database \<Rightarrow> database" where
  "set_client_note name note created now db =
     db\<lparr>clients_tab := AList.update name
          (note, case created of Some t \<Rightarrow> t | None \<Rightarrow> (case map_of (clients_tab db) name of Some (n, t) \<Rightarrow> t | None \<Rightarrow> now))
          (clients_tab db)\<rparr>"

definition py_bool :: "bool \<Rightarrow> string" where
  "py_bool b = (if b then ''True'' else ''False'')"

definition created_detail :: "new_client \<Rightarrow> string \<Rightarrow> string" where
  "created_detail body ip =
     ''static_ip='' @ (if ip = [] then ''-'' else ip) @ '' guest='' @ py_bool (nc_guest body) @ '' tfa='' @ py_bool (nc_tfa body)"

text \<open>\<open>_create_client\<close> under the lock, up to the audit event.\<close>

definition existing_state :: "world \<Rightarrow> request \<Rightarrow> string \<Rightarrow> app \<Rightarrow> string option" where
  "existing_state w rq name s =
     map_option (\<lambda>c. cr_state (ci_cert c)) (map_of (list_clients (now_of rq) (w_cert w) [] (ap_fs s)) name)"

definition second_factor :: "world \<Rightarrow> string \<Rightarrow> bool \<Rightarrow> string option act" where
  "second_factor w name wanted =
     (if wanted then act_bind (fs_run (enable_tfa (w_cfg w) (w_execute w) name)) (\<lambda>uri. ret (Some uri))
      else act_bind (asks (\<lambda>s. map_of (tfa_secrets (ap_fs s)) name)) (\<lambda>secret.
        if secret \<noteq> None then act_then (fs_run (disable_tfa (w_cfg w) (w_execute w) name)) (ret None) else ret None))"

definition api_create_client :: "world \<Rightarrow> new_client \<Rightarrow> request \<Rightarrow> (client_table_row \<times> string option) act" where
  "api_create_client w body rq =
     admin w rq (\<lambda>user.
       act_bind (lift (validate_name (strip (nc_name body)))) (\<lambda>name.
       act_bind (asks (existing_state w rq name)) (\<lambda>state.
         let ip = strip (text_or_empty (nc_static_ip body))
         in if state = Some ''valid'' then raise (HTTPException 409 ''A client with this name already exists'')
            else if state = Some ''expired''
            then raise (HTTPException 409 ''This client's certificate has expired - renew it on the client's page'')
            else if nc_guest body \<and> ip \<noteq> []
            then raise (HTTPException 400 ''Guests get an address from the guest range for each device, not a static IP'')
            else
              act_then (fs_run (create_client (w_cfg w) (w_execute w) name (nc_days body) (text_or_empty (nc_passphrase body)) ip))
              (act_then (db_try (archive_client_history (now_of rq) name None))
              (act_then (db_do (drop_share_links name))
              (act_then (fs_try (set_guest name (nc_guest body)))
              (act_then (if ip = [] then fs_try (set_static_ip (w_cfg w) name []) else ret ())
              (act_then (db_do (set_client_note name (strip (nc_note body)) (Some (now_of rq)) (now_of rq)))
              (act_bind (second_factor w name (nc_tfa body)) (\<lambda>uri.
               act_then (event rq ''client_created'' (Some user) (Some name) (Some (created_detail body ip)))
               (act_bind (find_client w rq name) (\<lambda>row. ret (row, uri)))))))))))))"

definition set_tfa :: "world \<Rightarrow> string \<Rightarrow> bool \<Rightarrow> request \<Rightarrow> string option act" where
  "set_tfa w name enabled rq =
     admin w rq (\<lambda>user.
       act_then (find_client w rq name)
       (if enabled
        then act_bind (fs_run (enable_tfa (w_cfg w) (w_execute w) name)) (\<lambda>uri.
               act_then (event rq ''tfa_enabled'' (Some user) (Some name) None) (ret (Some uri)))
        else act_then (fs_run (disable_tfa (w_cfg w) (w_execute w) name))
               (act_then (event rq ''tfa_disabled'' (Some user) (Some name) None) (ret None))))"

definition kill_client :: "world \<Rightarrow> request \<Rightarrow> string \<Rightarrow> string act" where
  "kill_client w rq name = mgmt_run (kill (w_decode w) (w_mgmt_password w) (now_of rq) name)"

text \<open>A management error after a revocation is only logged.\<close>

definition try_kill :: "world \<Rightarrow> request \<Rightarrow> string \<Rightarrow> string act" where
  "try_kill w rq name =
     act_catch (kill_client w rq name) (\<lambda>e. case e of ManagementError m \<Rightarrow> ret [] | _ \<Rightarrow> raise e)"

definition api_revoke :: "world \<Rightarrow> string \<Rightarrow> string option \<Rightarrow> request \<Rightarrow> (client_table_row \<times> string) act" where
  "api_revoke w name reason rq =
     admin w rq (\<lambda>user.
       act_bind (find_client w rq name) (\<lambda>row.
         if tr_state row = ''revoked'' then raise (HTTPException 400 ''Already revoked'')
         else
           act_then (fs_run (revoke_client (w_cfg w) (w_execute w) name (text_or_empty reason)))
           (act_then (db_do (revoke name))
           (act_then (db_do (drop_share_links name))
           (act_bind (try_kill w rq name) (\<lambda>killed.
            act_then (event rq ''client_revoked'' (Some user) (Some name) (if reason = Some [] then None else reason))
            (act_bind (find_client w rq name) (\<lambda>row. ret (row, killed)))))))))"

definition move_account :: "string \<Rightarrow> string \<Rightarrow> string \<Rightarrow> database \<Rightarrow> database" where
  "move_account name old_serial new_serial db =
     db\<lparr>users := map (\<lambda>u. if u_client_name u = Some name \<and> u_client_serial u = Some old_serial
                          then u\<lparr>u_client_serial := Some new_serial\<rparr> else u) (users db)\<rparr>"

definition relay_renewed :: "world \<Rightarrow> request \<Rightarrow> string \<Rightarrow> string \<Rightarrow> unit act" where
  "relay_renewed w rq name serial s =
     (case renewed (w_cert w) (rq_time rq) (ap_fs s) name (Some serial) (ap_db s) of
        Inl e \<Rightarrow> (Inl e, s) | Inr db \<Rightarrow> (Inr (), s\<lparr>ap_db := db\<rparr>))"

definition api_renew :: "world \<Rightarrow> string \<Rightarrow> int option \<Rightarrow> request \<Rightarrow> client_table_row act" where
  "api_renew w name days rq =
     admin w rq (\<lambda>user.
       act_bind (find_client w rq name) (\<lambda>row.
         let serial = cr_serial (ci_cert (tr_client row))
         in if tr_state row = ''revoked''
            then raise (HTTPException 400 ''Cannot renew a revoked certificate; create a new client instead'')
            else
              act_then (fs_run (renew_client (w_cfg w) (w_execute w) name days))
              (act_then (relay_renewed w rq name serial)
              (act_bind (eligible_now w rq name) (\<lambda>cert.
               act_then (case cert of None \<Rightarrow> ret () | Some c \<Rightarrow> db_do (move_account name serial (ct_serial c)))
               (act_then (event rq ''client_renewed'' (Some user) (Some name) None) (find_client w rq name)))))))"

definition api_revoke_previous :: "world \<Rightarrow> string \<Rightarrow> request \<Rightarrow> client_table_row act" where
  "api_revoke_previous w name rq =
     admin w rq (\<lambda>user.
       act_bind (find_client w rq name) (\<lambda>row.
         if ci_previous (tr_client row) = None
         then raise (HTTPException 400 ''No previous certificate pending revocation'')
         else
           act_then (fs_run (revoke_previous (w_cfg w) (w_execute w) name))
           (act_then (event rq ''previous_cert_revoked'' (Some user) (Some name) None) (find_client w rq name))))"

text \<open>\<open>INSERT ... ON CONFLICT DO NOTHING\<close> for every certificate of a deleted client.\<close>

definition hide_certs :: "string list \<Rightarrow> string \<Rightarrow> int \<Rightarrow> database \<Rightarrow> database" where
  "hide_certs serials name now db =
     db\<lparr>hidden_certs := fold (\<lambda>s t. if map_of t s = None then t @ [(s, name, now)] else t) serials (hidden_certs db),
        clients_tab := AList.delete name (clients_tab db)\<rparr>"

definition delete_client :: "world \<Rightarrow> string \<Rightarrow> request \<Rightarrow> unit act" where
  "delete_client w name rq =
     admin w rq (\<lambda>user.
       act_bind (find_client w rq name) (\<lambda>row.
         let c = tr_client row; serials = cr_serial (ci_cert c) # map cr_serial (ci_history c)
         in if tr_state row \<noteq> ''revoked'' then raise (HTTPException 400 ''Revoke the certificate before deleting the client'')
            else
              act_then (fs_run (remove_client (w_cfg w) (w_execute w) name))
              (act_then (db_do (disable_portal w name))
              (act_then (db_do (revoke name))
              (act_then (db_do (drop_share_links name))
              (act_then (db_do (hide_certs serials name (now_of rq)))
                (event rq ''client_deleted'' (Some user) (Some name) None)))))))"

definition disconnect :: "world \<Rightarrow> string \<Rightarrow> int option \<Rightarrow> request \<Rightarrow> string act" where
  "disconnect w name cid rq =
     admin w rq (\<lambda>user.
       act_then (lift (validate_name name))
       (act_bind (case cid of
                    Some c \<Rightarrow> mgmt_run (client_kill (w_decode w) (w_mgmt_password w) (now_of rq) c)
                  | None \<Rightarrow> kill_client w rq name) (\<lambda>r.
        act_then (event rq ''client_disconnected'' (Some user) (Some name) (Some r)) (ret r))))"

definition api_static_ip :: "world \<Rightarrow> string \<Rightarrow> string option \<Rightarrow> request \<Rightarrow> string act" where
  "api_static_ip w name ip rq =
     admin w rq (\<lambda>user.
       let ip = strip (text_or_empty ip)
       in act_then (find_client w rq name)
          (act_then (fs_try (set_static_ip (w_cfg w) name ip))
          (act_then (event rq ''static_ip_set'' (Some user) (Some name) (Some (if ip = [] then ''removed'' else ip))) (ret ip))))"

definition set_access :: "world \<Rightarrow> string \<Rightarrow> bool \<Rightarrow> request \<Rightarrow> unit act" where
  "set_access w name guest rq =
     admin w rq (\<lambda>user.
       act_then (find_client w rq name)
       (act_then (fs_try (set_guest name guest))
         (event rq ''access_changed'' (Some user) (Some name) (Some (if guest then ''guest'' else ''full'')))))"

definition revoke_relay :: "world \<Rightarrow> string \<Rightarrow> request \<Rightarrow> unit act" where
  "revoke_relay w name rq =
     admin w rq (\<lambda>user.
       act_then (find_client w rq name)
       (act_then (db_do (revoke name)) (event rq ''relay_access_revoked'' (Some user) (Some name) None)))"

definition set_note :: "world \<Rightarrow> string \<Rightarrow> string \<Rightarrow> request \<Rightarrow> unit act" where
  "set_note w name note rq =
     admin w rq (\<lambda>user.
       act_then (find_client w rq name) (db_do (set_client_note name (strip note) None (now_of rq))))"

section \<open>Server settings\<close>

definition put_config :: "world \<Rightarrow> string \<Rightarrow> string \<Rightarrow> request \<Rightarrow> unit act" where
  "put_config w which content rq =
     admin w rq (\<lambda>user.
       act_then (\<lambda>s. (check_edit which content (ap_fs s), s))
       (act_then (fs_run (write_config which content))
       (act_then (event rq ''config_saved'' (Some user) None (Some which))
         (if which = ''client''
          then fs_run (\<lambda>fs. (Inr (), snd (regenerate_profiles (w_cfg w) (w_execute w) fs)))
          else if which = ''server''
          then act_bind (fs_run (sync_remotes (w_cfg w) (w_execute w))) (\<lambda>changed.
            if changed
            then act_bind (asks (\<lambda>s. map ep_proto (server_listen (ap_fs s)))) (\<lambda>protos.
              event rq ''remote_changed'' (Some user) None (Some (''protocols now '' @ join '', '' protos)))
            else ret ())
          else ret ()))))"

definition restart :: "world \<Rightarrow> request \<Rightarrow> string act" where
  "restart w rq =
     admin w rq (\<lambda>user.
       act_bind (mgmt_run (signal (w_decode w) (w_mgmt_password w) (now_of rq) ''SIGTERM'')) (\<lambda>r.
       act_then (event rq ''server_restart'' (Some user) None (Some r)) (ret r)))"

definition regenerate_crl :: "world \<Rightarrow> request \<Rightarrow> unit act" where
  "regenerate_crl w rq =
     admin w rq (\<lambda>user.
       act_then (fs_run (gen_crl (w_cfg w) (w_execute w))) (event rq ''crl_regenerated'' (Some user) None None))"

definition enforce_tfa :: "world \<Rightarrow> bool \<Rightarrow> request \<Rightarrow> unit act" where
  "enforce_tfa w enforced rq =
     admin w rq (\<lambda>user.
       act_then (fs_run (set_tfa_enforced enforced))
       (act_then (fs_run (\<lambda>fs. (Inr (), snd (regenerate_profiles (w_cfg w) (w_execute w) fs))))
         (event rq (if enforced then ''tfa_enforced'' else ''tfa_unenforced'') (Some user) None None)))"

definition api_control_channel :: "world \<Rightarrow> bool \<Rightarrow> request \<Rightarrow> string act" where
  "api_control_channel w per_client rq =
     admin w rq (\<lambda>user.
       act_then (fs_run (set_control_channel (w_cfg w) (w_execute w) per_client))
       (act_bind (asks (\<lambda>s. control_channel (ap_fs s))) (\<lambda>mode.
        act_then (event rq ''control_channel_changed'' (Some user) None (Some mode)) (ret mode))))"

record remote_body =
  rb_host :: string
  rb_ports :: "(string \<times> int) list"

definition port_texts :: "(string \<times> int) list \<Rightarrow> (string \<times> string) list" where
  "port_texts ports = map (\<lambda>(proto, port). (proto, dec_int port)) ports"

definition put_settings :: "world \<Rightarrow> remote_body \<Rightarrow> request \<Rightarrow> unit act" where
  "put_settings w body rq =
     admin w rq (\<lambda>user.
       act_then (fs_run (set_remote (w_cfg w) (w_execute w) (rb_host body) (port_texts (rb_ports body))))
       (act_bind (asks (\<lambda>s. get_remote (ap_fs s))) (\<lambda>(host, remotes).
         event rq ''remote_changed'' (Some user) None
           (Some (host @ '' '' @ join '', '' (map (\<lambda>r. ep_port r @ ''/'' @ ep_proto r) remotes))))))"

section \<open>Network settings\<close>

record network_update =
  nu_settings :: network_data
  nu_relay :: "relay_settings option"
  nu_remote :: "remote_body option"

text \<open>The checks that come before any change, and the settings they leave.\<close>

definition check_update :: "network_update \<Rightarrow> files \<Rightarrow> network_data result" where
  "check_update body fs =
     res_bind (case nu_relay body of None \<Rightarrow> Inr None | Some r \<Rightarrow> res_bind (validate_settings r) (\<lambda>c. Inr (Some c))) (\<lambda>relay.
     res_bind (case nu_remote body of
                 None \<Rightarrow> Inr [] | Some r \<Rightarrow> validate_remote (rb_host r) (port_texts (rb_ports r)) fs) (\<lambda>_.
       let d = nu_settings body
       in Inr (case relay of
                 None \<Rightarrow> d
               | Some c \<Rightarrow> d\<lparr>nd_gateway := (nd_gateway d)\<lparr>gw_relay_public_url := rl_url c\<rparr>\<rparr>)))"

definition remote_differs :: "remote_body \<Rightarrow> files \<Rightarrow> bool result" where
  "remote_differs r fs =
     (case get_remote fs of
        (host, remotes) \<Rightarrow>
          res_bind (map_res (\<lambda>e. res_bind (py_int (ep_port e)) (\<lambda>p. Inr (ep_proto e, p))) remotes) (\<lambda>ports.
            Inr (host \<noteq> strip (rb_host r) \<or> list_ex (\<lambda>(proto, port). map_of (rev ports) proto \<noteq> Some port) (rb_ports r))))"

definition put_network_settings :: "world \<Rightarrow> network_update \<Rightarrow> request \<Rightarrow> network_data act" where
  "put_network_settings w body rq =
     admin w rq (\<lambda>user.
       act_bind (\<lambda>s. (check_update body (ap_fs s), s)) (\<lambda>d.
       act_bind (fs_run (Network.save_settings d)) (\<lambda>saved.
       act_then (case nu_relay body of None \<Rightarrow> ret () | Some r \<Rightarrow> act_then (db_try (relay_save_settings r)) (ret ()))
       (act_then (case nu_remote body of
                    None \<Rightarrow> ret ()
                  | Some r \<Rightarrow>
                      act_bind (\<lambda>s. (remote_differs r (ap_fs s), s)) (\<lambda>differs.
                        if differs then fs_run (set_remote (w_cfg w) (w_execute w) (rb_host r) (port_texts (rb_ports r)))
                        else ret ()))
       (act_then (event rq ''network_settings_changed'' (Some user) None None) (ret saved))))))"

definition put_relay_settings :: "world \<Rightarrow> relay_settings \<Rightarrow> request \<Rightarrow> relay_settings act" where
  "put_relay_settings w body rq =
     admin w rq (\<lambda>user.
       act_bind (db_try (relay_save_settings body)) (\<lambda>c.
       act_then (event rq ''relay_settings_changed'' (Some user) None None) (ret c)))"

definition save_relay_signing :: "world \<Rightarrow> signing_body \<Rightarrow> request \<Rightarrow> unit act" where
  "save_relay_signing w body rq =
     admin w rq (\<lambda>user.
       act_then (db_try (\<lambda>db. res_bind (save_signing (w_env w) body db) (\<lambda>db'. Inr ((), db'))))
         (event rq ''relay_signing_changed'' (Some user) None None))"

section \<open>Starting\<close>

text \<open>
  \<open>migrate\<close>: \<open>pubkey_of\<close> is the public key of a certificate file, as for \<open>identity_start\<close>. The events of
  single connections are deleted.
\<close>

definition archive_earlier :: "world \<Rightarrow> (string option \<Rightarrow> string) \<Rightarrow> request \<Rightarrow> string \<Rightarrow> unit act" where
  "archive_earlier w pubkey_of rq name =
     act_bind (asks (\<lambda>s. identity_start (w_cert w) pubkey_of name (ap_fs s))) (\<lambda>start.
       if start = None \<or> start = Some 0 then ret ()
       else act_then (db_try (archive_client_history (now_of rq) name start)) (ret ()))"

fun each :: "('a \<Rightarrow> unit act) \<Rightarrow> 'a list \<Rightarrow> unit act" where
  "each f [] = ret ()"
| "each f (x # xs) = act_then (f x) (each f xs)"

definition migrate_identities :: "world \<Rightarrow> (string option \<Rightarrow> string) \<Rightarrow> request \<Rightarrow> unit act" where
  "migrate_identities w pubkey_of rq =
     act_bind (asks (\<lambda>s. (get_setting (ap_db s) ''migration:identities'',
                         map fst (list_clients (now_of rq) (w_cert w) [] (ap_fs s))))) (\<lambda>(mark, names).
       if mark = Some (Text ''1'') then ret ()
       else act_then (each (archive_earlier w pubkey_of rq) names)
              (db_do (set_setting ''migration:identities'' (Text ''1''))))"

definition migrate :: "world \<Rightarrow> (string option \<Rightarrow> string) \<Rightarrow> request \<Rightarrow> unit act" where
  "migrate w pubkey_of rq =
     act_then (db_do (purge_client ''UNDEF''))
     (act_then (fs_run (migrate_guest_static_ips (w_cfg w)))
     (act_then (migrate_identities w pubkey_of rq)
     (act_then (db_run group_sessions)
       (db_do (\<lambda>db. db\<lparr>events := filter (\<lambda>e. ev_kind e \<notin> {''vpn_connect'', ''vpn_disconnect''}) (events db)\<rparr>)))))"

text \<open>\<open>bootstrap\<close> after the directories are made. An empty \<open>admin_password\<close> means a generated one.\<close>

definition first_admin :: "world \<Rightarrow> string \<Rightarrow> string \<Rightarrow> request \<Rightarrow> unit act" where
  "first_admin w username password rq s =
     (if users (ap_db s) \<noteq> [] then (Inr (), s)
      else
        act_bind (lift (hash_password (w_scrypt w) (rq_salt rq) (if password = [] then rq_token rq else password))) (\<lambda>h.
        db_do (\<lambda>db. db\<lparr>users := users db @
            [\<lparr>u_id = next_user_id db, u_username = username, u_password_hash = h, u_created_at = now_of rq,
              u_last_login = None, u_client_name = None, u_client_serial = None\<rparr>],
          next_user_id := next_user_id db + 1\<rparr>)) s)"

definition point_profiles :: "world \<Rightarrow> string \<Rightarrow> unit act" where
  "point_profiles w public_host s =
     (let host = fst (get_remote (ap_fs s)); placeholder = (host \<in> {[], ''127.0.0.1'', ''localhost''})
      in if public_host \<noteq> [] \<and> (placeholder \<or> get_setting (ap_db s) ''remote_from_env'' \<noteq> Some (Text public_host))
         then act_then (fs_run (set_remote (w_cfg w) (w_execute w) public_host []))
                (db_do (set_setting ''remote_from_env'' (Text public_host))) s
         else act_then (fs_run (sync_remotes (w_cfg w) (w_execute w))) (ret ()) s)"

definition bootstrap ::
  "world \<Rightarrow> (string option \<Rightarrow> string) \<Rightarrow> bool \<Rightarrow> string \<Rightarrow> string \<Rightarrow> string \<Rightarrow> request \<Rightarrow> unit act" where
  "bootstrap w pubkey_of legacy_db admin_username admin_password public_host rq s =
     (if legacy_db \<and> get_setting (ap_db s) ''migration:legacy_sqlite'' = None \<and>
         get_setting (ap_db s) ''migration:postgres_dump'' = None
      then (Inl RuntimeError, s)
      else
        act_then (migrate w pubkey_of rq)
        (act_then (first_admin w admin_username admin_password rq)
          (act_catch (point_profiles w public_host) (\<lambda>e. if is_pki_error e then ret () else raise e))) s)"

text \<open>What a request that raised is answered with.\<close>

definition error_status :: "exc \<Rightarrow> nat" where
  "error_status e =
     (case e of
        HTTPException status detail \<Rightarrow> status
      | SigningUnavailable m \<Rightarrow> 503
      | PkiError m \<Rightarrow> 400
      | ManagementError m \<Rightarrow> 503
      | _ \<Rightarrow> 500)"

end
