(* ===== verification/Doors.thy ===== *)
theory Doors
  imports Api Access "HOL-Library.Code_Target_Nat"
begin

text \<open>
  Theorems on access to the web API: who reaches an administrator's or a client's handler, what signing
  in does, and that a share link opens once.
\<close>

section \<open>Handlers behind their checks\<close>

lemma act_bind_Inr:
  "act_bind m f s = (Inr y, s') \<longleftrightarrow> (\<exists>x s1. m s = (Inr x, s1) \<and> f x s1 = (Inr y, s'))"
  by (auto simp: act_bind_def split: prod.splits sum.splits)

lemma act_then_Inr:
  "act_then m n s = (Inr y, s') \<longleftrightarrow> (\<exists>x s1. m s = (Inr x, s1) \<and> n s1 = (Inr y, s'))"
  by (simp add: act_then_def act_bind_Inr)

lemma lift_Inr [simp]: "lift r s = (Inr x, s') \<longleftrightarrow> r = Inr x \<and> s' = s"
  by (auto simp: lift_def)

lemma ret_Inr [simp]: "ret x s = (Inr y, s') \<longleftrightarrow> y = x \<and> s' = s"
  by (auto simp: ret_def)

lemma raise_Inr [simp]: "raise e s \<noteq> (Inr y, s')"
  by (simp add: raise_def)

lemma asks_Inr [simp]: "asks f s = (Inr x, s') \<longleftrightarrow> x = f s \<and> s' = s"
  by (auto simp: asks_def)

lemma db_do_Inr [simp]: "db_do f s = (Inr x, s') \<longleftrightarrow> s' = s\<lparr>ap_db := f (ap_db s)\<rparr>"
  by (auto simp: db_do_def)

lemma db_run_Inr [simp]:
  "db_run f s = (Inr x, s') \<longleftrightarrow> x = fst (f (ap_db s)) \<and> s' = s\<lparr>ap_db := snd (f (ap_db s))\<rparr>"
  by (cases "f (ap_db s)") (auto simp: db_run_def)

lemma db_try_Inr [simp]:
  "db_try f s = (Inr x, s') \<longleftrightarrow> (\<exists>db. f (ap_db s) = Inr (x, db) \<and> s' = s\<lparr>ap_db := db\<rparr>)"
  by (cases "f (ap_db s)") (auto simp: db_try_def)

lemma event_Inr [simp]:
  "event rq kind user client detail s = (Inr x, s') \<longleftrightarrow>
     s' = s\<lparr>ap_db := add_event (now_of rq) kind client (map_option su_username user) detail (ap_db s)\<rparr>"
  by (simp add: event_def)

lemmas act_Inr = act_bind_Inr act_then_Inr

lemma eligible_now_Inr [simp]:
  "eligible_now w rq name s = (Inr c, s') \<longleftrightarrow> eligible (w_cert w) (rq_time rq) (ap_fs s) name = Inr c \<and> s' = s"
  by (auto simp: eligible_now_def)

text \<open>The live session a request carries, if any.\<close>

definition live_session :: "world \<Rightarrow> request \<Rightarrow> app \<Rightarrow> user \<Rightarrow> bool" where
  "live_session w rq s row \<longleftrightarrow>
     (\<exists>token ws. cookie rq = Some token \<and> token \<noteq> [] \<and> session_row (w_sha w token) (ap_db s) = Some (ws, row) \<and>
        now_of rq \<le> ws_expires_at ws)"

lemma get_session_user_Some:
  assumes "get_session_user H now token ttl ext db = (Some u, db')"
  shows "\<exists>t ws row. token = Some t \<and> t \<noteq> [] \<and> session_row (H t) db = Some (ws, row) \<and> now \<le> ws_expires_at ws \<and>
    u = session_user_of row \<and> (db' = db \<or> db' = set_expiry (H t) (now + ttl) db)"
  using assms by (auto simp: get_session_user_def split: if_splits option.splits)

lemma get_session_user_db:
  "\<exists>ws. snd (get_session_user H now token ttl ext db) = db\<lparr>web_sessions := ws\<rparr>"
  by (auto simp: get_session_user_def set_expiry_def split: option.splits)
     (metis database.surjective database.update_convs(3))+

text \<open>
  Signing in through the cookie changes nothing but the table of sessions, and succeeds only for a live
  session: an administrator's outside the guest listener, or a client's whose certificate is still the
  one the account was made for.
\<close>

lemma signed_in_frame:
  "\<exists>ws. snd (signed_in_user w rq s) = s\<lparr>ap_db := (ap_db s)\<lparr>web_sessions := ws\<rparr>\<rparr>"
proof -
  obtain u db where g: "get_session_user (w_sha w) (now_of rq) (cookie rq) (w_session_ttl w) True (ap_db s) = (u, db)"
    by (metis prod.exhaust)
  then obtain ws where db: "db = (ap_db s)\<lparr>web_sessions := ws\<rparr>" using get_session_user_db by (metis snd_conv)
  have "\<exists>ws'. snd (signed_in_user w rq s) = s\<lparr>ap_db := db\<lparr>web_sessions := ws'\<rparr>\<rparr>"
    by (auto simp: signed_in_user_def act_defs g eligible_now_def delete_session_def
        split: option.splits sum.splits) (metis database.surjective database.update_convs(3))+
  then show ?thesis unfolding db by auto
qed

lemma session_user_role: "su_role (session_user_of row) = ''admin'' \<longleftrightarrow> u_client_name row = None"
  "su_role (session_user_of row) = ''client'' \<longleftrightarrow> u_client_name row \<noteq> None"
  by (simp_all add: session_user_of_def)

lemma signed_in_Inr:
  assumes "signed_in_user w rq s = (Inr u, s')"
  shows "\<exists>row. live_session w rq s row \<and> u = session_user_of row \<and>
    (case u_client_name row of
       None \<Rightarrow> \<not> portal_only rq
     | Some name \<Rightarrow> \<exists>c. eligible (w_cert w) (rq_time rq) (ap_fs s) name = Inr (Some c) \<and> Some (ct_serial c) = u_client_serial row)"
proof -
  obtain v db where g: "get_session_user (w_sha w) (now_of rq) (cookie rq) (w_session_ttl w) True (ap_db s) = (v, db)"
    by (metis prod.exhaust)
  have v: "v = Some u" using assms
    by (auto simp: signed_in_user_def act_Inr g split: option.splits if_splits)
  from get_session_user_Some [OF g [unfolded v]] obtain t ws row where
    r: "cookie rq = Some t" "t \<noteq> []" "session_row (w_sha w t) (ap_db s) = Some (ws, row)" "now_of rq \<le> ws_expires_at ws"
      "u = session_user_of row" by blast
  then have live: "live_session w rq s row" by (auto simp: live_session_def)
  have "case u_client_name row of
       None \<Rightarrow> \<not> portal_only rq
     | Some name \<Rightarrow> \<exists>c. eligible (w_cert w) (rq_time rq) (ap_fs s) name = Inr (Some c) \<and> Some (ct_serial c) = u_client_serial row"
  proof (cases "u_client_name row")
    case None
    then show ?thesis using assms v r(5)
      by (auto simp: signed_in_user_def act_Inr g session_user_role split: if_splits)
  next
    case (Some name)
    then show ?thesis using assms v r(5)
      by (auto simp: signed_in_user_def act_Inr g session_user_role split: if_splits)
        (auto simp: session_user_of_def text_or_empty_def)
  qed
  with live r(5) show ?thesis by blast
qed

lemma current_user_Inr:
  assumes "current_user w rq s = (Inr u, s')"
  shows "\<exists>row. live_session w rq s row \<and> u = session_user_of row \<and> u_client_name row = None \<and> \<not> portal_only rq"
proof -
  have "signed_in_user w rq s = (Inr u, s')" "su_role u = ''admin''"
    using assms by (auto simp: current_user_def act_Inr split: if_splits)
  with signed_in_Inr [OF this(1)] show ?thesis by (auto simp: session_user_role split: option.splits)
qed

lemma current_user_frame: "\<exists>ws. snd (current_user w rq s) = s\<lparr>ap_db := (ap_db s)\<lparr>web_sessions := ws\<rparr>\<rparr>"
proof -
  have "snd (current_user w rq s) = snd (signed_in_user w rq s)"
    by (auto simp: current_user_def act_bind_def raise_def ret_def split: prod.splits sum.splits)
  then show ?thesis using signed_in_frame by simp
qed

lemma csrf_ok:
  "csrf_check rq = Inr () \<longleftrightarrow> header rq ''x-requested-with'' = Some ''fetch'' \<and> cross_origin rq = Inr False"
  by (auto simp: csrf_check_def)

text \<open>
  The contract of a dependency that guards handlers: it turns a request away, whatever the handler, or runs
  the handler for someone entitled to it; either way nothing else changed than the table of web sessions.
\<close>

locale door =
  fixes gate :: "('u \<Rightarrow> 'a act) \<Rightarrow> 'a act"
    and entitled :: "app \<Rightarrow> 'u \<Rightarrow> bool"
  assumes opens: "\<exists>s'. (\<exists>ws. s' = s\<lparr>ap_db := (ap_db s)\<lparr>web_sessions := ws\<rparr>\<rparr>) \<and>
     ((\<exists>e. \<forall>body. gate body s = (Inl e, s')) \<or> (\<exists>u. entitled s u \<and> (\<forall>body. gate body s = body u s')))"
begin

lemma answered:
  assumes "gate body s = (Inr x, s'')"
  shows "\<exists>u s'. entitled s u \<and> (\<exists>ws. s' = s\<lparr>ap_db := (ap_db s)\<lparr>web_sessions := ws\<rparr>\<rparr>) \<and> body u s' = (Inr x, s'')"
proof -
  obtain s' where s': "\<exists>ws. s' = s\<lparr>ap_db := (ap_db s)\<lparr>web_sessions := ws\<rparr>\<rparr>"
      "(\<exists>e. \<forall>body. gate body s = (Inl e, s')) \<or> (\<exists>u. entitled s u \<and> (\<forall>body. gate body s = body u s'))"
    using opens by blast
  from s'(2) obtain u where "entitled s u" "\<forall>body. gate body s = body u s'"
  proof
    assume "\<exists>e. \<forall>body. gate body s = (Inl e, s')"
    then show thesis using assms by (metis Inl_Inr_False prod.inject)
  qed blast
  then show ?thesis using s'(1) assms by metis
qed

lemma reads:
  assumes "\<And>u s. snd (body u s) = s"
  shows "\<exists>ws. snd (gate body s) = s\<lparr>ap_db := (ap_db s)\<lparr>web_sessions := ws\<rparr>\<rparr>"
proof -
  obtain s' where "\<exists>ws. s' = s\<lparr>ap_db := (ap_db s)\<lparr>web_sessions := ws\<rparr>\<rparr>"
      "(\<exists>e. \<forall>body. gate body s = (Inl e, s')) \<or> (\<exists>u. entitled s u \<and> (\<forall>body. gate body s = body u s'))"
    using opens by blast
  then show ?thesis using assms by (metis snd_conv)
qed

end

text \<open>An administrator's request: the fetch header, the same origin, and a live session of an account without a client.\<close>

definition administrator :: "world \<Rightarrow> request \<Rightarrow> app \<Rightarrow> session_user \<Rightarrow> bool" where
  "administrator w rq s u \<longleftrightarrow>
     (\<exists>row. live_session w rq s row \<and> u = session_user_of row \<and> u_client_name row = None \<and> \<not> portal_only rq)"

lemma current_user_opens:
  "\<exists>s'. (\<exists>ws. s' = s\<lparr>ap_db := (ap_db s)\<lparr>web_sessions := ws\<rparr>\<rparr>) \<and>
     ((\<exists>e. current_user w rq s = (Inl e, s')) \<or> (\<exists>u. administrator w rq s u \<and> current_user w rq s = (Inr u, s')))"
proof -
  obtain r s' where c: "current_user w rq s = (r, s')" by (metis prod.exhaust)
  have f: "\<exists>ws. s' = s\<lparr>ap_db := (ap_db s)\<lparr>web_sessions := ws\<rparr>\<rparr>" using current_user_frame c by (metis snd_conv)
  show ?thesis
  proof (cases r)
    case (Inr u)
    then show ?thesis using c f current_user_Inr [OF c [unfolded Inr]] by (auto simp: administrator_def)
  qed (use c f in auto)
qed

lemma gated_opens:
  assumes g: "\<And>body. gate body s = (case current_user w rq s of (Inl e, s') \<Rightarrow> (Inl e, s') | (Inr u, s') \<Rightarrow> body u s')"
  shows "\<exists>s'. (\<exists>ws. s' = s\<lparr>ap_db := (ap_db s)\<lparr>web_sessions := ws\<rparr>\<rparr>) \<and>
     ((\<exists>e. \<forall>body. gate body s = (Inl e, s')) \<or> (\<exists>u. administrator w rq s u \<and> (\<forall>body. gate body s = body u s')))"
proof -
  obtain s' where s': "\<exists>ws. s' = s\<lparr>ap_db := (ap_db s)\<lparr>web_sessions := ws\<rparr>\<rparr>"
      "(\<exists>e. current_user w rq s = (Inl e, s')) \<or> (\<exists>u. administrator w rq s u \<and> current_user w rq s = (Inr u, s'))"
    using current_user_opens [of s w rq] by blast
  from s'(2) have "(\<exists>e. \<forall>body. gate body s = (Inl e, s')) \<or> (\<exists>u. administrator w rq s u \<and> (\<forall>body. gate body s = body u s'))"
    by (auto simp: g)
  with s'(1) show ?thesis by blast
qed

lemma admin_opens:
  "\<exists>s'. (\<exists>ws. s' = s\<lparr>ap_db := (ap_db s)\<lparr>web_sessions := ws\<rparr>\<rparr>) \<and>
     ((\<exists>e. \<forall>body :: session_user \<Rightarrow> 'a act. admin w rq body s = (Inl e, s')) \<or>
      (\<exists>u. (administrator w rq s u \<and> header rq ''x-requested-with'' = Some ''fetch'' \<and> cross_origin rq = Inr False) \<and>
         (\<forall>body :: session_user \<Rightarrow> 'a act. admin w rq body s = body u s')))"
proof (cases "csrf_check rq")
  case (Inl e)
  have "s = s\<lparr>ap_db := (ap_db s)\<lparr>web_sessions := web_sessions (ap_db s)\<rparr>\<rparr>" by simp
  moreover have "\<forall>body. admin w rq body s = (Inl e, s)" by (simp add: admin_def act_defs Inl)
  ultimately show ?thesis by blast
next
  case (Inr x)
  then have ok: "header rq ''x-requested-with'' = Some ''fetch''" "cross_origin rq = Inr False"
    using csrf_ok [of rq] by (cases x, simp_all)
  show ?thesis unfolding ok simp_thms
    by (rule gated_opens) (simp add: admin_def act_defs Inr split: sum.splits)
qed

interpretation admin_door: door "admin w rq"
  "\<lambda>s u. administrator w rq s u \<and> header rq ''x-requested-with'' = Some ''fetch'' \<and> cross_origin rq = Inr False"
  for w rq
  by unfold_locales (rule admin_opens)

text \<open>
  C3. Every handler behind \<open>admin\<close> is closed to everyone but an administrator: either the request is
  turned away before the handler runs, with nothing changed but the table of web sessions, or it carries
  the cookie of a live session of an account that belongs to no client, did not come through the guest
  listener, carries the fetch header and is of the same origin.
\<close>

theorem admin_only:
  "\<exists>s'. (\<exists>ws. s' = s\<lparr>ap_db := (ap_db s)\<lparr>web_sessions := ws\<rparr>\<rparr>) \<and>
     ((\<exists>e. \<forall>body :: session_user \<Rightarrow> 'a act. admin w rq body s = (Inl e, s')) \<or>
      (\<exists>row. live_session w rq s row \<and> u_client_name row = None \<and> \<not> portal_only rq \<and>
         header rq ''x-requested-with'' = Some ''fetch'' \<and> cross_origin rq = Inr False \<and>
         (\<forall>body :: session_user \<Rightarrow> 'a act. admin w rq body s = body (session_user_of row) s')))"
  using admin_door.opens [of s w rq] unfolding administrator_def by blast

section \<open>Client accounts\<close>

lemma live_token:
  assumes "live_session w rq s row"
  shows "\<exists>db. get_session_user (w_sha w) (now_of rq) (cookie rq) ttl ext (ap_db s) = (Some (session_user_of row), db)"
  using assms by (auto simp: live_session_def get_session_user_def)

text \<open>
  C11. A client's web login lives no longer than its certificate: once the certificate the account was made
  for is no longer the client's valid one, the next request is refused and the session is gone for good, for
  every later request with that cookie. A client that is let in has that certificate.
\<close>

theorem client_login_follows_certificate:
  assumes "live_session w rq s row" "u_client_name row = Some name"
    "eligible (w_cert w) (rq_time rq) (ap_fs s) name = Inr c"
  shows "if (\<exists>crt. c = Some crt \<and> Some (ct_serial crt) = u_client_serial row)
    then fst (signed_in_user w rq s) = Inr (session_user_of row)
    else fst (signed_in_user w rq s) = Inl (HTTPException 401 ''Client access is no longer valid'') \<and>
      (\<forall>rq' row'. cookie rq' = cookie rq \<longrightarrow> \<not> live_session w rq' (snd (signed_in_user w rq s)) row')"
proof -
  obtain db where g: "get_session_user (w_sha w) (now_of rq) (cookie rq) (w_session_ttl w) True (ap_db s) =
      (Some (session_user_of row), db)" using live_token [OF assms(1)] by blast
  have u: "su_role (session_user_of row) = ''client''" "su_client_serial (session_user_of row) = u_client_serial row"
    "text_or_empty (su_client_name (session_user_of row)) = name"
    using assms(2) by (simp_all add: session_user_of_def text_or_empty_def)
  obtain t where t: "cookie rq = Some t" "t \<noteq> []" using assms(1) by (auto simp: live_session_def)
  have *: "signed_in_user w rq s =
      (if c = None \<or> Some (ct_serial (the c)) \<noteq> u_client_serial row
       then (Inl (HTTPException 401 ''Client access is no longer valid''),
             s\<lparr>ap_db := delete_session (w_sha w) (cookie rq) db\<rparr>)
       else (Inr (session_user_of row), s\<lparr>ap_db := db\<rparr>))"
    by (simp add: signed_in_user_def act_defs g u eligible_now_def assms(3))
  have gone: "\<not> live_session w rq' (s\<lparr>ap_db := delete_session (w_sha w) (cookie rq) db\<rparr>) row'"
    if "cookie rq' = cookie rq" for rq' row'
    using that t by (auto simp: live_session_def delete_session_def session_row_def delete_conv')
  show ?thesis using gone unfolding * by auto
qed

section \<open>Share links\<close>

text \<open>
  The transactions on the table of share links, in whatever order requests interleave: the creation of a
  link, the deletion of a client's links, the daily clean-up, and the spending of a link by a download.
\<close>

datatype link_tx =
    New_link string share_token
  | Drop string
  | Clean "int option" int
  | Spend string string string int

fun link_step :: "link_tx \<Rightarrow> database \<Rightarrow> database" where
  "link_step (New_link h t) db = (if h \<in> fst ` set (share_tokens db) then db else db\<lparr>share_tokens := share_tokens db @ [(h, t)]\<rparr>)"
| "link_step (Drop name) db = drop_share_links name db"
| "link_step (Clean now clock) db = rollup now clock db"
| "link_step (Spend h name ip now) db = snd (spend_link h name ip now db)"

text \<open>How many downloads got the profile of the link \<open>h\<close>.\<close>

fun opened :: "string \<Rightarrow> link_tx list \<Rightarrow> database \<Rightarrow> nat" where
  "opened h [] db = 0"
| "opened h (tx # txs) db =
     (case tx of Spend k name ip now \<Rightarrow> (if k = h \<and> fst (spend_link k name ip now db) then 1 else 0) | _ \<Rightarrow> 0) +
     opened h txs (link_step tx db)"

fun creates_link :: "string \<Rightarrow> link_tx \<Rightarrow> bool" where
  "creates_link h (New_link k t) \<longleftrightarrow> k = h"
| "creates_link h _ \<longleftrightarrow> False"

text \<open>A link that is not there or has been used.\<close>

definition spent_link :: "string \<Rightarrow> database \<Rightarrow> bool" where
  "spent_link h db \<longleftrightarrow> (\<forall>t. (h, t) \<in> set (share_tokens db) \<longrightarrow> st_used_at t \<noteq> None)"

lemma share_tokens_rollup: "set (share_tokens (rollup now clock db)) \<subseteq> set (share_tokens db)"
  by (auto simp: rollup_def rollup_traffic_def Let_def)

lemma spent_step: "spent_link h db \<Longrightarrow> \<not> creates_link h tx \<Longrightarrow> spent_link h (link_step tx db)"
  using share_tokens_rollup
  by (cases tx) (auto simp: spent_link_def drop_share_links_def spend_link_def add_event_def split: option.splits, blast)

lemma spend_spent: "fst (spend_link h name ip now db) \<Longrightarrow> spent_link h (snd (spend_link h name ip now db))"
  by (auto simp: spend_link_def spent_link_def add_event_def split: option.splits if_splits)

lemma spent_not_opened: "spent_link h db \<Longrightarrow> \<forall>tx \<in> set txs. \<not> creates_link h tx \<Longrightarrow> opened h txs db = 0"
proof (induction txs arbitrary: db)
  case (Cons tx txs)
  have "\<not> fst (spend_link h name ip now db)" for name ip now
    using Cons.prems(1) by (auto simp: spend_link_def spent_link_def dest!: map_of_SomeD split: option.splits)
  then show ?case using Cons spent_step by (auto split: link_tx.splits)
qed simp

lemma opened_once: "\<forall>tx \<in> set txs. \<not> creates_link h tx \<Longrightarrow> opened h txs db \<le> 1"
proof (induction txs arbitrary: db)
  case (Cons tx txs)
  show ?case
  proof (cases "\<exists>name ip now. tx = Spend h name ip now \<and> fst (spend_link h name ip now db)")
    case True
    then obtain name ip now where tx: "tx = Spend h name ip now" "fst (spend_link h name ip now db)" by blast
    then have "opened h txs (link_step tx db) = 0" using Cons.prems spend_spent spent_not_opened by simp
    with tx show ?thesis by simp
  next
    case False
    then have "opened h (tx # txs) db = opened h txs (link_step tx db)" by (auto split: link_tx.splits)
    with Cons show ?thesis by simp
  qed
qed simp

lemma limited_db: "limited limits rq s = (Inr u, s') \<Longrightarrow> ap_db s' = ap_db s \<and> ap_fs s' = ap_fs s"
  by (auto simp: limited_def split: sum.splits if_splits)

lemma build_profile_db: "build_profile w name s = (Inr content, s') \<Longrightarrow> ap_db s' = ap_db s"
  by (auto simp: build_profile_def act_Inr fs_run_def split: prod.splits)

lemma shared_client_Inr:
  assumes "shared_client w token rq s = (Inr name, s')"
  shows "open_link (w_sha w token) (now_of rq) (ap_db s) = Some name \<and> map_of (fs_issued (ap_fs s)) name \<noteq> None \<and>
    ap_db s' = ap_db s"
  using assms
  by (auto simp: shared_client_def Let_def act_Inr limiter_success_def dest!: limited_db split: option.splits if_splits)

text \<open>
  C12. A share link hands out its profile once. However requests, clean-ups and deletions interleave, at most
  one download of a link spends it, as long as no new link gets the same token. A download that
  succeeds found the link unused and unexpired, for a client with a certificate, and spent it
  together with its audit event; nothing afterwards opens that link again.
\<close>

theorem share_link_once:
  assumes "\<forall>tx \<in> set txs. \<not> creates_link (w_sha w token) tx"
  shows "opened (w_sha w token) txs db \<le> 1 \<and>
    (\<forall>content s'. shared_profile w token rq s = (Inr content, s') \<longrightarrow>
      (\<exists>name. open_link (w_sha w token) (now_of rq) (ap_db s) = Some name \<and> map_of (fs_issued (ap_fs s)) name \<noteq> None \<and>
        fst (spend_link (w_sha w token) name (client_ip rq) (now_of rq) (ap_db s)) \<and>
        ap_db s' = link_step (Spend (w_sha w token) name (client_ip rq) (now_of rq)) (ap_db s) \<and>
        opened (w_sha w token) txs (ap_db s') = 0))"
proof (intro conjI allI impI)
  show "opened (w_sha w token) txs db \<le> 1" using opened_once assms by blast
next
  fix content s'
  assume "shared_profile w token rq s = (Inr content, s')"
  then obtain name s1 s2 where
    c: "shared_client w token rq s = (Inr name, s1)" "build_profile w name s1 = (Inr content, s2)"
    and sp: "fst (spend_link (w_sha w token) name (client_ip rq) (now_of rq) (ap_db s2))"
      "ap_db s' = snd (spend_link (w_sha w token) name (client_ip rq) (now_of rq) (ap_db s2))"
    by (auto simp: shared_profile_def act_Inr split: if_splits)
  note n = shared_client_Inr [OF c(1)]
  have db: "ap_db s2 = ap_db s" using build_profile_db [OF c(2)] n by simp
  have "opened (w_sha w token) txs (ap_db s') = 0"
    unfolding sp(2) by (rule spent_not_opened [OF spend_spent [OF sp(1)] assms])
  with n sp db show "\<exists>name. open_link (w_sha w token) (now_of rq) (ap_db s) = Some name \<and> map_of (fs_issued (ap_fs s)) name \<noteq> None \<and>
        fst (spend_link (w_sha w token) name (client_ip rq) (now_of rq) (ap_db s)) \<and>
        ap_db s' = link_step (Spend (w_sha w token) name (client_ip rq) (now_of rq)) (ap_db s) \<and>
        opened (w_sha w token) txs (ap_db s') = 0" by auto
qed

section \<open>Signing in\<close>

lemma limiter_success_Inr [simp]:
  "limiter_success key s = (Inr x, s') \<longleftrightarrow> s' = s\<lparr>ap_limiter := success key (ap_limiter s)\<rparr>"
  by (auto simp: limiter_success_def)

lemma login_failed_Inr [simp]: "login_failed rq username s \<noteq> (Inr y, s')"
  by (simp add: login_failed_def act_Inr)

lemma credentials_Inr:
  assumes "credentials_ok w rq password row s = (Inr ok, s')"
  shows "s' = s \<and> (ok \<longrightarrow> verify_password (w_scrypt w) password (u_password_hash row) = Inr True \<and>
    (case u_client_name row of
       None \<Rightarrow> \<not> portal_only rq
     | Some name \<Rightarrow> \<exists>c. eligible (w_cert w) (rq_time rq) (ap_fs s) name = Inr (Some c) \<and> Some (ct_serial c) = u_client_serial row))"
  using assms by (auto simp: credentials_ok_def valid_client_def act_Inr split: option.splits)

lemma rehash_users:
  assumes "rehash w rq password row s = (Inr u, s')"
  shows "\<exists>us. ap_db s' = (ap_db s)\<lparr>users := us\<rparr> \<and> map u_id us = map u_id (users (ap_db s)) \<and>
    map u_client_name us = map u_client_name (users (ap_db s)) \<and> ap_fs s' = ap_fs s"
proof (cases "needs_rehash (u_password_hash row)")
  case True
  then obtain h where "s' = s\<lparr>ap_db := update_user (u_id row) (\<lambda>u. u\<lparr>u_password_hash := h\<rparr>) (ap_db s)\<rparr>"
    using assms by (auto simp: rehash_def act_Inr)
  then show ?thesis by (auto simp: update_user_def comp_def)
next
  case False
  then have "s' = s" using assms by (simp add: rehash_def)
  then show ?thesis by (intro exI [of _ "users (ap_db s)"]) simp
qed

lemma find_by_id:
  assumes "i \<in> u_id ` set us"
  shows "\<exists>u. find (\<lambda>u. u_id u = i) us = Some u \<and> u_id u = i"
  using assms by (induction us) auto

lemma update_user_frame:
  "web_sessions (update_user i f db) = web_sessions db"
  "(\<And>u. u_id (f u) = u_id u) \<Longrightarrow> map u_id (users (update_user i f db)) = map u_id (users db)"
  by (simp_all add: update_user_def)

lemma ids_image: "map u_id us = map u_id vs \<Longrightarrow> u_id ` set us = u_id ` set vs"
  by (metis list.set_map)

lemma add_event_frame [simp]:
  "web_sessions (add_event t k c a d db) = web_sessions db" "users (add_event t k c a d db) = users db"
  by (simp_all add: add_event_def)

lemma open_session_Inr:
  assumes "open_session w rq row s = (Inr r, s')" "u_id row \<in> u_id ` set (users (ap_db s))"
  shows "si_cookie r = rq_token rq \<and> si_role r = (if u_client_name row = None then ''admin'' else ''client'') \<and>
    (\<exists>ws usr. session_row (w_sha w (rq_token rq)) (ap_db s') = Some (ws, usr) \<and> u_id usr = u_id row \<and>
      ws_expires_at ws = now_of rq + w_session_ttl w)"
proof -
  let ?H = "w_sha w (rq_token rq)"
  obtain db1 t where c: "create_session (w_sha w) (rq_token rq) (now_of rq) (u_id row) (w_session_ttl w)
      (Some (client_ip rq)) (header rq ''user-agent'') (ap_db s) = Inr (t, db1)"
    and r: "si_cookie r = t" "si_role r = (if u_client_name row = None then ''admin'' else ''client'')"
    and s': "ap_db s' = add_event (now_of rq) ''login'' None (Some (u_username row)) (Some (client_ip rq))
      (update_user (u_id row) (\<lambda>u. u\<lparr>u_last_login := Some (now_of rq)\<rparr>) db1)"
    using assms(1)
    by (cases "guest_sub (w_cfg w) (ap_fs s)") (auto simp: open_session_def act_Inr)
  have t: "t = rq_token rq" using c by (simp add: create_session_def split: if_splits)
  have fresh: "map_of (web_sessions (ap_db s)) ?H = None"
    using c by (auto simp: create_session_def map_of_eq_None_iff split: if_splits)
  obtain ws where ws: "map_of (web_sessions db1) ?H = Some ws" "ws_user_id ws = u_id row"
      "ws_expires_at ws = now_of rq + w_session_ttl w" and us: "users db1 = users (ap_db s)"
    using c fresh by (auto simp: create_session_def map_add_def split: if_splits)
  have "u_id row \<in> u_id ` set (users (ap_db s'))"
    using assms(2) ids_image [OF update_user_frame(2) [of "\<lambda>u. u\<lparr>u_last_login := Some (now_of rq)\<rparr>" "u_id row" db1]]
    unfolding s' us [symmetric] by simp
  then obtain usr where "user_by_id (u_id row) (ap_db s') = Some usr" "u_id usr = u_id row"
    unfolding user_by_id_def using find_by_id by blast
  moreover have "map_of (web_sessions (ap_db s')) ?H = Some ws" unfolding s' by (simp add: update_user_frame(1) ws(1))
  ultimately show ?thesis using r t ws by (simp add: session_row_def)
qed

text \<open>
  C10. Signing in takes the right password: a login that succeeds found the account, the limiter let the
  attempt through for the address and for the address with the name, the password verifies against
  the stored hash, a client's certificate is the one the account was made for, and an administrator did not
  come through the guest listener. The cookie it sets opens a session of exactly that account for one lifetime.
\<close>

theorem login_sound:
  assumes "login w username password rq s = (Inr r, s')"
  shows "\<exists>row L. user_by_name username (ap_db s) = Some row \<and>
    attempt [(client_ip rq, IP_ATTEMPTS), (login_key rq username, lm_threshold (ap_limiter s))] (rq_monotonic rq) (ap_limiter s) = Inr (0, L) \<and>
    verify_password (w_scrypt w) password (u_password_hash row) = Inr True \<and>
    (case u_client_name row of
       None \<Rightarrow> \<not> portal_only rq
     | Some name \<Rightarrow> \<exists>c. eligible (w_cert w) (rq_time rq) (ap_fs s) name = Inr (Some c) \<and> Some (ct_serial c) = u_client_serial row) \<and>
    si_role r = (if u_client_name row = None then ''admin'' else ''client'') \<and>
    (\<exists>ws usr. session_row (w_sha w (si_cookie r)) (ap_db s') = Some (ws, usr) \<and> u_id usr = u_id row \<and>
      ws_expires_at ws = now_of rq + w_session_ttl w)"
proof -
  obtain row s1 ok s2 s3 s4 where
    l: "limited [(client_ip rq, IP_ATTEMPTS), (login_key rq username, lm_threshold (ap_limiter s))] rq s = (Inr (), s1)"
    and row: "user_by_name username (ap_db s1) = Some row"
    and ok: "credentials_ok w rq password row s1 = (Inr True, s2)"
    and s3: "s3 = s2\<lparr>ap_limiter := success (login_key rq username) (success (client_ip rq) (ap_limiter s2))\<rparr>"
    and re: "rehash w rq password row s3 = (Inr (), s4)" and op: "open_session w rq row s4 = (Inr r, s')"
    using assms by (auto simp: login_def act_Inr split: option.splits if_splits)
  have db1: "ap_db s1 = ap_db s" "ap_fs s1 = ap_fs s" using limited_db [OF l] by auto
  obtain L where L: "attempt [(client_ip rq, IP_ATTEMPTS), (login_key rq username, lm_threshold (ap_limiter s))]
      (rq_monotonic rq) (ap_limiter s) = Inr (0, L)"
    using l by (auto simp: limited_def split: sum.splits if_splits)
  have s2: "s2 = s1" and cred: "verify_password (w_scrypt w) password (u_password_hash row) = Inr True \<and>
    (case u_client_name row of
       None \<Rightarrow> \<not> portal_only rq
     | Some name \<Rightarrow> \<exists>c. eligible (w_cert w) (rq_time rq) (ap_fs s1) name = Inr (Some c) \<and> Some (ct_serial c) = u_client_serial row)"
    using credentials_Inr [OF ok] by auto
  have "row \<in> set (users (ap_db s))" using row unfolding db1 user_by_name_def by (auto simp: find_Some_iff)
  moreover obtain us where "ap_db s4 = (ap_db s3)\<lparr>users := us\<rparr>" "map u_id us = map u_id (users (ap_db s3))"
    using rehash_users [OF re] by blast
  ultimately have "u_id row \<in> u_id ` set (users (ap_db s4))"
    using ids_image [of us "users (ap_db s3)"] s3 s2 db1 by simp
  from open_session_Inr [OF op this] show ?thesis using row L cred unfolding db1 by auto
qed

section \<open>Witnesses\<close>

definition demo_world :: world where
  "demo_world =
     \<lparr>w_cfg = \<lparr>st_bin_dir = ''/opt/app/bin'', st_easyrsa_dir = [], st_pki_dir = [], st_guest_sub = ''10.8.0.128/25'', st_tfa_issuer = []\<rparr>,
      w_env = demo_env, w_session_ttl = 600, w_secure_cookies = ''auto'', w_sha = (\<lambda>s. s), w_hmac = (\<lambda>k m. k @ m),
      w_scrypt = toy_scrypt, w_uuid5 = (\<lambda>s. s), w_model = demo_model, w_cert = demo_cert, w_signer = (\<lambda>c m. Unreachable),
      w_cms_verify = (\<lambda>s h. None), w_execute = (\<lambda>c fs. (fs, Exited 0 [] [])), w_read_path = (\<lambda>p. Inr ''profile''),
      w_clients_dir = ''/etc/openvpn/clients'', w_decode = (\<lambda>s. s), w_mgmt_password = None\<rparr>"

definition demo_request :: request where
  "demo_request =
     \<lparr>rq_headers = [(''x-requested-with'', ''fetch'')], rq_cookies = [(''ovpn_session'', ''tok'')], rq_client = Some ''10.0.0.9'',
      rq_scheme = ''https'', rq_path = ''/'', rq_base_url = [], rq_body = [], rq_time = 5000, rq_monotonic = 0,
      rq_token = ''new'', rq_secret = ''secret2'', rq_uuid4 = ''u'', rq_salt = []\<rparr>"

definition alice_account :: user where
  "alice_account =
     \<lparr>u_id = 7, u_username = ''alice'', u_password_hash = demo_hash, u_created_at = 0, u_last_login = None,
      u_client_name = Some ''alice'', u_client_serial = Some ''03''\<rparr>"

definition demo_app :: "string \<Rightarrow> app" where
  "demo_app serial =
     \<lparr>ap_db = demo_relay_db\<lparr>users := [alice_account],
        web_sessions := [(''tok'', \<lparr>ws_user_id = 7, ws_created_at = 4000, ws_expires_at = 9000, ws_ip = None, ws_user_agent = []\<rparr>)],
        share_tokens := [(''link'', \<lparr>st_client_name = ''alice'', st_created_at = 0, st_expires_at = 9000, st_used_at = None, st_created_by = None\<rparr>)]\<rparr>,
      ap_fs = demo_relay_files serial, ap_limiter = LoginLimiter, ap_mgmt = Management, ap_conns = [], ap_live = co_live new_collector\<rparr>"

lemma demo_live: "live_session demo_world demo_request (demo_app serial) alice_account"
  by (simp add: live_session_def cookie_def demo_request_def demo_world_def demo_app_def COOKIE_def session_row_def
      user_by_id_def alice_account_def now_of_def)

theorem client_login_follows_certificate_witness:
  "fst (signed_in_user demo_world demo_request (demo_app ''04'')) = Inl (HTTPException 401 ''Client access is no longer valid'')"
proof -
  have n: "u_client_name alice_account = Some ''alice''" "u_client_serial alice_account = Some ''03''" by (simp_all add: alice_account_def)
  have "eligible (w_cert demo_world) (rq_time demo_request) (ap_fs (demo_app ''04'')) ''alice'' =
      Inr (Some \<lparr>ct_serial = ''04'', ct_not_before = Some 1000, ct_not_after = Some 9000, ct_cn = ''alice'', ct_fingerprint = []\<rparr>)"
    using demo_eligible_renewed by (simp add: demo_world_def demo_request_def demo_app_def)
  from client_login_follows_certificate [OF demo_live n(1) this] show ?thesis by (simp add: n)
qed

theorem share_link_once_witness:
  "opened ''link'' [Spend ''link'' ''alice'' ''ip'' 5000, Clean None 6000, Spend ''link'' ''alice'' ''ip'' 7000] (ap_db (demo_app ''03'')) \<le> 1"
  using share_link_once [of "[Spend ''link'' ''alice'' ''ip'' 5000, Clean None 6000, Spend ''link'' ''alice'' ''ip'' 7000]"
      demo_world "''link''" "ap_db (demo_app ''03'')" demo_request "demo_app ''03''"]
  by (simp add: demo_world_def)

lemma demo_login_ok: "\<not> isl (fst (login demo_world ''alice'' ''hunter2'' demo_request (demo_app ''03'')))"
  by code_simp

theorem login_sound_witness:
  "\<exists>row. user_by_name ''alice'' (ap_db (demo_app ''03'')) = Some row \<and>
     verify_password toy_scrypt ''hunter2'' (u_password_hash row) = Inr True"
proof -
  have "login demo_world ''alice'' ''hunter2'' demo_request (demo_app ''03'') =
      (Inr (projr (fst (login demo_world ''alice'' ''hunter2'' demo_request (demo_app ''03'')))),
       snd (login demo_world ''alice'' ''hunter2'' demo_request (demo_app ''03'')))"
    using demo_login_ok by (simp add: prod_eq_iff sum.collapse(2))
  from login_sound [OF this] show ?thesis by (auto simp: demo_world_def)
qed

end
