(* ===== verification/Accounts.thy ===== *)
theory Accounts
  imports Doors
begin

text \<open>
  The tables of accounts and web sessions stay well formed under every call of the web API, in any order.
\<close>

section \<open>What a computation keeps\<close>

named_theorems keeps_intros

definition keeps :: "(database \<Rightarrow> bool) \<Rightarrow> 'a act \<Rightarrow> bool" where
  "keeps P m \<longleftrightarrow> (\<forall>s. P (ap_db s) \<longrightarrow> P (ap_db (snd (m s))))"

lemma keepsD: "keeps P m \<Longrightarrow> P (ap_db s) \<Longrightarrow> P (ap_db (snd (m s)))"
  by (simp add: keeps_def)

lemma keeps_bind [keeps_intros]: "keeps P m \<Longrightarrow> (\<And>x. keeps P (f x)) \<Longrightarrow> keeps P (act_bind m f)"
  unfolding keeps_def act_bind_def by (fastforce split: prod.splits sum.splits)

lemma keeps_then [keeps_intros]: "keeps P m \<Longrightarrow> keeps P n \<Longrightarrow> keeps P (act_then m n)"
  unfolding act_then_def by (intro keeps_bind)

lemma keeps_catch [keeps_intros]: "keeps P m \<Longrightarrow> (\<And>e. keeps P (h e)) \<Longrightarrow> keeps P (act_catch m h)"
  unfolding keeps_def act_catch_def by (fastforce split: prod.splits sum.splits)

lemma keeps_pure [keeps_intros]:
  "keeps P (ret x)" "keeps P (raise e)" "keeps P (lift r)" "keeps P (asks f)" "keeps P (\<lambda>s. (g s, s))"
  by (simp_all add: keeps_def ret_def raise_def lift_def asks_def)

lemma keeps_if [keeps_intros]: "(b \<Longrightarrow> keeps P m) \<Longrightarrow> (\<not> b \<Longrightarrow> keeps P n) \<Longrightarrow> keeps P (if b then m else n)"
  by simp

lemma keeps_option [keeps_intros]:
  "keeps P m \<Longrightarrow> (\<And>x. keeps P (f x)) \<Longrightarrow> keeps P (case v of None \<Rightarrow> m | Some x \<Rightarrow> f x)"
  by (cases v) auto

lemma keeps_prod [keeps_intros]: "(\<And>x y. keeps P (f x y)) \<Longrightarrow> keeps P (case v of (x, y) \<Rightarrow> f x y)"
  by (cases v) auto

lemma keeps_exc [keeps_intros]:
  "(\<And>e. keeps P (g e)) \<Longrightarrow> (\<And>m. keeps P (f m)) \<Longrightarrow> keeps P (case e of ManagementError m \<Rightarrow> f m | _ \<Rightarrow> g e)"
  by (cases e) auto

lemma keeps_let [keeps_intros]: "(\<And>x. keeps P (f x)) \<Longrightarrow> keeps P (let x = v in f x)"
  by (simp add: Let_def)

lemma keeps_files [keeps_intros]: "keeps P (fs_run f)" "keeps P (fs_try g)" "keeps P (mgmt_run h)"
  by (auto simp: keeps_def fs_run_def fs_try_def mgmt_run_def split: prod.splits sum.splits)

lemma keeps_limiter [keeps_intros]: "keeps P (limited l rq)" "keeps P (limiter_success k)"
  "keeps P (\<lambda>s. limited (g s) rq s)"
  by (auto simp: keeps_def limited_def limiter_success_def split: prod.splits sum.splits)

lemma keeps_eligible [keeps_intros]: "keeps P (eligible_now w rq name)"
  by (simp add: keeps_def eligible_now_def)

lemma keeps_db_do: "(\<And>db. P db \<Longrightarrow> P (f db)) \<Longrightarrow> keeps P (db_do f)"
  by (simp add: keeps_def db_do_def)

lemma keeps_db_run: "(\<And>db. P db \<Longrightarrow> P (snd (f db))) \<Longrightarrow> keeps P (db_run f)"
  by (auto simp: keeps_def db_run_def split: prod.splits) (metis snd_conv)

lemma keeps_db_try: "(\<And>db x db'. P db \<Longrightarrow> f db = Inr (x, db') \<Longrightarrow> P db') \<Longrightarrow> keeps P (db_try f)"
  by (auto simp: keeps_def db_try_def split: sum.splits)

section \<open>Well-formed accounts\<close>

definition client_names :: "user list \<Rightarrow> string list" where
  "client_names us = List.map_filter u_client_name us"

definition accounts_ok :: "database \<Rightarrow> bool" where
  "accounts_ok db \<longleftrightarrow>
     distinct (map u_id (users db)) \<and> distinct (map u_username (users db)) \<and> distinct (client_names (users db)) \<and>
     (\<forall>u \<in> set (users db). u_id u < next_user_id db) \<and>
     distinct (map fst (web_sessions db)) \<and> (\<forall>(h, s) \<in> set (web_sessions db). ws_user_id s \<in> u_id ` set (users db))"

text \<open>Most operations leave both tables alone.\<close>

definition same_accounts :: "database \<Rightarrow> database \<Rightarrow> bool" where
  "same_accounts db db' \<longleftrightarrow> users db' = users db \<and> next_user_id db' = next_user_id db \<and> web_sessions db' = web_sessions db"

lemma same_accounts_ok: "same_accounts db db' \<Longrightarrow> accounts_ok db \<Longrightarrow> accounts_ok db'"
  by (simp add: same_accounts_def accounts_ok_def)

lemma same_simps [simp]:
  "same_accounts db (set_setting k v db)" "same_accounts db (delete_setting k db)" "same_accounts db (add_event t kind c a d db)"
  "same_accounts db (drop_share_links name db)" "same_accounts db (set_client_note name note created now db)"
  "same_accounts db (hide_certs serials name now db)" "same_accounts db (revoke name db)" "same_accounts db db"
  by (simp_all add: same_accounts_def set_setting_def delete_setting_def add_event_def drop_share_links_def
      set_client_note_def hide_certs_def revoke_def)

lemma same_spend: "same_accounts db (snd (spend_link h name ip now db))"
  by (simp add: spend_link_def same_accounts_def add_event_def)

lemma same_archive: "archive_client_history now name before db = Inr (k, db') \<Longrightarrow> same_accounts db db'"
  by (auto simp: archive_client_history_def same_accounts_def move_history_def Let_def split: if_splits)

lemma keeps_same: "(\<And>db. same_accounts db (f db)) \<Longrightarrow> keeps accounts_ok (db_do f)"
  using same_accounts_ok by (intro keeps_db_do) blast

lemma keeps_event [keeps_intros]: "keeps accounts_ok (event rq kind user client detail)"
  unfolding event_def by (rule keeps_same) simp

lemma keeps_writes [keeps_intros]:
  "keeps accounts_ok (db_do (revoke name))" "keeps accounts_ok (db_do (drop_share_links name))"
  "keeps accounts_ok (db_do (set_client_note name note created now))" "keeps accounts_ok (db_do (hide_certs serials name now))"
  "keeps accounts_ok (db_do (add_event t kind c a d))"
  "keeps accounts_ok (db_run (spend_link h name ip now))" "keeps accounts_ok (db_try (archive_client_history t name before))"
  using same_archive same_spend same_accounts_ok
  by (intro keeps_same keeps_db_run keeps_db_try; simp; blast)+

subsection \<open>The relay's settings\<close>

lemma same_ensure_instance: "ensure_instance uuid4 db = Inr (i, db') \<Longrightarrow> same_accounts db db'"
  by (auto simp: ensure_instance_def split: option.splits if_splits sval.splits)

lemma same_ensure_grant: "ensure_grant secret serial name db = Inr (g, db') \<Longrightarrow> same_accounts db db'"
  by (auto simp: ensure_grant_def split: option.splits if_splits)

lemma same_trans: "same_accounts db db' \<Longrightarrow> same_accounts db' db'' \<Longrightarrow> same_accounts db db''"
  by (simp add: same_accounts_def)

lemma same_profile:
  "same_accounts db (snd (profile env sha uuid5 model cert signer cms_verify now uuid4 secret fs name db))"
  using profile_state [of env sha uuid5 model cert signer cms_verify now uuid4 secret fs name db]
proof (elim disjE exE conjE)
  fix i db1 serial g
  assume "ensure_instance uuid4 db = Inr (i, db1)" "ensure_grant secret serial name db1 =
    Inr (g, snd (profile env sha uuid5 model cert signer cms_verify now uuid4 secret fs name db))"
  then show ?thesis by (rule same_trans [OF same_ensure_instance same_ensure_grant])
qed simp

lemma same_renewed: "renewed cert now fs name serial db = Inr db' \<Longrightarrow> same_accounts db db'"
  by (cases rule: renewed_cases) auto

lemma keeps_relay [keeps_intros]:
  "keeps accounts_ok (relay_profile w rq name)" "keeps accounts_ok (relay_renewed w rq name serial)"
  "keeps accounts_ok (signing_now w)" "keeps accounts_ok (db_try (relay_save_settings body))"
  "keeps accounts_ok (db_try (\<lambda>db. res_bind (save_signing env sbody db) (\<lambda>db'. Inr ((), db'))))"
proof -
  show "keeps accounts_ok (relay_profile w rq name)"
    unfolding keeps_def relay_profile_def using same_profile same_accounts_ok
    by (auto split: prod.splits) (metis snd_conv)
  show "keeps accounts_ok (relay_renewed w rq name serial)"
    unfolding keeps_def relay_renewed_def
    by (auto split: sum.splits intro: same_accounts_ok [OF same_renewed])
  show "keeps accounts_ok (signing_now w)" by (simp add: keeps_def signing_now_def)
  show "keeps accounts_ok (db_try (relay_save_settings body))"
    by (rule keeps_db_try) (auto simp: relay_save_settings_def intro: same_accounts_ok [rotated])
  show "keeps accounts_ok (db_try (\<lambda>db. res_bind (save_signing env sbody db) (\<lambda>db'. Inr ((), db'))))"
    by (rule keeps_db_try) (auto simp: save_signing_def Let_def split: if_splits intro: same_accounts_ok [rotated])
qed

subsection \<open>Sessions\<close>

lemma ok_fewer_sessions:
  assumes "accounts_ok db" "distinct (map fst ws)" "ws_user_id ` snd ` set ws \<subseteq> ws_user_id ` snd ` set (web_sessions db)"
  shows "accounts_ok (db\<lparr>web_sessions := ws\<rparr>)"
proof -
  have "ws_user_id ` snd ` set (web_sessions db) \<subseteq> u_id ` set (users db)"
    using assms(1) by (auto simp: accounts_ok_def)
  then have "\<forall>p \<in> set ws. ws_user_id (snd p) \<in> u_id ` set (users db)" using assms(3) by blast
  then show ?thesis using assms(1,2) by (auto simp: accounts_ok_def)
qed

lemma ok_filter_sessions: "accounts_ok db \<Longrightarrow> accounts_ok (db\<lparr>web_sessions := filter p (web_sessions db)\<rparr>)"
  by (rule ok_fewer_sessions) (auto simp: accounts_ok_def distinct_map_filter)

lemma ok_delete_session: "accounts_ok db \<Longrightarrow> accounts_ok (delete_session H token db)"
  using ok_filter_sessions by (auto simp: delete_session_def AList.delete_eq)

lemma ok_delete_user_sessions: "accounts_ok db \<Longrightarrow> accounts_ok (delete_user_sessions H i keep db)"
  using ok_filter_sessions by (auto simp: delete_user_sessions_def)

lemma ok_set_expiry: "accounts_ok db \<Longrightarrow> accounts_ok (set_expiry h t db)"
proof -
  assume ok: "accounts_ok db"
  let ?f = "\<lambda>(k, s :: web_session). (k, if k = h then s\<lparr>ws_expires_at := t\<rparr> else s)"
  have "fst \<circ> ?f = fst" by auto
  then have "distinct (map fst (map ?f (web_sessions db)))" using ok by (simp add: accounts_ok_def)
  moreover have "ws_user_id ` snd ` set (map ?f (web_sessions db)) \<subseteq> ws_user_id ` snd ` set (web_sessions db)"
    by (force split: prod.splits if_splits)
  ultimately show ?thesis unfolding set_expiry_def using ok by (intro ok_fewer_sessions)
qed

lemma ok_get_session_user: "accounts_ok db \<Longrightarrow> accounts_ok (snd (get_session_user H now token ttl ext db))"
  using ok_set_expiry by (auto simp: get_session_user_def split: option.splits)

lemma keeps_sessions [keeps_intros]:
  "keeps accounts_ok (db_run (get_session_user H now token ttl ext))" "keeps accounts_ok (db_do (delete_session H token))"
  "keeps accounts_ok (db_do (delete_user_sessions H i keep))"
  by (simp_all add: keeps_db_run keeps_db_do ok_get_session_user ok_delete_session ok_delete_user_sessions)

lemma keeps_signed_in [keeps_intros]: "keeps accounts_ok (signed_in_user w rq)"
  unfolding signed_in_user_def by (intro keeps_intros)

lemma keeps_current_user [keeps_intros]: "keeps accounts_ok (current_user w rq)"
  unfolding current_user_def by (intro keeps_intros)

lemma keeps_admin [keeps_intros]: "(\<And>u. keeps accounts_ok (body u)) \<Longrightarrow> keeps accounts_ok (admin w rq body)"
  unfolding admin_def by (intro keeps_intros)

lemma keeps_as_client [keeps_intros]:
  "(\<And>u name. keeps accounts_ok (body u name)) \<Longrightarrow> keeps accounts_ok (as_client w rq body)"
  unfolding as_client_def by (intro keeps_intros)

subsection \<open>Accounts\<close>

lemma client_names_simps [simp]:
  "client_names [] = []"
  "client_names (u # us) = (case u_client_name u of None \<Rightarrow> client_names us | Some n \<Rightarrow> n # client_names us)"
  "client_names (us @ vs) = client_names us @ client_names vs"
  by (auto simp: client_names_def List.map_filter_def split: option.splits)

lemma set_client_names: "n \<in> set (client_names us) \<longleftrightarrow> (\<exists>u \<in> set us. u_client_name u = Some n)"
  by (induction us) (auto split: option.splits)

lemma distinct_client_names_filter: "distinct (client_names us) \<Longrightarrow> distinct (client_names (filter p us))"
  by (induction us) (auto simp: set_client_names split: option.splits)

lemma client_names_map: "(\<And>u. u_client_name (f u) = u_client_name u) \<Longrightarrow> client_names (map f us) = client_names us"
  by (induction us) (auto split: option.splits)

lemma ok_map_users:
  assumes "accounts_ok db" "\<And>u. u_id (f u) = u_id u" "\<And>u. u_client_name (f u) = u_client_name u"
    "distinct (map (\<lambda>u. u_username (f u)) (users db))"
  shows "accounts_ok (db\<lparr>users := map f (users db)\<rparr>)"
proof -
  have "map u_id (map f (users db)) = map u_id (users db)" using assms(2) by simp
  moreover from this have "u_id ` set (map f (users db)) = u_id ` set (users db)" by (metis list.set_map)
  moreover have "map u_username (map f (users db)) = map (\<lambda>u. u_username (f u)) (users db)" by simp
  ultimately show ?thesis
    using assms client_names_map [of f "users db"] unfolding accounts_ok_def by (simp del: map_map)
qed

lemma ok_update_user:
  assumes "accounts_ok db" "\<And>u. u_id (f u) = u_id u" "\<And>u. u_client_name (f u) = u_client_name u"
    "\<And>u. u_username (f u) = u_username u"
  shows "accounts_ok (update_user i f db)"
proof -
  have "(\<lambda>u. u_username (if u_id u = i then f u else u)) = u_username" using assms(4) by auto
  then show ?thesis unfolding update_user_def using assms by (intro ok_map_users) (auto simp: accounts_ok_def)
qed

lemma ok_move_account: "accounts_ok db \<Longrightarrow> accounts_ok (move_account name old new db)"
proof -
  assume ok: "accounts_ok db"
  have "(\<lambda>u :: user. u_username (if u_client_name u = Some name \<and> u_client_serial u = Some old
      then u\<lparr>u_client_serial := Some new\<rparr> else u)) = u_username" by auto
  then show ?thesis unfolding move_account_def using ok by (intro ok_map_users) (auto simp: accounts_ok_def)
qed

lemma ok_delete_user:
  assumes "accounts_ok db" "\<forall>(h, s) \<in> set (web_sessions db). ws_user_id s \<noteq> i"
  shows "accounts_ok (delete_user i db)"
  using assms by (fastforce simp: accounts_ok_def delete_user_def distinct_map_filter distinct_client_names_filter)

lemma ok_disable_portal: "accounts_ok db \<Longrightarrow> accounts_ok (disable_portal w name db)"
  unfolding disable_portal_def
  by (auto split: option.splits intro!: ok_delete_user ok_filter_sessions simp: delete_user_sessions_def)

lemma ok_new_user:
  assumes "accounts_ok db" "u_id u = next_user_id db" "u_username u \<notin> u_username ` set (users db)"
    "\<forall>n. u_client_name u = Some n \<longrightarrow> n \<notin> set (client_names (users db))"
  shows "accounts_ok (db\<lparr>users := users db @ [u], next_user_id := next_user_id db + 1\<rparr>)"
  using assms by (auto simp: accounts_ok_def split: option.splits)

lemma find_client_name: "distinct (client_names us) \<Longrightarrow> u \<in> set us \<Longrightarrow> u_client_name u = Some name \<Longrightarrow>
    find (\<lambda>u. u_client_name u = Some name) us = Some u"
  by (induction us) (auto simp: set_client_names split: option.splits)

lemma distinct_map_update:
  assumes "distinct (map g us)" "distinct (map u_id us)" "\<forall>u \<in> set us. g u = v \<longrightarrow> u_id u = i"
  shows "distinct (map (\<lambda>u. if u_id u = i then v else g u) us)"
  unfolding distinct_map
proof (intro conjI inj_onI)
  show "distinct us" using assms(1) distinct_map by blast
  fix u u'
  assume u: "u \<in> set us" "u' \<in> set us" "(if u_id u = i then v else g u) = (if u_id u' = i then v else g u')"
  then show "u = u'" using assms unfolding distinct_map inj_on_def by metis
qed

lemma ok_store_account:
  assumes "accounts_ok db" "store_account name username h serial now db = Inr (x, db')"
  shows "accounts_ok db'"
proof -
  have owner: "u_client_name u = Some name" if "u \<in> set (users db)" "u_username u = username" for u
  proof (cases "user_by_name username db")
    case None
    then show ?thesis using that by (auto simp: user_by_name_def find_None_iff)
  next
    case (Some v)
    then have v: "v \<in> set (users db)" "u_username v = username"
      by (auto simp: user_by_name_def find_Some_iff)
    then have "v = u" using assms(1) that by (auto simp: accounts_ok_def distinct_map inj_on_def)
    then show ?thesis using assms(2) Some by (auto simp: store_account_def split: if_splits)
  qed
  show ?thesis
  proof (cases "user_of_client name db")
    case None
    then have "name \<notin> set (client_names (users db))" "username \<notin> u_username ` set (users db)"
      using owner by (auto simp: user_of_client_def find_None_iff set_client_names)
    then show ?thesis using assms None ok_new_user [OF assms(1)] by (auto simp: store_account_def split: if_splits)
  next
    case (Some row)
    let ?db = "db\<lparr>web_sessions := filter (\<lambda>(h, s). ws_user_id s \<noteq> u_id row) (web_sessions db)\<rparr>"
    let ?f = "\<lambda>u :: user. if u_id u = u_id row
      then u\<lparr>u_username := username, u_password_hash := h, u_client_serial := Some serial\<rparr> else u"
    have "\<forall>u \<in> set (users db). u_username u = username \<longrightarrow> u_id u = u_id row"
      using owner find_client_name Some assms(1) unfolding user_of_client_def accounts_ok_def by (metis option.inject)
    then have "distinct (map (\<lambda>u. if u_id u = u_id row then username else u_username u) (users db))"
      using assms(1) by (intro distinct_map_update) (auto simp: accounts_ok_def)
    moreover have "(\<lambda>u. u_username (?f u)) = (\<lambda>u. if u_id u = u_id row then username else u_username u)" by auto
    ultimately have "accounts_ok (?db\<lparr>users := map ?f (users ?db)\<rparr>)"
      using ok_filter_sessions [OF assms(1)] by (intro ok_map_users) auto
    moreover have "db' = ?db\<lparr>users := map ?f (users ?db)\<rparr>"
      using assms(2) Some by (simp add: store_account_def update_user_def split: if_splits)
    ultimately show ?thesis by simp
  qed
qed

lemma keeps_accounts [keeps_intros]:
  "keeps accounts_ok (db_do (update_user i (\<lambda>u. u\<lparr>u_password_hash := h\<rparr>)))"
  "keeps accounts_ok (db_do (move_account name old new))" "keeps accounts_ok (db_do (disable_portal w name))"
  "keeps accounts_ok (db_try (store_account name username h serial now))"
  by (auto intro!: keeps_db_do keeps_db_try ok_update_user ok_move_account ok_disable_portal elim: ok_store_account)

section \<open>Handlers\<close>

text \<open>A session is only opened for an account that is there.\<close>

definition with_user :: "int \<Rightarrow> database \<Rightarrow> bool" where
  "with_user i db \<longleftrightarrow> accounts_ok db \<and> i \<in> u_id ` set (users db)"

lemma with_user_same: "with_user i db \<Longrightarrow> same_accounts db db' \<Longrightarrow> with_user i db'"
  using same_accounts_ok by (auto simp: with_user_def same_accounts_def)

lemma with_user_update:
  assumes "with_user i db" "\<And>u. u_id (f u) = u_id u" "\<And>u. u_client_name (f u) = u_client_name u"
    "\<And>u. u_username (f u) = u_username u"
  shows "with_user i (update_user j f db)"
  using assms ok_update_user [of db f j] ids_image [of "users (update_user j f db)" "users db"]
  by (auto simp: with_user_def update_user_def)

lemma with_user_create_session:
  assumes "with_user i db" "create_session H token now i ttl ip agent db = Inr (t, db')"
  shows "with_user i db'"
  using assms by (auto simp: create_session_def with_user_def accounts_ok_def split: if_splits)

lemma keeps_open_session:
  "keeps (with_user (u_id row)) (open_session w rq row)" "keeps (with_user (u_id row)) (rehash w rq password row)"
  "keeps (with_user (u_id row)) (credentials_ok w rq password row)" "keeps (with_user (u_id row)) (login_failed rq username)"
proof -
  note rules = keeps_bind keeps_then keeps_pure keeps_if keeps_option keeps_eligible keeps_limiter
  have create: "keeps (with_user (u_id row)) (db_try (create_session H token now (u_id row) ttl ip agent))"
    for H token now ttl ip agent by (rule keeps_db_try) (rule with_user_create_session)
  have upd: "keeps (with_user (u_id row)) (db_do (update_user (u_id row) (\<lambda>u. u\<lparr>u_last_login := t\<rparr>)))"
    "keeps (with_user (u_id row)) (db_do (update_user (u_id row) (\<lambda>u. u\<lparr>u_password_hash := h\<rparr>)))" for t h
    by (auto intro!: keeps_db_do with_user_update)
  have ev: "keeps (with_user (u_id row)) (db_do (add_event t kind c a d))" for t kind c a d
    by (rule keeps_db_do) (rule with_user_same, assumption, simp)
  show "keeps (with_user (u_id row)) (open_session w rq row)"
    unfolding open_session_def
    by (intro keeps_bind keeps_then create upd ev) (auto simp: keeps_def split: sum.splits)
  show "keeps (with_user (u_id row)) (rehash w rq password row)" unfolding rehash_def by (intro rules upd)
  show "keeps (with_user (u_id row)) (credentials_ok w rq password row)"
    unfolding credentials_ok_def valid_client_def by (intro rules)
  show "keeps (with_user (u_id row)) (login_failed rq username)" unfolding login_failed_def by (intro rules ev)
qed

lemma keeps_asks_bind:
  "(\<And>s. P (ap_db s) \<Longrightarrow> P (ap_db (snd (f (g s) s)))) \<Longrightarrow> keeps P (act_bind (asks g) f)"
  by (simp add: keeps_def act_bind_def asks_def)

lemma keeps_login: "keeps accounts_ok (login w username password rq)"
  unfolding login_def
proof (intro keeps_then keeps_pure keeps_limiter keeps_asks_bind)
  fix s :: app
  assume ok: "accounts_ok (ap_db s)"
  show "accounts_ok (ap_db (snd ((case user_by_name username (ap_db s) of
         None \<Rightarrow> login_failed rq username
       | Some row \<Rightarrow> act_bind (credentials_ok w rq password row) (\<lambda>ok.
           if \<not> ok then login_failed rq username
           else act_then (limiter_success (client_ip rq))
             (act_then (limiter_success (login_key rq username))
             (act_then (rehash w rq password row) (open_session w rq row))))) s)))"
  proof (cases "user_by_name username (ap_db s)")
    case None
    have "keeps accounts_ok (login_failed rq username :: signed_in act)" unfolding login_failed_def by (intro keeps_intros)
    with ok None show ?thesis by (simp add: keepsD)
  next
    case (Some row)
    then have "with_user (u_id row) (ap_db s)" using ok by (auto simp: with_user_def user_by_name_def find_Some_iff)
    moreover have "keeps (with_user (u_id row)) (act_bind (credentials_ok w rq password row) (\<lambda>ok.
           if \<not> ok then login_failed rq username
           else act_then (limiter_success (client_ip rq))
             (act_then (limiter_success (login_key rq username))
             (act_then (rehash w rq password row) (open_session w rq row)))))"
      by (intro keeps_bind keeps_then keeps_if keeps_limiter keeps_open_session)
    ultimately show ?thesis using Some keepsD by (fastforce simp: with_user_def)
  qed
qed

lemma keeps_share [keeps_intros]:
  "keeps accounts_ok (db_try (\<lambda>db. if b db then Inl e else Inr ((), db\<lparr>share_tokens := f db\<rparr>)))"
  by (rule keeps_db_try) (auto simp: accounts_ok_def split: if_splits)

lemma keeps_helpers [keeps_intros]:
  "keeps P (find_client w rq name)" "keeps P (build_profile w name)" "keeps P (second_factor w name b)"
  "keeps P (kill_client w rq name)" "keeps P (try_kill w rq name)" "keeps P (shared_client w token rq)"
  unfolding find_client_def build_profile_def second_factor_def kill_client_def try_kill_def shared_client_def
  by (intro keeps_intros)+

lemma keeps_logout: "keeps accounts_ok (logout w rq)" "keeps accounts_ok (change_password w current replacement rq)"
  "keeps accounts_ok (set_portal_account w name username password rq)" "keeps accounts_ok (remove_portal_account w name rq)"
  unfolding logout_def change_password_def set_portal_account_def remove_portal_account_def
  by (intro keeps_intros)+

lemma keeps_profiles: "keeps accounts_ok (own_openvpn_profile w rq)" "keeps accounts_ok (own_relay_profile w rq)"
  "keeps accounts_ok (download_relay_profile w name rq)" "keeps accounts_ok (download_profile w name rq)"
  "keeps accounts_ok (share_profile w name hours rq)" "keeps accounts_ok (shared_profile w token rq)"
  unfolding own_openvpn_profile_def own_relay_profile_def download_relay_profile_def download_profile_def
    share_profile_def shared_profile_def
  by (intro keeps_intros)+

lemma keeps_life_cycle: "keeps accounts_ok (api_create_client w new rq)" "keeps accounts_ok (set_tfa w name b rq)"
  "keeps accounts_ok (api_revoke w name reason rq)" "keeps accounts_ok (api_renew w name days rq)"
  "keeps accounts_ok (api_revoke_previous w name rq)" "keeps accounts_ok (delete_client w name rq)"
  "keeps accounts_ok (disconnect w name cid rq)" "keeps accounts_ok (api_static_ip w name ip rq)"
  "keeps accounts_ok (set_access w name b rq)" "keeps accounts_ok (revoke_relay w name rq)" "keeps accounts_ok (set_note w name note rq)"
  unfolding api_create_client_def set_tfa_def api_revoke_def api_renew_def api_revoke_previous_def delete_client_def
    disconnect_def api_static_ip_def set_access_def revoke_relay_def set_note_def
  by (intro keeps_intros)+

lemma keeps_server: "keeps accounts_ok (put_config w which content rq)" "keeps accounts_ok (restart w rq)"
  "keeps accounts_ok (regenerate_crl w rq)" "keeps accounts_ok (enforce_tfa w b rq)" "keeps accounts_ok (api_control_channel w b rq)"
  "keeps accounts_ok (put_settings w remote rq)" "keeps accounts_ok (put_network_settings w net rq)"
  "keeps accounts_ok (put_relay_settings w relay rq)" "keeps accounts_ok (save_relay_signing w sign rq)"
  unfolding put_config_def restart_def regenerate_crl_def enforce_tfa_def api_control_channel_def put_settings_def
    put_network_settings_def put_relay_settings_def save_relay_signing_def
  by (intro keeps_intros)+

section \<open>Starting and cleaning up\<close>

lemma same_group_rows: "same_accounts db (group_rows latest rows db)"
proof (induction rows arbitrary: latest db)
  case (Cons r rows)
  have "same_accounts db (update_session i f db)" for i f by (simp add: same_accounts_def update_session_def)
  then show ?case using Cons.IH same_trans by (fastforce simp: Let_def split: prod.splits)
qed simp

lemma keeps_each: "(\<And>x. keeps P (f x)) \<Longrightarrow> keeps P (each f xs)"
  by (induction xs) (auto intro!: keeps_intros)

lemma keeps_migrate [keeps_intros]: "keeps accounts_ok (migrate w pubkey_of rq)"
proof -
  have grp: "keeps accounts_ok (db_run group_sessions)"
    by (rule keeps_db_run) (auto simp: group_sessions_def Let_def intro: same_accounts_ok [OF same_group_rows])
  have drop: "keeps accounts_ok (db_do (purge_client name))" "keeps accounts_ok (db_do (\<lambda>db. db\<lparr>events := g db\<rparr>))"
    "keeps accounts_ok (db_do (set_setting k v))" for name g k v
    by (rule keeps_same, simp add: same_accounts_def purge_client_def set_setting_def)+
  show ?thesis
    unfolding migrate_def migrate_identities_def archive_earlier_def by (intro keeps_intros keeps_each grp drop)
qed

lemma keeps_first_admin [keeps_intros]: "keeps accounts_ok (first_admin w username password rq)"
proof -
  have "accounts_ok (ap_db (snd (first_admin w username password rq s)))" if "accounts_ok (ap_db s)" for s
    using that ok_new_user [of "ap_db s"]
    by (auto simp: first_admin_def act_bind_def lift_def db_do_def split: sum.splits)
  then show ?thesis by (simp add: keeps_def)
qed

lemma keeps_point_profiles [keeps_intros]: "keeps accounts_ok (point_profiles w public_host)"
proof -
  have kv: "keeps accounts_ok (db_do (set_setting k v))" for k v by (rule keeps_same) simp
  have "keeps accounts_ok (act_then (fs_run f) (db_do (set_setting k v)))" for f :: "files \<Rightarrow> unit result \<times> files" and k v
    by (intro keeps_intros kv)
  moreover have "keeps accounts_ok (act_then (fs_run g) (ret ()))" for g :: "files \<Rightarrow> bool result \<times> files"
    by (intro keeps_intros)
  ultimately show ?thesis by (simp add: keeps_def point_profiles_def Let_def)
qed

lemma keeps_bootstrap:
  "keeps accounts_ok (bootstrap w pubkey_of legacy_db username password public_host rq)"
proof -
  have "keeps accounts_ok (act_then (migrate w pubkey_of rq) (act_then (first_admin w username password rq)
      (act_catch (point_profiles w public_host) (\<lambda>e. if is_pki_error e then ret () else raise e))))"
    by (intro keeps_intros)
  then show ?thesis by (simp add: keeps_def bootstrap_def)
qed

lemma ok_rollup: "accounts_ok db \<Longrightarrow> accounts_ok (rollup given clock db)"
proof -
  assume "accounts_ok db"
  then have "accounts_ok (rollup_traffic now db)" for now
    by (rule same_accounts_ok [rotated]) (simp add: same_accounts_def rollup_traffic_def Let_def)
  from ok_filter_sessions [OF this] show ?thesis by (simp add: rollup_def Let_def accounts_ok_def)
qed

section \<open>Any sequence of calls\<close>

datatype call =
    Start "string option \<Rightarrow> string" bool string string string | Cleanup "int option" int
  | Login string string | Logout | Change_password string string
  | Set_portal_account string string string | Remove_portal_account string
  | Own_openvpn_profile | Own_relay_profile | Download_relay_profile string | Download_profile string
  | Share_profile string int | Shared_profile string
  | Create_client new_client | Set_tfa string bool | Revoke string "string option" | Renew string "int option"
  | Revoke_previous string | Delete_client string | Disconnect string "int option" | Static_ip string "string option"
  | Set_access string bool | Revoke_relay string | Set_note string string
  | Put_config string string | Restart | Regenerate_crl | Enforce_tfa bool | Control_channel bool
  | Put_settings remote_body | Put_network network_update | Put_relay relay_settings | Put_signing signing_body

fun run_call :: "world \<Rightarrow> call \<Rightarrow> request \<Rightarrow> app \<Rightarrow> app" where
  "run_call w (Start pubkey_of legacy username password host) rq = snd \<circ> bootstrap w pubkey_of legacy username password host rq"
| "run_call w (Cleanup given clock) rq = (\<lambda>s. s\<lparr>ap_db := rollup given clock (ap_db s)\<rparr>)"
| "run_call w (Login username password) rq = snd \<circ> login w username password rq"
| "run_call w Logout rq = snd \<circ> logout w rq"
| "run_call w (Change_password current replacement) rq = snd \<circ> change_password w current replacement rq"
| "run_call w (Set_portal_account name username password) rq = snd \<circ> set_portal_account w name username password rq"
| "run_call w (Remove_portal_account name) rq = snd \<circ> remove_portal_account w name rq"
| "run_call w Own_openvpn_profile rq = snd \<circ> own_openvpn_profile w rq"
| "run_call w Own_relay_profile rq = snd \<circ> own_relay_profile w rq"
| "run_call w (Download_relay_profile name) rq = snd \<circ> download_relay_profile w name rq"
| "run_call w (Download_profile name) rq = snd \<circ> download_profile w name rq"
| "run_call w (Share_profile name hours) rq = snd \<circ> share_profile w name hours rq"
| "run_call w (Shared_profile token) rq = snd \<circ> shared_profile w token rq"
| "run_call w (Create_client new) rq = snd \<circ> api_create_client w new rq"
| "run_call w (Set_tfa name b) rq = snd \<circ> set_tfa w name b rq"
| "run_call w (Revoke name reason) rq = snd \<circ> api_revoke w name reason rq"
| "run_call w (Renew name days) rq = snd \<circ> api_renew w name days rq"
| "run_call w (Revoke_previous name) rq = snd \<circ> api_revoke_previous w name rq"
| "run_call w (Delete_client name) rq = snd \<circ> delete_client w name rq"
| "run_call w (Disconnect name cid) rq = snd \<circ> disconnect w name cid rq"
| "run_call w (Static_ip name ip) rq = snd \<circ> api_static_ip w name ip rq"
| "run_call w (Set_access name b) rq = snd \<circ> set_access w name b rq"
| "run_call w (Revoke_relay name) rq = snd \<circ> revoke_relay w name rq"
| "run_call w (Set_note name note) rq = snd \<circ> set_note w name note rq"
| "run_call w (Put_config which content) rq = snd \<circ> put_config w which content rq"
| "run_call w Restart rq = snd \<circ> restart w rq"
| "run_call w Regenerate_crl rq = snd \<circ> regenerate_crl w rq"
| "run_call w (Enforce_tfa b) rq = snd \<circ> enforce_tfa w b rq"
| "run_call w (Control_channel b) rq = snd \<circ> api_control_channel w b rq"
| "run_call w (Put_settings body) rq = snd \<circ> put_settings w body rq"
| "run_call w (Put_network body) rq = snd \<circ> put_network_settings w body rq"
| "run_call w (Put_relay body) rq = snd \<circ> put_relay_settings w body rq"
| "run_call w (Put_signing body) rq = snd \<circ> save_relay_signing w body rq"

definition run_calls :: "world \<Rightarrow> (call \<times> request) list \<Rightarrow> app \<Rightarrow> app" where
  "run_calls w calls s = fold (\<lambda>(c, rq). run_call w c rq) calls s"

lemmas keeps_handlers =
  keeps_login keeps_logout keeps_profiles keeps_life_cycle keeps_server keeps_bootstrap

lemma run_call_ok: "accounts_ok (ap_db s) \<Longrightarrow> accounts_ok (ap_db (run_call w c rq s))"
  by (cases c) (simp_all add: keepsD [OF keeps_handlers(1)] keepsD [OF keeps_logout(1)] keepsD [OF keeps_logout(2)]
      keepsD [OF keeps_logout(3)] keepsD [OF keeps_logout(4)] keepsD keeps_handlers ok_rollup)

text \<open>
  C8. Whatever calls of the web API, starts of the program and clean-ups of the database follow one
  another, with whatever results, the accounts stay well formed: no two have the same number, name or
  client, numbers are never used twice, and every web session belongs to an account that is there.
\<close>

theorem accounts_stay_ok:
  assumes "accounts_ok (ap_db s)"
  shows "accounts_ok (ap_db (run_calls w calls s))"
  using assms unfolding run_calls_def by (induction calls arbitrary: s) (auto simp: run_call_ok split: prod.splits)

text \<open>From a fresh database: start, log in, log in as somebody unknown, clean up.\<close>

theorem accounts_stay_ok_witness:
  "accounts_ok (ap_db (run_calls demo_world
     [(Start (\<lambda>c. []) False ''admin'' ''hunter2'' [], demo_request), (Login ''admin'' ''hunter2'', demo_request),
      (Login ''bob'' ''x'', demo_request), (Cleanup None 6000, demo_request)]
     ((demo_app ''03'')\<lparr>ap_db := empty_db\<rparr>)))"
  by (rule accounts_stay_ok) (simp add: accounts_ok_def empty_db_def)

end
