(* ===== verification/Lifecycle.thy ===== *)
theory Lifecycle
  imports Accounts Listing
begin

text \<open>
  What becomes of a client over the calls of the web API: once it is revoked or deleted, no door that the
  program keeps for it stays open, and a deleted client does not come back into the list.
\<close>

section \<open>The list of clients\<close>

text \<open>The serials \<open>delete_client\<close> hides: those of the certificate and of the history of a row.\<close>

definition row_serials :: "client_info \<Rightarrow> string list" where
  "row_serials c = cr_serial (ci_cert c) # map cr_serial (ci_history c)"

lemma revoked_client_keeps:
  assumes "map_of cl n = Some c"
  shows "\<exists>c'. map_of (revoked_client state info hidden f cl) n = Some c' \<and> set (row_serials c) \<subseteq> set (row_serials c')"
  using assms by (auto simp: revoked_client_def Let_def update_conv' row_serials_def split: option.splits)

lemma revoked_fold_keeps:
  assumes "map_of cl n = Some c"
  shows "\<exists>c'. map_of (fold (revoked_client state info hidden) fl cl) n = Some c' \<and> set (row_serials c) \<subseteq> set (row_serials c')"
  using assms
proof (induction fl arbitrary: cl c)
  case (Cons f fl)
  obtain c1 where "map_of (revoked_client state info hidden f cl) n = Some c1" "set (row_serials c) \<subseteq> set (row_serials c1)"
    using revoked_client_keeps [OF Cons.prems] by blast
  with Cons.IH show ?case by (fastforce simp: subset_iff)
qed auto

lemma revoked_client_adds:
  assumes "info (Some (snd f)) = Some i" "ct_serial i \<notin> set hidden"
  shows "\<exists>c. map_of (revoked_client state info hidden f cl) (or_else (ct_cn i) (ct_serial i)) = Some c \<and>
      cr_serial (state i) \<in> set (row_serials c)"
  using assms by (auto simp: revoked_client_def Let_def update_conv' row_serials_def split: option.splits)

text \<open>Every revoked certificate that is not hidden is in the row of its client.\<close>

lemma revoked_fold_lists:
  assumes "f \<in> set fl" "info (Some (snd f)) = Some i" "ct_serial i \<notin> set hidden"
  shows "\<exists>c. map_of (fold (revoked_client state info hidden) fl cl) (or_else (ct_cn i) (ct_serial i)) = Some c \<and>
      cr_serial (state i) \<in> set (row_serials c)"
  using assms(1)
proof (induction fl arbitrary: cl)
  case (Cons g fl)
  show ?case
  proof (cases "f = g")
    case True
    obtain c where "map_of (revoked_client state info hidden f cl) (or_else (ct_cn i) (ct_serial i)) = Some c"
      "cr_serial (state i) \<in> set (row_serials c)" using revoked_client_adds [of info f i, OF assms(2,3)] by blast
    with revoked_fold_keeps [OF this(1), of state info hidden fl] True show ?thesis by (auto simp: subset_iff)
  qed (use Cons in auto)
qed simp

text \<open>A name is only in the list for an issued certificate or a revoked one that is not hidden.\<close>

lemma issued_fold_names:
  "n \<in> fst ` set (fold (issued_client state info old) fl cl) \<Longrightarrow> n \<in> fst ` set cl \<or> n \<in> fst ` set fl"
proof (induction fl arbitrary: cl)
  case (Cons f fl)
  have "fst ` set (issued_client state info old f cl) \<subseteq> insert (fst f) (fst ` set cl)"
    by (cases f) (simp add: issued_client_def dom_update subset_insertI split: option.split)
  with Cons show ?case by (simp del: fold.simps add: fold_Cons) blast
qed simp

lemma revoked_fold_names:
  "n \<in> fst ` set (fold (revoked_client state info hidden) fl cl) \<Longrightarrow>
    n \<in> fst ` set cl \<or>
    (\<exists>f \<in> set fl. \<exists>i. info (Some (snd f)) = Some i \<and> ct_serial i \<notin> set hidden \<and> n = or_else (ct_cn i) (ct_serial i))"
proof (induction fl arbitrary: cl)
  case (Cons f fl)
  have "n \<in> fst ` set cl \<or> (\<exists>i. info (Some (snd f)) = Some i \<and> ct_serial i \<notin> set hidden \<and> n = or_else (ct_cn i) (ct_serial i))"
    if "n \<in> fst ` set (revoked_client state info hidden f cl)"
    using that by (simp add: revoked_client_def Let_def dom_update split: option.splits if_splits) blast+
  with Cons show ?case by (simp del: fold.simps add: fold_Cons) blast
qed simp

lemma by_file_name_set [simp]: "set (by_file_name fl) = set fl"
  by (simp add: by_file_name_def)

lemma listed_name:
  assumes "n \<in> fst ` set (list_clients now info hidden fs)"
  shows "n \<in> fst ` set (fs_issued fs) \<or>
    (\<exists>f \<in> set (fs_revoked fs). \<exists>i. info (Some (snd f)) = Some i \<and> ct_serial i \<notin> set hidden \<and> n = or_else (ct_cn i) (ct_serial i))"
proof -
  have "fst ` set (list_clients now info hidden fs) =
      fst ` set (fold (revoked_client (cert_state now (read_index fs)) info hidden) (by_file_name (fs_revoked fs))
        (fold (issued_client (cert_state now (read_index fs)) info (fs_renewed fs)) (by_file_name (fs_issued fs)) []))"
    by (force simp: list_clients_def Let_def image_iff)
  with assms consider
    "n \<in> fst ` set (fold (issued_client (cert_state now (read_index fs)) info (fs_renewed fs)) (by_file_name (fs_issued fs)) [])"
  | "\<exists>f \<in> set (fs_revoked fs). \<exists>i. info (Some (snd f)) = Some i \<and> ct_serial i \<notin> set hidden \<and> n = or_else (ct_cn i) (ct_serial i)"
    using revoked_fold_names [of n _ info hidden "by_file_name (fs_revoked fs)"] unfolding by_file_name_set by metis
  then show ?thesis
  proof cases
    case 1
    from issued_fold_names [OF this] show ?thesis by simp
  qed blast
qed

lemma listed_serial:
  assumes "f \<in> set (fs_revoked fs)" "info (Some (snd f)) = Some i" "ct_serial i \<notin> set hidden"
    "map_of (list_clients now info hidden fs) (or_else (ct_cn i) (ct_serial i)) = Some c"
  shows "ct_serial i \<in> set (row_serials c)"
proof -
  let ?b = "fold (revoked_client (cert_state now (read_index fs)) info hidden) (by_file_name (fs_revoked fs))
      (fold (issued_client (cert_state now (read_index fs)) info (fs_renewed fs)) (by_file_name (fs_issued fs)) [])"
  obtain d where d: "map_of ?b (or_else (ct_cn i) (ct_serial i)) = Some d"
    "cr_serial (cert_state now (read_index fs) i) \<in> set (row_serials d)"
    using revoked_fold_lists [of f "by_file_name (fs_revoked fs)" info i hidden] assms(1-3) by auto
  have "list_clients now info hidden fs = map (\<lambda>(n, c). (n, sort_history c)) ?b" by (simp add: list_clients_def Let_def)
  then have "c = sort_history d" using assms(4) d(1) by (simp add: map_of_map)
  with d(2) show ?thesis by (simp add: row_serials_def sort_history_def cert_state_def Let_def)
qed

section \<open>Handlers that succeeded\<close>

lemma admin_Inr:
  assumes "admin w rq body s = (Inr x, s')"
  shows "\<exists>u s1 ws. body u s1 = (Inr x, s') \<and> s1 = s\<lparr>ap_db := (ap_db s)\<lparr>web_sessions := ws\<rparr>\<rparr> \<and>
    (accounts_ok (ap_db s) \<longrightarrow> accounts_ok (ap_db s1))"
proof -
  obtain u s1 where u: "current_user w rq s = (Inr u, s1)" "body u s1 = (Inr x, s')"
    using assms by (auto simp: admin_def act_Inr)
  moreover obtain ws where "s1 = s\<lparr>ap_db := (ap_db s)\<lparr>web_sessions := ws\<rparr>\<rparr>"
    using current_user_frame [of w rq s] u(1) by auto
  moreover have "accounts_ok (ap_db s) \<longrightarrow> accounts_ok (ap_db s1)"
    using keepsD [OF keeps_current_user, of s w rq] u(1) by simp
  ultimately show ?thesis by blast
qed

lemma find_client_Inr:
  assumes "find_client w rq name s = (Inr row, s')"
  shows "s' = s \<and> ci_name (tr_client row) = name \<and>
    (name, tr_client row) \<in> set (list_clients (now_of rq) (w_cert w) (hidden_serials (ap_db s)) (ap_fs s))"
proof -
  obtain rows where rows: "clients_payload w (now_of rq) ''today'' 0 s = Inr rows" "find (\<lambda>r. tr_name r = name) rows = Some row"
    and s': "s' = s"
    using assms by (auto simp: find_client_def act_Inr split: option.splits)
  have "row \<in> set rows" "tr_name row = name" using rows(2) by (auto simp: find_Some_iff)
  moreover have "(tr_name row, tr_client row) \<in> set (list_clients (now_of rq) (w_cert w) (hidden_serials (ap_db s)) (ap_fs s))"
    if "row \<in> set rows"
  proof -
    have "rows_ok (list_clients (now_of rq) (w_cert w) (hidden_serials (ap_db s)) (ap_fs s))"
      by (rule rows_ok_list)
    with rows(1) that show ?thesis
      by (auto simp: clients_payload_def Let_def tr_name_def rows_ok_def split: prod.splits)
  qed
  ultimately show ?thesis using s' by (simp add: tr_name_def)
qed

lemma fs_run_Inr [simp]:
  "fs_run f s = (Inr x, s') \<longleftrightarrow> (\<exists>fs. f (ap_fs s) = (Inr x, fs) \<and> s' = s\<lparr>ap_fs := fs\<rparr>)"
  by (auto simp: fs_run_def split: prod.splits)

section \<open>No door stays open\<close>

definition shut_out :: "string \<Rightarrow> database \<Rightarrow> bool" where
  "shut_out name db \<longleftrightarrow> get_setting db (client_key name) = None \<and> (\<forall>(k, t) \<in> set (share_tokens db). st_client_name t \<noteq> name)"

lemma shut_out_revoke: "shut_out name (drop_share_links name (revoke name db))"
  by (auto simp: shut_out_def drop_share_links_def revoke_def get_setting_def delete_setting_def delete_conv')

lemma shut_out_frame:
  "shut_out name db \<Longrightarrow> settings_tab db' = settings_tab db \<Longrightarrow> share_tokens db' = share_tokens db \<Longrightarrow> shut_out name db'"
  by (simp add: shut_out_def get_setting_def)

text \<open>Neither the relay nor a share link lets a client through that is shut out.\<close>

lemma shut_out_relay:
  assumes "shut_out name (ap_db s)"
  shows "authorize_relay w rq s = (Inr p, s') \<Longrightarrow> pl_client p \<noteq> name"
proof
  assume a: "authorize_relay w rq s = (Inr p, s')" and n: "pl_client p = name"
  then have "authorize (w_sha w) (w_model w) (w_cert w) (rq_time rq) (ap_fs s) (ap_db s)
      (text_or_empty (header rq ''authorization'')) False = Inr (Some p)"
    by (auto simp: authorize_relay_def act_Inr split: option.splits)
  from authorize_cases [OF this] n assms show False
    by (auto simp: granted_def shut_out_def policy_of_def)
qed

lemma shut_out_link:
  assumes "shut_out name (ap_db s)"
  shows "shared_client w token rq s \<noteq> (Inr name, s')"
proof
  assume "shared_client w token rq s = (Inr name, s')"
  then have "open_link (w_sha w token) (now_of rq) (ap_db s) = Some name" using shared_client_Inr by blast
  then obtain t where "(w_sha w token, t) \<in> set (share_tokens (ap_db s))" "st_client_name t = name"
    by (auto simp: open_link_def dest: map_of_SomeD split: option.splits if_splits)
  with assms show False by (auto simp: shut_out_def)
qed

lemma find_member: "find p xs = Some x \<Longrightarrow> x \<in> set xs \<and> p x"
  by (induction xs) (auto split: if_splits)

lemma session_row_member: "session_row h db = Some (ws, row) \<Longrightarrow> row \<in> set (users db)"
  by (auto simp: session_row_def user_by_id_def dest: find_member split: option.splits)

lemma signed_in_account:
  assumes "signed_in_user w rq s = (Inr u, s')" "su_client_name u = Some name"
  shows "\<exists>row \<in> set (users (ap_db s)). u_client_name row = Some name"
proof -
  obtain row where row: "live_session w rq s row" "u = session_user_of row" using signed_in_Inr [OF assms(1)] by blast
  then have "row \<in> set (users (ap_db s))" using session_row_member unfolding live_session_def by blast
  moreover have "u_client_name row = Some name" using assms(2) row(2) by (simp add: session_user_of_def)
  ultimately show ?thesis by blast
qed

lemma disable_portal_gone:
  assumes "accounts_ok db" "u \<in> set (users (disable_portal w name db))"
  shows "u_client_name u \<noteq> Some name"
proof
  assume n: "u_client_name u = Some name"
  have "u \<in> set (users db)"
    using assms(2) by (auto simp: disable_portal_def delete_user_def delete_user_sessions_def split: option.splits)
  then have f: "user_of_client name db = Some u"
    using find_client_name [OF _ _ n] assms(1) by (simp add: user_of_client_def accounts_ok_def)
  show False using assms(2) by (simp add: disable_portal_def f delete_user_def)
qed

lemma hide_certs_hides: "set serials \<subseteq> fst ` set (hidden_certs (hide_certs serials name now db)) \<and>
    fst ` set (hidden_certs db) \<subseteq> fst ` set (hidden_certs (hide_certs serials name now db))"
proof -
  have "fst ` set t \<union> set serials \<subseteq> fst ` set (fold (\<lambda>s t. if map_of t s = None then t @ [(s, name, now)] else t) serials t)" for t
  proof (induction serials arbitrary: t)
    case (Cons x xs)
    show ?case using Cons.IH [of "if map_of t x = None then t @ [(x, name, now)] else t"]
      by (auto simp: map_of_eq_None_iff split: if_splits)
  qed simp
  then show ?thesis by (simp add: hide_certs_def)
qed

lemma delete_client_Inr:
  assumes "delete_client w name rq s = (Inr x, s')"
  shows "\<exists>ws fs (c :: client_info) u. let db0 = (ap_db s)\<lparr>web_sessions := ws\<rparr> in
    (accounts_ok (ap_db s) \<longrightarrow> accounts_ok db0) \<and>
    (name, c) \<in> set (list_clients (now_of rq) (w_cert w) (hidden_serials (ap_db s)) (ap_fs s)) \<and>
    remove_client (w_cfg w) (w_execute w) name (ap_fs s) = (Inr (), fs) \<and>
    s' = s\<lparr>ap_fs := fs, ap_db := add_event (now_of rq) ''client_deleted'' (Some name) (Some u) None
      (hide_certs (row_serials (c)) name (now_of rq)
        (drop_share_links name (revoke name (disable_portal w name db0))))\<rparr>"
proof -
  obtain u s1 ws where 1: "s1 = s\<lparr>ap_db := (ap_db s)\<lparr>web_sessions := ws\<rparr>\<rparr>" "accounts_ok (ap_db s) \<longrightarrow> accounts_ok (ap_db s1)"
    and body: "(\<lambda>user. act_bind (find_client w rq name) (\<lambda>row.
         let c = tr_client row; serials = cr_serial (ci_cert c) # map cr_serial (ci_history c)
         in if tr_state row \<noteq> ''revoked'' then raise (HTTPException 400 ''Revoke the certificate before deleting the client'')
            else
              act_then (fs_run (remove_client (w_cfg w) (w_execute w) name))
              (act_then (db_do (disable_portal w name))
              (act_then (db_do (revoke name))
              (act_then (db_do (drop_share_links name))
              (act_then (db_do (hide_certs serials name (now_of rq)))
                (event rq ''client_deleted'' (Some user) (Some name) None))))))) u s1 = (Inr x, s')"
    using admin_Inr [OF assms [unfolded delete_client_def]] by (elim exE conjE) (rule that, assumption+)
  then obtain row s2 fs where row: "find_client w rq name s1 = (Inr row, s2)"
    and rest: "remove_client (w_cfg w) (w_execute w) name (ap_fs s2) = (Inr (), fs)"
    "s' = s2\<lparr>ap_fs := fs, ap_db := add_event (now_of rq) ''client_deleted'' (Some name) (Some (su_username u)) None
      (hide_certs (row_serials (tr_client row)) name (now_of rq)
        (drop_share_links name (revoke name (disable_portal w name (ap_db s2)))))\<rparr>"
    by (auto simp: act_Inr Let_def row_serials_def split: if_splits)
  from find_client_Inr [OF row] have s2: "s2 = s1"
    "(name, tr_client row) \<in> set (list_clients (now_of rq) (w_cert w) (hidden_serials (ap_db s1)) (ap_fs s1))" by auto
  show ?thesis
    by (rule exI [of _ ws], rule exI [of _ fs], rule exI [of _ "tr_client row"], rule exI [of _ "su_username u"])
      (use 1 rest s2 in \<open>simp add: Let_def hidden_serials_def\<close>)
qed

lemma hidden_not_found:
  assumes listed: "(name, c) \<in> set (list_clients now (w_cert w) (hidden_serials db) fs)"
    and hidden: "set (row_serials c) \<subseteq> set (hidden_serials (ap_db s'))" "set (hidden_serials db) \<subseteq> set (hidden_serials (ap_db s'))"
    and files: "name \<notin> fst ` set (fs_issued (ap_fs s'))" "set (fs_revoked (ap_fs s')) \<subseteq> set (fs_revoked fs)"
  shows "find_client w rq name s' \<noteq> (Inr row, s'')"
proof
  assume "find_client w rq name s' = (Inr row, s'')"
  then have "name \<in> fst ` set (list_clients (now_of rq) (w_cert w) (hidden_serials (ap_db s')) (ap_fs s'))"
    using find_client_Inr [of w rq name s'] by force
  then obtain f i where f: "f \<in> set (fs_revoked fs)" "w_cert w (Some (snd f)) = Some i"
    "ct_serial i \<notin> set (hidden_serials (ap_db s'))" "name = or_else (ct_cn i) (ct_serial i)"
    using listed_name files by blast
  have "map_of (list_clients now (w_cert w) (hidden_serials db) fs) name = Some c"
    using listed rows_ok_list [of now "w_cert w"] by (simp add: rows_ok_def)
  then have "ct_serial i \<in> set (row_serials c)" using listed_serial [of f fs "w_cert w" i] f hidden(2) by blast
  with f(3) hidden(1) show False by blast
qed

lemma hidden_frame [simp]:
  "hidden_certs (disable_portal w name db) = hidden_certs db" "hidden_certs (revoke name db) = hidden_certs db"
  "hidden_certs (drop_share_links name db) = hidden_certs db" "hidden_certs (add_event t kind c a d db) = hidden_certs db"
  by (simp_all add: disable_portal_def delete_user_def delete_user_sessions_def revoke_def delete_setting_def
      drop_share_links_def add_event_def split: option.splits)

text \<open>
  C5. A client that was deleted is gone. The relay answers nobody in its name, no share link gives out
  its profile, it has no portal account and nobody is signed in as it. And unless the scripts leave a
  certificate of that name among the issued ones or put a new one among the revoked ones, the client
  is not found any more, at any later time.
\<close>

theorem deleted_client_is_gone:
  assumes "accounts_ok (ap_db s)" "delete_client w name rq s = (Inr x, s')"
  shows "(\<forall>rq' p s''. authorize_relay w rq' s' = (Inr p, s'') \<longrightarrow> pl_client p \<noteq> name) \<and>
    (\<forall>token rq' s''. shared_client w token rq' s' \<noteq> (Inr name, s'')) \<and>
    user_of_client name (ap_db s') = None \<and>
    (\<forall>rq' u s''. signed_in_user w rq' s' = (Inr u, s'') \<longrightarrow> su_client_name u \<noteq> Some name) \<and>
    (name \<notin> fst ` set (fs_issued (ap_fs s')) \<and> set (fs_revoked (ap_fs s')) \<subseteq> set (fs_revoked (ap_fs s)) \<longrightarrow>
      (\<forall>rq' row s''. find_client w rq' name s' \<noteq> (Inr row, s'')))"
proof -
  obtain ws fs c u where d: "accounts_ok ((ap_db s)\<lparr>web_sessions := ws\<rparr>)"
    "(name, c) \<in> set (list_clients (now_of rq) (w_cert w) (hidden_serials (ap_db s)) (ap_fs s))"
    "s' = s\<lparr>ap_fs := fs, ap_db := add_event (now_of rq) ''client_deleted'' (Some name) (Some u) None
      (hide_certs (row_serials c) name (now_of rq)
        (drop_share_links name (revoke name (disable_portal w name ((ap_db s)\<lparr>web_sessions := ws\<rparr>)))))\<rparr>"
    using delete_client_Inr [OF assms(2)] assms(1) unfolding Let_def by blast
  have out: "shut_out name (ap_db s')"
    by (rule shut_out_frame [OF shut_out_revoke]) (simp_all add: d(3) hide_certs_def add_event_def)
  have "users (ap_db s') = users (disable_portal w name ((ap_db s)\<lparr>web_sessions := ws\<rparr>))"
    by (simp add: d(3) hide_certs_def add_event_def drop_share_links_def revoke_def delete_setting_def)
  then have acc: "\<forall>u \<in> set (users (ap_db s')). u_client_name u \<noteq> Some name" using disable_portal_gone [OF d(1)] by metis
  then have "user_of_client name (ap_db s') = None" by (simp add: user_of_client_def find_None_iff)
  moreover have "set (row_serials c) \<subseteq> set (hidden_serials (ap_db s'))" "set (hidden_serials (ap_db s)) \<subseteq> set (hidden_serials (ap_db s'))"
    using hide_certs_hides [of "row_serials c" name "now_of rq"
        "drop_share_links name (revoke name (disable_portal w name ((ap_db s)\<lparr>web_sessions := ws\<rparr>)))"]
    by (simp_all add: d(3) hidden_serials_def)
  ultimately show ?thesis
    using hidden_not_found [OF d(2)] shut_out_relay [OF out] shut_out_link [OF out] signed_in_account acc
    by (auto dest: signed_in_account)
qed

lemma try_kill_frame: "try_kill w rq name s = (Inr k, s') \<Longrightarrow> ap_db s' = ap_db s \<and> ap_fs s' = ap_fs s"
  by (auto simp: try_kill_def act_catch_def kill_client_def mgmt_run_def ret_def raise_def
      split: prod.splits sum.splits exc.splits)

text \<open>
  C4. A revocation that succeeds closes the program's own doors with the certificate: the script has
  revoked it, the relay answers nobody in the client's name and no share link gives out its profile,
  whatever comes of the attempt to disconnect the client.
\<close>

theorem revoked_client_shut_out:
  assumes "api_revoke w name reason rq s = (Inr r, s')"
  shows "(\<exists>fs. revoke_client (w_cfg w) (w_execute w) name (text_or_empty reason) (ap_fs s) = (Inr (), fs) \<and> ap_fs s' = fs) \<and>
    (\<forall>rq' p s''. authorize_relay w rq' s' = (Inr p, s'') \<longrightarrow> pl_client p \<noteq> name) \<and>
    (\<forall>token rq' s''. shared_client w token rq' s' \<noteq> (Inr name, s''))"
  using admin_Inr [OF assms [unfolded api_revoke_def]]
proof (elim exE conjE)
  fix u s1 ws
  assume s1: "s1 = s\<lparr>ap_db := (ap_db s)\<lparr>web_sessions := ws\<rparr>\<rparr>"
    and body: "act_bind (find_client w rq name) (\<lambda>row.
         if tr_state row = ''revoked'' then raise (HTTPException 400 ''Already revoked'')
         else
           act_then (fs_run (revoke_client (w_cfg w) (w_execute w) name (text_or_empty reason)))
           (act_then (db_do (revoke name))
           (act_then (db_do (drop_share_links name))
           (act_bind (try_kill w rq name) (\<lambda>killed.
            act_then (event rq ''client_revoked'' (Some u) (Some name) (if reason = Some [] then None else reason))
            (act_bind (find_client w rq name) (\<lambda>row. ret (row, killed)))))))) s1 = (Inr r, s')"
  obtain row s2 fs s3 k s4 row' s5 where f1: "find_client w rq name s1 = (Inr row, s2)"
    and fs: "revoke_client (w_cfg w) (w_execute w) name (text_or_empty reason) (ap_fs s2) = (Inr (), fs)"
    and k: "try_kill w rq name (s2\<lparr>ap_fs := fs, ap_db := drop_share_links name (revoke name (ap_db s2))\<rparr>) = (Inr k, s3)"
    and ev: "s4 = s3\<lparr>ap_db := add_event (now_of rq) ''client_revoked'' (Some name) (Some (su_username u))
        (if reason = Some [] then None else reason) (ap_db s3)\<rparr>"
    and f2: "find_client w rq name s4 = (Inr row', s')"
    using body by (auto simp: act_Inr split: if_splits)
  have e: "s2 = s1" "s' = s4" using find_client_Inr f1 f2 by blast+
  have "ap_db s3 = drop_share_links name (revoke name (ap_db s2))" using try_kill_frame [OF k] by simp
  then have out: "shut_out name (ap_db s')"
    by (intro shut_out_frame [OF shut_out_revoke [of name "ap_db s2"]]) (simp_all add: e ev add_event_def)
  moreover have "ap_fs s' = fs" using try_kill_frame [OF k] by (simp add: e ev)
  ultimately show ?thesis using fs s1 e(1) shut_out_relay [OF out] shut_out_link [OF out] by auto
qed

text \<open>A revoked client with a grant, a share link, an account and one revoked certificate, and an administrator.\<close>

definition admin_account :: user where
  "admin_account =
     \<lparr>u_id = 1, u_username = ''admin'', u_password_hash = demo_hash, u_created_at = 0, u_last_login = None,
      u_client_name = None, u_client_serial = None\<rparr>"

definition demo_revoked_app :: app where
  "demo_revoked_app =
     (demo_app ''03'')\<lparr>
       ap_db := (ap_db (demo_app ''03''))\<lparr>users := [admin_account, alice_account], next_user_id := 8,
         web_sessions := [(''tok'', \<lparr>ws_user_id = 1, ws_created_at = 4000, ws_expires_at = 9000, ws_ip = None, ws_user_agent = []\<rparr>)]\<rparr>,
       ap_fs := (demo_relay_files ''03'')\<lparr>fs_issued := [], fs_revoked := [(''03'', ''03'')],
         fs_index := Some (join [CHR 0x09] [''R'', ''700101023000Z'', ''700101010000Z'', ''03'', ''unknown'', ''/CN=alice''] @ [newline])\<rparr>\<rparr>"

lemma demo_deleted: "fst (delete_client demo_world ''alice'' demo_request demo_revoked_app) = Inr ()"
  by code_simp

theorem deleted_client_is_gone_witness:
  "user_of_client ''alice'' (ap_db (snd (delete_client demo_world ''alice'' demo_request demo_revoked_app))) = None"
proof -
  have ok: "accounts_ok (ap_db demo_revoked_app)" by code_simp
  have "delete_client demo_world ''alice'' demo_request demo_revoked_app =
      (Inr (), snd (delete_client demo_world ''alice'' demo_request demo_revoked_app))"
    using demo_deleted by (simp add: prod_eq_iff)
  from deleted_client_is_gone [OF ok this] show ?thesis by blast
qed

text \<open>The same client before: its certificate is valid, and the script moves it away.\<close>

definition demo_revoking :: world where
  "demo_revoking = demo_world\<lparr>w_execute := (\<lambda>c fs. (fs\<lparr>fs_issued := [], fs_revoked := fs_issued fs\<rparr>, Exited 0 [] []))\<rparr>"

definition demo_valid_app :: app where
  "demo_valid_app = demo_revoked_app\<lparr>ap_fs := demo_relay_files ''03''\<rparr>"

lemma demo_revokes: "\<not> isl (fst (api_revoke demo_revoking ''alice'' None demo_request demo_valid_app))"
  by code_simp

theorem revoked_client_shut_out_witness:
  "fst (shared_client demo_revoking ''link'' demo_request (snd (api_revoke demo_revoking ''alice'' None demo_request demo_valid_app)))
     \<noteq> Inr ''alice''"
proof -
  have "api_revoke demo_revoking ''alice'' None demo_request demo_valid_app =
      (Inr (projr (fst (api_revoke demo_revoking ''alice'' None demo_request demo_valid_app))),
       snd (api_revoke demo_revoking ''alice'' None demo_request demo_valid_app))"
    using demo_revokes by (simp add: prod_eq_iff sum.collapse(2))
  from revoked_client_shut_out [OF this] show ?thesis by (metis prod.collapse)
qed

end
