(* ===== verification/Signer.thy ===== *)
theory Signer
  imports Relay
begin

text \<open>
  The signer of relay profiles, \<open>signer/service.py\<close>: a separate service that keeps the TLS key.

  OpenSSL, the \<open>ssl\<close> module's use of it, and the parsers of JSON and of XML property lists (expat) are
  parameters. What the parsers raise for broken input is a \<open>ValueError\<close>, which the service treats as it
  treats their own exceptions. Bytes that are searched as text stand as the characters of the same codes.
\<close>

section \<open>Library functions\<close>

definition text_of_bytes :: "bytes \<Rightarrow> string" where
  "text_of_bytes bs = map (\<lambda>b. char_of (unat b)) bs"

text \<open>\<open>base64.b64decode(s, validate=True)\<close>\<close>

definition b64decode_valid :: "string \<Rightarrow> bytes result" where
  "b64decode_valid s =
     (let body = rstrip_by (\<lambda>c. c = CHR ''='') s
      in if list_all (\<lambda>c. c \<in> set alphabet) body \<and> length s - length body \<le> 2 \<and> length s mod 4 = 0
         then b64decode s else Inl ValueError)"

text \<open>\<open>ssl.cert_time_to_seconds\<close>\<close>

definition cert_time_to_seconds :: "string \<Rightarrow> int result" where
  "cert_time_to_seconds s =
     res_bind (strptime (Cat [D_b, Spaces1, D_d, Spaces1, D_H, Lit '':'', D_M, Lit '':'', D_S, Spaces1, D_Y, Spaces1,
                    NoCaseLit ''gmt'']) (\<lambda>m. num m 1) (\<lambda>m. month_of_name (grp m 2)) s)
       (\<lambda>t. Inr (utc_timestamp t))"

text \<open>Iteration over a JSON value, and \<open>d.get(key)\<close>.\<close>

definition json_iter :: "json \<Rightarrow> json list result" where
  "json_iter j =
     (case j of
        JList xs \<Rightarrow> Inr xs
      | JStr s \<Rightarrow> Inr (map (\<lambda>c. JStr [c]) s)
      | JObj kvs \<Rightarrow> Inr (map (\<lambda>(k, v). JStr k) kvs)
      | _ \<Rightarrow> Inl TypeError)"

definition json_get :: "json \<Rightarrow> string \<Rightarrow> json result" where
  "json_get j key =
     (case j of JObj kvs \<Rightarrow> Inr (case map_of kvs key of Some v \<Rightarrow> v | None \<Rightarrow> JNull) | _ \<Rightarrow> Inl AttributeError)"

definition json_or :: "json \<Rightarrow> json \<Rightarrow> json" where
  "json_or a b = (if truthy a then a else b)"

text \<open>\<open>line.split("=", 1)[1]\<close>\<close>

definition after_equals :: "string \<Rightarrow> string result" where
  "after_equals line = (case partition_on CHR ''='' line of (a, f, b) \<Rightarrow> if f then Inr b else Inl IndexError)"

definition nth_line :: "string list \<Rightarrow> nat \<Rightarrow> string result" where
  "nth_line ls i = (if i < length ls then Inr (ls ! i) else Inl IndexError)"

section \<open>The signing identity\<close>

text \<open>
  \<open>load_cert_chain\<close> of a certificate and a key, \<open>openssl verify\<close> of a certificate for a host name with
  the intermediate certificates, \<open>openssl x509\<close>, the fingerprint of a certificate, and \<open>openssl cms\<close>.
\<close>

record tools =
  tl_load :: "string \<Rightarrow> string \<Rightarrow> bool"
  tl_verify :: "string \<Rightarrow> string \<Rightarrow> string list \<Rightarrow> bool"
  tl_x509 :: "string \<Rightarrow> string option"
  tl_fingerprint :: "string \<Rightarrow> string result"
  tl_cms :: "string list \<Rightarrow> string \<Rightarrow> bytes \<Rightarrow> bytes option"
  tl_json :: "string \<Rightarrow> json result"
  tl_plist :: "bytes \<Rightarrow> plist result"

record metadata =
  md_subject :: string
  md_expires_at :: int
  md_fingerprint :: string

record signing_identity =
  id_certs :: "string list"
  id_key :: string
  id_metadata :: metadata

record signer =
  sn_hostname :: string
  sn_relay_url :: string
  sn_token :: string

definition new_signer :: "string \<Rightarrow> string \<Rightarrow> string \<Rightarrow> signer result" where
  "new_signer host relay_url token =
     (if length token < 32 then Inl ValueError
      else Inr \<lparr>sn_hostname = host, sn_relay_url = rstrip_by (\<lambda>c. c = CHR ''/'') relay_url, sn_token = token\<rparr>)"

fun names_host :: "string \<Rightarrow> json list \<Rightarrow> bool result" where
  "names_host host [] = Inr False"
| "names_host host (n # ns) =
     (if n = JStr host then Inr True
      else
        case n of
          JStr s \<Rightarrow>
            if startswith s ''*.'' \<and> snd (snd (partition_on CHR ''.'' host)) = drop 2 s then Inr True
            else names_host host ns
        | _ \<Rightarrow> Inl AttributeError)"

definition PEM :: re where
  "PEM = Cat [Lit ''-----BEGIN CERTIFICATE-----'', Lazy (Cls (\<lambda>c. True)), Lit ''-----END CERTIFICATE-----'']"

definition decoded_field :: "string \<Rightarrow> (string \<times> json) list \<Rightarrow> bytes result" where
  "decoded_field key entry =
     (case map_of entry key of
        None \<Rightarrow> Inl KeyError
      | Some (JStr s) \<Rightarrow> b64decode_valid s
      | Some j \<Rightarrow> Inl TypeError)"

text \<open>The \<open>try\<close> block: a candidate, none, or what it raises.\<close>

definition examine :: "tools \<Rightarrow> string \<Rightarrow> (string \<times> json) list \<Rightarrow> signing_identity option result" where
  "examine T host entry =
     res_bind (decoded_field ''certificate'' entry) (\<lambda>fullchain.
     res_bind (decoded_field ''key'' entry) (\<lambda>key.
       case map m_text (re_findall PEM (text_of_bytes fullchain)) of
         [] \<Rightarrow> Inr None
       | leaf # chain \<Rightarrow>
           if \<not> tl_load T leaf (text_of_bytes key) then Inl ValueError
           else if \<not> tl_verify T host leaf chain then Inl SubprocessError
           else
             case tl_x509 T leaf of
               None \<Rightarrow> Inl SubprocessError
             | Some out \<Rightarrow>
                 res_bind (nth_line (splitlines out) 0) (\<lambda>l0. res_bind (after_equals l0) (\<lambda>t0.
                 res_bind (cert_time_to_seconds t0) (\<lambda>expires.
                 res_bind (nth_line (splitlines out) 1) (\<lambda>l1. res_bind (after_equals l1) (\<lambda>subject.
                 res_bind (tl_fingerprint T leaf) (\<lambda>fingerprint.
                   Inr (Some \<lparr>id_certs = leaf # chain, id_key = text_of_bytes key,
                          id_metadata = \<lparr>md_subject = strip subject, md_expires_at = expires, md_fingerprint = fingerprint\<rparr>\<rparr>)))))))))"

definition candidate :: "tools \<Rightarrow> string \<Rightarrow> json \<Rightarrow> signing_identity option result" where
  "candidate T host entry =
     res_bind (json_get entry ''domain'') (\<lambda>d.
     let domain = json_or d (JObj [])
     in res_bind (case domain of JObj kvs \<Rightarrow> Inr (case map_of kvs ''main'' of Some v \<Rightarrow> v | None \<Rightarrow> JStr []) | _ \<Rightarrow> Inl AttributeError) (\<lambda>main.
        res_bind (json_get domain ''sans'') (\<lambda>s.
        res_bind (json_iter (json_or s (JList []))) (\<lambda>sans.
        res_bind (names_host host (main # sans)) (\<lambda>named.
          if \<not> named then Inr None
          else
            case entry of
              JObj kvs \<Rightarrow>
                (case examine T host kvs of
                   Inl e \<Rightarrow> if e \<in> {KeyError, ValueError, SubprocessError} then Inr None else Inl e
                 | Inr c \<Rightarrow> Inr c)
            | _ \<Rightarrow> Inl AttributeError)))))"

definition resolver_candidates :: "tools \<Rightarrow> string \<Rightarrow> json \<Rightarrow> signing_identity option list result" where
  "resolver_candidates T host resolver =
     (case resolver of
        JObj kvs \<Rightarrow>
          res_bind (json_iter (json_or (case map_of kvs ''Certificates'' of Some v \<Rightarrow> v | None \<Rightarrow> JNull) (JList []))) (\<lambda>entries.
            map_res (candidate T host) entries)
      | _ \<Rightarrow> Inr [])"

definition expires_of :: "signing_identity \<Rightarrow> int" where
  "expires_of c = md_expires_at (id_metadata c)"

text \<open>\<open>max\<close> returns the first of several largest elements.\<close>

definition latest :: "signing_identity list \<Rightarrow> signing_identity option" where
  "latest cs = (case cs of [] \<Rightarrow> None | c # cs \<Rightarrow> Some (foldl (\<lambda>b c. if expires_of b < expires_of c then c else b) c cs))"

definition load_identity :: "tools \<Rightarrow> string \<Rightarrow> string \<Rightarrow> signing_identity result" where
  "load_identity T host content =
     res_bind (tl_json T content) (\<lambda>store.
       case store of
         JObj kvs \<Rightarrow>
           res_bind (map_res (\<lambda>(k, r). resolver_candidates T host r) kvs) (\<lambda>css.
             case latest (List.map_filter (\<lambda>c. c) (concat css)) of None \<Rightarrow> Inl ValueError | Some c \<Rightarrow> Inr c)
       | _ \<Rightarrow> Inl AttributeError)"

text \<open>The file with the certificates: its inode, time and size, and its text; \<open>None\<close> when it cannot be read.\<close>

type_synonym acme = "((int \<times> int \<times> int) \<times> string) option"

record cached =
  ca_signature :: "int \<times> int \<times> int"
  ca_until :: real
  ca_identity :: signing_identity

record moment =
  mo_time :: rat
  mo_monotonic :: real
  mo_acme :: acme

definition usable_cache :: "moment \<Rightarrow> int \<times> int \<times> int \<Rightarrow> cached \<Rightarrow> bool" where
  "usable_cache m signature c \<longleftrightarrow>
     ca_signature c = signature \<and> mo_monotonic m < ca_until c \<and> mo_time m < of_int (expires_of (ca_identity c))"

definition identity :: "tools \<Rightarrow> signer \<Rightarrow> moment \<Rightarrow> cached option \<Rightarrow> signing_identity result \<times> cached option" where
  "identity T sn m cache =
     (case mo_acme m of
        None \<Rightarrow> (Inl OSError, cache)
      | Some (signature, content) \<Rightarrow>
          (case cache of
             Some c \<Rightarrow>
               if usable_cache m signature c then (Inr (ca_identity c), cache)
               else
                 (case load_identity T (sn_hostname sn) content of
                    Inl e \<Rightarrow> (Inl e, cache)
                  | Inr i \<Rightarrow> (Inr i, Some \<lparr>ca_signature = signature, ca_until = mo_monotonic m + 60, ca_identity = i\<rparr>))
           | None \<Rightarrow>
               (case load_identity T (sn_hostname sn) content of
                  Inl e \<Rightarrow> (Inl e, cache)
                | Inr i \<Rightarrow> (Inr i, Some \<lparr>ca_signature = signature, ca_until = mo_monotonic m + 60, ca_identity = i\<rparr>))))"

section \<open>What it signs\<close>

definition MAX_PROFILE :: nat where "MAX_PROFILE = 128 * 1024"

definition plist_get :: "plist \<Rightarrow> string \<Rightarrow> plist option result" where
  "plist_get p key = (case p of PDict kvs \<Rightarrow> Inr (map_of kvs key) | _ \<Rightarrow> Inl AttributeError)"

text \<open>\<open>len(v)\<close> and \<open>v[0]\<close>; an index into a dictionary is a key.\<close>

definition plist_len :: "plist \<Rightarrow> nat result" where
  "plist_len p =
     (case p of PArray xs \<Rightarrow> Inr (length xs) | PStr s \<Rightarrow> Inr (length s) | PDict kvs \<Rightarrow> Inr (length kvs) | PData bs \<Rightarrow> Inr (length bs)
      | _ \<Rightarrow> Inl TypeError)"

definition plist_first :: "plist \<Rightarrow> plist result" where
  "plist_first p =
     (case p of
        PArray (x # xs) \<Rightarrow> Inr x
      | PStr (c # s) \<Rightarrow> Inr (PStr [c])
      | PDict kvs \<Rightarrow> Inl KeyError
      | PData (b # bs) \<Rightarrow> Inr (PInt (uint b))
      | _ \<Rightarrow> Inl IndexError)"

definition plist_startswith :: "plist \<Rightarrow> string \<Rightarrow> bool result" where
  "plist_startswith p t =
     (case p of PStr s \<Rightarrow> Inr (startswith s t) | PData bs \<Rightarrow> Inl TypeError | _ \<Rightarrow> Inl AttributeError)"

definition relay_address :: "signer \<Rightarrow> string" where
  "relay_address sn = sn_relay_url sn @ ''/.well-known/masque/udp/{target_host}/{target_port}/''"

definition default_to :: "plist \<Rightarrow> plist option \<Rightarrow> plist" where
  "default_to d v = (case v of Some p \<Rightarrow> p | None \<Rightarrow> d)"

definition relay_urls :: "(string \<times> plist) list \<Rightarrow> plist list" where
  "relay_urls relay = map snd (filter (\<lambda>(k, v). k \<in> {''HTTP2RelayURL'', ''HTTP3RelayURL''}) relay)"

definition check_relays :: "signer \<Rightarrow> plist \<Rightarrow> unit result" where
  "check_relays sn pl =
     res_bind (plist_get pl ''Relays'') (\<lambda>v.
     let relays = default_to (PArray []) v
     in res_bind (plist_len relays) (\<lambda>n.
        if n \<noteq> 1 then Inl ValueError
        else
          res_bind (plist_first relays) (\<lambda>relay.
            case relay of
              PDict kvs \<Rightarrow>
                if relay_urls kvs = [] \<or> list_ex (\<lambda>u. u \<noteq> PStr (relay_address sn)) (relay_urls kvs)
                then Inl ValueError else Inr ()
            | _ \<Rightarrow> Inl AttributeError)))"

definition check_profile :: "signer \<Rightarrow> plist \<Rightarrow> unit result" where
  "check_profile sn prof =
     res_bind (plist_get prof ''PayloadContent'') (\<lambda>v.
     let payloads = default_to (PArray []) v
     in res_bind (plist_get prof ''PayloadType'') (\<lambda>kind.
        if kind \<noteq> Some (PStr ''Configuration'') then Inl ValueError
        else
          res_bind (plist_len payloads) (\<lambda>n.
            if n \<noteq> 1 then Inl ValueError
            else
              res_bind (plist_first payloads) (\<lambda>pl.
              res_bind (plist_get pl ''PayloadType'') (\<lambda>kind.
                if kind \<noteq> Some (PStr ''com.apple.relay.managed'') then Inl ValueError
                else
                  res_bind (plist_get prof ''PayloadIdentifier'') (\<lambda>i.
                  res_bind (plist_startswith (default_to (PStr []) i) ''org.openvpn.apple-relay.'') (\<lambda>ours.
                    if \<not> ours then Inl ValueError else check_relays sn pl)))))))"

text \<open>\<open>Signer.sign\<close> up to the identity\<close>

definition accept_profile :: "tools \<Rightarrow> signer \<Rightarrow> bytes \<Rightarrow> unit result" where
  "accept_profile T sn content =
     (if MAX_PROFILE < length content then Inl ValueError
      else
        res_bind (tl_plist T content) (\<lambda>prof.
        res_bind (plist_dumps prof) (\<lambda>t.
          if encode t \<noteq> content then Inl ValueError else check_profile sn prof)))"

definition sign :: "tools \<Rightarrow> signer \<Rightarrow> moment \<Rightarrow> bytes \<Rightarrow> cached option \<Rightarrow> bytes result \<times> cached option" where
  "sign T sn m content cache =
     (case accept_profile T sn content of
        Inl e \<Rightarrow> (Inl e, cache)
      | Inr _ \<Rightarrow>
          (case identity T sn m cache of
             (Inl e, cache') \<Rightarrow> (Inl e, cache')
           | (Inr i, cache') \<Rightarrow>
               (case tl_cms T (id_certs i) (id_key i) content of
                  None \<Rightarrow> (Inl SubprocessError, cache')
                | Some out \<Rightarrow> (Inr out, cache'))))"

section \<open>Requests\<close>

text \<open>\<open>sr_body\<close> is what the client sends before it closes its side.\<close>

record sign_request =
  sr_path :: string
  sr_authorization :: "string option"
  sr_content_length :: "string option"
  sr_transfer_encoding :: "string option"
  sr_body :: bytes

datatype sign_reply = Refused nat string | Signed bytes | Ready metadata

record signer_state =
  ss_slots :: nat
  ss_cache :: "cached option"

definition serve :: "tools \<Rightarrow> signer \<Rightarrow> moment \<Rightarrow> bool \<Rightarrow> sign_request \<Rightarrow> cached option \<Rightarrow> sign_reply result \<times> cached option" where
  "serve T sn m signing rq cache =
     (if signing
      then
        case py_int (case sr_content_length rq of Some t \<Rightarrow> t | None \<Rightarrow> ''0'') of
          Inl e \<Rightarrow> (Inl e, cache)
        | Inr len \<Rightarrow>
            if \<not> (0 < len \<and> len \<le> int MAX_PROFILE) \<or> text_or_empty (sr_transfer_encoding rq) \<noteq> []
            then (Inr (Refused 400 ''Invalid profile length''), cache)
            else
              let content = take (nat len) (sr_body rq)
              in if int (length content) \<noteq> len then (Inr (Refused 400 ''Incomplete profile''), cache)
                 else (case sign T sn m content cache of
                         (Inl e, cache') \<Rightarrow> (Inl e, cache')
                       | (Inr out, cache') \<Rightarrow> (Inr (Signed out), cache'))
      else
        case identity T sn m cache of
          (Inl e, cache') \<Rightarrow> (Inl e, cache')
        | (Inr i, cache') \<Rightarrow> (Inr (Ready (id_metadata i)), cache'))"

text \<open>An exception outside the two \<open>except\<close> clauses ends the connection without an answer.\<close>

definition dispatch :: "tools \<Rightarrow> signer \<Rightarrow> moment \<Rightarrow> bool \<Rightarrow> sign_request \<Rightarrow> signer_state \<Rightarrow> sign_reply result \<times> signer_state" where
  "dispatch T sn m signing rq st =
     (if sr_path rq \<noteq> ''/internal/relay-sign'' then (Inr (Refused 404 []), st)
      else if text_or_empty (sr_authorization rq) \<noteq> ''Bearer '' @ sn_token sn then (Inr (Refused 403 ''Signing access denied''), st)
      else if ss_slots st = 0 then (Inr (Refused 503 ''Signer is busy; retry shortly''), st)
      else
        let st1 = st\<lparr>ss_slots := ss_slots st - 1\<rparr>
        in case serve T sn m signing rq (ss_cache st1) of
             (r, cache) \<Rightarrow>
               (case r of
                  Inr reply \<Rightarrow> Inr reply
                | Inl e \<Rightarrow>
                    if e \<in> {ValueError, TypeError, KeyError, AttributeError}
                    then Inr (Refused 422 ''Profile or signing identity is invalid'')
                    else if e \<in> {OSError, SubprocessError} then Inr (Refused 503 ''Profile signer is unavailable'')
                    else Inl e,
                st1\<lparr>ss_slots := ss_slots st1 + 1, ss_cache := cache\<rparr>))"

text \<open>The connections of \<open>SigningServer\<close>: one is accepted while a place is free, and gives it back at its end.\<close>

definition process_request :: "nat \<Rightarrow> bool \<times> nat" where
  "process_request free = (if free = 0 then (False, free) else (True, free - 1))"

definition process_request_thread :: "nat \<Rightarrow> nat" where
  "process_request_thread free = free + 1"

end
