(* ===== verification/Signing.thy ===== *)
theory Signing
  imports Signer Access
begin

text \<open>
  Theorems on the signer: what it puts its name to, and that it accepts the profiles the web UI makes.
\<close>

section \<open>Profiles for this relay\<close>

text \<open>A profile with one relay payload, under the program's identifier, all of whose addresses are this relay's.\<close>

definition own_profile :: "signer \<Rightarrow> plist \<Rightarrow> bool" where
  "own_profile sn prof \<longleftrightarrow>
     (\<exists>kvs i pl relay.
        prof = PDict kvs \<and> map_of kvs ''PayloadType'' = Some (PStr ''Configuration'') \<and>
        map_of kvs ''PayloadIdentifier'' = Some (PStr i) \<and> startswith i ''org.openvpn.apple-relay.'' \<and>
        map_of kvs ''PayloadContent'' = Some (PArray [PDict pl]) \<and>
        map_of pl ''PayloadType'' = Some (PStr ''com.apple.relay.managed'') \<and>
        map_of pl ''Relays'' = Some (PArray [PDict relay]) \<and>
        relay_urls relay \<noteq> [] \<and> (\<forall>url \<in> set (relay_urls relay). url = PStr (relay_address sn)))"

lemma plist_get_Inr [simp]: "plist_get p key = Inr v \<longleftrightarrow> (\<exists>kvs. p = PDict kvs \<and> v = map_of kvs key)"
  by (auto simp: plist_get_def split: plist.splits)

text \<open>Only a list of one dictionary gets through the checks of a single element that is used as a dictionary.\<close>

lemma single_dict:
  assumes "plist_len p = Inr 1" "plist_first p = Inr (PDict kvs)"
  shows "p = PArray [PDict kvs]"
  using assms by (auto simp: plist_len_def plist_first_def length_Suc_conv split: plist.splits list.splits)

lemma case_dict [simp]:
  "(case r of PDict kvs \<Rightarrow> f kvs | _ \<Rightarrow> Inl e) = Inr x \<longleftrightarrow> (\<exists>kvs. r = PDict kvs \<and> f kvs = Inr x)"
  by (cases r) auto

lemma default_list: "default_to (PArray []) v = PArray [x] \<longleftrightarrow> v = Some (PArray [x])"
  by (auto simp: default_to_def split: option.splits)

lemma check_relays_Inr:
  "check_relays sn pl = Inr u \<longleftrightarrow>
     (\<exists>kvs relay. pl = PDict kvs \<and> map_of kvs ''Relays'' = Some (PArray [PDict relay]) \<and>
        relay_urls relay \<noteq> [] \<and> (\<forall>url \<in> set (relay_urls relay). url = PStr (relay_address sn)))"
  (is "?l \<longleftrightarrow> ?r")
proof
  assume ?l
  then obtain kvs relay where "pl = PDict kvs"
    and n: "plist_len (default_to (PArray []) (map_of kvs ''Relays'')) = Inr 1"
    and r: "plist_first (default_to (PArray []) (map_of kvs ''Relays'')) = Inr (PDict relay)"
    and "relay_urls relay \<noteq> []" "\<not> list_ex (\<lambda>u. u \<noteq> PStr (relay_address sn)) (relay_urls relay)"
    by (auto simp: check_relays_def Let_def split: if_splits)
  then show ?r using single_dict [OF n r] unfolding default_list list_ex_iff by blast
next
  assume ?r
  then show ?l by (auto simp: check_relays_def Let_def default_to_def plist_len_def plist_first_def list_ex_iff)
qed

lemma check_profile_Inr: "check_profile sn prof = Inr u \<longleftrightarrow> own_profile sn prof"
proof
  assume c: "check_profile sn prof = Inr u"
  then obtain kvs pl pkvs i where prof: "prof = PDict kvs"
    and kind: "map_of kvs ''PayloadType'' = Some (PStr ''Configuration'')"
    and n: "plist_len (default_to (PArray []) (map_of kvs ''PayloadContent'')) = Inr 1"
    and pl: "plist_first (default_to (PArray []) (map_of kvs ''PayloadContent'')) = Inr (PDict pkvs)"
    and pkind: "map_of pkvs ''PayloadType'' = Some (PStr ''com.apple.relay.managed'')"
    and i: "plist_startswith (default_to (PStr []) (map_of kvs ''PayloadIdentifier'')) ''org.openvpn.apple-relay.'' = Inr True"
    and r: "check_relays sn (PDict pkvs) = Inr u"
    by (auto simp: check_profile_def Let_def split: if_splits)
  have "map_of kvs ''PayloadContent'' = Some (PArray [PDict pkvs])" using single_dict [OF n pl] unfolding default_list .
  moreover from i obtain t where "map_of kvs ''PayloadIdentifier'' = Some (PStr t)" "startswith t ''org.openvpn.apple-relay.''"
    by (auto simp: plist_startswith_def default_to_def startswith_def split: option.splits plist.splits)
  ultimately show "own_profile sn prof" unfolding own_profile_def using prof kind pkind r unfolding check_relays_Inr by blast
next
  assume "own_profile sn prof"
  then obtain kvs i pl relay where "prof = PDict kvs" "map_of kvs ''PayloadType'' = Some (PStr ''Configuration'')"
    "map_of kvs ''PayloadIdentifier'' = Some (PStr i)" "startswith i ''org.openvpn.apple-relay.''"
    "map_of kvs ''PayloadContent'' = Some (PArray [PDict pl])"
    "map_of pl ''PayloadType'' = Some (PStr ''com.apple.relay.managed'')" "check_relays sn (PDict pl) = Inr u"
    unfolding own_profile_def check_relays_Inr by blast
  then show "check_profile sn prof = Inr u"
    by (auto simp: check_profile_def Let_def default_to_def plist_len_def plist_first_def plist_startswith_def)
qed

lemma accept_profile_Inr:
  "accept_profile T sn content = Inr u \<longleftrightarrow>
     length content \<le> MAX_PROFILE \<and>
     (\<exists>prof t. tl_plist T content = Inr prof \<and> plist_dumps prof = Inr t \<and> encode t = content \<and> own_profile sn prof)"
  by (auto simp: accept_profile_def check_profile_Inr not_less)

lemma sign_Inr:
  "fst (sign T sn m content cache) = Inr out \<longleftrightarrow>
     accept_profile T sn content = Inr () \<and>
     (\<exists>i. fst (identity T sn m cache) = Inr i \<and> tl_cms T (id_certs i) (id_key i) content = Some out)"
  by (auto simp: sign_def split: sum.splits prod.splits option.splits)

section \<open>The identity\<close>

text \<open>The certificate chosen is the last to expire of those that \<open>examine\<close> accepted.\<close>

lemma latest_from: "foldl (\<lambda>b c. if expires_of b < expires_of c then c else b) b cs \<in> insert b (set cs) \<and>
    (\<forall>c \<in> insert b (set cs). expires_of c \<le> expires_of (foldl (\<lambda>b c. if expires_of b < expires_of c then c else b) b cs))"
proof (induction cs arbitrary: b)
  case (Cons c cs)
  show ?case using Cons.IH [of "if expires_of b < expires_of c then c else b"] by (auto split: if_splits)
qed simp

lemma latest_Some: "latest cs = Some c \<Longrightarrow> c \<in> set cs \<and> (\<forall>d \<in> set cs. expires_of d \<le> expires_of c)"
  using latest_from by (cases cs) (auto simp: latest_def)

definition verified :: "tools \<Rightarrow> string \<Rightarrow> signing_identity \<Rightarrow> bool" where
  "verified T host i \<longleftrightarrow> (\<exists>leaf chain. id_certs i = leaf # chain \<and> tl_load T leaf (id_key i) \<and> tl_verify T host leaf chain)"

lemma map_res_Inr_in: "map_res f xs = Inr ys \<Longrightarrow> y \<in> set ys \<Longrightarrow> \<exists>x. f x = Inr y"
  unfolding map_res_Inr_iff by (induction rule: list_all2_induct) auto

lemma examine_verified:
  assumes "examine T host entry = Inr (Some i)"
  shows "verified T host i"
proof -
  obtain fullchain key where d: "decoded_field ''certificate'' entry = Inr fullchain" "decoded_field ''key'' entry = Inr key"
    using assms by (auto simp: examine_def)
  show ?thesis
  proof (cases "map m_text (re_findall PEM (text_of_bytes fullchain))")
    case (Cons leaf chain)
    note e = assms [unfolded examine_def d res_bind.simps Cons list.case]
    then have ok: "tl_load T leaf (text_of_bytes key)" "tl_verify T host leaf chain" by (auto split: if_splits)
    with e obtain out where "tl_x509 T leaf = Some out" by (auto split: option.splits)
    with e ok have "id_certs i = leaf # chain \<and> id_key i = text_of_bytes key" by auto
    with ok show ?thesis by (auto simp: verified_def)
  qed (use assms d in \<open>simp add: examine_def\<close>)
qed

lemma candidate_verified:
  assumes "candidate T host entry = Inr (Some i)"
  shows "verified T host i"
proof -
  have "(case entry of
      JObj kvs \<Rightarrow>
        (case examine T host kvs of
           Inl e \<Rightarrow> if e \<in> {KeyError, ValueError, SubprocessError} then Inr None else Inl e
         | Inr c \<Rightarrow> Inr c)
    | _ \<Rightarrow> Inl AttributeError) = Inr (Some i)"
    using assms unfolding candidate_def Let_def by (auto split: if_splits)
  then obtain kvs where "examine T host kvs = Inr (Some i)"
    by (cases entry) (auto split: sum.splits if_splits)
  then show ?thesis by (rule examine_verified)
qed

lemma case_obj: "(case j of JObj kvs \<Rightarrow> f kvs | _ \<Rightarrow> Inl e) = Inr x \<longleftrightarrow> (\<exists>kvs. j = JObj kvs \<and> f kvs = Inr x)"
  by (cases j) auto

lemma option_or_error: "(case v of None \<Rightarrow> Inl e | Some c \<Rightarrow> Inr c) = Inr i \<longleftrightarrow> v = Some i"
  by (cases v) auto

lemma load_identity_verified:
  assumes "load_identity T host content = Inr i"
  shows "verified T host i"
proof -
  obtain kvs :: "(string \<times> json) list" and css where css: "map_res (\<lambda>(k, r). resolver_candidates T host r) kvs = Inr css"
    and l: "latest (List.map_filter (\<lambda>c. c) (concat css)) = Some i"
    using assms unfolding load_identity_def
    by (auto simp: case_obj option_or_error)
  from latest_Some [OF l] obtain cs where cs: "cs \<in> set css" "Some i \<in> set cs"
    by (auto simp: List.map_filter_def)
  then obtain r where "resolver_candidates T host r = Inr cs" using map_res_Inr_in [OF css] by auto
  then obtain entries where "map_res (candidate T host) entries = Inr cs"
    using cs(2) by (cases r) (auto simp: resolver_candidates_def)
  from map_res_Inr_in [OF this cs(2)] obtain e where "candidate T host e = Inr (Some i)" by blast
  then show ?thesis by (rule candidate_verified)
qed

text \<open>What the cache holds came from such a choice.\<close>

definition cache_ok :: "tools \<Rightarrow> signer \<Rightarrow> cached option \<Rightarrow> bool" where
  "cache_ok T sn cache \<longleftrightarrow> (case cache of None \<Rightarrow> True | Some c \<Rightarrow> verified T (sn_hostname sn) (ca_identity c))"

lemma identity_ok:
  assumes "cache_ok T sn cache" "identity T sn m cache = (r, cache')"
  shows "cache_ok T sn cache' \<and> (case r of Inl e \<Rightarrow> True | Inr i \<Rightarrow> verified T (sn_hostname sn) i)"
  using assms load_identity_verified [of T "sn_hostname sn"]
  by (auto simp: identity_def cache_ok_def split: option.splits sum.splits prod.splits if_splits)

lemma sign_cache: "cache_ok T sn cache \<Longrightarrow> cache_ok T sn (snd (sign T sn m content cache))"
  using identity_ok [of T sn cache m] by (auto simp: sign_def split: sum.splits prod.splits option.splits)

lemma serve_cache: "cache_ok T sn cache \<Longrightarrow> cache_ok T sn (snd (serve T sn m signing rq cache))"
  using identity_ok [of T sn cache m] sign_cache [of T sn cache m]
  by (auto simp: serve_def Let_def split: sum.splits prod.splits) (metis snd_conv)+

section \<open>What the service answers\<close>

text \<open>
  C9. The signer only signs the web UI's own kind of profile, for its own relay, for a caller that knows
  the token. A signed answer means that the request carried the token, that the signed bytes are the
  announced number of bytes of the body and at most 128 KiB, that they are exactly the canonical XML of
  a profile with one relay payload under the program's identifier, that every relay address in it is
  the configured one, and that the certificate matches its key and was verified for the host name.
  Whatever the request and whatever the answer, the place it took is free again, and the cache only
  holds such certificates.
\<close>

theorem signs_only_own_profiles:
  assumes "cache_ok T sn (ss_cache st)"
  shows "ss_slots (snd (dispatch T sn m signing rq st)) = ss_slots st \<and>
    cache_ok T sn (ss_cache (snd (dispatch T sn m signing rq st))) \<and>
    (fst (dispatch T sn m signing rq st) = Inr (Signed out) \<longrightarrow>
       sr_authorization rq = Some (''Bearer '' @ sn_token sn) \<and>
       (\<exists>len prof t i.
          0 < len \<and> len \<le> MAX_PROFILE \<and> len \<le> length (sr_body rq) \<and>
          plist_dumps prof = Inr t \<and> encode t = take len (sr_body rq) \<and> own_profile sn prof \<and>
          verified T (sn_hostname sn) i \<and> tl_cms T (id_certs i) (id_key i) (encode t) = Some out))"
proof (intro conjI impI)
  show "ss_slots (snd (dispatch T sn m signing rq st)) = ss_slots st"
    by (auto simp: dispatch_def Let_def split: prod.splits)
  show "cache_ok T sn (ss_cache (snd (dispatch T sn m signing rq st)))"
    using assms serve_cache [OF assms, of m signing rq]
    by (auto simp: dispatch_def Let_def split: prod.splits)
  assume a: "fst (dispatch T sn m signing rq st) = Inr (Signed out)"
  then have auth: "text_or_empty (sr_authorization rq) = ''Bearer '' @ sn_token sn"
    and serve: "fst (serve T sn m signing rq (ss_cache st)) = Inr (Signed out)"
    by (auto simp: dispatch_def Let_def split: prod.splits sum.splits if_splits)
  from auth show "sr_authorization rq = Some (''Bearer '' @ sn_token sn)"
    by (auto simp: text_or_empty_def split: option.splits)
  obtain len where len: "0 < len" "len \<le> int MAX_PROFILE" "int (length (take (nat len) (sr_body rq))) = len"
    and sign: "fst (sign T sn m (take (nat len) (sr_body rq)) (ss_cache st)) = Inr out"
    using serve by (auto simp: serve_def Let_def split: prod.splits sum.splits if_splits)
  obtain prof t i where p: "plist_dumps prof = Inr t" "encode t = take (nat len) (sr_body rq)" "own_profile sn prof"
    and i: "fst (identity T sn m (ss_cache st)) = Inr i" "tl_cms T (id_certs i) (id_key i) (take (nat len) (sr_body rq)) = Some out"
    using sign unfolding sign_Inr accept_profile_Inr by blast
  have "verified T (sn_hostname sn) i" using identity_ok [OF assms, of m] i(1) by (cases "identity T sn m (ss_cache st)") auto
  then show "\<exists>len prof t i. 0 < len \<and> len \<le> MAX_PROFILE \<and> len \<le> length (sr_body rq) \<and>
      plist_dumps prof = Inr t \<and> encode t = take len (sr_body rq) \<and> own_profile sn prof \<and>
      verified T (sn_hostname sn) i \<and> tl_cms T (id_certs i) (id_key i) (encode t) = Some out"
    using len p i by (intro exI [of _ "nat len"] exI [of _ prof] exI [of _ t] exI [of _ i]) auto
qed

section \<open>The signer and the web UI\<close>

lemma own_profile_payload:
  "own_profile sn (profile_payload sha uuid5 transport (sn_relay_url sn) instance_id name guest token)"
  by (auto simp: own_profile_def profile_payload_def payload_def Let_def relay_urls_def relay_address_def startswith_def)

text \<open>
  C19. The web UI and the signer agree on what a profile is. When the relay has the address that the
  signer was set up for and the XML parser reads back what the writer wrote, the signer signs every
  profile the UI makes that is not too long, for any client, over either transport.
\<close>

theorem signer_accepts_ui_profiles:
  assumes "plist_dumps (profile_payload sha uuid5 transport (sn_relay_url sn) instance_id name guest token) = Inr t"
    and "tl_plist T (encode t) = Inr (profile_payload sha uuid5 transport (sn_relay_url sn) instance_id name guest token)"
    and "length (encode t) \<le> MAX_PROFILE" "fst (identity T sn m cache) = Inr i"
    and "tl_cms T (id_certs i) (id_key i) (encode t) = Some out"
  shows "fst (sign T sn m (encode t) cache) = Inr out"
  unfolding sign_Inr accept_profile_Inr using assms own_profile_payload by blast

section \<open>Witnesses\<close>

definition demo_signer :: signer where
  "demo_signer = \<lparr>sn_hostname = ''vpn.example.com'', sn_relay_url = demo_origin, sn_token = replicate 32 CHR ''k''\<rparr>"

definition demo_profile :: plist where
  "demo_profile = profile_payload (\<lambda>s. s) (\<lambda>s. s) ''http2'' demo_origin ''inst'' ''alice'' False ''alice:secret''"

definition demo_profile_text :: string where
  "demo_profile_text = projr (plist_dumps demo_profile)"

definition demo_tools :: tools where
  "demo_tools =
     \<lparr>tl_load = (\<lambda>c k. True), tl_verify = (\<lambda>h c cs. True), tl_x509 = (\<lambda>c. None), tl_fingerprint = (\<lambda>c. Inr c),
      tl_cms = (\<lambda>cs k content. Some []), tl_json = (\<lambda>t. Inl ValueError), tl_plist = (\<lambda>bs. Inr demo_profile)\<rparr>"

definition demo_moment :: moment where
  "demo_moment = \<lparr>mo_time = 5000, mo_monotonic = 0, mo_acme = Some ((1, 1, 1), [])\<rparr>"

definition demo_identity :: signing_identity where
  "demo_identity = \<lparr>id_certs = [''cert''], id_key = ''key'',
     id_metadata = \<lparr>md_subject = [], md_expires_at = 9000, md_fingerprint = []\<rparr>\<rparr>"

definition demo_signer_state :: signer_state where
  "demo_signer_state = \<lparr>ss_slots = 4, ss_cache = Some \<lparr>ca_signature = (1, 1, 1), ca_until = 60, ca_identity = demo_identity\<rparr>\<rparr>"

definition demo_sign_request :: sign_request where
  "demo_sign_request =
     \<lparr>sr_path = ''/internal/relay-sign'', sr_authorization = Some (''Bearer '' @ sn_token demo_signer),
      sr_content_length = Some (dec (length (encode demo_profile_text))), sr_transfer_encoding = None,
      sr_body = encode demo_profile_text\<rparr>"

lemma demo_identity_cached: "fst (identity demo_tools demo_signer demo_moment (ss_cache demo_signer_state)) = Inr demo_identity"
  by (simp add: identity_def demo_moment_def demo_signer_state_def usable_cache_def expires_of_def demo_identity_def)

lemma demo_profile_writes: "\<not> isl (plist_dumps demo_profile)"
  by code_simp

lemma demo_profile_short: "length (encode demo_profile_text) \<le> MAX_PROFILE"
  by code_simp

theorem signer_accepts_ui_profiles_witness:
  "fst (sign demo_tools demo_signer demo_moment (encode demo_profile_text) (ss_cache demo_signer_state)) = Inr []"
proof (rule signer_accepts_ui_profiles [OF _ _ demo_profile_short demo_identity_cached])
  show "plist_dumps (profile_payload (\<lambda>s. s) (\<lambda>s. s) ''http2'' (sn_relay_url demo_signer) ''inst'' ''alice'' False ''alice:secret'') = Inr demo_profile_text"
    using demo_profile_writes by (simp add: demo_profile_text_def demo_profile_def demo_signer_def sum.collapse(2))
qed (simp_all add: demo_tools_def demo_profile_def demo_signer_def)

lemma demo_accepted: "accept_profile demo_tools demo_signer (encode demo_profile_text) = Inr ()"
  by code_simp

lemma demo_request_length:
  "py_int (dec (length (encode demo_profile_text))) = Inr (int (length (encode demo_profile_text)))"
  "encode demo_profile_text \<noteq> []"
  by code_simp+

lemma demo_signed:
  "fst (dispatch demo_tools demo_signer demo_moment True demo_sign_request demo_signer_state) = Inr (Signed [])"
proof -
  have "fst (sign demo_tools demo_signer demo_moment (encode demo_profile_text) (ss_cache demo_signer_state)) = Inr []"
    unfolding sign_Inr using demo_accepted demo_identity_cached by (auto simp: demo_tools_def)
  then have "fst (serve demo_tools demo_signer demo_moment True demo_sign_request (ss_cache demo_signer_state)) = Inr (Signed [])"
    using demo_request_length demo_profile_short
    by (auto simp: serve_def demo_sign_request_def text_or_empty_def split: prod.splits)
  then show ?thesis
    by (auto simp: dispatch_def demo_sign_request_def text_or_empty_def demo_signer_state_def Let_def split: prod.splits)
qed

theorem signs_only_own_profiles_witness:
  "\<exists>len prof t. plist_dumps prof = Inr t \<and> encode t = take len (sr_body demo_sign_request) \<and> own_profile demo_signer prof"
proof -
  have "cache_ok demo_tools demo_signer (ss_cache demo_signer_state)"
    by (simp add: cache_ok_def demo_signer_state_def verified_def demo_tools_def demo_identity_def)
  from signs_only_own_profiles [OF this, of demo_moment True demo_sign_request "[]"] demo_signed show ?thesis by blast
qed

end
