(* ===== verification/Recovery.thy ===== *)
theory Recovery
  imports Prelude "HOL-Library.List_Lexorder" "HOL-Library.Char_ord"
begin

text \<open>
  The recovery of an interrupted checkout, \<open>bin/recover-checkout.py\<close>.

  What the program does to its surroundings is a log of actions. What it finds there - the results of
  git and sudo, files, links and permissions - is the record \<open>surroundings\<close>: functions of the log so far,
  so that anything may change while the program runs. Names of files are relative to the repository.
\<close>

section \<open>Actions and surroundings\<close>

text \<open>A command with its input, a file in the program's private folder, an overwritten file, a new folder.\<close>

datatype action =
    Command "string list" "string option"
  | Private string string
  | Overwrite string string
  | Mkdir string

text \<open>\<open>Uncaught\<close> stands for an exception that \<open>main\<close> does not catch.\<close>

datatype recovery_error = RecoveryError string | PermissionError | OtherOSError | Uncaught

type_synonym log = "action list"

record surroundings =
  sr_run :: "log \<Rightarrow> string list \<Rightarrow> string option \<Rightarrow> int \<times> string \<times> string"
  sr_exists :: "log \<Rightarrow> string \<Rightarrow> bool"
  sr_is_dir :: "log \<Rightarrow> string \<Rightarrow> bool"
  sr_is_symlink :: "log \<Rightarrow> string \<Rightarrow> bool"
  sr_read :: "log \<Rightarrow> string \<Rightarrow> recovery_error + string"
  sr_open :: "log \<Rightarrow> string \<Rightarrow> recovery_error + unit"
  sr_root :: string
  sr_superuser :: bool
  sr_owner :: string
  sr_stamp :: string
  sr_token :: "log \<Rightarrow> string"
  sr_repair :: bool

record recovery =
  rv_backup :: "string option"
  rv_log :: log

type_synonym 'a job = "recovery \<Rightarrow> (recovery_error + 'a) \<times> recovery"

definition job_ret :: "'a \<Rightarrow> 'a job" where
  "job_ret x s = (Inr x, s)"

definition job_raise :: "recovery_error \<Rightarrow> 'a job" where
  "job_raise e s = (Inl e, s)"

definition job_bind :: "'a job \<Rightarrow> ('a \<Rightarrow> 'b job) \<Rightarrow> 'b job" where
  "job_bind m f s = (case m s of (Inl e, s') \<Rightarrow> (Inl e, s') | (Inr x, s') \<Rightarrow> f x s')"

definition job_then :: "'a job \<Rightarrow> 'b job \<Rightarrow> 'b job" where
  "job_then m n = job_bind m (\<lambda>_. n)"

definition job_log :: "action \<Rightarrow> unit job" where
  "job_log a s = (Inr (), s\<lparr>rv_log := rv_log s @ [a]\<rparr>)"

definition job_see :: "(log \<Rightarrow> 'a) \<Rightarrow> 'a job" where
  "job_see f s = (Inr (f (rv_log s)), s)"

definition job_unless :: "bool \<Rightarrow> string \<Rightarrow> unit job" where
  "job_unless b message = (if b then job_ret () else job_raise (RecoveryError message))"

fun job_each :: "('a \<Rightarrow> unit job) \<Rightarrow> 'a list \<Rightarrow> unit job" where
  "job_each f [] = job_ret ()"
| "job_each f (x # xs) = job_then (f x) (job_each f xs)"

section \<open>Commands and private copies\<close>

definition CODE_DIRS :: "string list" where
  "CODE_DIRS = [''.git'', ''.github'', ''bin'', ''relay'', ''signer'', ''postgres'', ''tests'', ''ui'']"

definition CODE_FILES :: "string list" where
  "CODE_FILES =
     [''.dockerignore'', ''.env.example'', ''.gitignore'', ''CHANGELOG.md'', ''README.md'', ''backup.sh'',
      ''docker-compose.yml'', ''Dockerfile'', ''docker-entrypoint.sh'', ''LICENSE'']"

definition RUNTIME_CONFIGS :: "string list" where
  "RUNTIME_CONFIGS = [''server.conf'', ''config/client.conf'', ''config/easy-rsa.vars'', ''fw-rules.sh'']"

definition RECOVERY_PREFIX :: string where
  "RECOVERY_PREFIX = ''openvpn-checkout-recovery-''"

text \<open>A file is opened with \<open>O_EXCL\<close>: it must not be there yet.\<close>

definition private_copy :: "string \<Rightarrow> string \<Rightarrow> unit job" where
  "private_copy name data =
     job_bind (job_see (\<lambda>log. list_ex (\<lambda>a. case a of Private n d \<Rightarrow> n = name | _ \<Rightarrow> False) log)) (\<lambda>there.
       if there then job_raise OtherOSError else job_log (Private name data))"

definition command_name :: "string list \<Rightarrow> string" where
  "command_name args = (case args of ''git'' # a # rest \<Rightarrow> ''git '' @ a | a # rest \<Rightarrow> a | [] \<Rightarrow> [])"

definition run_command :: "surroundings \<Rightarrow> string list \<Rightarrow> string option \<Rightarrow> (int \<times> string \<times> string) job" where
  "run_command sr args data =
     job_bind (job_see (\<lambda>log. sr_run sr log args data)) (\<lambda>r. job_then (job_log (Command args data)) (job_ret r))"

definition command :: "surroundings \<Rightarrow> string list \<Rightarrow> string option \<Rightarrow> string job" where
  "command sr args data =
     job_bind (run_command sr args data) (\<lambda>(status, out, err).
       if status = 0 then job_ret out
       else
         job_then (\<lambda>s. (if rv_backup s \<noteq> None then private_copy (''command-error-'' @ sr_token sr (rv_log s) @ ''.txt'') err
                        else job_ret ()) s)
           (job_raise (RecoveryError (command_name args @ '' failed (exit '' @ dec_int status @
              ''); recovery stopped, saved state retained''))))"

definition git :: "surroundings \<Rightarrow> string list \<Rightarrow> string job" where
  "git sr args = command sr (''git'' # args) None"

definition git_text :: "surroundings \<Rightarrow> string list \<Rightarrow> string job" where
  "git_text sr args = job_bind (git sr args) (\<lambda>out. job_ret (strip out))"

definition blob :: "surroundings \<Rightarrow> string \<Rightarrow> string \<Rightarrow> string option job" where
  "blob sr ref name =
     job_bind (run_command sr [''git'', ''show'', ref @ '':'' @ name] None) (\<lambda>(status, out, err).
       job_ret (if status = 0 then Some out else None))"

definition is_code :: "string \<Rightarrow> bool" where
  "is_code name \<longleftrightarrow>
     name \<in> set CODE_FILES \<or> list_ex (\<lambda>folder. folder \<noteq> ''.git'' \<and> startswith name (folder @ ''/'')) CODE_DIRS"

section \<open>The steps\<close>

definition code_paths :: "surroundings \<Rightarrow> log \<Rightarrow> string list" where
  "code_paths sr log = filter (sr_exists sr log) (CODE_DIRS @ CODE_FILES)"

definition repair_ownership :: "surroundings \<Rightarrow> unit job" where
  "repair_ownership sr =
     job_then (job_unless (\<not> sr_superuser sr) ''Run this helper as your normal login user; it invokes sudo only where needed'')
     (job_bind (job_see (code_paths sr)) (\<lambda>paths.
      job_bind (job_see (\<lambda>log. list_ex (sr_is_symlink sr log) paths)) (\<lambda>link.
      job_then (job_unless (\<not> link) ''A code path is a symlink; refusing automatic ownership changes'')
      (job_then (command sr [''sudo'', ''chown'', ''-h'', sr_owner sr, ''--'', sr_root sr] None)
      (job_then (command sr ([''sudo'', ''chown'', ''-hR'', sr_owner sr, ''--''] @ paths) None) (job_ret ()))))))"

definition GIT_OPERATIONS :: "string list" where
  "GIT_OPERATIONS = [''MERGE_HEAD'', ''CHERRY_PICK_HEAD'', ''REVERT_HEAD'', ''rebase-merge'', ''rebase-apply'']"

definition make_backup :: "surroundings \<Rightarrow> unit job" where
  "make_backup sr s =
     (let name = ''.git/openvpn-recovery/'' @ sr_stamp sr @ ''-'' @ sr_token sr (rv_log s)
      in if sr_exists sr (rv_log s) name then (Inl OtherOSError, s\<lparr>rv_backup := Some name\<rparr>)
         else (Inr (), s\<lparr>rv_backup := Some name, rv_log := rv_log s @ [Mkdir name]\<rparr>))"

definition prepare :: "surroundings \<Rightarrow> unit job" where
  "prepare sr =
     job_bind (job_see (\<lambda>log. sr_is_dir sr log ''.git'' \<and> \<not> sr_is_symlink sr log ''.git'')) (\<lambda>regular.
     job_then (job_unless regular ''Expected a regular deployment checkout with a .git directory'')
     (job_then (if sr_repair sr then repair_ownership sr else job_ret ())
     (job_bind (git_text sr [''branch'', ''--show-current'']) (\<lambda>branch.
      job_then (job_unless (branch = ''main'') ''Expected branch main; switch or review the current branch first'')
     (job_then (job_each (\<lambda>name. job_bind (job_see (\<lambda>log. sr_exists sr log (''.git/'' @ name))) (\<lambda>there.
          job_unless (\<not> there) ''A Git operation is in progress; resolve it before checkout recovery'')) GIT_OPERATIONS)
       (make_backup sr))))))"

text \<open>The folders of a name below the repository.\<close>

definition folders :: "string \<Rightarrow> string list" where
  "folders name = map (\<lambda>k. join ''/'' (take k (split_on CHR ''/'' name))) [1..<length (split_on CHR ''/'' name)]"

definition read_runtime :: "surroundings \<Rightarrow> string \<Rightarrow> string option job" where
  "read_runtime sr name =
     job_bind (job_see (\<lambda>log. list_ex (sr_is_symlink sr log) (name # folders name))) (\<lambda>link.
     job_then (job_unless (\<not> link) (name @ '': symlinked runtime configuration needs manual review''))
     (job_bind (job_see (\<lambda>log. if sr_exists sr log name then map_sum (\<lambda>e. e) Some (sr_read sr log name) else Inr None)) (\<lambda>r.
       case r of
         Inr content \<Rightarrow> job_ret content
       | Inl e \<Rightarrow>
           if e \<noteq> PermissionError then job_raise e
           else if \<not> sr_repair sr then job_raise (RecoveryError (name @ '': read access requires --repair-permissions''))
           else job_bind (command sr [''sudo'', ''cat'', ''--'', sr_root sr @ ''/'' @ name] None) (\<lambda>out. job_ret (Some out)))))"

definition save :: "string \<Rightarrow> string option \<Rightarrow> unit job" where
  "save name data = (case data of None \<Rightarrow> job_ret () | Some d \<Rightarrow> private_copy name d)"

text \<open>
  \<open>runtime_plan\<close>: one turn of its loop, and the loop. The plan is a dictionary, in the order of
  \<open>RUNTIME_CONFIGS\<close>.
\<close>

definition compose_review :: "surroundings \<Rightarrow> string \<Rightarrow> string \<Rightarrow> string option \<Rightarrow> string option \<Rightarrow> unit job" where
  "compose_review sr target name base saved =
     job_bind (blob sr target name) (\<lambda>t.
       job_unless (saved = base \<or> saved = t)
         (''The previous stash contains custom Compose settings. '' @ ''Review the private saved copy before updating''))"

definition restorable :: "surroundings \<Rightarrow> string \<Rightarrow> string \<Rightarrow> string option \<Rightarrow> string option \<Rightarrow> string option \<Rightarrow> bool job" where
  "restorable sr target name base saved current =
     (if base = None \<or> saved = None \<or> current \<noteq> base then job_ret False
      else job_bind (blob sr target name) (\<lambda>t. job_ret (t = base \<or> t = saved)))"

definition plan_file ::
  "surroundings \<Rightarrow> string \<Rightarrow> string \<Rightarrow> string option \<Rightarrow> string option \<Rightarrow> (string \<times> string) list \<Rightarrow> (string \<times> string) list job" where
  "plan_file sr target name base saved plan =
     job_bind (read_runtime sr name) (\<lambda>current.
     job_then (save (''working-config/'' @ name) current)
     (if current = saved then job_ret plan
      else
        job_bind (restorable sr target name base saved current) (\<lambda>ok.
          if ok then job_ret (plan @ [(name, the saved)])
          else job_raise (RecoveryError (name @ '': independent configuration changes need review; neither copy was overwritten'')))))"

definition plan_turn :: "surroundings \<Rightarrow> string \<Rightarrow> string \<Rightarrow> string \<Rightarrow> (string \<times> string) list \<Rightarrow> (string \<times> string) list job" where
  "plan_turn sr stash target name plan =
     job_bind (blob sr (stash @ ''^1'') name) (\<lambda>base.
     job_bind (blob sr stash name) (\<lambda>saved.
       if saved = base then job_ret plan
       else
         job_then (save (''previous-stash/'' @ name) saved)
         (if name = ''docker-compose.yml'' then job_then (compose_review sr target name base saved) (job_ret plan)
          else plan_file sr target name base saved plan)))"

fun plan_loop :: "surroundings \<Rightarrow> string \<Rightarrow> string \<Rightarrow> string list \<Rightarrow> (string \<times> string) list \<Rightarrow> (string \<times> string) list job" where
  "plan_loop sr stash target [] plan = job_ret plan"
| "plan_loop sr stash target (name # names) plan =
     job_bind (plan_turn sr stash target name plan) (plan_loop sr stash target names)"

definition runtime_plan :: "surroundings \<Rightarrow> string option \<Rightarrow> string \<Rightarrow> (string \<times> string) list job" where
  "runtime_plan sr original_stash target =
     (case original_stash of
        None \<Rightarrow> job_ret []
      | Some stash \<Rightarrow>
          if stash = [] then job_ret [] else plan_loop sr stash target (RUNTIME_CONFIGS @ [''docker-compose.yml'']) [])"

definition restore_file :: "surroundings \<Rightarrow> string \<times> string \<Rightarrow> unit job" where
  "restore_file sr = (\<lambda>(name, data).
     job_bind (job_see (\<lambda>log. sr_open sr log name)) (\<lambda>r.
       case r of
         Inr _ \<Rightarrow> job_log (Overwrite name data)
       | Inl e \<Rightarrow>
           if e \<noteq> PermissionError then job_raise e
           else if \<not> sr_repair sr then job_raise (RecoveryError (name @ '': write access requires --repair-permissions''))
           else job_then (command sr [''sudo'', ''tee'', ''--'', sr_root sr @ ''/'' @ name] (Some data)) (job_ret ())))"

definition restore_runtime :: "surroundings \<Rightarrow> (string \<times> string) list \<Rightarrow> unit job" where
  "restore_runtime sr plan = job_each (restore_file sr) plan"

section \<open>The run\<close>

text \<open>The first stash made on the old head that is not one of the program's own.\<close>

definition contains_text :: "string \<Rightarrow> string \<Rightarrow> bool" where
  "contains_text t s \<longleftrightarrow> list_ex (\<lambda>k. startswith (drop k s) t) [0..<Suc (length s)]"

fun find_stash :: "surroundings \<Rightarrow> string \<Rightarrow> string list \<Rightarrow> string option job" where
  "find_stash sr old_head [] = job_ret None"
| "find_stash sr old_head (row # rows) =
     (if contains_text RECOVERY_PREFIX row then find_stash sr old_head rows
      else
        case words row of
          [] \<Rightarrow> job_raise Uncaught
        | h # rest \<Rightarrow>
            job_bind (git_text sr [''rev-parse'', h @ ''^1'']) (\<lambda>parent.
              if parent = old_head then job_ret (Some h) else find_stash sr old_head rows))"

definition NUL_text :: "string \<Rightarrow> string list" where
  "NUL_text s = split_on CHR 0x00 (strip_by (\<lambda>c. c = CHR 0x00) s)"

definition stash_paths :: "string list \<Rightarrow> string list \<Rightarrow> string list \<Rightarrow> string list" where
  "stash_paths changed untracked remote_files =
     sort (remdups (filter (\<lambda>p. p \<noteq> [] \<and> is_code p) changed @ filter (\<lambda>p. p \<in> set remote_files \<and> is_code p) untracked))"

definition backup_name :: "recovery \<Rightarrow> string" where
  "backup_name s = last (split_on CHR ''/'' (case rv_backup s of Some b \<Rightarrow> b | None \<Rightarrow> []))"

definition stash_code :: "surroundings \<Rightarrow> string list \<Rightarrow> unit job" where
  "stash_code sr paths =
     (if paths = [] then job_ret ()
      else
        job_bind (\<lambda>s. (Inr (backup_name s), s)) (\<lambda>name.
        job_then (git sr ([''stash'', ''push'', ''--include-untracked'', ''-m'', RECOVERY_PREFIX @ name, ''--''] @ paths))
        (job_bind (git_text sr [''rev-parse'', ''refs/stash'']) (\<lambda>h. private_copy ''code-stash.txt'' (h @ [newline])))))"

definition run_recovery :: "surroundings \<Rightarrow> unit job" where
  "run_recovery sr =
     job_then (prepare sr)
     (job_bind (git_text sr [''rev-parse'', ''HEAD'']) (\<lambda>old_head.
      job_bind (git_text sr [''stash'', ''list'', ''--format=%H %gs'']) (\<lambda>listed.
      job_bind (find_stash sr old_head (splitlines listed)) (\<lambda>original_stash.
      job_then (private_copy ''original-state.txt'' (old_head @ [newline] @ join [newline] (splitlines listed) @ [newline]))
     (job_then (git sr [''fetch'', ''origin'', ''main''])
     (job_bind (git_text sr [''rev-parse'', ''refs/remotes/origin/main'']) (\<lambda>target.
      job_then (git sr [''merge-base'', ''--is-ancestor'', old_head, target])
     (job_bind (runtime_plan sr original_stash target) (\<lambda>plan.
      job_bind (git sr [''ls-tree'', ''-r'', ''--name-only'', ''-z'', target]) (\<lambda>remote_files.
      job_bind (git sr [''diff'', ''--name-only'', ''-z'', ''HEAD'']) (\<lambda>changed.
      job_bind (git sr [''ls-files'', ''--others'', ''--exclude-standard'', ''-z'']) (\<lambda>untracked.
      job_then (stash_code sr (stash_paths (NUL_text changed) (NUL_text untracked) (NUL_text remote_files)))
     (job_then (git sr [''merge'', ''--ff-only'', target])
     (job_then (restore_runtime sr plan)
     (job_then (git_text sr [''rev-parse'', ''--short'', ''HEAD'']) (job_ret ()))))))))))))))))"

text \<open>\<open>main\<close>: the exit status, or \<open>None\<close> for an exception that is not caught.\<close>

definition recover :: "surroundings \<Rightarrow> int option \<times> log" where
  "recover sr =
     (case run_recovery sr \<lparr>rv_backup = None, rv_log = []\<rparr> of
        (Inr _, s) \<Rightarrow> (Some 0, rv_log s)
      | (Inl Uncaught, s) \<Rightarrow> (None, rv_log s)
      | (Inl e, s) \<Rightarrow> (Some 1, rv_log s))"

end
