(* ===== verification/Rescue.thy ===== *)
theory Rescue
  imports Recovery
begin

text \<open>
  The checkout recovery keeps its hands off the data of a running server: every action of any run, whatever
  it meets and wherever it stops, is one that \<open>permitted\<close> allows after the actions before it.
\<close>

section \<open>Permitted actions\<close>

text \<open>
  A configuration file may only be overwritten after the update went through, by the copy an earlier
  stash held, and only once that copy and the different content it replaces are both in the private
  folder.
\<close>

definition planned :: "log \<Rightarrow> string \<times> string \<Rightarrow> bool" where
  "planned l = (\<lambda>(name, data).
     name \<in> set RUNTIME_CONFIGS \<and> Private (''previous-stash/'' @ name) data \<in> set l \<and>
     (\<exists>old. Private (''working-config/'' @ name) old \<in> set l \<and> old \<noteq> data))"

definition justified :: "log \<Rightarrow> string \<times> string \<Rightarrow> bool" where
  "justified l entry \<longleftrightarrow> planned l entry \<and> (\<exists>target. Command [''git'', ''merge'', ''--ff-only'', target] None \<in> set l)"

text \<open>Git is asked, fetches, fast-forwards, and stashes files of the program's code.\<close>

definition git_permitted :: "string list \<Rightarrow> bool" where
  "git_permitted args \<longleftrightarrow>
     (\<exists>c rest. args = c # rest \<and> c \<in> {''show'', ''branch'', ''rev-parse'', ''merge-base'', ''ls-tree'', ''diff'', ''ls-files''}) \<or>
     args = [''fetch'', ''origin'', ''main''] \<or> (\<exists>target. args = [''merge'', ''--ff-only'', target]) \<or>
     (\<exists>f. args = [''stash'', ''list'', f]) \<or>
     (\<exists>m paths. args = [''stash'', ''push'', ''--include-untracked'', ''-m'', m, ''--''] @ paths \<and> list_all is_code paths)"

definition sudo_permitted :: "surroundings \<Rightarrow> log \<Rightarrow> string list \<Rightarrow> string option \<Rightarrow> bool" where
  "sudo_permitted sr l args input \<longleftrightarrow>
     sr_repair sr \<and>
     (args = [''chown'', ''-h'', sr_owner sr, ''--'', sr_root sr] \<or>
      (\<exists>paths. args = [''chown'', ''-hR'', sr_owner sr, ''--''] @ paths \<and> set paths \<subseteq> set CODE_DIRS \<union> set CODE_FILES) \<or>
      (\<exists>name \<in> set RUNTIME_CONFIGS. args = [''cat'', ''--'', sr_root sr @ ''/'' @ name] \<and> input = None) \<or>
      (\<exists>name data. args = [''tee'', ''--'', sr_root sr @ ''/'' @ name] \<and> input = Some data \<and> justified l (name, data)))"

definition permitted :: "surroundings \<Rightarrow> log \<Rightarrow> action \<Rightarrow> bool" where
  "permitted sr l a =
     (case a of
        Overwrite name data \<Rightarrow> justified l (name, data)
      | Command (program # args) input \<Rightarrow>
          program = ''git'' \<and> git_permitted args \<or> program = ''sudo'' \<and> sudo_permitted sr l args input
      | Command [] input \<Rightarrow> False
      | Private name data \<Rightarrow> True
      | Mkdir name \<Rightarrow> startswith name ''.git/openvpn-recovery/'')"

definition all_permitted :: "surroundings \<Rightarrow> log \<Rightarrow> bool" where
  "all_permitted sr l \<longleftrightarrow> (\<forall>pre a post. l = pre @ a # post \<longrightarrow> permitted sr pre a)"

lemma all_permitted_Nil [simp]: "all_permitted sr []"
  by (simp add: all_permitted_def)

lemma all_permitted_snoc: "all_permitted sr (l @ [a]) \<longleftrightarrow> all_permitted sr l \<and> permitted sr l a"
proof
  assume r: "all_permitted sr (l @ [a])"
  have "permitted sr pre b" if "l = pre @ b # post" for pre b post
    using r that unfolding all_permitted_def by (metis append.assoc append_Cons)
  with r show "all_permitted sr l \<and> permitted sr l a" unfolding all_permitted_def by blast
next
  assume l: "all_permitted sr l \<and> permitted sr l a"
  show "all_permitted sr (l @ [a])" unfolding all_permitted_def
  proof (intro allI impI)
    fix pre b post
    assume "l @ [a] = pre @ b # post"
    then consider "post = []" "b = a" "pre = l" | post' where "l = pre @ b # post'"
      by (cases post rule: rev_cases) auto
    then show "permitted sr pre b" using l unfolding all_permitted_def by cases auto
  qed
qed

section \<open>What a step knows and leaves\<close>

named_theorems does_intros

definition does :: "surroundings \<Rightarrow> (log \<Rightarrow> bool) \<Rightarrow> 'a job \<Rightarrow> ('a \<Rightarrow> log \<Rightarrow> bool) \<Rightarrow> bool" where
  "does sr P m Q \<longleftrightarrow>
     (\<forall>s. all_permitted sr (rv_log s) \<and> P (rv_log s) \<longrightarrow>
        all_permitted sr (rv_log (snd (m s))) \<and> (\<forall>x. fst (m s) = Inr x \<longrightarrow> Q x (rv_log (snd (m s)))))"

definition stable :: "(log \<Rightarrow> bool) \<Rightarrow> bool" where
  "stable P \<longleftrightarrow> (\<forall>l a. P l \<longrightarrow> P (l @ [a]))"

lemma stableD: "stable P \<Longrightarrow> P l \<Longrightarrow> P (l @ [a])"
  by (simp add: stable_def)

lemma stable_intros [does_intros]:
  "stable (\<lambda>l. True)" "stable (\<lambda>l. a \<in> set l)" "stable P \<Longrightarrow> stable Q \<Longrightarrow> stable (\<lambda>l. P l \<and> Q l)"
  "stable (\<lambda>l. list_all (planned l) plan)" "stable (\<lambda>l. list_all (justified l) plan)"
  by (fastforce simp: stable_def list_all_iff planned_def justified_def)+

lemma does_ret [does_intros]: "(\<And>l. P l \<Longrightarrow> Q x l) \<Longrightarrow> does sr P (job_ret x) Q"
  by (simp add: does_def job_ret_def)

lemma does_raise [does_intros]: "does sr P (job_raise e) Q"
  by (simp add: does_def job_raise_def)

lemma does_see: "(\<And>l. P l \<Longrightarrow> Q (f l) l) \<Longrightarrow> does sr P (job_see f) Q"
  by (simp add: does_def job_see_def)

lemma does_bind: "does sr P m Q \<Longrightarrow> (\<And>x. does sr (Q x) (f x) R) \<Longrightarrow> does sr P (job_bind m f) R"
  unfolding does_def job_bind_def by (fastforce split: prod.splits sum.splits)

lemma does_then: "does sr P m (\<lambda>_. Q) \<Longrightarrow> does sr Q n R \<Longrightarrow> does sr P (job_then m n) R"
  unfolding job_then_def by (rule does_bind)

lemma does_log: "(\<And>l. P l \<Longrightarrow> permitted sr l a) \<Longrightarrow> stable P \<Longrightarrow> does sr P (job_log a) (\<lambda>_ l. P l \<and> a \<in> set l)"
  by (auto simp: does_def job_log_def all_permitted_snoc stable_def)

lemma does_conseq: "does sr P m Q \<Longrightarrow> (\<And>l. P' l \<Longrightarrow> P l) \<Longrightarrow> (\<And>x l. Q x l \<Longrightarrow> Q' x l) \<Longrightarrow> does sr P' m Q'"
  by (auto simp: does_def)

lemma does_weaken: "does sr P m Q \<Longrightarrow> (\<And>x l. Q x l \<Longrightarrow> Q' x l) \<Longrightarrow> does sr P m Q'"
  by (auto simp: does_def)

section \<open>The steps\<close>

lemma does_copy: "stable P \<Longrightarrow> does sr P (private_copy name data) (\<lambda>_ l. P l \<and> Private name data \<in> set l)"
  unfolding private_copy_def
  by (intro does_bind [OF does_see [where Q = "\<lambda>_. P"]]) (auto intro!: does_intros does_log simp: permitted_def)

lemma does_copy_keeps: "stable P \<Longrightarrow> does sr P (private_copy name data) (\<lambda>_. P)"
  by (rule does_weaken [OF does_copy]) auto

lemma does_run:
  assumes "stable P" "\<And>l. P l \<Longrightarrow> permitted sr l (Command args data)"
  shows "does sr P (run_command sr args data) (\<lambda>_ l. P l \<and> Command args data \<in> set l)"
  unfolding run_command_def using assms
  by (intro does_bind [OF does_see [where Q = "\<lambda>_. P"]] does_then [OF does_log] does_ret) auto

lemma does_command:
  assumes "stable P" "\<And>l. P l \<Longrightarrow> permitted sr l (Command args data)"
  shows "does sr P (command sr args data) (\<lambda>_ l. P l \<and> Command args data \<in> set l)"
proof -
  let ?Q = "\<lambda>l. P l \<and> Command args data \<in> set l"
  have st: "stable ?Q" using assms(1) by (intro does_intros)
  have copy: "does sr ?Q (\<lambda>s. (if rv_backup s \<noteq> None then private_copy (f (rv_log s)) err else job_ret ()) s) (\<lambda>_. ?Q)" for f err
    using does_copy_keeps [OF st] unfolding does_def by (auto simp: job_ret_def)
  show ?thesis unfolding command_def
  proof (rule does_bind [OF does_run [OF assms]])
    fix r :: "int \<times> string \<times> string"
    obtain status out err where r: "r = (status, out, err)" by (cases r)
    show "does sr ?Q (case r of (status, out, err) \<Rightarrow>
       if status = 0 then job_ret out
       else
         job_then (\<lambda>s. (if rv_backup s \<noteq> None then private_copy (''command-error-'' @ sr_token sr (rv_log s) @ ''.txt'') err
                        else job_ret ()) s)
           (job_raise (RecoveryError (command_name args @ '' failed (exit '' @ dec_int status @
              ''); recovery stopped, saved state retained'')))) (\<lambda>_. ?Q)"
      using copy by (auto simp: r intro!: does_ret does_then [OF _ does_raise])
  qed
qed

lemma does_git:
  assumes "stable P" "git_permitted args"
  shows "does sr P (git sr args) (\<lambda>_ l. P l \<and> Command (''git'' # args) None \<in> set l)"
  unfolding git_def using assms by (intro does_command) (auto simp: permitted_def)

lemma does_git_keeps: "stable P \<Longrightarrow> git_permitted args \<Longrightarrow> does sr P (git sr args) (\<lambda>_. P)"
  by (rule does_weaken [OF does_git]) auto

lemma does_text: "stable P \<Longrightarrow> git_permitted args \<Longrightarrow> does sr P (git_text sr args) (\<lambda>_. P)"
  unfolding git_text_def by (intro does_bind [OF does_git_keeps] does_ret)

lemma does_blob: "stable P \<Longrightarrow> does sr P (blob sr ref name) (\<lambda>_. P)"
  unfolding blob_def
  by (intro does_bind [OF does_run [of P]]) (auto simp: permitted_def git_permitted_def intro!: does_ret split: prod.splits)

lemma does_unless: "does sr P (job_unless b m) (\<lambda>_ l. P l \<and> b)"
  unfolding job_unless_def by (auto intro!: does_intros)

lemma does_unless_keeps: "does sr P (job_unless b m) (\<lambda>_. P)"
  by (rule does_weaken [OF does_unless]) auto

lemma does_see_keeps: "does sr P (job_see f) (\<lambda>_. P)"
  by (rule does_see)

lemma does_each: "(\<And>x. x \<in> set xs \<Longrightarrow> does sr P (f x) (\<lambda>_. P)) \<Longrightarrow> does sr P (job_each f xs) (\<lambda>_. P)"
  by (induction xs) (auto intro!: does_ret intro: does_then)

lemma does_repair:
  assumes "sr_repair sr" "stable P"
  shows "does sr P (repair_ownership sr) (\<lambda>_. P)"
proof -
  have chown: "does sr P (command sr [''sudo'', ''chown'', ''-h'', sr_owner sr, ''--'', sr_root sr] None) (\<lambda>_. P)"
    using assms by (intro does_weaken [OF does_command [of P]]) (auto simp: permitted_def sudo_permitted_def)
  have paths: "does sr P (command sr ([''sudo'', ''chown'', ''-hR'', sr_owner sr, ''--''] @ ps) None) (\<lambda>_. P)"
    if "set ps \<subseteq> set CODE_DIRS \<union> set CODE_FILES" for ps
    using assms that by (intro does_weaken [OF does_command [of P]]) (auto simp: permitted_def sudo_permitted_def)
  have "does sr (\<lambda>l. P l \<and> set ps \<subseteq> set CODE_DIRS \<union> set CODE_FILES)
      (command sr ([''sudo'', ''chown'', ''-hR'', sr_owner sr, ''--''] @ ps) None) (\<lambda>_. P)" for ps
    using paths [of ps] by (cases "set ps \<subseteq> set CODE_DIRS \<union> set CODE_FILES") (auto simp: does_def)
  moreover have "does sr (\<lambda>l. P l \<and> set ps \<subseteq> set CODE_DIRS \<union> set CODE_FILES)
      (command sr [''sudo'', ''chown'', ''-h'', sr_owner sr, ''--'', sr_root sr] None)
      (\<lambda>_ l. P l \<and> set ps \<subseteq> set CODE_DIRS \<union> set CODE_FILES)" for ps
    using chown by (auto simp: does_def)
  moreover have "does sr P (job_see (code_paths sr)) (\<lambda>ps l. P l \<and> set ps \<subseteq> set CODE_DIRS \<union> set CODE_FILES)"
    by (rule does_see) (auto simp: code_paths_def)
  ultimately show ?thesis unfolding repair_ownership_def
    by (intro does_then [OF does_unless_keeps] does_bind [OF _ does_bind [OF does_see_keeps does_then [OF does_unless_keeps]]]
        does_then [where Q = P, OF _ does_ret] does_then) auto
qed

lemma does_prepare: "does sr (\<lambda>l. True) (prepare sr) (\<lambda>_ l. True)"
proof -
  have mk: "does sr (\<lambda>l. True) (make_backup sr) (\<lambda>_ l. True)"
    by (auto simp: does_def make_backup_def Let_def all_permitted_snoc permitted_def startswith_def)
  have ops: "does sr (\<lambda>l. True) (job_each (\<lambda>name. job_bind (job_see (\<lambda>log. sr_exists sr log (''.git/'' @ name))) (\<lambda>there.
          job_unless (\<not> there) ''A Git operation is in progress; resolve it before checkout recovery'')) GIT_OPERATIONS) (\<lambda>_ l. True)"
    by (intro does_each does_bind [OF does_see_keeps does_unless_keeps])
  have rep: "does sr (\<lambda>l. True) (if sr_repair sr then repair_ownership sr else job_ret ()) (\<lambda>_ l. True)"
    by (auto intro!: does_repair does_intros)
  show ?thesis unfolding prepare_def
    by (intro does_bind [OF does_see_keeps] does_then [OF does_unless_keeps] does_then [OF rep] does_bind [OF does_text]
        does_then [OF ops mk]) (auto simp: git_permitted_def intro: does_intros)
qed

lemma does_read:
  assumes "stable P" "name \<in> set RUNTIME_CONFIGS"
  shows "does sr P (read_runtime sr name) (\<lambda>_. P)"
proof -
  have "does sr P (command sr [''sudo'', ''cat'', ''--'', sr_root sr @ ''/'' @ name] None) (\<lambda>_. P)" if "sr_repair sr"
    using assms that by (intro does_weaken [OF does_command [of P]]) (auto simp: permitted_def sudo_permitted_def)
  then show ?thesis unfolding read_runtime_def
    by (intro does_bind [OF does_see_keeps] does_then [OF does_unless_keeps])
      (auto split: sum.split intro!: does_intros does_bind)
qed

lemma does_save: "stable P \<Longrightarrow> does sr P (save name data) (\<lambda>_ l. P l \<and> (\<forall>d. data = Some d \<longrightarrow> Private name d \<in> set l))"
  unfolding save_def by (cases data) (auto intro!: does_intros does_weaken [OF does_copy])

lemma does_restorable:
  assumes "stable P"
  shows "does sr P (restorable sr target name base saved current)
    (\<lambda>ok l. P l \<and> (ok \<longrightarrow> saved \<noteq> None \<and> current \<noteq> None))"
  unfolding restorable_def using does_blob [OF assms]
  by (auto intro!: does_ret does_bind [where Q = "\<lambda>_ l. P l"])

lemma stable_imp: "stable P \<Longrightarrow> stable (\<lambda>l. P l \<and> (\<forall>d. v = Some d \<longrightarrow> Private name d \<in> set l))"
  by (auto simp: stable_def)

text \<open>What a turn adds to the plan is planned.\<close>

lemma does_plan_file:
  assumes "name \<in> set RUNTIME_CONFIGS"
  shows "does sr (\<lambda>l. list_all (planned l) plan \<and> (\<forall>d. saved = Some d \<longrightarrow> Private (''previous-stash/'' @ name) d \<in> set l))
    (plan_file sr target name base saved plan) (\<lambda>plan' l. list_all (planned l) plan')"
proof -
  let ?S = "\<lambda>l. list_all (planned l) plan \<and> (\<forall>d. saved = Some d \<longrightarrow> Private (''previous-stash/'' @ name) d \<in> set l)"
  have S: "stable ?S" by (rule stable_imp) (intro does_intros)
  let ?W = "\<lambda>current l. ?S l \<and> (\<forall>d. current = Some d \<longrightarrow> Private (''working-config/'' @ name) d \<in> set l)"
  have rest: "does sr (?W current) (if current = saved then job_ret plan
      else
        job_bind (restorable sr target name base saved current) (\<lambda>ok.
          if ok then job_ret (plan @ [(name, the saved)])
          else job_raise (RecoveryError (name @ '': independent configuration changes need review; neither copy was overwritten''))))
      (\<lambda>plan' l. list_all (planned l) plan')" for current
  proof (cases "current = saved")
    case False
    have "does sr (?W current) (restorable sr target name base saved current)
        (\<lambda>ok l. ?W current l \<and> (ok \<longrightarrow> saved \<noteq> None \<and> current \<noteq> None))"
      by (rule does_restorable [OF stable_imp [OF S]])
    with False assms show ?thesis
      by (auto intro!: does_bind does_ret does_raise simp: planned_def split: if_splits)
  qed (auto intro: does_ret)
  show ?thesis unfolding plan_file_def
    by (rule does_bind [OF does_read [OF S assms]], rule does_then [OF does_save [OF S]], rule rest)
qed

lemma does_plan_turn:
  assumes "name \<in> set (RUNTIME_CONFIGS @ [''docker-compose.yml''])"
  shows "does sr (\<lambda>l. list_all (planned l) plan) (plan_turn sr stash target name plan) (\<lambda>plan' l. list_all (planned l) plan')"
proof -
  let ?P = "\<lambda>l. list_all (planned l) plan"
  have P: "stable ?P" by (intro does_intros)
  have "does sr ?P (if saved = base then job_ret plan
      else job_then (save (''previous-stash/'' @ name) saved)
        (if name = ''docker-compose.yml'' then job_then (compose_review sr target name base saved) (job_ret plan)
         else plan_file sr target name base saved plan)) (\<lambda>plan' l. list_all (planned l) plan')" (is "does sr ?P ?body _") for base saved
  proof (cases "saved = base")
    case False
    let ?S = "\<lambda>l. ?P l \<and> (\<forall>d. saved = Some d \<longrightarrow> Private (''previous-stash/'' @ name) d \<in> set l)"
    have "does sr ?S (job_then (compose_review sr target name base saved) (job_ret plan)) (\<lambda>plan' l. list_all (planned l) plan')"
      unfolding compose_review_def
      by (rule does_then [OF does_bind [OF does_blob [OF stable_imp [OF P]] does_unless_keeps] does_ret]) blast
    moreover have "does sr ?S (plan_file sr target name base saved plan) (\<lambda>plan' l. list_all (planned l) plan')"
      if "name \<noteq> ''docker-compose.yml''" using assms that by (intro does_plan_file) simp
    ultimately have "does sr ?S (if name = ''docker-compose.yml'' then job_then (compose_review sr target name base saved) (job_ret plan)
         else plan_file sr target name base saved plan) (\<lambda>plan' l. list_all (planned l) plan')" by presburger
    from does_then [OF does_save [OF P] this] False show ?thesis by presburger
  qed (auto intro: does_ret)
  then show ?thesis unfolding plan_turn_def by (intro does_bind [OF does_blob [OF P]])
qed

lemma does_plan_loop:
  assumes "set names \<subseteq> set (RUNTIME_CONFIGS @ [''docker-compose.yml''])"
  shows "does sr (\<lambda>l. list_all (planned l) plan) (plan_loop sr stash target names plan) (\<lambda>plan' l. list_all (planned l) plan')"
  using assms
proof (induction names arbitrary: plan)
  case (Cons name names)
  then show ?case by (auto intro!: does_bind [OF does_plan_turn])
qed (auto intro: does_ret)

lemma does_plan: "does sr (\<lambda>l. True) (runtime_plan sr original_stash target) (\<lambda>plan l. list_all (planned l) plan)"
proof -
  have "does sr (\<lambda>l. True) (plan_loop sr stash target (RUNTIME_CONFIGS @ [''docker-compose.yml'']) [])
      (\<lambda>plan l. list_all (planned l) plan)" for stash
    by (rule does_conseq [OF does_plan_loop]) auto
  then show ?thesis unfolding runtime_plan_def by (auto split: option.split intro!: does_ret)
qed

lemma does_restore: "does sr (\<lambda>l. list_all (justified l) plan) (restore_runtime sr plan) (\<lambda>_ l. True)"
proof -
  let ?P = "\<lambda>l. list_all (justified l) plan"
  have P: "stable ?P" by (intro does_intros)
  have "does sr ?P (restore_file sr entry) (\<lambda>_. ?P)" if "entry \<in> set plan" for entry
  proof -
    obtain name data where e: "entry = (name, data)" by (cases entry)
    have "does sr ?P (job_log (Overwrite name data)) (\<lambda>_. ?P)"
      using that P by (intro does_weaken [OF does_log]) (auto simp: permitted_def list_all_iff e)
    moreover have "does sr ?P (command sr [''sudo'', ''tee'', ''--'', sr_root sr @ ''/'' @ name] (Some data)) (\<lambda>_. ?P)" if "sr_repair sr"
      using \<open>entry \<in> set plan\<close> that P
      by (intro does_weaken [OF does_command]) (auto simp: permitted_def sudo_permitted_def list_all_iff e)
    ultimately show ?thesis unfolding restore_file_def e prod.case
      by (intro does_bind [OF does_see_keeps]) (auto split: sum.split intro!: does_intros does_then)
  qed
  then show ?thesis unfolding restore_runtime_def by (intro does_weaken [OF does_each [where P = ?P]]) auto
qed

lemma does_find_stash: "does sr (\<lambda>l. True) (find_stash sr old_head rows) (\<lambda>_ l. True)"
  by (induction rows)
    (auto simp: git_permitted_def intro!: does_intros does_bind [OF does_text] split: list.split)

lemma stash_paths_code: "list_all is_code (stash_paths changed untracked remote_files)"
  by (auto simp: stash_paths_def list_all_iff)

lemma does_stash_code:
  assumes "stable P" "list_all is_code paths"
  shows "does sr P (stash_code sr paths) (\<lambda>_. P)"
proof -
  have "does sr P (\<lambda>s. (Inr (backup_name s), s)) (\<lambda>_. P)" by (simp add: does_def)
  moreover have "git_permitted ([''stash'', ''push'', ''--include-untracked'', ''-m'', RECOVERY_PREFIX @ name, ''--''] @ paths)" for name
    using assms(2) unfolding git_permitted_def by blast
  moreover have "git_permitted [''rev-parse'', ''refs/stash'']" by (simp add: git_permitted_def)
  ultimately show ?thesis unfolding stash_code_def using assms(1)
    by (auto intro!: does_ret does_bind [where Q = "\<lambda>_. P"] does_then [OF does_git_keeps] does_text does_copy_keeps)
qed

lemma does_update:
  "does sr (\<lambda>l. list_all (planned l) plan) (git sr [''merge'', ''--ff-only'', target]) (\<lambda>_ l. list_all (justified l) plan)"
proof (rule does_weaken [OF does_git])
  show "stable (\<lambda>l. list_all (planned l) plan)" by (intro does_intros)
qed (auto simp: git_permitted_def justified_def list_all_iff)

lemma git_reads: "c \<in> {''show'', ''branch'', ''rev-parse'', ''merge-base'', ''ls-tree'', ''diff'', ''ls-files''} \<Longrightarrow> git_permitted (c # rest)"
  by (auto simp: git_permitted_def)

lemma git_others: "git_permitted [''fetch'', ''origin'', ''main'']" "git_permitted [''stash'', ''list'', f]"
  by (simp_all add: git_permitted_def)

lemma does_recovery: "does sr (\<lambda>l. True) (run_recovery sr) (\<lambda>_ l. True)"
proof -
  have T: "stable (\<lambda>l. True)" and S: "stable (\<lambda>l. list_all (planned l) plan)" for plan by (intro does_intros)+
  have last: "does sr (\<lambda>l. True) (job_then (git_text sr [''rev-parse'', ''--short'', ''HEAD'']) (job_ret ())) (\<lambda>_ l. True)"
    by (intro does_then [OF does_text [OF T git_reads]] does_ret) simp_all
  have update: "does sr (\<lambda>l. list_all (planned l) plan)
      (job_then (stash_code sr (stash_paths changed untracked remote))
        (job_then (git sr [''merge'', ''--ff-only'', target])
          (job_then (restore_runtime sr plan) (job_then (git_text sr [''rev-parse'', ''--short'', ''HEAD'']) (job_ret ())))))
      (\<lambda>_ l. True)" for plan changed untracked remote target
    by (intro does_then [OF does_stash_code [OF S stash_paths_code]] does_then [OF does_update] does_then [OF does_restore] last)
  have reads: "does sr (\<lambda>l. list_all (planned l) plan)
     (job_bind (git sr [''ls-tree'', ''-r'', ''--name-only'', ''-z'', target]) (\<lambda>remote_files.
      job_bind (git sr [''diff'', ''--name-only'', ''-z'', ''HEAD'']) (\<lambda>changed.
      job_bind (git sr [''ls-files'', ''--others'', ''--exclude-standard'', ''-z'']) (\<lambda>untracked.
      job_then (stash_code sr (stash_paths (NUL_text changed) (NUL_text untracked) (NUL_text remote_files)))
     (job_then (git sr [''merge'', ''--ff-only'', target])
     (job_then (restore_runtime sr plan)
     (job_then (git_text sr [''rev-parse'', ''--short'', ''HEAD'']) (job_ret ())))))))) (\<lambda>_ l. True)" for plan target
    by (intro does_bind [OF does_git_keeps [OF S git_reads]] update) simp_all
  show ?thesis unfolding run_recovery_def
    by (intro does_then [OF does_prepare] does_bind [OF does_text [OF T]] does_bind [OF does_find_stash]
        does_then [OF does_copy_keeps [OF T]] does_then [OF does_git_keeps [OF T]] does_bind [OF does_plan] reads git_others git_reads)
      simp_all
qed

text \<open>
  C16. A recovery, whether it ends well, is refused or breaks off, only ever does what it may. Git is
  asked, fetches and fast-forwards, and only files of the program's code are stashed; ownership only
  changes for the repository's folder and the code, and sudo only reads or writes the runtime
  configurations. And a runtime configuration is only overwritten after the update, with the content
  an earlier stash held for it, when that content and the other content that was there have both been
  put into the private folder first.
\<close>

theorem recovery_only_permitted: "all_permitted sr (snd (recover sr))"
proof -
  have "all_permitted sr (rv_log (snd (run_recovery sr \<lparr>rv_backup = None, rv_log = []\<rparr>)))"
    using does_recovery [of sr] unfolding does_def by simp
  then show ?thesis by (auto simp: recover_def split: prod.splits sum.splits recovery_error.splits)
qed

text \<open>A run in which an earlier stash holds a changed \<open>server.conf\<close>: it does get as far as restoring it.\<close>

definition demo_surroundings :: surroundings where
  "demo_surroundings =
     \<lparr>sr_run = (\<lambda>l args input.
        case map_of [(''branch --show-current'', ''main''), (''rev-parse HEAD'', ''h0''), (''stash list --format=%H %gs'', ''s1 WIP''),
            (''rev-parse s1^1'', ''h0''), (''rev-parse refs/remotes/origin/main'', ''t''), (''show s1^1:server.conf'', ''old''),
            (''show s1:server.conf'', ''mine''), (''show t:server.conf'', ''old'')] (join '' '' (tl args)) of
          Some out \<Rightarrow> (0, out, [])
        | None \<Rightarrow> (if take 1 (tl args) = [''show''] then 128 else 0, [], [])),
      sr_exists = (\<lambda>l name. name = ''server.conf''), sr_is_dir = (\<lambda>l name. True), sr_is_symlink = (\<lambda>l name. False),
      sr_read = (\<lambda>l name. Inr ''old''), sr_open = (\<lambda>l name. Inr ()), sr_root = ''/srv'', sr_superuser = False,
      sr_owner = ''1000:1000'', sr_stamp = ''20260101T000000Z'', sr_token = (\<lambda>l. dec (length l)), sr_repair = False\<rparr>"

lemma demo_recovery:
  "fst (recover demo_surroundings) = Some 0 \<and> Overwrite ''server.conf'' ''mine'' \<in> set (snd (recover demo_surroundings))"
  by code_simp

end
