(* ===== verification/Charts.thy ===== *)
theory Charts
  imports Reports "HOL-Library.Code_Target_Nat"
begin

text \<open>
  The charts of the web UI against the totals beside them: two queries and a loop that must agree.
\<close>

section \<open>The loop\<close>

lemma fill_from_points:
  assumes "0 < bucket"
  shows "u \<in> pt_ts ` set (fill_from f bucket stop t) \<longleftrightarrow> (\<exists>i :: nat. u = t + int i * bucket \<and> u < stop)"
  using assms
proof (induction f bucket stop t rule: fill_from.induct)
  case (1 f bucket stop t)
  show ?case
  proof (cases "t < stop")
    case True
    have "(\<exists>i :: nat. u = t + int i * bucket \<and> u < stop) \<longleftrightarrow> u = t \<or> (\<exists>i :: nat. u = t + bucket + int i * bucket \<and> u < stop)"
    proof (intro iffI; elim disjE exE conjE)
      fix i assume "u = t + int i * bucket" "u < stop"
      then show "u = t \<or> (\<exists>i :: nat. u = t + bucket + int i * bucket \<and> u < stop)"
        by (cases i) (auto simp: algebra_simps)
    next
      assume "u = t"
      with True show "\<exists>i :: nat. u = t + int i * bucket \<and> u < stop" by (intro exI [of _ 0]) simp
    next
      fix i assume "u = t + bucket + int i * bucket" "u < stop"
      then show "\<exists>i :: nat. u = t + int i * bucket \<and> u < stop" by (intro exI [of _ "Suc i"]) (simp add: algebra_simps)
    qed
    with 1 True show ?thesis by (subst fill_from.simps) (auto split: option.splits)
  next
    case False
    with 1(2) have "\<not> (t + int i * bucket < stop)" for i
      using mult_nonneg_nonneg [of "int i" bucket] by linarith
    with False show ?thesis by (subst fill_from.simps) auto
  qed
qed

lemma fill_from_sorted: "0 < bucket \<Longrightarrow> sorted_wrt (<) (map pt_ts (fill_from f bucket stop t))"
proof (induction f bucket stop t rule: fill_from.induct)
  case (1 f bucket stop t)
  show ?case
  proof (cases "t < stop")
    case True
    have "\<forall>u \<in> pt_ts ` set (fill_from f bucket stop (t + bucket)). t < u"
    proof
      fix u
      assume "u \<in> pt_ts ` set (fill_from f bucket stop (t + bucket))"
      then obtain i :: nat where "u = t + bucket + int i * bucket" using fill_from_points [OF 1(2)] by blast
      then show "t < u" using 1(2) mult_nonneg_nonneg [of "int i" bucket] by linarith
    qed
    with 1 True show ?thesis by (subst fill_from.simps) (auto split: option.splits)
  qed (subst fill_from.simps, simp)
qed

lemma fill_from_value:
  "p \<in> set (fill_from f bucket stop t) \<Longrightarrow>
     p = (case f (pt_ts p) of Some q \<Rightarrow> \<lparr>pt_ts = pt_ts p, pt_in = pt_in q, pt_out = pt_out q\<rparr>
                            | None \<Rightarrow> \<lparr>pt_ts = pt_ts p, pt_in = 0, pt_out = 0\<rparr>)"
proof (induction f bucket stop t rule: fill_from.induct)
  case (1 f bucket stop t)
  then show ?case by (subst (asm) (2) fill_from.simps) (auto split: if_splits option.splits)
qed

text \<open>The sum of a quantity that only depends on the time of the points.\<close>

lemma fill_from_sum:
  fixes g :: "int \<Rightarrow> int"
  assumes "0 < bucket" "\<forall>p \<in> set (fill_from f bucket stop t). h p = g (pt_ts p)"
  shows "sum_list (map h (fill_from f bucket stop t)) = (\<Sum>u \<in> pt_ts ` set (fill_from f bucket stop t). g u)"
proof -
  have "map h (fill_from f bucket stop t) = map g (map pt_ts (fill_from f bucket stop t))" using assms(2) by simp
  moreover have "distinct (map pt_ts (fill_from f bucket stop t))"
    using fill_from_sorted [OF assms(1)] strict_sorted_iff by blast
  ultimately show ?thesis by (simp only: sum_list_distinct_conv_sum_set set_map)
qed

section \<open>The query\<close>

lemma bucket_in_chart:
  assumes "0 < bucket" "0 \<le> start + tz" "start \<le> ts" "ts < stop"
  shows "\<exists>i :: nat. bucket_of bucket tz ts = (start + tz) div bucket * bucket - tz + int i * bucket \<and> bucket_of bucket tz ts < stop"
proof -
  have b: "bucket_of bucket tz ts = (ts + tz) div bucket * bucket - tz"
    using assms by (simp add: bucket_of_def pg_div_nonneg)
  have le: "(start + tz) div bucket \<le> (ts + tz) div bucket" using assms by (intro zdiv_mono1) auto
  have "(ts + tz) div bucket * bucket \<le> ts + tz"
    using assms(1) div_mult_mod_eq [of "ts + tz" bucket] pos_mod_sign [of bucket "ts + tz"] by linarith
  then have "bucket_of bucket tz ts < stop" using b assms(4) by linarith
  moreover have "bucket_of bucket tz ts =
      (start + tz) div bucket * bucket - tz + int (nat ((ts + tz) div bucket - (start + tz) div bucket)) * bucket"
    using b le by (simp add: algebra_simps)
  ultimately show ?thesis by blast
qed

text \<open>Rows split by a function of their keys, summed again.\<close>

lemma sum_buckets:
  assumes "finite G" "\<forall>(k, v) \<in> set rows. b k \<in> G"
  shows "(\<Sum>u \<in> G. sum_where (\<lambda>k. b k = u) f rows) = sum_where (\<lambda>k. True) f rows"
  using assms(2)
proof (induction rows)
  case (Cons r rows)
  obtain k v where r: "r = (k, v)" by (cases r)
  have "(\<Sum>u \<in> G. if b k = u then f v else 0) = f v" using Cons.prems assms(1) by (simp add: r)
  with Cons show ?case by (simp add: r sum_where_def sum.distrib)
qed (simp add: sum_where_def)

lemma map_of_series: "map_of (map (\<lambda>p. (pt_ts p, p)) (map (\<lambda>t. \<lparr>pt_ts = t, pt_in = x t, pt_out = y t\<rparr>) ts)) u =
    (if u \<in> set ts then Some \<lparr>pt_ts = u, pt_in = x u, pt_out = y u\<rparr> else None)"
  by (induction ts) auto

lemma sum_where_none: "\<forall>(k, v) \<in> set rows. \<not> Q k \<Longrightarrow> sum_where Q f rows = 0"
  by (induction rows) (auto simp: sum_where_def)

text \<open>Each point of a chart is what the database holds for its bucket.\<close>

lemma chart_point:
  assumes "p \<in> set (fill_series (series start stop bucket client tz db) start stop bucket tz)"
  shows "let rows = filter (\<lambda>(k, v). for_client (client_filter client) k) (traffic_union start stop db) in
    pt_in p = sum_where (\<lambda>k. bucket_of bucket tz (fst k) = pt_ts p) fst rows \<and>
    pt_out p = sum_where (\<lambda>k. bucket_of bucket tz (fst k) = pt_ts p) snd rows"
proof -
  let ?rows = "filter (\<lambda>(k, v). for_client (client_filter client) k) (traffic_union start stop db)"
  let ?x = "\<lambda>t. sum_where (\<lambda>k. bucket_of bucket tz (fst k) = t) fst ?rows"
  let ?y = "\<lambda>t. sum_where (\<lambda>k. bucket_of bucket tz (fst k) = t) snd ?rows"
  let ?ts = "rev (sort (remdups (map ((\<lambda>k. bucket_of bucket tz (fst k)) \<circ> fst) ?rows)))"
  have "rev (series start stop bucket client tz db) = map (\<lambda>t. \<lparr>pt_ts = t, pt_in = ?x t, pt_out = ?y t\<rparr>) ?ts"
    by (simp add: series_def Let_def rev_map)
  then have "map_of (map (\<lambda>p. (pt_ts p, p)) (rev (series start stop bucket client tz db))) (pt_ts p) =
      (if pt_ts p \<in> set ?ts then Some \<lparr>pt_ts = pt_ts p, pt_in = ?x (pt_ts p), pt_out = ?y (pt_ts p)\<rparr> else None)"
    by (simp only: map_of_series)
  moreover have "?x (pt_ts p) = 0 \<and> ?y (pt_ts p) = 0" if "pt_ts p \<notin> set ?ts"
    using that by (intro conjI sum_where_none) force+
  ultimately show ?thesis
    using fill_from_value [OF assms [unfolded fill_series_def]] by (auto simp: Let_def split: if_splits)
      (metis point.select_convs(2,3))+
qed

section \<open>Charts and totals\<close>

text \<open>
  C21. A chart and the totals shown with it agree: the points of the filled series add up to exactly the
  totals of the same range and client, for bytes in and bytes out, whatever minutes, hours and days
  the traffic is stored under. The chart has one point for every bucket from the one that holds the
  start of the range up to its end, in order, and no other.
\<close>

theorem chart_adds_up:
  assumes "0 < bucket" "0 \<le> start + tz"
  shows "let points = fill_series (series start stop bucket client tz db) start stop bucket tz in
    (sum_list (map pt_in points), sum_list (map pt_out points)) = totals start stop client db \<and>
    sorted_wrt (<) (map pt_ts points) \<and>
    (\<forall>u. u \<in> pt_ts ` set points \<longleftrightarrow> (\<exists>i :: nat. u = (start + tz) div bucket * bucket - tz + int i * bucket \<and> u < stop))"
proof -
  let ?points = "fill_series (series start stop bucket client tz db) start stop bucket tz"
  let ?rows = "filter (\<lambda>(k, v). for_client (client_filter client) k) (traffic_union start stop db)"
  have grid: "u \<in> pt_ts ` set ?points \<longleftrightarrow> (\<exists>i :: nat. u = (start + tz) div bucket * bucket - tz + int i * bucket \<and> u < stop)" for u
    unfolding fill_series_def by (rule fill_from_points [OF assms(1)])
  have "start \<le> fst k \<and> fst k < stop" if "(k, v) \<in> set ?rows" for k v
    using that by (auto simp: traffic_union_def in_range_def)
  then have in_grid: "\<forall>(k, v) \<in> set ?rows. bucket_of bucket tz (fst k) \<in> pt_ts ` set ?points"
    unfolding grid using bucket_in_chart [OF assms] by blast
  have sums: "sum_list (map h ?points) = sum_where (for_client (client_filter client)) f (traffic_union start stop db)"
    if "\<forall>p \<in> set ?points. h p = sum_where (\<lambda>k. bucket_of bucket tz (fst k) = pt_ts p) f ?rows" for h :: "point \<Rightarrow> int" and f
  proof -
    have "sum_list (map h ?points) = (\<Sum>u \<in> pt_ts ` set ?points. sum_where (\<lambda>k. bucket_of bucket tz (fst k) = u) f ?rows)"
      unfolding fill_series_def by (rule fill_from_sum [OF assms(1) that [unfolded fill_series_def]])
    also have "\<dots> = sum_where (\<lambda>k. True) f ?rows" using in_grid by (intro sum_buckets) auto
    finally show ?thesis by (simp add: sum_where_filter conj_commute)
  qed
  have "sum_list (map pt_in ?points) = sum_where (for_client (client_filter client)) fst (traffic_union start stop db)"
    "sum_list (map pt_out ?points) = sum_where (for_client (client_filter client)) snd (traffic_union start stop db)"
    by (rule sums; use chart_point [of _ start stop bucket client tz db] in \<open>simp add: Let_def\<close>)+
  then show ?thesis using grid fill_from_sorted [OF assms(1)] by (simp add: Let_def totals_def fill_series_def)
qed

definition demo_traffic :: database where
  "demo_traffic = empty_db\<lparr>traffic_minute := [((7260, ''alice''), (5, 7)), ((7320, ''bob''), (1, 1))],
     traffic_hour := [((3600, ''alice''), (10, 20))]\<rparr>"

theorem chart_adds_up_witness:
  "sum_list (map pt_in (fill_series (series 3600 7600 600 (Some ''alice'') 0 demo_traffic) 3600 7600 600 0)) = 15"
proof -
  have "totals 3600 7600 (Some ''alice'') demo_traffic = (15, 27)" by code_simp
  then show ?thesis using chart_adds_up [of 600 3600 0 7600 "Some ''alice''" demo_traffic] by (simp add: Let_def)
qed

end
