(* ===== verification/Background.thy ===== *)
theory Background
  imports Relay
begin

text \<open>
  What runs beside the requests: the watchdog (\<open>ui/app/watchdog.py\<close>), the record of relay activity
  (\<open>ui/app/relay_history.py\<close>) and the backup archives (\<open>ui/app/backup.py\<close>).
\<close>

section \<open>The watchdog\<close>

text \<open>
  One turn of the loop for every wait that ran out without \<open>stop\<close>: whether the health check answered.
  The result is how many turns ran before the process was ended, or \<open>None\<close> while it is still running
  or after it was stopped.
\<close>

definition FAILURES :: nat where "FAILURES = 4"

fun watch :: "nat \<Rightarrow> nat \<Rightarrow> nat \<Rightarrow> bool list \<Rightarrow> nat option" where
  "watch failures failed turn [] = None"
| "watch failures failed turn (ok # checks) =
     (let failed = (if ok then 0 else failed + 1)
      in if failures \<le> failed then Some (Suc turn) else watch failures failed (Suc turn) checks)"

definition run_watchdog :: "bool list \<Rightarrow> nat option" where
  "run_watchdog checks = watch FAILURES 0 0 checks"

definition probe_host :: "string option \<Rightarrow> string option" where
  "probe_host uvicorn_host =
     (case uvicorn_host of
        None \<Rightarrow> None
      | Some host \<Rightarrow>
          if host = [] then None
          else Some (''http://'' @ (if host = ''0.0.0.0'' then ''127.0.0.1'' else if host = ''::'' then ''[::1]''
                       else if CHR '':'' \<in> set host then ''['' @ host @ '']'' else host) @ '':8080/healthz''))"

section \<open>Relay activity\<close>

definition IDLE_SECONDS :: int where "IDLE_SECONDS = 300"
definition POLL_SECONDS :: int where "POLL_SECONDS = 5"
definition RETENTION :: int where "RETENTION = 365 * 86400"

text \<open>A session as the relay reports it.\<close>

record snapshot =
  sn_id :: string
  sn_client :: string
  sn_credential_id :: string
  sn_transport :: string
  sn_started_at :: int
  sn_last_seen :: int
  sn_active :: int
  sn_accepted :: int
  sn_denied :: int
  sn_failed :: int
  sn_bytes_up :: int
  sn_bytes_down :: int
  sn_uncounted :: int

record relay_status =
  ry_ready :: bool
  ry_instance :: string
  ry_sessions :: "snapshot list"

text \<open>SQL's \<open>LIKE\<close> with \<open>%\<close>, \<open>_\<close> and the backslash as escape.\<close>

fun like :: "string \<Rightarrow> string \<Rightarrow> bool" where
  "like [] s = (s = [])"
| "like (p # ps) [] = (p = CHR ''%'' \<and> like ps [])"
| "like (p # ps) (c # s) =
     (if p = CHR ''%'' then like ps (c # s) \<or> like (p # ps) s
      else if p = CHR ''_'' then like ps s
      else if p = CHR 0x5C then (case ps of q # qs \<Rightarrow> q = c \<and> like qs s | [] \<Rightarrow> False)
      else p = c \<and> like ps s)"

definition end_flows :: "string \<Rightarrow> (string \<times> relay_session) list \<Rightarrow> (string \<times> relay_session) list" where
  "end_flows inst rows =
     (if inst = [] then rows
      else map (\<lambda>(i, r). (i, if 0 < rs_active r \<and> \<not> like (inst @ '':%'') i then r\<lparr>rs_active := 0\<rparr> else r)) rows)"

text \<open>The visit a new session continues: the latest one of the same credential, if it ended lately.\<close>

definition previous_group :: "snapshot \<Rightarrow> (string \<times> relay_session) list \<Rightarrow> string option" where
  "previous_group row rows =
     (case sort_key (\<lambda>(i, r). - rs_last_seen r)
             (filter (\<lambda>(i, r). rs_client_name r = sn_client row \<and> rs_credential_id r = sn_credential_id row \<and>
                sn_started_at row - IDLE_SECONDS \<le> rs_last_seen r \<and> rs_started_at r \<le> sn_started_at row) rows) of
        [] \<Rightarrow> None
      | (i, r) # _ \<Rightarrow> Some (rs_grp r))"

definition group_for :: "snapshot \<Rightarrow> (string \<times> relay_session) list \<Rightarrow> string" where
  "group_for row rows =
     (case map_of rows (sn_id row) of
        Some r \<Rightarrow> rs_grp r
      | None \<Rightarrow> (case previous_group row rows of Some g \<Rightarrow> g | None \<Rightarrow> sn_id row))"

definition new_relay_session :: "string \<Rightarrow> int \<Rightarrow> snapshot \<Rightarrow> relay_session" where
  "new_relay_session g now row =
     \<lparr>rs_grp = g, rs_client_name = sn_client row, rs_credential_id = sn_credential_id row, rs_transport = sn_transport row,
      rs_started_at = sn_started_at row, rs_last_seen = sn_last_seen row, rs_sampled_at = now, rs_active = sn_active row,
      rs_accepted = sn_accepted row, rs_denied = sn_denied row, rs_failed = sn_failed row, rs_bytes_up = sn_bytes_up row,
      rs_bytes_down = sn_bytes_down row, rs_uncounted = sn_uncounted row\<rparr>"

definition merge_snapshot :: "int \<Rightarrow> snapshot \<Rightarrow> relay_session \<Rightarrow> relay_session" where
  "merge_snapshot now row r =
     r\<lparr>rs_last_seen := max (rs_last_seen r) (sn_last_seen row), rs_sampled_at := now, rs_active := sn_active row,
       rs_accepted := max (rs_accepted r) (sn_accepted row), rs_denied := max (rs_denied r) (sn_denied row),
       rs_failed := max (rs_failed r) (sn_failed row), rs_bytes_up := max (rs_bytes_up r) (sn_bytes_up row),
       rs_bytes_down := max (rs_bytes_down r) (sn_bytes_down row), rs_uncounted := max (rs_uncounted r) (sn_uncounted row)\<rparr>"

definition record_row :: "int \<Rightarrow> snapshot \<Rightarrow> (string \<times> relay_session) list \<Rightarrow> (string \<times> relay_session) list" where
  "record_row now row rows =
     (if sn_client row = [] \<or> sn_credential_id row = [] then rows
      else
        case map_of rows (sn_id row) of
          Some r \<Rightarrow> AList.update (sn_id row) (merge_snapshot now row r) rows
        | None \<Rightarrow> AList.update (sn_id row) (new_relay_session (group_for row rows) now row) rows)"

definition record_status :: "int \<Rightarrow> relay_status \<Rightarrow> database \<Rightarrow> database" where
  "record_status now st db =
     (if \<not> ry_ready st then db
      else db\<lparr>relay_sessions :=
        filter (\<lambda>(i, r). \<not> rs_last_seen r < now - RETENTION)
          (fold (record_row now) (ry_sessions st) (end_flows (ry_instance st) (relay_sessions db)))\<rparr>)"

text \<open>One turn of \<open>RelayCollector.run\<close>: only the sessions that changed since the last turn are stored.\<close>

definition changed_rows :: "(string \<times> snapshot) list \<Rightarrow> snapshot list \<Rightarrow> snapshot list" where
  "changed_rows seen rows =
     (let snapshots = fold (\<lambda>r. AList.update (sn_id r) r) rows []
      in map snd (filter (\<lambda>(k, r). map_of seen k \<noteq> Some r) snapshots))"

definition relay_turn :: "int \<Rightarrow> relay_status \<Rightarrow> (string \<times> snapshot) list \<times> database \<Rightarrow> (string \<times> snapshot) list \<times> database" where
  "relay_turn now st c =
     (case c of (seen, db) \<Rightarrow>
        if ry_ready st
        then (fold (\<lambda>r. AList.update (sn_id r) r) (ry_sessions st) [],
              record_status now (st\<lparr>ry_sessions := changed_rows seen (ry_sessions st)\<rparr>) db)
        else (seen, db))"

section \<open>Relay visits\<close>

record relay_visit =
  rv_id :: string
  rv_members :: "string list"
  rv_client :: string
  rv_started_at :: int
  rv_last_seen :: int
  rv_active :: int
  rv_accepted :: int
  rv_denied :: int
  rv_failed :: int
  rv_bytes_up :: int
  rv_bytes_down :: int
  rv_uncounted :: int
  rv_state :: string
  rv_ended_at :: "int option"

definition visit_state :: "int \<Rightarrow> int \<Rightarrow> int \<Rightarrow> string" where
  "visit_state now active last_seen =
     (if active \<noteq> 0 then ''active'' else if now - last_seen \<le> IDLE_SECONDS then ''idle'' else ''ended'')"

definition relay_visit_of :: "int \<Rightarrow> (string \<times> relay_session) list \<Rightarrow> string \<times> string \<Rightarrow> relay_visit" where
  "relay_visit_of now rows key =
     (let ms = filter (\<lambda>(i, r). (rs_grp r, rs_client_name r) = key) rows; rs = map snd ms;
          active = sum_list (map (\<lambda>r. if now - 3 * POLL_SECONDS \<le> rs_sampled_at r then rs_active r else 0) rs);
          seen = max_of (map rs_last_seen rs); st = visit_state now active seen
      in \<lparr>rv_id = fst key, rv_members = map fst ms, rv_client = snd key, rv_started_at = min_of (map rs_started_at rs),
          rv_last_seen = seen, rv_active = active, rv_accepted = sum_list (map rs_accepted rs),
          rv_denied = sum_list (map rs_denied rs), rv_failed = sum_list (map rs_failed rs),
          rv_bytes_up = sum_list (map rs_bytes_up rs), rv_bytes_down = sum_list (map rs_bytes_down rs),
          rv_uncounted = sum_list (map rs_uncounted rs), rv_state = st,
          rv_ended_at = (if st = ''ended'' then Some seen else None)\<rparr>)"

text \<open>Newest first, and of two that started together the one with the greater identifier.\<close>

definition relay_visits :: "string option \<Rightarrow> string option \<Rightarrow> int \<Rightarrow> database \<Rightarrow> relay_visit list" where
  "relay_visits client credential now db =
     (let rows = filter (\<lambda>(i, r). (client = None \<or> Some (rs_client_name r) = client) \<and>
                           (credential = None \<or> Some (rs_credential_id r) = credential)) (relay_sessions db);
          keys = remdups (map (\<lambda>(i, r). (rs_grp r, rs_client_name r)) rows)
      in take 200 (rev (sort_key (\<lambda>v. (rv_started_at v, rv_id v)) (map (relay_visit_of now rows) keys))))"

section \<open>Backups\<close>

text \<open>
  The backup directory holds archives by name with their time of change. \<open>build\<close> is what dumping the
  database and writing (and encrypting) the archive came to, and \<open>stamp\<close> the local time in the name.
\<close>

definition PREFIX :: string where "PREFIX = ''openvpn-backup-''"
definition SUFFIX :: string where "SUFFIX = ''.tar.gz''"
definition MAX_AGE :: int where "MAX_AGE = 86400"

text \<open>\<open>age1[a-z0-9]{58}\<close>\<close>

definition RECIPIENT_RE :: re where
  "RECIPIENT_RE = Seq (Lit ''age1'') (Times 58 (Cls (\<lambda>c. is_lower_ascii c \<or> is_decimal c)))"

type_synonym backup_dir = "(string \<times> int) list"

definition is_archive :: "string \<Rightarrow> bool" where
  "is_archive name \<longleftrightarrow> startswith name PREFIX \<and> sublist SUFFIX (drop (length PREFIX) name)"

definition archives :: "backup_dir \<Rightarrow> string list" where
  "archives dir = sort (filter is_archive (map fst dir))"

definition archive_name :: "string \<Rightarrow> string \<Rightarrow> string" where
  "archive_name recipient stamp = PREFIX @ stamp @ SUFFIX @ (if recipient = [] then [] else ''.age'')"

definition prune :: "nat \<Rightarrow> backup_dir \<Rightarrow> backup_dir" where
  "prune keep dir =
     (let found = archives dir; old = take (length found - keep) found
      in filter (\<lambda>(n, t). n \<notin> set old) dir)"

definition create_backup ::
  "nat \<Rightarrow> string \<Rightarrow> (string \<Rightarrow> unit result) \<Rightarrow> string \<Rightarrow> int \<Rightarrow> backup_dir \<Rightarrow> string result \<times> backup_dir" where
  "create_backup keep recipient build stamp now dir =
     (if recipient \<noteq> [] \<and> re_fullmatch RECIPIENT_RE recipient = None then (Inl ValueError, dir)
      else
        case build recipient of
          Inl e \<Rightarrow> (Inl e, dir)
        | Inr _ \<Rightarrow>
            let target = archive_name recipient stamp; dir1 = AList.update target now dir
            in (Inr target, if 0 < keep then prune keep dir1 else dir1))"

definition last_backup :: "backup_dir \<Rightarrow> int option" where
  "last_backup dir = (case archives dir of [] \<Rightarrow> None | n # ns \<Rightarrow> map_of dir (last (n # ns)))"

definition ensure_recent ::
  "nat \<Rightarrow> string \<Rightarrow> (string \<Rightarrow> unit result) \<Rightarrow> string \<Rightarrow> rat \<Rightarrow> backup_dir \<Rightarrow> string option result \<times> backup_dir" where
  "ensure_recent keep recipient build stamp now dir =
     (if 0 < keep \<and> (case last_backup dir of None \<Rightarrow> True | Some t \<Rightarrow> of_int MAX_AGE \<le> now - of_int t)
      then (case create_backup keep recipient build stamp \<lfloor>now\<rfloor> dir of (r, dir') \<Rightarrow> (res_bind r (\<lambda>n. Inr (Some n)), dir'))
      else (Inr None, dir))"

end
