(* ===== verification/Keeping.thy ===== *)
theory Keeping
  imports Background "HOL-Library.Code_Target_Nat"
begin

text \<open>
  Theorems on what runs beside the requests: when the watchdog ends the program, what the record of relay
  activity keeps, and which backups stay.
\<close>

section \<open>The watchdog\<close>

text \<open>The failures since the last check that was answered.\<close>

definition streak :: "bool list \<Rightarrow> nat" where
  "streak checks = length (takeWhile Not (rev checks))"

lemma streak_snoc [simp]: "streak (checks @ [ok]) = (if ok then 0 else Suc (streak checks))"
  by (simp add: streak_def)

lemma watch_streak:
  assumes "\<forall>m \<le> length pre. streak (take m pre) < k"
  shows "watch k (streak pre) (length pre) rest = Some n \<longleftrightarrow>
    n \<le> length (pre @ rest) \<and> k \<le> streak (take n (pre @ rest)) \<and> (\<forall>m < n. streak (take m (pre @ rest)) < k)"
  using assms
proof (induction rest arbitrary: pre)
  case Nil
  then show ?case by (auto simp: not_le)
next
  case (Cons ok rest)
  show ?case
  proof (cases "k \<le> streak (pre @ [ok])")
    case True
    have "n \<le> length (pre @ ok # rest) \<and> k \<le> streak (take n (pre @ ok # rest)) \<and> (\<forall>m < n. streak (take m (pre @ ok # rest)) < k)
        \<longleftrightarrow> n = Suc (length pre)"
    proof
      assume n: "n \<le> length (pre @ ok # rest) \<and> k \<le> streak (take n (pre @ ok # rest)) \<and> (\<forall>m < n. streak (take m (pre @ ok # rest)) < k)"
      have "k > streak (take n (pre @ ok # rest))" if "n \<le> length pre" using that Cons.prems by simp
      then have "\<not> n \<le> length pre" using n by linarith
      moreover have "streak (take (Suc (length pre)) (pre @ ok # rest)) = streak (pre @ [ok])" by simp
      then have "\<not> Suc (length pre) < n" using n True by (metis not_le)
      ultimately show "n = Suc (length pre)" by linarith
    next
      assume "n = Suc (length pre)"
      then show "n \<le> length (pre @ ok # rest) \<and> k \<le> streak (take n (pre @ ok # rest)) \<and> (\<forall>m < n. streak (take m (pre @ ok # rest)) < k)"
        using True Cons.prems by simp
    qed
    with True show ?thesis by (auto simp: Let_def)
  next
    case False
    then have "\<forall>m \<le> length (pre @ [ok]). streak (take m (pre @ [ok])) < k"
      using Cons.prems by (auto simp: le_Suc_eq)
    from Cons.IH [OF this] False show ?thesis by (auto simp: Let_def)
  qed
qed

text \<open>
  C36. The watchdog ends the program exactly when it should: after the first check that makes four
  failed checks in a row, and never before. As long as no four checks in a row fail it keeps watching.
\<close>

theorem watchdog_ends:
  "run_watchdog checks = Some n \<longleftrightarrow>
     n \<le> length checks \<and> 4 \<le> streak (take n checks) \<and> (\<forall>m < n. streak (take m checks) < 4)"
  using watch_streak [of "[]" 4 checks n] by (simp add: run_watchdog_def FAILURES_def streak_def)

theorem watchdog_ends_witness: "run_watchdog [True, False, False, False, False, True] = Some 5"
  using watchdog_ends [of "[True, False, False, False, False, True]" 5]
  by (simp add: numeral_eq_Suc All_less_Suc streak_def)

section \<open>Relay activity\<close>

text \<open>The same session later: who it belongs to is fixed, and what was counted stays counted.\<close>

definition continues :: "relay_session \<Rightarrow> relay_session \<Rightarrow> bool" where
  "continues r r' \<longleftrightarrow>
     rs_grp r' = rs_grp r \<and> rs_client_name r' = rs_client_name r \<and> rs_credential_id r' = rs_credential_id r \<and>
     rs_transport r' = rs_transport r \<and> rs_started_at r' = rs_started_at r \<and>
     rs_last_seen r \<le> rs_last_seen r' \<and> rs_accepted r \<le> rs_accepted r' \<and> rs_denied r \<le> rs_denied r' \<and>
     rs_failed r \<le> rs_failed r' \<and> rs_bytes_up r \<le> rs_bytes_up r' \<and> rs_bytes_down r \<le> rs_bytes_down r' \<and>
     rs_uncounted r \<le> rs_uncounted r'"

lemma continues_refl [simp]: "continues r r"
  by (simp add: continues_def)

lemma continues_trans: "continues a b \<Longrightarrow> continues b c \<Longrightarrow> continues a c"
  by (auto simp: continues_def)

definition keeps_sessions :: "(string \<times> relay_session) list \<Rightarrow> (string \<times> relay_session) list \<Rightarrow> bool" where
  "keeps_sessions rows rows' \<longleftrightarrow> (\<forall>i r. map_of rows i = Some r \<longrightarrow> (\<exists>r'. map_of rows' i = Some r' \<and> continues r r'))"

lemma keeps_end_flows: "keeps_sessions rows (end_flows inst rows)"
proof -
  have "map_of (map (\<lambda>(i, r). (i, f i r)) rows) i = map_option (f i) (map_of rows i)" for f :: "string \<Rightarrow> relay_session \<Rightarrow> relay_session" and i
    by (induction rows) auto
  then show ?thesis by (auto simp: keeps_sessions_def end_flows_def continues_def)
qed

lemma keeps_record_row: "keeps_sessions rows (record_row now row rows)"
  by (auto simp: keeps_sessions_def record_row_def update_conv' merge_snapshot_def continues_def split: option.splits)

lemma keeps_trans: "keeps_sessions a b \<Longrightarrow> keeps_sessions b c \<Longrightarrow> keeps_sessions a c"
  unfolding keeps_sessions_def using continues_trans by blast

lemma keeps_fold: "keeps_sessions rows (fold (record_row now) snaps rows)"
proof (induction snaps arbitrary: rows)
  case (Cons s snaps)
  show ?case using keeps_trans [OF keeps_record_row Cons.IH] by simp
qed (simp add: keeps_sessions_def)

lemma distinct_record_row: "distinct (map fst rows) \<Longrightarrow> distinct (map fst (record_row now row rows))"
  by (auto simp: record_row_def distinct_update split: option.splits)

lemma distinct_recorded: "distinct (map fst rows) \<Longrightarrow> distinct (map fst (fold (record_row now) snaps (end_flows inst rows)))"
proof (induction snaps arbitrary: rows rule: rev_induct)
  case Nil
  have "map fst (end_flows inst rows) = map fst rows" by (auto simp: end_flows_def comp_def case_prod_unfold)
  with Nil show ?case by simp
qed (simp add: distinct_record_row)

text \<open>
  C35. The record of relay activity never loses or rewrites what it knows. Whatever the relay reports,
  a turn of the collector keeps one row for each session; a row that was there still names the same
  visit, client, credential, transport and start, and none of its counters and not its last activity
  has gone back. A row is only dropped a year after the last activity of its session.
\<close>

theorem relay_history_kept:
  assumes "distinct (map fst (relay_sessions db))" "relay_turn now st (seen, db) = (seen', db')"
  shows "distinct (map fst (relay_sessions db')) \<and>
    (\<forall>i r. map_of (relay_sessions db) i = Some r \<longrightarrow>
       (case map_of (relay_sessions db') i of
          Some r' \<Rightarrow> continues r r'
        | None \<Rightarrow> rs_last_seen r < now - 365 * 86400))"
proof (cases "ry_ready st")
  case True
  let ?rows = "fold (record_row now) (changed_rows seen (ry_sessions st)) (end_flows (ry_instance st) (relay_sessions db))"
  have db': "relay_sessions db' = filter (\<lambda>(i, r). \<not> rs_last_seen r < now - RETENTION) ?rows"
    using assms(2) True by (auto simp: relay_turn_def record_status_def)
  have d: "distinct (map fst ?rows)" by (rule distinct_recorded [OF assms(1)])
  have keep: "keeps_sessions (relay_sessions db) ?rows" using keeps_trans [OF keeps_end_flows keeps_fold] .
  have "case map_of (relay_sessions db') i of Some r' \<Rightarrow> continues r r' | None \<Rightarrow> rs_last_seen r < now - 365 * 86400"
    if "map_of (relay_sessions db) i = Some r" for i r
  proof -
    obtain r' where r': "map_of ?rows i = Some r'" "continues r r'" using keep \<open>map_of (relay_sessions db) i = Some r\<close> by (auto simp: keeps_sessions_def)
    have "map_of (relay_sessions db') i = (if rs_last_seen r' < now - RETENTION then None else Some r')"
      unfolding db' using d r'(1) by (simp add: map_of_filter_distinct keys_distinct_def)
    moreover have "rs_last_seen r \<le> rs_last_seen r'" using r'(2) by (simp add: continues_def)
    ultimately show ?thesis using r'(2) by (auto simp: RETENTION_def)
  qed
  moreover have "distinct (map fst (relay_sessions db'))" unfolding db' by (rule distinct_map_filter [OF d])
  ultimately show ?thesis by blast
qed (use assms in \<open>auto simp: relay_turn_def\<close>)

definition demo_relay_row :: relay_session where
  "demo_relay_row =
     \<lparr>rs_grp = ''g'', rs_client_name = ''alice'', rs_credential_id = ''c'', rs_transport = ''http2'', rs_started_at = 10,
      rs_last_seen = 20, rs_sampled_at = 20, rs_active = 1, rs_accepted = 5, rs_denied = 0, rs_failed = 0, rs_bytes_up = 100,
      rs_bytes_down = 200, rs_uncounted = 0\<rparr>"

definition demo_snapshot :: snapshot where
  "demo_snapshot =
     \<lparr>sn_id = ''i:1'', sn_client = ''alice'', sn_credential_id = ''c'', sn_transport = ''http2'', sn_started_at = 10,
      sn_last_seen = 15, sn_active = 1, sn_accepted = 6, sn_denied = 0, sn_failed = 0, sn_bytes_up = 50, sn_bytes_down = 900,
      sn_uncounted = 0\<rparr>"

theorem relay_history_kept_witness:
  "\<exists>r'. map_of (relay_sessions (snd (relay_turn 30 \<lparr>ry_ready = True, ry_instance = ''i'', ry_sessions = [demo_snapshot]\<rparr>
     ([], empty_db\<lparr>relay_sessions := [(''i:1'', demo_relay_row)]\<rparr>)))) ''i:1'' = Some r' \<and> continues demo_relay_row r'"
proof -
  let ?st = "\<lparr>ry_ready = True, ry_instance = ''i'', ry_sessions = [demo_snapshot]\<rparr>"
  let ?db = "empty_db\<lparr>relay_sessions := [(''i:1'', demo_relay_row)]\<rparr>"
  have d: "distinct (map fst (relay_sessions ?db))" by simp
  have t: "relay_turn 30 ?st ([], ?db) = (fst (relay_turn 30 ?st ([], ?db)), snd (relay_turn 30 ?st ([], ?db)))" by simp
  have "map_of (relay_sessions ?db) ''i:1'' = Some demo_relay_row" by simp
  then have "case map_of (relay_sessions (snd (relay_turn 30 ?st ([], ?db)))) ''i:1'' of
      Some r' \<Rightarrow> continues demo_relay_row r' | None \<Rightarrow> rs_last_seen demo_relay_row < 30 - 365 * 86400"
    using relay_history_kept [OF d t] by blast
  then show ?thesis by (auto simp: demo_relay_row_def split: option.splits)
qed

section \<open>Backups\<close>

lemma filter_not_taken:
  assumes d: "distinct xs"
  shows "filter (\<lambda>x. x \<notin> set (take n xs)) xs = drop n xs"
proof -
  have "filter (\<lambda>x. x \<notin> set (take n xs)) (take n xs @ drop n xs) = drop n xs"
    unfolding filter_append using d set_take_disj_set_drop_if_distinct [of xs n n]
    by (auto simp: filter_empty_conv filter_id_conv)
  then show ?thesis by simp
qed

text \<open>Pruning drops the oldest archives only: the newest ones stay, as many as are to be kept, with every other file.\<close>

theorem prune_keeps_newest:
  assumes "distinct (map fst dir)"
  shows "archives (prune keep dir) = drop (length (archives dir) - keep) (archives dir)"
    and "(n, t) \<in> set dir \<Longrightarrow> \<not> is_archive n \<Longrightarrow> (n, t) \<in> set (prune keep dir)"
proof -
  let ?old = "take (length (archives dir) - keep) (archives dir)"
  have "map fst (prune keep dir) = filter (\<lambda>n. n \<notin> set ?old) (map fst dir)"
    by (simp add: prune_def Let_def filter_map comp_def case_prod_unfold)
  then have "archives (prune keep dir) = filter (\<lambda>n. n \<notin> set ?old) (archives dir)"
    by (simp add: archives_def filter_sort [symmetric] conj_commute)
  moreover have "distinct (archives dir)" using assms by (simp add: archives_def)
  ultimately show "archives (prune keep dir) = drop (length (archives dir) - keep) (archives dir)"
    by (simp add: filter_not_taken)
  show "(n, t) \<in> set dir \<Longrightarrow> \<not> is_archive n \<Longrightarrow> (n, t) \<in> set (prune keep dir)"
    by (auto simp: prune_def Let_def archives_def dest: in_set_takeD)
qed

end
