(* ===== verification/Export.thy ===== *)
theory Export
  imports Relay
begin

unbundle bit_operations_syntax

text \<open>
  Reading the network settings with their defaults, and the file a gateway is set up with: the second
  half of \<open>ui/app/network.py\<close>.
\<close>

section \<open>Defaults\<close>

definition fall_back :: "string \<Rightarrow> string \<Rightarrow> string" where
  "fall_back v other = (if v = [] then other else v)"

text \<open>The domain: only a familiar service prefix is dropped, a registrable domain is never guessed.\<close>

definition after_dot :: "string \<Rightarrow> string" where
  "after_dot s = (case partition_on CHR ''.'' s of (h, f, t) \<Rightarrow> t)"

definition profile_domain :: "files \<Rightarrow> string" where
  "profile_domain fs =
     (case hostname (fst (get_remote fs)) of
        Inl e \<Rightarrow> []
      | Inr host \<Rightarrow>
          if host \<notin> {''example.com'', ''vpn.example.com''} \<and> \<not> is_ip host
          then removeprefix (removeprefix host ''openvpn.'') ''vpn.'' else [])"

definition default_domain :: "string \<Rightarrow> string \<Rightarrow> files \<Rightarrow> string" where
  "default_domain relay_host openvpn_host fs =
     (if relay_host \<noteq> [] then removeprefix relay_host ''relay.''
      else if startswith openvpn_host ''openvpn.'' \<or> startswith openvpn_host ''vpn.'' then after_dot openvpn_host
      else profile_domain fs)"

definition default_backend :: "gateway \<Rightarrow> string result" where
  "default_backend g =
     (if gw_relay_backend g \<noteq> [] \<or> gw_openvpn_backend g = [] then Inr (gw_relay_backend g)
      else res_bind (urlsplit (gw_openvpn_backend g)) (\<lambda>u.
        Inr (case url_hostname u of
               None \<Rightarrow> gw_relay_backend g
             | Some host \<Rightarrow>
                 if host = [] then gw_relay_backend g
                 else (if CHR '':'' \<in> set host then ''['' @ host @ '']'' else host) @ '':'' @ dec_int RELAY_BACKEND_PORT)))"

definition with_defaults :: "relay_env \<Rightarrow> model \<Rightarrow> files \<Rightarrow> database option \<Rightarrow> network_data \<Rightarrow> network_data result" where
  "with_defaults env model fs db d =
     (let g = nd_gateway d
      in res_bind (case db of None \<Rightarrow> Inr [] | Some db \<Rightarrow> res_bind (relay_get_settings model db) (\<lambda>c. Inr (rl_url c))) (\<lambda>relay_url.
         let relay_host = fall_back (gw_relay_host g) (url_host relay_url);
             first_host = fall_back (gw_openvpn_host g) (url_host (en_profile_base_url env))
         in res_bind (if first_host \<noteq> [] then Inr first_host
                      else res_bind (signing_config env db) (\<lambda>c. Inr (url_host (sg_url c)))) (\<lambda>openvpn_host.
            let domain = fall_back (gw_domain g) (default_domain relay_host openvpn_host fs);
                openvpn_host = (if openvpn_host = [] \<and> domain \<noteq> [] then ''openvpn.'' @ domain else openvpn_host)
            in res_bind (default_backend g) (\<lambda>backend.
               Inr (d\<lparr>nd_gateway := g\<lparr>gw_relay_public_url := fall_back relay_url (gw_relay_public_url g),
                        gw_relay_host := relay_host, gw_openvpn_host := openvpn_host, gw_domain := domain,
                        gw_relay_backend := backend\<rparr>\<rparr>)))))"

section \<open>First-time settings\<close>

text \<open>\<open>ip_network(s, strict=False)\<close> and \<open>IPv4Address(n)\<close> of a number\<close>

definition ip_network_loose :: "string \<Rightarrow> ip_net result" where
  "ip_network_loose s =
     (case IPv4Network False s of
        Inr n \<Rightarrow> Inr (V4 n)
      | Inl e \<Rightarrow>
          (case split_on CHR ''/'' s of
             [a, m] \<Rightarrow> res_bind (IPv6Address a) (\<lambda>a. res_bind (prefix_from_prefix_string 128 m) (\<lambda>p.
               Inr (V6 (if v6_ip a AND NOT (mask (128 - p)) = v6_ip a then a
                        else \<lparr>v6_ip = v6_ip a AND NOT (mask (128 - p)), v6_scope = None\<rparr>) p)))
           | _ \<Rightarrow> Inl ValueError))"

definition ip_of_int :: "int \<Rightarrow> ipv4 result" where
  "ip_of_int n = (if 0 \<le> n \<and> n < 2 ^ 32 then Inr (word_of_int n) else Inl ValueError)"

text \<open>What one line of \<open>server.conf\<close> pushes: a name server or a route.\<close>

definition pushed_line :: "string \<Rightarrow> string list \<times> string list \<Rightarrow> (string list \<times> string list) result" where
  "pushed_line line acc =
     (case acc of (dns, routes) \<Rightarrow>
        res_bind (shlex_split True line) (\<lambda>ws.
          if length ws < 2 \<or> hd ws \<noteq> ''push'' then Inr acc
          else
            res_bind (shlex_split False (ws ! 1)) (\<lambda>pushed.
              if take 2 pushed = [''dhcp-option'', ''DNS'']
              then (if length pushed < 3 then Inl IndexError else Inr (dns @ [pushed ! 2], routes))
              else if pushed \<noteq> [] \<and> hd pushed = ''route''
              then (if length pushed < 2 then Inl IndexError
                    else res_bind (ip_network_loose (pushed ! 1 @ ''/'' @ (if 2 < length pushed then pushed ! 2 else ''32''))) (\<lambda>net.
                      Inr (dns, routes @ [str_net net])))
              else Inr acc)))"

fun pushed_lines :: "string list \<Rightarrow> string list \<times> string list \<Rightarrow> (string list \<times> string list) result" where
  "pushed_lines [] acc = Inr acc"
| "pushed_lines (l # ls) acc = res_bind (pushed_line l acc) (pushed_lines ls)"

definition from_server_conf :: "relay_env \<Rightarrow> settings \<Rightarrow> files \<Rightarrow> network_data result" where
  "from_server_conf env cfg fs =
     (case vpn_subnet fs of
        None \<Rightarrow> Inl (PkiError ''Fix the server subnet and pool in Server -> Configuration first'')
      | Some (net, lo, hi) \<Rightarrow>
          res_bind (pushed_lines (splitlines (server_text fs)) ([], [])) (\<lambda>(dns, routes).
          let proxies = words (replace_char CHR '','' '' '' (case en_forwarded_allow_ips env of Some t \<Rightarrow> t | None \<Rightarrow> ''127.0.0.1/32,::1/128''))
          in res_bind (ip_of_int lo) (\<lambda>lo. res_bind (ip_of_int hi) (\<lambda>hi.
             res_bind (guest_sub cfg fs) (\<lambda>guest.
             res_bind (cidrs False proxies) (\<lambda>proxies.
               Inr \<lparr>nd_vpn_subnet = str_network net, nd_pool_first = str_ipv4 lo, nd_pool_last = str_ipv4 hi,
                    nd_guest_subnet = guest, nd_dns_servers = dedup dns, nd_routes = routes, nd_proxy_cidrs = proxies,
                    nd_gateway = empty_gateway\<rparr>))))))"

definition network_get_settings :: "relay_env \<Rightarrow> settings \<Rightarrow> model \<Rightarrow> files \<Rightarrow> database option \<Rightarrow> network_data result" where
  "network_get_settings env cfg model fs db =
     res_bind (read_network fs) (\<lambda>saved.
     res_bind (case saved of Some d \<Rightarrow> Inr d | None \<Rightarrow> from_server_conf env cfg fs) (with_defaults env model fs db))"

section \<open>The gateway's file\<close>

definition EXPORT_VERSION :: int where "EXPORT_VERSION = 2"

record gateway_file =
  gf_version :: int
  gf_domain :: string
  gf_openvpn_host :: string
  gf_openvpn_backend :: string
  gf_relay_host :: string
  gf_relay_backend :: string
  gf_relay_public_url :: string
  gf_portal_listener :: string
  gf_trusted_cidrs :: "string list"
  gf_guest_links :: "(string option \<times> string) list"
  gf_services :: "service list option"

definition missing_settings :: "gateway \<Rightarrow> string list" where
  "missing_settings g =
     (if gw_domain g = [] then [''Domain''] else []) @
     (if gw_openvpn_host g = [] then [''Website hostname''] else []) @
     (if gw_openvpn_backend g = [] then [''VPN server web address''] else [])"

definition export_gateway :: "relay_env \<Rightarrow> settings \<Rightarrow> model \<Rightarrow> files \<Rightarrow> database option \<Rightarrow> gateway_file result" where
  "export_gateway env cfg model fs db =
     res_bind (network_get_settings env cfg model fs db) (\<lambda>d.
       let g = nd_gateway d
       in if missing_settings g \<noteq> []
          then Inl (PkiError (''Complete these settings before downloading the gateway file: '' @ join '', '' (missing_settings g)))
          else res_bind (map_res link_rule (gw_guest_links g)) (\<lambda>links.
            Inr \<lparr>gf_version = EXPORT_VERSION, gf_domain = gw_domain g, gf_openvpn_host = gw_openvpn_host g,
                 gf_openvpn_backend = gw_openvpn_backend g, gf_relay_host = gw_relay_host g,
                 gf_relay_backend = gw_relay_backend g, gf_relay_public_url = gw_relay_public_url g,
                 gf_portal_listener = gw_portal_listener g, gf_trusted_cidrs = gw_trusted_cidrs g,
                 gf_guest_links = links,
                 gf_services = (if gw_replace_services g then Some (gw_services g) else None)\<rparr>))"

end
