(* ===== verification/Discovery.thy ===== *)
theory Discovery
  imports Export
begin

text \<open>
  The address suggestions of \<open>network_discovery.py\<close>. What the kernel says of its interfaces, the answers
  of the resolver and the local address of a route are parameters; a call that raises \<open>OSError\<close> there has no
  answer. What is shown: every address in a result can be used by a peer, and the gateway that is suggested
  is the proxy the request came through or the one address of the website on a local network.
\<close>

text \<open>A list comprehension whose condition may raise.\<close>

definition filter_res :: "('a \<Rightarrow> bool result) \<Rightarrow> 'a list \<Rightarrow> 'a list result" where
  "filter_res P xs = res_bind (map_res (\<lambda>x. res_bind (P x) (\<lambda>b. Inr (x, b))) xs) (\<lambda>ps. Inr (map fst (filter snd ps)))"

lemma filter_res_Inr: "filter_res P xs = Inr ys \<Longrightarrow> ys = filter (\<lambda>x. P x = Inr True) xs \<and> (\<forall>x \<in> set xs. \<exists>b. P x = Inr b)"
proof (induction xs arbitrary: ys)
  case (Cons x xs)
  then obtain b zs where b: "P x = Inr b" "filter_res P xs = Inr zs" "ys = (if b then x # zs else zs)"
    by (auto simp: filter_res_def split: if_splits sum.splits)
  then show ?case using Cons.IH [OF b(2)] by auto
qed (simp add: filter_res_def)

definition PORTAL_PORT :: int where "PORTAL_PORT = 9443"
definition UI_PORT :: int where "UI_PORT = 8080"

definition usable :: "ipv4 \<Rightarrow> bool" where
  "usable ip \<longleftrightarrow> \<not> (is_loopback ip \<or> ip = 0 \<or> is_link_local ip \<or> is_multicast ip \<or> is_reserved ip)"

definition usable_ipv4 :: "string option \<Rightarrow> string option" where
  "usable_ipv4 value =
     (case value of
        None \<Rightarrow> None
      | Some s \<Rightarrow> (case IPv4Address s of Inl e \<Rightarrow> None | Inr ip \<Rightarrow> if usable ip then Some (str_ipv4 ip) else None))"

record interface =
  if_name :: string
  if_address :: string
  if_network :: string

definition SKIPPED :: "string list" where
  "SKIPPED = [''lo'', ''docker'', ''br-'', ''veth'', ''tun'', ''ovpn'', ''wg'']"

text \<open>The interfaces of the host, in the kernel's order, with the address and the mask where they have one.\<close>

type_synonym kernel = "(string \<times> (ipv4 \<times> ipv4) option) list"

fun interfaces :: "kernel \<Rightarrow> interface list result" where
  "interfaces [] = Inr []"
| "interfaces ((name, addr) # rest) =
     (if list_ex (startswith name) SKIPPED then interfaces rest
      else
        case addr of
          None \<Rightarrow> interfaces rest
        | Some (a, m) \<Rightarrow>
            if usable_ipv4 (Some (str_ipv4 a)) = None then interfaces rest
            else
              res_bind (IPv4Network False (str_ipv4 a @ ''/'' @ str_ipv4 m)) (\<lambda>net.
              res_bind (interfaces rest) (\<lambda>more.
                Inr (\<lparr>if_name = name, if_address = str_ipv4 a, if_network = str_network net\<rparr> # more))))"

definition dns_ipv4 :: "(string \<Rightarrow> string list option) \<Rightarrow> string \<Rightarrow> string list" where
  "dns_ipv4 resolve host =
     (if host = [] then []
      else
        case resolve host of
          None \<Rightarrow> []
        | Some answers \<Rightarrow> sort (remdups (filter (\<lambda>a. usable_ipv4 (Some a) \<noteq> None) answers)))"

definition source_ipv4 :: "(string \<Rightarrow> string option) \<Rightarrow> string \<Rightarrow> string option" where
  "source_ipv4 route target = usable_ipv4 (route target)"

definition on_network :: "string \<Rightarrow> interface \<Rightarrow> bool result" where
  "on_network ip row =
     res_bind (IPv4Address ip) (\<lambda>a. res_bind (IPv4Network True (if_network row)) (\<lambda>n. Inr (in_network a n)))"

fun on_lan :: "interface list \<Rightarrow> string \<Rightarrow> bool result" where
  "on_lan [] ip = Inr False"
| "on_lan (row # rows) ip = res_bind (on_network ip row) (\<lambda>b. if b then Inr True else on_lan rows ip)"

record discovered =
  di_interfaces :: "interface list"
  di_website :: "string list"
  di_gateway :: "string option"
  di_server :: "string option"
  di_backend :: "string option"
  di_listener :: "string option"
  di_proxies :: "string list option"

definition lan_gateway :: "interface list \<Rightarrow> string list \<Rightarrow> string option result" where
  "lan_gateway local website =
     res_bind (filter_res (on_lan local) website) (\<lambda>near. Inr (case near of [ip] \<Rightarrow> Some ip | _ \<Rightarrow> None))"

definition server_address :: "(string \<Rightarrow> string option) \<Rightarrow> interface list \<Rightarrow> string list \<Rightarrow> string option \<Rightarrow> string option" where
  "server_address route local website gateway =
     (let probe = (case gateway of Some g \<Rightarrow> Some g | None \<Rightarrow> (case website of w # ws \<Rightarrow> Some w | [] \<Rightarrow> None));
          found = (case probe of Some p \<Rightarrow> source_ipv4 route p | None \<Rightarrow> None)
      in case found of
           Some s \<Rightarrow> Some s
         | None \<Rightarrow> (case local of [row] \<Rightarrow> Some (if_address row) | _ \<Rightarrow> None))"

definition discover ::
  "kernel \<Rightarrow> (string \<Rightarrow> string list option) \<Rightarrow> (string \<Rightarrow> string option) \<Rightarrow> network_data \<Rightarrow> string option \<Rightarrow> bool
    \<Rightarrow> discovered result" where
  "discover ifs resolve route data peer proxied =
     res_bind (interfaces ifs) (\<lambda>local.
       let website = dns_ipv4 resolve (gw_openvpn_host (nd_gateway data));
           from_peer = (if proxied then usable_ipv4 peer else None)
       in res_bind (if from_peer \<noteq> None then Inr from_peer else lan_gateway local website) (\<lambda>gateway.
            let server = server_address route local website gateway;
                apart = (gateway \<noteq> None \<and> gateway \<noteq> server)
            in Inr \<lparr>di_interfaces = local, di_website = website, di_gateway = gateway, di_server = server,
                    di_backend = map_option (\<lambda>s. ''http://'' @ s @ '':'' @ dec_int UI_PORT) server,
                    di_listener = (if apart then Some (the gateway @ '':'' @ dec_int PORTAL_PORT) else None),
                    di_proxies = (if apart then Some [the gateway @ ''/32''] else None)\<rparr>))"

section \<open>What is suggested\<close>

text \<open>A text that is an address a peer can use.\<close>

definition usable_text :: "string \<Rightarrow> bool" where
  "usable_text s \<longleftrightarrow> usable_ipv4 (Some s) \<noteq> None"

lemma usable_ipv4_text: "usable_ipv4 v = Some s \<Longrightarrow> usable_text s"
  by (auto simp: usable_ipv4_def usable_text_def IPv4Address_str split: option.splits sum.splits if_splits)

lemma dns_usable: "ip \<in> set (dns_ipv4 resolve host) \<Longrightarrow> usable_text ip"
  by (auto simp: dns_ipv4_def usable_text_def split: if_splits option.splits)

lemma interfaces_usable: "interfaces ifs = Inr rows \<Longrightarrow> row \<in> set rows \<Longrightarrow> usable_text (if_address row)"
proof (induction ifs arbitrary: rows rule: interfaces.induct)
  case (2 name addr rest)
  then show ?case
    by (auto simp: usable_text_def split: if_splits option.splits prod.splits)
qed simp

lemma lan_gateway_Some:
  assumes "lan_gateway local website = Inr (Some g)"
  shows "filter (\<lambda>ip. on_lan local ip = Inr True) website = [g]"
proof -
  obtain near where "filter_res (on_lan local) website = Inr near" "near = [g]"
    using assms by (auto simp: lan_gateway_def split: list.splits) (metis list.exhaust)
  then show ?thesis using filter_res_Inr by metis
qed

lemma server_address_usable:
  assumes "server_address route local website gateway = Some a" "\<forall>row \<in> set local. usable_text (if_address row)"
  shows "usable_text a"
  using assms by (auto simp: server_address_def Let_def source_ipv4_def split: option.splits list.splits dest: usable_ipv4_text)

text \<open>
  A suggestion can be used: the gateway and the server that are suggested are addresses a peer can use,
  none of them of the loopback, link-local, multicast or reserved ranges. The gateway is the proxy the request
  came through, or, without one, the only address of the website that lies on a network of this host.
\<close>

theorem suggestions_usable:
  assumes "discover ifs resolve route data peer proxied = Inr d"
  shows "(\<forall>a. di_gateway d = Some a \<or> di_server d = Some a \<or> a \<in> set (di_website d) \<longrightarrow> usable_text a) \<and>
    (\<forall>g. di_gateway d = Some g \<longrightarrow>
       proxied \<and> usable_ipv4 peer = Some g \<or>
       filter (\<lambda>ip. on_lan (di_interfaces d) ip = Inr True) (di_website d) = [g])"
proof -
  let ?website = "dns_ipv4 resolve (gw_openvpn_host (nd_gateway data))"
  obtain rows gateway where g: "interfaces ifs = Inr rows"
      "(if (if proxied then usable_ipv4 peer else None) \<noteq> None then Inr (if proxied then usable_ipv4 peer else None)
        else lan_gateway rows ?website) = Inr gateway"
      "di_interfaces d = rows" "di_website d = ?website" "di_gateway d = gateway"
      "di_server d = server_address route rows ?website gateway"
    using assms by (auto simp: discover_def Let_def)
  have source: "proxied \<and> usable_ipv4 peer = Some a \<or> filter (\<lambda>ip. on_lan rows ip = Inr True) ?website = [a]"
    if "gateway = Some a" for a
    using g(2) that lan_gateway_Some [of rows ?website a] by (auto split: if_splits)
  have "usable_text a" if "gateway = Some a" for a
    using source [OF that]
  proof
    assume "filter (\<lambda>ip. on_lan rows ip = Inr True) ?website = [a]"
    then have "a \<in> set ?website" by (metis filter_is_subset list.set_intros(1) subset_code(1))
    then show "usable_text a" by (rule dns_usable)
  qed (auto dest: usable_ipv4_text)
  moreover have "usable_text a" if "server_address route rows ?website gateway = Some a" for a
    using server_address_usable [OF that] interfaces_usable [OF g(1)] by blast
  ultimately show ?thesis using source g dns_usable by auto
qed

end
