(* ===== verification/Runtime.thy ===== *)
theory Runtime
  imports Export Background Collector Auth
begin

text \<open>
  How the services run: where the management interface is (\<open>settings.py\<close>), whom the proxy headers are
  believed from and how settings of an earlier format are read (\<open>network.py\<close>), where the policy server
  may listen (\<open>policy_server.py\<close>), the live stream (\<open>collector.py\<close> and \<open>stream\<close> of \<open>main.py\<close>) and the
  hourly maintenance.

  Environment variables, the monotonic clock and the items a stream is woken by are arguments. What is shown:
  a live stream ends within a minute of the session it was opened with, a slow reader never holds more than
  eight items, and a policy server is only bound to the loopback interface.
\<close>

section \<open>The management interface in the server's configuration\<close>

type_synonym environ = "string \<Rightarrow> string option"

definition env_or :: "environ \<Rightarrow> string \<Rightarrow> string \<Rightarrow> string" where
  "env_or env name other = (case env name of Some v \<Rightarrow> v | None \<Rightarrow> other)"

definition MANAGEMENT_LINE :: re where
  "MANAGEMENT_LINE =
     Cat [Bol, Spaces, Lit ''management'', Spaces1, Grp 1 NonSpaces, Spaces1, Grp 2 Digits,
          Opt (Seq Spaces1 (Grp 3 NonSpaces))]"

definition STATUS_RE :: re where
  "STATUS_RE = Cat [MBol, Spaces, Lit ''status'', Spaces1, Grp 1 NonSpaces, Opt (Seq Spaces1 (Grp 2 Digits))]"

text \<open>\<open>openvpn_dir / path\<close>\<close>

definition below :: "string \<Rightarrow> string \<Rightarrow> string" where
  "below dir path = (if startswith path ''/'' then path else dir @ ''/'' @ path)"

fun management_line :: "string \<Rightarrow> string list \<Rightarrow> string \<times> nat \<times> string option" where
  "management_line dir [] = (''127.0.0.1'', 2080, None)"
| "management_line dir (l # ls) =
     (case re_match MANAGEMENT_LINE l of
        Some m \<Rightarrow> (grp m 1, undec (grp m 2), if grp m 3 = [] then None else Some (below dir (grp m 3)))
      | None \<Rightarrow> management_line dir ls)"

definition management_endpoint :: "environ \<Rightarrow> string \<Rightarrow> files \<Rightarrow> (string \<times> int \<times> string option) result" where
  "management_endpoint env dir fs =
     (case management_line dir (case fs_server_conf fs of Some t \<Rightarrow> splitlines t | None \<Rightarrow> []) of
        (host, port, pw_file) \<Rightarrow>
          let h = env_or env ''MGMT_HOST'' host
          in res_bind (py_int (env_or env ''MGMT_PORT'' (dec port))) (\<lambda>p.
               Inr (if h = ''0.0.0.0'' then ''127.0.0.1'' else h, p, pw_file)))"

definition management_password :: "environ \<Rightarrow> string \<Rightarrow> (string \<Rightarrow> string option) \<Rightarrow> files \<Rightarrow> string option result" where
  "management_password env dir read fs =
     res_bind (management_endpoint env dir fs) (\<lambda>(host, port, pw_file).
       Inr (case pw_file of
              None \<Rightarrow> None
            | Some p \<Rightarrow> (case read p of None \<Rightarrow> None | Some t \<Rightarrow> if strip t = [] then None else Some (strip t))))"

definition status_file :: "string \<Rightarrow> files \<Rightarrow> string option \<times> nat" where
  "status_file dir fs =
     (case fs_server_conf fs of
        None \<Rightarrow> (None, 0)
      | Some text \<Rightarrow>
          (case re_search STATUS_RE text of
             None \<Rightarrow> (None, 0)
           | Some m \<Rightarrow> (Some (below dir (grp m 1)), if grp m 2 = [] then 60 else undec (grp m 2))))"

text \<open>The interface is never looked for on the wildcard address, which is none to connect to.\<close>

lemma management_not_wildcard: "management_endpoint env dir fs = Inr (host, port, pw) \<Longrightarrow> host \<noteq> ''0.0.0.0''"
  by (auto simp: management_endpoint_def Let_def split: prod.splits if_splits)

section \<open>Trusted proxies and earlier settings\<close>

definition trusted_hosts :: "relay_env \<Rightarrow> files \<Rightarrow> string list result" where
  "trusted_hosts env fs =
     res_bind (read_network fs) (\<lambda>saved.
       Inr (case saved of
              Some d \<Rightarrow> nd_proxy_cidrs d
            | None \<Rightarrow> split_on CHR '','' (case en_forwarded_allow_ips env of Some t \<Rightarrow> t | None \<Rightarrow> ''127.0.0.1'')))"

definition get_or_null :: "(string \<times> json) list \<Rightarrow> string \<Rightarrow> json" where
  "get_or_null kvs key = (case map_of kvs key of Some v \<Rightarrow> v | None \<Rightarrow> JNull)"

text \<open>\<open>NetworkSettings.upgrade\<close>; a gateway that is no object is refused, as its fields could not be read.\<close>

definition fields_or_empty :: "exc \<Rightarrow> json \<Rightarrow> (string \<times> json) list result" where
  "fields_or_empty e j = (if \<not> truthy j then Inr [] else (case j of JObj kvs \<Rightarrow> Inr kvs | _ \<Rightarrow> Inl e))"

definition upgrade :: "json \<Rightarrow> json result" where
  "upgrade data =
     (case data of
        JObj kvs \<Rightarrow>
          if map_of kvs ''portal'' = None then Inr data
          else
            (let rest = AList.delete ''portal'' kvs in
             res_bind (fields_or_empty TypeError (get_or_null rest ''gateway'')) (\<lambda>gateway.
             res_bind (fields_or_empty AttributeError (get_or_null kvs ''portal'')) (\<lambda>portal.
               Inr (JObj (AList.update ''gateway''
                 (JObj (if truthy (get_or_null portal ''enabled'') \<and> truthy (get_or_null portal ''target'') \<and>
                           \<not> truthy (get_or_null gateway ''portal_listener'')
                        then AList.update ''portal_listener'' (get_or_null portal ''target'') gateway else gateway)) rest)))))
      | _ \<Rightarrow> Inr data)"

lemma upgrade_again: "upgrade j = Inr j' \<Longrightarrow> upgrade j' = Inr j'"
proof (cases j)
  case (JObj kvs)
  assume u: "upgrade j = Inr j'"
  show ?thesis
  proof (cases "map_of kvs ''portal'' = None")
    case False
    then obtain gw where "j' = JObj (AList.update ''gateway'' gw (AList.delete ''portal'' kvs))"
      using u JObj by (auto simp: upgrade_def Let_def)
    then show ?thesis by (simp add: upgrade_def update_conv' delete_conv')
  qed (use u JObj in \<open>auto simp: upgrade_def\<close>)
qed (auto simp: upgrade_def)

section \<open>Where the policy server listens\<close>

definition ip_is_loopback :: "string \<Rightarrow> bool result" where
  "ip_is_loopback s =
     (case IPv4Address s of
        Inr a \<Rightarrow> Inr (is_loopback a)
      | Inl e \<Rightarrow>
          res_bind (IPv6Address s) (\<lambda>a.
            Inr (if drop_bit 32 (v6_ip a) = 0xFFFF then is_loopback (ucast (v6_ip a)) else v6_ip a = 1)))"

definition policy_bind :: "environ \<Rightarrow> (string \<times> int) result" where
  "policy_bind env =
     (case rpartition_on CHR '':'' (env_or env ''RELAY_POLICY_BIND'' ''127.0.0.1:8447'') of
        (host, sep, port) \<Rightarrow>
          if \<not> sep then Inl ValueError
          else
            res_bind (ip_is_loopback (strip_by (\<lambda>c. c \<in> set ''[]'') host)) (\<lambda>loop.
              if \<not> loop then Inl ValueError else res_bind (py_int port) (\<lambda>p. Inr (host, p))))"

text \<open>An address the policy server is bound to belongs to the host alone.\<close>

lemma policy_bind_loopback:
  "policy_bind env = Inr (host, port) \<Longrightarrow> ip_is_loopback (strip_by (\<lambda>c. c \<in> set ''[]'') host) = Inr True"
  by (auto simp: policy_bind_def split: prod.splits if_splits)

section \<open>Live updates\<close>

definition QUEUE_SIZE :: nat where "QUEUE_SIZE = 8"

definition offer :: "'a \<Rightarrow> 'a list \<Rightarrow> 'a list" where
  "offer x q = (if length q < QUEUE_SIZE then q @ [x] else q)"

text \<open>The subscribers of the collector by a number that stands for the identity of the queue.\<close>

type_synonym 'a subscribers = "(nat \<times> 'a list) list"

definition subscribe :: "nat \<Rightarrow> 'a subscribers \<Rightarrow> 'a subscribers" where
  "subscribe q subs = subs @ [(q, [])]"

definition unsubscribe :: "nat \<Rightarrow> 'a subscribers \<Rightarrow> 'a subscribers" where
  "unsubscribe q subs = filter (\<lambda>s. fst s \<noteq> q) subs"

definition publish :: "'a \<Rightarrow> 'a subscribers \<Rightarrow> 'a subscribers" where
  "publish x subs = map (\<lambda>(q, items). (q, offer x items)) subs"

text \<open>The reader of a queue takes its oldest item.\<close>

definition receive :: "nat \<Rightarrow> 'a subscribers \<Rightarrow> 'a subscribers" where
  "receive q subs = map (\<lambda>(p, items). (p, if p = q then tl items else items)) subs"

definition queues_ok :: "'a subscribers \<Rightarrow> bool" where
  "queues_ok subs \<longleftrightarrow> list_all (\<lambda>(q, items). length items \<le> QUEUE_SIZE) subs"

lemma queues_bounded:
  "queues_ok []"
  "queues_ok subs \<Longrightarrow> queues_ok (subscribe q subs)"
  "queues_ok subs \<Longrightarrow> queues_ok (unsubscribe q subs)"
  "queues_ok subs \<Longrightarrow> queues_ok (publish x subs)"
  "queues_ok subs \<Longrightarrow> queues_ok (receive q subs)"
proof -
  show "queues_ok subs \<Longrightarrow> queues_ok (receive q subs)"
    by (induction subs) (auto simp: queues_ok_def receive_def)
qed (auto simp: queues_ok_def subscribe_def unsubscribe_def publish_def offer_def list_all_iff)

text \<open>A published item reaches every subscriber that has not fallen behind.\<close>

lemma publish_reaches:
  "(q, items) \<in> set subs \<Longrightarrow> length items < QUEUE_SIZE \<Longrightarrow> (q, items @ [x]) \<in> set (publish x subs)"
  by (force simp: publish_def offer_def)

section \<open>The live stream\<close>

definition SESSION_RECHECK :: real where "SESSION_RECHECK = 60"

datatype 'a chunk = Data 'a | Keepalive

text \<open>
  The loop of \<open>gen\<close>. A turn is the time it begins at and what the queue yields, nothing when fifteen
  seconds pass; \<open>valid\<close> is whether the session is found at a time. The result is what was sent, with the
  time of its turn.
\<close>

fun stream_loop :: "(real \<Rightarrow> bool) \<Rightarrow> real \<Rightarrow> (real \<times> 'a option) list \<Rightarrow> (real \<times> 'a chunk) list" where
  "stream_loop valid checked [] = []"
| "stream_loop valid checked ((t, x) # turns) =
     (if t - checked > SESSION_RECHECK \<and> \<not> valid t then []
      else
        (t, case x of Some y \<Rightarrow> Data y | None \<Rightarrow> Keepalive) #
        stream_loop valid (if t - checked > SESSION_RECHECK then t else checked) turns)"

definition stream :: "(real \<Rightarrow> bool) \<Rightarrow> real \<Rightarrow> 'a \<Rightarrow> (real \<times> 'a option) list \<Rightarrow> (real \<times> 'a chunk) list" where
  "stream valid started first turns = (started, Data first) # stream_loop valid started turns"

lemma stream_loop_ends:
  assumes "\<forall>t \<ge> dead. \<not> valid t" "checked \<le> dead" "(t, c) \<in> set (stream_loop valid checked turns)"
  shows "t \<le> dead + SESSION_RECHECK"
  using assms
proof (induction valid checked turns rule: stream_loop.induct)
  case (2 valid checked u x turns)
  show ?case
  proof (cases "u - checked > SESSION_RECHECK")
    case True
    then have "valid u" using "2.prems"(3) by (auto split: if_splits)
    then have "u < dead" using "2.prems"(1) by (meson not_le)
    then show ?thesis using "2.IH" "2.prems" True \<open>valid u\<close> by (auto simp: SESSION_RECHECK_def)
  next
    case False
    then show ?thesis using "2.IH" "2.prems" by auto
  qed
qed simp

text \<open>The look at the session of the stream, at the clock and the database of that time.\<close>

definition session_found ::
  "(string \<Rightarrow> string) \<Rightarrow> int \<Rightarrow> (real \<Rightarrow> int) \<Rightarrow> (real \<Rightarrow> database) \<Rightarrow> string option \<Rightarrow> real \<Rightarrow> bool" where
  "session_found H ttl clock db token t \<longleftrightarrow> fst (get_session_user H (clock t) token ttl False (db t)) \<noteq> None"

lemma no_row_not_found: "map_of (web_sessions (db t)) (H token) = None \<Longrightarrow> \<not> session_found H ttl clock db (Some token) t"
  by (simp add: session_found_def get_session_user_def session_row_def)

text \<open>
  C29. A live stream ends with the session it was opened with: once the session is gone from the database,
  by a sign-out, a changed password or a removed account, no turn of the stream that begins more than a
  minute later sends anything.
\<close>

theorem stream_ends_with_session:
  assumes "\<forall>t \<ge> dead. map_of (web_sessions (db t)) (H token) = None" "started \<le> dead"
  shows "\<forall>(t, c) \<in> set (stream (session_found H ttl clock db (Some token)) started first turns). t \<le> dead + 60"
proof -
  have "\<forall>t \<ge> dead. \<not> session_found H ttl clock db (Some token) t" using assms(1) no_row_not_found by metis
  from stream_loop_ends [OF this assms(2)] assms(2) show ?thesis by (auto simp: stream_def SESSION_RECHECK_def)
qed

theorem stream_ends_with_session_witness:
  "(15, Keepalive) \<in> set (stream (session_found (\<lambda>s. s) 60 (\<lambda>t. 0) (\<lambda>t. empty_db) (Some ''token'')) 0 (1 :: int)
       [(5, Some 2), (15, None), (61, Some 3), (75, None)]) \<and>
   (75, Keepalive) \<notin> set (stream (session_found (\<lambda>s. s) 60 (\<lambda>t. 0) (\<lambda>t. empty_db) (Some ''token'')) 0 (1 :: int)
       [(5, Some 2), (15, None), (61, Some 3), (75, None)])"
proof
  have "\<forall>t \<ge> 10. map_of (web_sessions empty_db) ''token'' = None" by (simp add: empty_db_def)
  from stream_ends_with_session [where H = "\<lambda>s. s" and dead = 10 and started = 0, OF this]
  show "(75, Keepalive) \<notin> set (stream (session_found (\<lambda>s. s) 60 (\<lambda>t. 0) (\<lambda>t. empty_db) (Some ''token'')) 0 (1 :: int)
       [(5, Some 2), (15, None), (61, Some 3), (75, None)])" by fastforce
qed (simp add: stream_def SESSION_RECHECK_def)

section \<open>Maintenance and health\<close>

text \<open>
  One turn of \<open>Maintenance.run\<close>: the roll-up, then every task; what one of them raises is logged. The
  state of a task that raised is the one it left.
\<close>

definition attempt_task :: "('s \<Rightarrow> unit result \<times> 's) \<Rightarrow> 's \<Rightarrow> 's" where
  "attempt_task task s = snd (task s)"

definition maintenance_turn :: "('s \<Rightarrow> unit result \<times> 's) \<Rightarrow> ('s \<Rightarrow> unit result \<times> 's) list \<Rightarrow> 's \<Rightarrow> 's" where
  "maintenance_turn roll tasks s = fold attempt_task tasks (attempt_task roll s)"

definition collector_alive :: "bool \<Rightarrow> real \<Rightarrow> real \<Rightarrow> real \<Rightarrow> bool" where
  "collector_alive running heartbeat interval now \<longleftrightarrow> running \<and> now - heartbeat < 180 + 2 * interval"

definition healthz :: "bool \<Rightarrow> live \<Rightarrow> bool result" where
  "healthz alive l =
     (if \<not> alive then Inl (HTTPException 503 ''The collector is not running'') else Inr (lv_connected l))"

end
