(* ===== verification/Pages.thy ===== *)
theory Pages
  imports Doors Discovery Runtime Signer
begin

text \<open>
  The handlers of \<open>main.py\<close> that show something: the portal of a client account, the overview, the client
  and server pages, the settings and the public page of a share link, with the helpers of \<open>pki.py\<close>,
  \<open>backup.py\<close> and \<open>relay_services.py\<close> they read through.

  What lies outside the application's state is a record of the host: files the handlers only read, the
  answers of OpenSSL, of the relay's status endpoint and of a JSON parser. Of an answer the keys that repeat
  others, the paths on the server and the response headers are left out. What is shown: the read handlers are closed to everyone but an
  administrator, a portal account is only ever shown rows of its own client, the overview counts every
  client once, and no text of a request reaches a page as markup.
\<close>

section \<open>The host\<close>

record host_view =
  hv_ca :: "string option"
  hv_ta_key :: bool
  hv_zones :: "string list"
  hv_crl :: "string \<Rightarrow> string result"
  hv_logs :: "(string \<times> string) list"
  hv_backup_keep :: nat
  hv_backup_recipient :: string
  hv_backups :: backup_dir
  hv_started :: rat
  hv_conf_mtime :: "int option"
  hv_relay_status :: "string option \<Rightarrow> string result"
  hv_json :: "string \<Rightarrow> json result"
  hv_management :: "string \<times> int"
  hv_poll_interval :: rat

definition VERSION :: string where "VERSION = ''2.2.0''"

definition look :: "(app \<Rightarrow> 'a result) \<Rightarrow> 'a act" where
  "look f s = (f s, s)"

text \<open>A handler that depends on \<open>Authed\<close> alone.\<close>

definition authed :: "world \<Rightarrow> request \<Rightarrow> (session_user \<Rightarrow> 'a act) \<Rightarrow> 'a act" where
  "authed w rq body = act_bind (current_user w rq) body"

section \<open>The portal of a client account\<close>

record account_page =
  ac_username :: string
  ac_version :: string
  ac_guest_sub :: string
  ac_role :: string
  ac_client_name :: "string option"

definition me :: "world \<Rightarrow> request \<Rightarrow> account_page act" where
  "me w rq =
     act_bind (signed_in_user w rq) (\<lambda>user.
     act_bind (look (\<lambda>s. guest_sub (w_cfg w) (ap_fs s))) (\<lambda>sub.
       ret \<lparr>ac_username = su_username user, ac_version = VERSION, ac_guest_sub = sub, ac_role = su_role user,
            ac_client_name = su_client_name user\<rparr>))"

definition portal_account :: "world \<Rightarrow> string \<Rightarrow> request \<Rightarrow> (bool \<times> string) act" where
  "portal_account w name rq =
     authed w rq (\<lambda>user.
       act_then (find_client w rq name)
       (asks (\<lambda>s. case user_of_client name (ap_db s) of Some u \<Rightarrow> (True, u_username u) | None \<Rightarrow> (False, name))))"

definition PORTAL_RELAY_PATH :: string where "PORTAL_RELAY_PATH = ''/api/portal/relay.mobileconfig''"

record portal_page =
  pp_name :: string
  pp_guest :: bool
  pp_expires_at :: "int option"
  pp_links :: "string list"
  pp_relay_available :: bool
  pp_signed_profiles :: bool
  pp_csrf :: string

definition own_profile_info :: "world \<Rightarrow> request \<Rightarrow> portal_page act" where
  "own_profile_info w rq =
     as_client w rq (\<lambda>user name.
       act_bind (eligible_now w rq name) (\<lambda>cert.
         case cert of
           None \<Rightarrow> raise (HTTPException 401 ''Client access is no longer valid'')
         | Some c \<Rightarrow>
             look (\<lambda>s.
               let guest = is_guest (ap_fs s) name in
               res_bind (if guest then guest_links (ap_fs s) else Inr []) (\<lambda>links.
               res_bind (relay_get_settings (w_model w) (ap_db s)) (\<lambda>relay.
               res_bind (signing_config (w_env w) (Some (ap_db s))) (\<lambda>signing.
                 Inr \<lparr>pp_name = name, pp_guest = guest, pp_expires_at = ct_not_after c, pp_links = links,
                      pp_relay_available = rl_enabled relay, pp_signed_profiles = (sg_url signing \<noteq> []),
                      pp_csrf = profile_download_token w rq PORTAL_RELAY_PATH\<rparr>))))))"

section \<open>The relay's state\<close>

definition json_get_or :: "json \<Rightarrow> string \<Rightarrow> json \<Rightarrow> json result" where
  "json_get_or j key other =
     (case j of JObj kvs \<Rightarrow> Inr (case map_of kvs key of Some v \<Rightarrow> v | None \<Rightarrow> other) | _ \<Rightarrow> Inl AttributeError)"

definition relay_unreachable :: json where
  "relay_unreachable =
     JObj [(''ready'', JBool False), (''message'', JStr ''Relay backend is unreachable on this host''),
           (''events'', JList []), (''active'', JList []), (''clients'', JList [])]"

definition runtime_status :: "host_view \<Rightarrow> string option \<Rightarrow> json result" where
  "runtime_status hv client =
     (case res_bind (hv_relay_status hv client) (\<lambda>content.
             if 2 * 1024 * 1024 < length content then Inl ValueError else hv_json hv content) of
        Inr j \<Rightarrow> Inr j
      | Inl e \<Rightarrow> if e = OSError \<or> e = ValueError then Inr relay_unreachable else Inl e)"

text \<open>\<open>[row for row in status.get(key, []) if row.get("client") == name]\<close>\<close>

definition own_rows :: "string \<Rightarrow> json \<Rightarrow> string \<Rightarrow> json list result" where
  "own_rows name status key =
     res_bind (json_get_or status key (JList [])) (\<lambda>v. res_bind (json_iter v) (\<lambda>rows.
       filter_res (\<lambda>row. res_bind (json_get row ''client'') (\<lambda>c. Inr (c = JStr name))) rows))"

record relay_page =
  rp_ready :: bool
  rp_policy_ready :: json
  rp_sessions :: "relay_visit list"
  rp_clients :: "json list"
  rp_active :: "json list"
  rp_events :: "json list"

definition own_relay_status :: "world \<Rightarrow> host_view \<Rightarrow> request \<Rightarrow> relay_page act" where
  "own_relay_status w hv rq =
     as_client w rq (\<lambda>user name. look (\<lambda>s.
       res_bind (runtime_status hv (Some name)) (\<lambda>status.
       res_bind (json_get status ''ready'') (\<lambda>ready.
       res_bind (json_get_or status ''policy_ready'' (JBool False)) (\<lambda>policy_ready.
       res_bind (credential_id (w_sha w) (ap_db s) name) (\<lambda>credential.
       res_bind (own_rows name status ''clients'') (\<lambda>clients.
       res_bind (own_rows name status ''active'') (\<lambda>active.
       res_bind (own_rows name status ''events'') (\<lambda>events.
         Inr \<lparr>rp_ready = truthy ready, rp_policy_ready = policy_ready,
              rp_sessions = relay_visits (Some name) (Some credential) (now_of rq) (ap_db s),
              rp_clients = clients, rp_active = active, rp_events = events\<rparr>)))))))))"

text \<open>\<open>/api/relay/status\<close>: the status object, the visits and the idle time.\<close>

definition relay_overview :: "world \<Rightarrow> host_view \<Rightarrow> request \<Rightarrow> (json \<times> relay_visit list \<times> int) act" where
  "relay_overview w hv rq =
     authed w rq (\<lambda>user. look (\<lambda>s.
       res_bind (runtime_status hv None) (\<lambda>status.
         case status of
           JObj kvs \<Rightarrow> Inr (status, relay_visits None None (now_of rq) (ap_db s), IDLE_SECONDS)
         | _ \<Rightarrow> Inl TypeError)))"

definition get_relay_settings :: "world \<Rightarrow> request \<Rightarrow> relay_settings act" where
  "get_relay_settings w rq = authed w rq (\<lambda>user. look (\<lambda>s. relay_get_settings (w_model w) (ap_db s)))"

definition relay_download_form :: "world \<Rightarrow> string \<Rightarrow> request \<Rightarrow> (string \<times> string) act" where
  "relay_download_form w name rq =
     authed w rq (\<lambda>user.
       act_then (find_client w rq name)
       (let path = ''/api/clients/'' @ name @ ''/relay.mobileconfig'' in ret (path, profile_download_token w rq path)))"

record signing_page =
  gp_configured :: bool
  gp_url :: string
  gp_token_configured :: bool
  gp_required :: bool
  gp_source :: string
  gp_ready :: bool
  gp_message :: string
  gp_identity :: "(json \<times> json \<times> json) option"

definition signing_source :: "database \<Rightarrow> string result" where
  "signing_source db =
     res_bind (case get_setting db ''relay_signing'' of Some v \<Rightarrow> loads v | None \<Rightarrow> Inr (JObj [])) (\<lambda>j.
       Inr (if truthy j then ''ui'' else ''environment''))"

text \<open>What the signer answers about itself.\<close>

definition signer_info :: "world \<Rightarrow> host_view \<Rightarrow> signing \<Rightarrow> (bool \<times> json \<times> json \<times> json) result" where
  "signer_info w hv config =
     res_bind (signing_request (w_signer w) None config) (\<lambda>content.
     res_bind (hv_json hv content) (\<lambda>info.
     res_bind (item ''ready'' info) (\<lambda>ready.
     res_bind (item ''subject'' info) (\<lambda>subject.
     res_bind (item ''expires_at'' info) (\<lambda>expires.
     res_bind (item ''fingerprint'' info) (\<lambda>fingerprint. Inr (truthy ready, subject, expires, fingerprint)))))))"

definition signing_status :: "world \<Rightarrow> host_view \<Rightarrow> database \<Rightarrow> signing_page result" where
  "signing_status w hv db =
     res_bind (signing_config (w_env w) (Some db)) (\<lambda>config.
     res_bind (signing_source db) (\<lambda>source.
       let base = \<lparr>gp_configured = (sg_url config \<noteq> []), gp_url = sg_url config,
                   gp_token_configured = (sg_token config \<noteq> []), gp_required = sg_required config, gp_source = source,
                   gp_ready = False, gp_message = [], gp_identity = None\<rparr>
       in if sg_url config = []
          then Inr (base\<lparr>gp_message :=
                 if sg_required config
                 then ''Set the signer URL and shared Traefik token; signed downloads are blocked until setup is complete''
                 else ''Unsigned downloads explicitly allowed''\<rparr>)
          else
            case signer_info w hv config of
              Inr (ready, info) \<Rightarrow> Inr (base\<lparr>gp_ready := ready, gp_identity := Some info\<rparr>)
            | Inl (PkiError m) \<Rightarrow> Inr (base\<lparr>gp_message := m\<rparr>)
            | Inl (SigningUnavailable m) \<Rightarrow> Inr (base\<lparr>gp_message := m\<rparr>)
            | Inl e \<Rightarrow>
                if e \<in> {ValueError, KeyError, TypeError} then Inr (base\<lparr>gp_message := ''Invalid signer status''\<rparr>) else Inl e))"

definition relay_signing :: "world \<Rightarrow> host_view \<Rightarrow> request \<Rightarrow> signing_page act" where
  "relay_signing w hv rq = authed w rq (\<lambda>user. look (\<lambda>s. signing_status w hv (ap_db s)))"

section \<open>The state of the PKI and the backups\<close>

definition ALGO_RE :: re where
  "ALGO_RE = Cat [Lit ''EASYRSA_ALGO'', Spaces1, Opt (Chr (CHR 0x22)), Grp 1 (Plus (Cls is_word)), Opt (Chr (CHR 0x22))]"

definition CURVE_RE :: re where
  "CURVE_RE = Cat [Lit ''EASYRSA_CURVE'', Spaces1, Opt (Chr (CHR 0x22)),
                   Grp 1 (Plus (Cls (\<lambda>c. is_word c \<or> c = CHR ''-''))), Opt (Chr (CHR 0x22))]"

definition KEY_SIZE_RE :: re where
  "KEY_SIZE_RE = Cat [Lit ''EASYRSA_KEY_SIZE'', Spaces1, Opt (Chr (CHR 0x22)), Grp 1 Digits, Opt (Chr (CHR 0x22))]"

definition CERT_EXPIRE_RE :: re where
  "CERT_EXPIRE_RE = Cat [Lit ''EASYRSA_CERT_EXPIRE'', Spaces1, Grp 1 Digits]"

record pki_page =
  ps_ca :: "cert option"
  ps_server :: "cert option"
  ps_crl :: crl_state
  ps_tls_key :: bool
  ps_algo :: string
  ps_curve :: "string option"
  ps_key_size :: "nat option"
  ps_cert_days :: nat

definition pki_status :: "world \<Rightarrow> host_view \<Rightarrow> files \<Rightarrow> pki_page result" where
  "pki_status w hv fs =
     res_bind (read_config ''vars'' fs) (\<lambda>text.
       Inr \<lparr>ps_ca = w_cert w (hv_ca hv), ps_server = w_cert w (map_of (fs_issued fs) ''server''),
            ps_crl = crl_info (hv_zones hv) (hv_crl hv) fs, ps_tls_key = hv_ta_key hv,
            ps_algo = (case re_search ALGO_RE text of Some m \<Rightarrow> grp m 1 | None \<Rightarrow> ''rsa''),
            ps_curve = map_option (\<lambda>m. grp m 1) (re_search CURVE_RE text),
            ps_key_size = map_option (\<lambda>m. undec (grp m 1)) (re_search KEY_SIZE_RE text),
            ps_cert_days = (case re_search CERT_EXPIRE_RE text of Some m \<Rightarrow> undec (grp m 1) | None \<Rightarrow> 825)\<rparr>)"

record backup_page =
  bp_enabled :: bool
  bp_count :: nat
  bp_keep :: nat
  bp_last :: "int option"
  bp_encrypted :: bool

definition backup_status :: "nat \<Rightarrow> string \<Rightarrow> backup_dir \<Rightarrow> backup_page" where
  "backup_status keep recipient dir =
     \<lparr>bp_enabled = (0 < keep), bp_count = length (archives dir), bp_keep = keep, bp_last = last_backup dir,
      bp_encrypted = (recipient \<noteq> [])\<rparr>"

text \<open>\<open>build\<close> and \<open>stamp\<close> as for \<open>create_backup\<close>; the directory after a success is part of the result.\<close>

definition backup_now ::
  "world \<Rightarrow> host_view \<Rightarrow> (string \<Rightarrow> unit result) \<Rightarrow> string \<Rightarrow> request \<Rightarrow> (backup_page \<times> backup_dir) act" where
  "backup_now w hv build stamp rq =
     admin w rq (\<lambda>user.
       case create_backup (hv_backup_keep hv) (hv_backup_recipient hv) build stamp (now_of rq) (hv_backups hv) of
         (Inl e, dir) \<Rightarrow>
           if e = OSError \<or> e = ValueError then raise (HTTPException 500 ''The backup failed'') else raise e
       | (Inr name, dir) \<Rightarrow>
           act_then (event rq ''backup_created'' (Some user) None (Some name))
             (ret (backup_status (hv_backup_keep hv) (hv_backup_recipient hv) dir, dir)))"

section \<open>The overview\<close>

definition EXPIRING_DAYS :: int where "EXPIRING_DAYS = 30"
definition BACKUP_WARN_DAYS :: int where "BACKUP_WARN_DAYS = 3"

definition ends_within :: "int \<Rightarrow> int \<Rightarrow> int option \<Rightarrow> bool" where
  "ends_within now days t = (case t of None \<Rightarrow> False | Some e \<Rightarrow> e \<noteq> 0 \<and> e - now < days * 86400)"

text \<open>\<open>counts[st] = counts.get(st, 0) + 1\<close>\<close>

definition count_up :: "string \<Rightarrow> (string \<times> int) list \<Rightarrow> (string \<times> int) list" where
  "count_up key counts = AList.update key ((case map_of counts key of Some n \<Rightarrow> n | None \<Rightarrow> 0) + 1) counts"

definition count_client :: "int \<Rightarrow> client_info \<Rightarrow> (string \<times> int) list \<Rightarrow> (string \<times> int) list" where
  "count_client now c counts =
     (let st = cr_state (ci_cert c); counted = count_up st counts
      in if st = ''valid'' \<and> ends_within now EXPIRING_DAYS (cr_not_after (ci_cert c)) then count_up ''expiring'' counted
         else counted)"

definition client_counts :: "int \<Rightarrow> (string \<times> client_info) list \<Rightarrow> (string \<times> int) list" where
  "client_counts now certs =
     fold (\<lambda>(n, c). count_client now c) certs [(''valid'', 0), (''expiring'', 0), (''expired'', 0), (''revoked'', 0)]"

definition count_of :: "(string \<times> int) list \<Rightarrow> string \<Rightarrow> int" where
  "count_of counts key = (case map_of counts key of Some n \<Rightarrow> n | None \<Rightarrow> 0)"

definition warn :: "bool \<Rightarrow> string \<Rightarrow> string list" where
  "warn b text = (if b then [text] else [])"

definition address_warnings :: "files \<Rightarrow> string list" where
  "address_warnings fs =
     (case get_remote fs of (host, remotes) \<Rightarrow>
        warn (host \<in> {[], ''127.0.0.1'', ''localhost'', ''::1''})
          (''Client profiles point at '' @ (if host = [] then ''no address'' else host) @
           '' - set this server's public address under Settings, then hand out the profiles again'') @
        concat (map (\<lambda>sock.
          case map_of (rev (map (\<lambda>r. (ep_proto r, ep_port r)) remotes)) (ep_proto sock) of
            None \<Rightarrow>
              [''OpenVPN listens on '' @ ep_port sock @ ''/'' @ ep_proto sock @ '' but client profiles have no '' @
               upper (ep_proto sock) @ '' address - save the public address again under Settings'']
          | Some dialled \<Rightarrow>
              warn (dialled \<noteq> ep_port sock)
                (''Client profiles dial '' @ dialled @ ''/'' @ ep_proto sock @ '' but OpenVPN listens on '' @
                 ep_port sock @ ''/'' @ ep_proto sock @
                 '' - correct it under Settings, unless a router forwards one port to the other'')) (server_listen fs)))"

definition expiry_warnings :: "int \<Rightarrow> pki_page \<Rightarrow> int \<Rightarrow> string list" where
  "expiry_warnings now status expiring =
     warn (cs_exists (ps_crl status) \<and> ends_within now EXPIRING_DAYS (cs_next_update (ps_crl status)))
       ''The certificate revocation list expires soon - regenerate it on the Server page'' @
     warn (case ps_server status of None \<Rightarrow> False | Some c \<Rightarrow> ends_within now EXPIRING_DAYS (ct_not_after c))
       ''The server certificate expires within 30 days'' @
     warn (case ps_ca status of None \<Rightarrow> False | Some c \<Rightarrow> ends_within now 90 (ct_not_after c))
       ''The certificate authority expires within 90 days'' @
     warn (expiring \<noteq> 0)
       (dec_int expiring @ '' client certificate(s) expire within '' @ dec_int EXPIRING_DAYS @ '' days'')"

text \<open>\<open>bak["last"] or STARTED\<close>\<close>

definition backup_overdue :: "int \<Rightarrow> rat \<Rightarrow> backup_page \<Rightarrow> bool" where
  "backup_overdue now started bak \<longleftrightarrow>
     bp_enabled bak \<and>
     of_int now - (case bp_last bak of Some t \<Rightarrow> if t = 0 then started else of_int t | None \<Rightarrow> started) >
       of_int (BACKUP_WARN_DAYS * 86400)"

definition is_valid :: "(string \<times> client_info) list \<Rightarrow> string \<Rightarrow> bool" where
  "is_valid certs n \<longleftrightarrow> (case map_of certs n of Some c \<Rightarrow> cr_state (ci_cert c) = ''valid'' | None \<Rightarrow> False)"

definition bad_static_ips :: "settings \<Rightarrow> files \<Rightarrow> (string \<times> client_info) list \<Rightarrow> string list result" where
  "bad_static_ips cfg fs certs =
     res_bind (filter_res (\<lambda>(n, ip). if is_valid certs n
                 then res_bind (static_ip_problem cfg fs n ip) (\<lambda>p. Inr (p \<noteq> None)) else Inr False)
               (sort (static_ips fs))) (\<lambda>rows.
       Inr (map (\<lambda>(n, ip). n @ '' ('' @ ip @ '')'') rows))"

definition without_tfa :: "files \<Rightarrow> (string \<times> client_info) list \<Rightarrow> string list" where
  "without_tfa fs certs =
     map fst (filter (\<lambda>(n, c). cr_state (ci_cert c) = ''valid'' \<and> map_of (tfa_secrets fs) n = None) certs)"

definition tfa_warnings :: "files \<Rightarrow> (string \<times> client_info) list \<Rightarrow> string list" where
  "tfa_warnings fs certs =
     (let missing = without_tfa fs certs
      in warn (tfa_enforced fs \<and> missing \<noteq> [])
           (''2FA is enforced but '' @ dec (length missing) @ '' client(s) have no TOTP secret: '' @
            join '', '' (take 5 (sort missing)) @ (if 5 < length missing then ''...'' else [])))"

record overview_page =
  ov_live :: live
  ov_totals :: "int \<times> int"
  ov_sessions :: nat
  ov_clients :: nat
  ov_top :: "(string \<times> int \<times> int) list"
  ov_hour :: "point list"
  ov_series :: "point list"
  ov_counts :: "(string \<times> int) list"
  ov_warnings :: "string list"
  ov_tfa_enforced :: bool
  ov_rejections :: "rejection list"

definition sessions_between :: "int \<Rightarrow> int \<Rightarrow> database \<Rightarrow> vpn_session list" where
  "sessions_between start stop db = filter (\<lambda>v. start \<le> vs_last_seen v \<and> vs_connected_at v < stop) (vpn_sessions db)"

definition overview_of :: "world \<Rightarrow> host_view \<Rightarrow> string \<Rightarrow> int \<Rightarrow> int \<Rightarrow> app \<Rightarrow> overview_page result" where
  "overview_of w hv range_name tz now s =
     (let db = ap_db s; fs = ap_fs s; live = ap_live s in
      res_bind (range_bounds range_name tz now db) (\<lambda>(start, stop).
        let certs = list_clients now (w_cert w) (hidden_serials db) fs; counts = client_counts now certs;
            sess = sessions_between start stop db; bucket = bucket_for range_name;
            bak = backup_status (hv_backup_keep hv) (hv_backup_recipient hv) (hv_backups hv) in
        res_bind (pki_status w hv fs) (\<lambda>status.
        res_bind (bad_static_ips (w_cfg w) fs certs) (\<lambda>bad_ips.
          Inr \<lparr>ov_live = live, ov_totals = totals start stop None db, ov_sessions = length sess,
               ov_clients = length (remdups (map vs_client_name sess)),
               ov_top = take 8 (sort_key (\<lambda>(n, i, out). - (i + out)) (totals_by_client start stop db)),
               ov_hour = fill_series (series (now - 3600) (now + 60) 60 None 0 db) (now - 3600) (now + 60) 60 0,
               ov_series = fill_series (series start stop bucket None tz db) start stop bucket tz,
               ov_counts = counts,
               ov_warnings =
                 warn (\<not> lv_connected live)
                   (''OpenVPN management interface unreachable: '' @
                    (case lv_error live of Some e \<Rightarrow> if e = [] then ''not connected'' else e | None \<Rightarrow> ''not connected'')) @
                 address_warnings fs @ expiry_warnings now status (count_of counts ''expiring'') @
                 warn (backup_overdue now (hv_started hv) bak)
                   (''No backup for more than '' @ dec_int BACKUP_WARN_DAYS @ '' days - see the Server page and the UI log'') @
                 warn (bad_ips \<noteq> [])
                   (''OpenVPN cannot hand out these static IPs - set new ones on the client pages: '' @ join '', '' bad_ips) @
                 tfa_warnings fs certs,
               ov_tfa_enforced = tfa_enforced fs, ov_rejections = rejections (now - 86400) None db\<rparr>))))"

definition overview :: "world \<Rightarrow> host_view \<Rightarrow> string \<Rightarrow> int \<Rightarrow> request \<Rightarrow> overview_page act" where
  "overview w hv range_name tz rq = authed w rq (\<lambda>user. look (overview_of w hv range_name tz (now_of rq)))"

section \<open>One client\<close>

fun fromhex :: "string \<Rightarrow> bytes option" where
  "fromhex [] = Some []"
| "fromhex [c] = (if is_space c \<and> code c < 128 then Some [] else None)"
| "fromhex (a # b # s) =
     (if is_space a \<and> code a < 128 then fromhex (b # s)
      else if is_hex a \<and> is_hex b then map_option (Cons (of_nat (hex_value a * 16 + hex_value b))) (fromhex s)
      else None)"

definition B32 :: string where "B32 = ''ABCDEFGHIJKLMNOPQRSTUVWXYZ234567''"

text \<open>\<open>base64.b32encode(data).decode().rstrip("=")\<close>: five bits a character, the last ones filled with zeros.\<close>

fun byte_bits :: "nat \<Rightarrow> nat \<Rightarrow> bool list" where
  "byte_bits 0 n = []"
| "byte_bits (Suc k) n = (n div 2 ^ k mod 2 = 1) # byte_bits k n"

fun bits_value :: "nat \<Rightarrow> bool list \<Rightarrow> nat" where
  "bits_value 0 bs = 0"
| "bits_value (Suc k) [] = 0"
| "bits_value (Suc k) (b # bs) = (if b then 2 ^ k else 0) + bits_value k bs"

function b32_chars :: "bool list \<Rightarrow> string" where
  "b32_chars bs = (if bs = [] then [] else B32 ! bits_value 5 bs # b32_chars (drop 5 bs))"
  by auto
termination by (relation "measure length") auto

declare b32_chars.simps [simp del]

definition b32encode :: "bytes \<Rightarrow> string" where
  "b32encode data = b32_chars (concat (map (\<lambda>b. byte_bits 8 (unat b)) data))"

definition tfa_uri :: "settings \<Rightarrow> string \<Rightarrow> files \<Rightarrow> string option" where
  "tfa_uri cfg name fs =
     (case map_of (tfa_secrets fs) name of
        None \<Rightarrow> None
      | Some secret \<Rightarrow>
          if secret = [] then None
          else
            case fromhex secret of
              None \<Rightarrow> None
            | Some key \<Rightarrow>
                let issuer = replace_char CHR '' '' ''%20'' (st_tfa_issuer cfg)
                in Some (''otpauth://totp/'' @ issuer @ '':'' @ name @ ''?secret='' @ b32encode key @ ''&issuer='' @ issuer @
                         ''&algorithm=SHA1&digits=6&period=30''))"

record client_page =
  cp_row :: client_table_row
  cp_sessions :: "visit list"
  cp_daily :: "point list"
  cp_tfa_uri :: "string option"
  cp_rejections :: "rejection list"

definition client_detail :: "world \<Rightarrow> string \<Rightarrow> int \<Rightarrow> request \<Rightarrow> client_page act" where
  "client_detail w name tz rq =
     authed w rq (\<lambda>user.
       act_bind (find_client w rq name) (\<lambda>row.
         asks (\<lambda>s. let db = ap_db s; now = now_of rq; start = now - 30 * 86400 in
           \<lparr>cp_row = row, cp_sessions = snd (visits (\<lambda>v. vs_client_name v = name) 100 0 False db),
            cp_daily = fill_series (series start (now + 1) 86400 (Some name) tz db) start (now + 1) 86400 tz,
            cp_tfa_uri = (if tr_tfa row then tfa_uri (w_cfg w) name (ap_fs s) else None),
            cp_rejections = rejections (now - 30 * 86400) (Some name) db\<rparr>)))"

text \<open>The image is drawn by a library: the result is the text the code stands for.\<close>

definition tfa_qr :: "world \<Rightarrow> string \<Rightarrow> request \<Rightarrow> string act" where
  "tfa_qr w name rq =
     authed w rq (\<lambda>user.
       act_then (lift (validate_name name))
       (act_bind (asks (\<lambda>s. tfa_uri (w_cfg w) name (ap_fs s))) (\<lambda>uri.
         case uri of Some u \<Rightarrow> ret u | None \<Rightarrow> raise (HTTPException 404 ''2FA is not enabled for this client''))))"

definition api_list_clients :: "world \<Rightarrow> string \<Rightarrow> int \<Rightarrow> request \<Rightarrow> client_table_row list act" where
  "api_list_clients w range_name tz rq = authed w rq (\<lambda>user. look (clients_payload w (now_of rq) range_name tz))"

section \<open>Sessions, traffic and events\<close>

definition api_sessions ::
  "world \<Rightarrow> string option \<Rightarrow> int \<Rightarrow> int \<Rightarrow> bool \<Rightarrow> bool \<Rightarrow> request \<Rightarrow> (int \<times> visit list + int \<times> vpn_session list) act" where
  "api_sessions w name limit offset active merge rq =
     authed w rq (\<lambda>user. look (\<lambda>s.
       if merge then res_bind (list_visits name limit offset active (ap_db s)) (\<lambda>p. Inr (Inl p))
       else res_bind (list_sessions name limit offset active (ap_db s)) (\<lambda>p. Inr (Inr p))))"

definition api_connections :: "world \<Rightarrow> string \<Rightarrow> int \<Rightarrow> request \<Rightarrow> (conn_stats \<times> int option) list act" where
  "api_connections w range_name tz rq = authed w rq (\<lambda>user. look (\<lambda>s. connections_report range_name tz (now_of rq) (ap_db s)))"

definition api_traffic :: "world \<Rightarrow> string \<Rightarrow> string option \<Rightarrow> int \<Rightarrow> request \<Rightarrow> (point list \<times> int \<times> int) act" where
  "api_traffic w range_name name tz rq =
     authed w rq (\<lambda>user. look (\<lambda>s. traffic_report range_name name tz (now_of rq) (ap_db s)))"

definition api_events :: "world \<Rightarrow> int \<Rightarrow> request \<Rightarrow> event_row list act" where
  "api_events w limit rq = authed w rq (\<lambda>user. asks (\<lambda>s. events_list limit (ap_db s)))"

section \<open>The server page and the settings\<close>

record server_page =
  sp_live :: live
  sp_pki :: pki_page
  sp_tfa_enforced :: bool
  sp_control_channel :: string
  sp_remote :: "string \<times> endpoint list"
  sp_listen :: "endpoint list"
  sp_config_mtime :: "int option"
  sp_dco :: "string option"
  sp_backup :: backup_page
  sp_management :: "string \<times> int"
  sp_password :: bool

definition server_info :: "world \<Rightarrow> host_view \<Rightarrow> request \<Rightarrow> server_page act" where
  "server_info w hv rq =
     authed w rq (\<lambda>user. look (\<lambda>s. let fs = ap_fs s in
       res_bind (pki_status w hv fs) (\<lambda>status.
         Inr \<lparr>sp_live = ap_live s, sp_pki = status, sp_tfa_enforced = tfa_enforced fs,
              sp_control_channel = control_channel fs, sp_remote = get_remote fs, sp_listen = server_listen fs,
              sp_config_mtime = hv_conf_mtime hv, sp_dco = map_of (lv_stats (ap_live s)) ''dco_enabled'',
              sp_backup = backup_status (hv_backup_keep hv) (hv_backup_recipient hv) (hv_backups hv),
              sp_management = hv_management hv, sp_password = (w_mgmt_password w \<notin> {None, Some []})\<rparr>)))"

definition get_config :: "world \<Rightarrow> string \<Rightarrow> request \<Rightarrow> (string \<times> string) act" where
  "get_config w which rq =
     authed w rq (\<lambda>user. look (\<lambda>s. res_bind (read_config which (ap_fs s)) (\<lambda>content. Inr (which, content))))"

definition tail_file :: "(string \<Rightarrow> string) \<Rightarrow> string option \<Rightarrow> nat \<Rightarrow> string" where
  "tail_file decode file wanted =
     (case file of
        None \<Rightarrow> []
      | Some bytes \<Rightarrow>
          let ls = splitlines (decode (drop (length bytes - 512 * 1024) bytes))
          in join [newline] (drop (length ls - wanted) ls))"

definition server_log :: "world \<Rightarrow> host_view \<Rightarrow> string \<Rightarrow> int \<Rightarrow> request \<Rightarrow> string act" where
  "server_log w hv which wanted rq =
     authed w rq (\<lambda>user.
       if which \<notin> {''openvpn'', ''oath'', ''status''} then raise (HTTPException 400 ''Unknown log'')
       else ret (tail_file (w_decode w) (map_of (hv_logs hv) which) (nat (clamp 10 2000 wanted))))"

record settings_page =
  se_remote :: "string \<times> endpoint list"
  se_listen :: "endpoint list"
  se_tfa_issuer :: string
  se_poll_interval :: rat
  se_version :: string

definition get_settings :: "world \<Rightarrow> host_view \<Rightarrow> request \<Rightarrow> settings_page act" where
  "get_settings w hv rq =
     authed w rq (\<lambda>user. asks (\<lambda>s.
       \<lparr>se_remote = get_remote (ap_fs s), se_listen = server_listen (ap_fs s), se_tfa_issuer = st_tfa_issuer (w_cfg w),
        se_poll_interval = hv_poll_interval hv, se_version = VERSION\<rparr>))"

definition get_network_settings :: "world \<Rightarrow> request \<Rightarrow> network_data act" where
  "get_network_settings w rq =
     authed w rq (\<lambda>user. look (\<lambda>s. network_get_settings (w_env w) (w_cfg w) (w_model w) (ap_fs s) (Some (ap_db s))))"

definition download_gateway_network :: "world \<Rightarrow> request \<Rightarrow> gateway_file act" where
  "download_gateway_network w rq =
     authed w rq (\<lambda>user. look (\<lambda>s. export_gateway (w_env w) (w_cfg w) (w_model w) (ap_fs s) (Some (ap_db s))))"

text \<open>The peer is the address the request came from, before the proxy's headers are read.\<close>

definition discover_network ::
  "world \<Rightarrow> kernel \<Rightarrow> (string \<Rightarrow> string list option) \<Rightarrow> (string \<Rightarrow> string option) \<Rightarrow> string option \<Rightarrow> network_data \<Rightarrow> request
    \<Rightarrow> discovered act" where
  "discover_network w ifs resolve route peer body rq =
     admin w rq (\<lambda>user. look (\<lambda>s.
       res_bind (with_defaults (w_env w) (w_model w) (ap_fs s) (Some (ap_db s)) body) (\<lambda>data.
         discover ifs resolve route data peer (header rq ''x-forwarded-proto'' \<notin> {None, Some []}))))"

section \<open>Pages made of text\<close>

definition html_escape :: "string \<Rightarrow> string" where
  "html_escape s = concat (map (\<lambda>c.
     if c = CHR ''&'' then ''&amp;'' else if c = CHR ''<'' then ''&lt;'' else if c = CHR ''>'' then ''&gt;''
     else if c = CHR 0x22 then ''&quot;'' else if c = CHR 0x27 then ''&#x27;'' else [c]) s)"

definition share_base :: "world \<Rightarrow> request \<Rightarrow> string" where
  "share_base w rq =
     (if en_profile_base_url (w_env w) \<noteq> [] then en_profile_base_url (w_env w)
      else rstrip_by (\<lambda>c. c = CHR ''/'') (rq_base_url rq))"

text \<open>\<open>str.replace\<close> of a text that is not empty.\<close>

function replace_text :: "string \<Rightarrow> string \<Rightarrow> string \<Rightarrow> string" where
  "replace_text old new s =
     (if s = [] \<or> old = [] then s
      else if startswith s old then new @ replace_text old new (drop (length old) s)
      else hd s # replace_text old new (tl s))"
  by auto
termination by (relation "measure (\<lambda>(old, new, s). length s)") auto

declare replace_text.simps [simp del]

definition SHARE_CSS :: string where
  \<open>SHARE_CSS = ''body{font:17px/1.5 system-ui,sans-serif;max-width:26rem;margin:12vh auto;padding:0 20px;'' @
     ''color:#16181d;background:#fff}h1{font-size:1.4rem}a{display:block;margin:14px 0;padding:13px 16px;'' @
     ''border-radius:8px;text-align:center;text-decoration:none;font-weight:600;color:#fff;background:#1f6feb}'' @
     ''a+a{color:#1f6feb;background:none;border:1px solid}'' @
     ''@media(prefers-color-scheme:dark){body{color:#e6e8eb;background:#111418}}''\<close>

definition SHARE_PAGE :: string where
  \<open>SHARE_PAGE = ''<!doctype html><html lang="en"><head><meta charset="utf-8">'' @
     ''<meta name="viewport" content="width=device-width,initial-scale=1"><meta name="robots" content="noindex">'' @
     ''<title>OpenVPN profile</title><style>'' @ SHARE_CSS @ ''</style></head><body><h1>OpenVPN profile</h1>'' @
     ''<p>Open this page on the device that will use the VPN. The profile can be fetched once.</p>'' @
     ''<a href="IMPORT_URL">Open in OpenVPN Connect</a><a href="DOWNLOAD_URL">Download the .ovpn file</a>'' @
     ''</body></html>''\<close>

definition shared_profile_page :: "world \<Rightarrow> string \<Rightarrow> request \<Rightarrow> string act" where
  "shared_profile_page w token rq =
     act_then (shared_client w token rq)
     (let url = share_base w rq @ ''/p/'' @ token @ ''/download''
      in ret (replace_text ''DOWNLOAD_URL'' (html_escape url)
               (replace_text ''IMPORT_URL'' (html_escape (''openvpn://import-profile/'' @ url)) SHARE_PAGE)))"

definition profile_download_error :: "string \<Rightarrow> bool \<Rightarrow> string" where
  \<open>profile_download_error message portal =
     ''<!doctype html><html lang="en"><meta charset="utf-8"><meta name="viewport" content="width=device-width,initial-scale=1">'' @
     ''<title>Profile download unavailable</title><link rel="stylesheet" href="/static/app.css"><main class="download-help">'' @
     ''<h1>Your profile could not be downloaded</h1><p>'' @ html_escape message @ ''</p>'' @
     ''<p>Stay connected to your approved Wi-Fi, VPN or relay, then try again. If this continues, contact your administrator.</p>'' @
     ''<a class="btn primary" href="'' @ (if portal then ''/portal'' else ''/#/clients'') @ ''">Back to my profiles</a></main></html>''\<close>

text \<open>
  The answer to a request that raised: a status with a JSON detail, or with a page where the request was the
  form of a profile download. \<open>native\<close> is \<open>request.state.native_profile_download\<close>.
\<close>

datatype error_reply = Detail nat string | Page nat string | Failure

definition error_answer :: "bool \<Rightarrow> string \<Rightarrow> exc \<Rightarrow> error_reply" where
  "error_answer native path e =
     (let show = (\<lambda>status m. if native then Page status (profile_download_error m (startswith path ''/api/portal/''))
                              else Detail status m)
      in case e of
           PkiError m \<Rightarrow> show 400 m
         | SigningUnavailable m \<Rightarrow> show 503 m
         | HTTPException status m \<Rightarrow> show status m
         | ManagementError m \<Rightarrow> Detail 503 (''OpenVPN management interface: '' @ m)
         | _ \<Rightarrow> Failure)"

definition setdefault :: "string \<Rightarrow> string \<Rightarrow> (string \<times> string) list \<Rightarrow> (string \<times> string) list" where
  "setdefault name v h = (if map_of h name = None then h @ [(name, v)] else h)"

definition CSP :: string where
  "CSP = ''default-src 'self'; img-src 'self' data:; style-src 'self'; script-src 'self'; '' @
     ''connect-src 'self'; frame-ancestors 'none'; base-uri 'none'; form-action '' @ [CHR 0x27] @ ''self'' @ [CHR 0x27]"

text \<open>Header names are compared without regard to case; they stand in lower case here.\<close>

definition security_headers :: "string \<Rightarrow> (string \<times> string) list \<Rightarrow> (string \<times> string) list" where
  "security_headers path h =
     (let h1 = setdefault ''content-security-policy'' CSP (setdefault ''referrer-policy'' ''same-origin''
                 (setdefault ''x-frame-options'' ''DENY'' (setdefault ''x-content-type-options'' ''nosniff'' h)))
      in if startswith path ''/api/'' \<or> startswith path ''/p/'' then AList.update ''cache-control'' ''no-store'' h1
         else if startswith path ''/static/'' then AList.update ''cache-control'' ''no-cache'' h1
         else h1)"

end
