(* ===== verification/Views.thy ===== *)
theory Views
  imports Pages
begin

text \<open>
  Properties of the pages of \<open>Pages\<close>: who may read them and that reading changes nothing, what a portal
  account sees, what the overview counts, and that pages built from text carry no foreign markup.
\<close>

section \<open>Handlers that only read\<close>

definition quiet :: "'a act \<Rightarrow> bool" where
  "quiet m \<longleftrightarrow> (\<forall>s. snd (m s) = s)"

lemma quiet_intros:
  "quiet (look f)" "quiet (asks g)" "quiet (ret x)" "quiet (raise e)" "quiet (lift r)"
  by (simp_all add: quiet_def look_def asks_def ret_def raise_def lift_def)

lemma quiet_bind: "quiet m \<Longrightarrow> (\<And>x. quiet (f x)) \<Longrightarrow> quiet (act_bind m f)"
  by (auto simp: quiet_def act_bind_def split: prod.splits sum.splits) (metis snd_conv)+

lemma quiet_then: "quiet m \<Longrightarrow> quiet n \<Longrightarrow> quiet (act_then m n)"
  by (simp add: act_then_def quiet_bind)

lemma quiet_find_client: "quiet (find_client w rq name)"
  unfolding find_client_def
  by (intro quiet_then quiet_bind quiet_intros) (auto simp: quiet_def ret_def raise_def split: option.splits)

text \<open>
  A handler only an administrator gets an answer from: nothing changes but the table of web sessions, and an
  answer goes to a live session of an account that belongs to no client and did not come through the guest
  listener.
\<close>

definition closed_read :: "world \<Rightarrow> request \<Rightarrow> app \<Rightarrow> 'a act \<Rightarrow> bool" where
  "closed_read w rq s m \<longleftrightarrow>
     (\<exists>ws. snd (m s) = s\<lparr>ap_db := (ap_db s)\<lparr>web_sessions := ws\<rparr>\<rparr>) \<and>
     (isl (fst (m s)) \<or> (\<exists>row. live_session w rq s row \<and> u_client_name row = None \<and> \<not> portal_only rq))"

interpretation reader_door: door "authed w rq" "administrator w rq" for w rq
proof
  fix s
  show "\<exists>s'. (\<exists>ws. s' = s\<lparr>ap_db := (ap_db s)\<lparr>web_sessions := ws\<rparr>\<rparr>) \<and>
     ((\<exists>e. \<forall>body :: session_user \<Rightarrow> 'a act. authed w rq body s = (Inl e, s')) \<or> (\<exists>u. administrator w rq s u \<and> (\<forall>body :: session_user \<Rightarrow> 'a act. authed w rq body s = body u s')))"
    by (rule gated_opens) (simp add: authed_def act_bind_def split: prod.splits sum.splits)
qed

lemma authed_closed:
  assumes "\<And>u. quiet (body u)"
  shows "closed_read w rq s (authed w rq body)"
proof -
  have "isl (fst (authed w rq body s)) \<or> (\<exists>u. administrator w rq s u)"
  proof (cases "authed w rq body s")
    case (Pair r s')
    then show ?thesis using reader_door.answered [of w rq body s] by (cases r) auto
  qed
  then show ?thesis unfolding closed_read_def using reader_door.reads [of body w rq s] assms
    by (auto simp: quiet_def administrator_def)
qed

lemma admin_closed:
  assumes "\<And>u. quiet (body u)"
  shows "closed_read w rq s (admin w rq body)"
proof -
  have "isl (fst (admin w rq body s)) \<or> (\<exists>u. administrator w rq s u)"
  proof (cases "admin w rq body s")
    case (Pair r s')
    then show ?thesis using admin_door.answered [of w rq body s] by (cases r) auto
  qed
  then show ?thesis unfolding closed_read_def using admin_door.reads [of body w rq s] assms
    by (auto simp: quiet_def administrator_def)
qed

text \<open>
  C6. The pages of the administrator are closed and only read: the overview, the list of clients and the
  page of one, sessions, traffic, connections and events, the relay's state, settings and signing, the
  server page, its configuration files and logs, the network settings with the gateway's file and the address
  suggestions. None of
  them changes anything but the expiry of web sessions, and every answer goes to an administrator.
\<close>

theorem pages_closed:
  "closed_read w rq s (overview w hv range_name tz rq) \<and> closed_read w rq s (api_list_clients w range_name tz rq) \<and>
   closed_read w rq s (client_detail w name tz rq) \<and> closed_read w rq s (tfa_qr w name rq) \<and>
   closed_read w rq s (portal_account w name rq) \<and> closed_read w rq s (relay_download_form w name rq) \<and>
   closed_read w rq s (api_sessions w filter_name limit offset active merge rq) \<and>
   closed_read w rq s (api_connections w range_name tz rq) \<and> closed_read w rq s (api_traffic w range_name filter_name tz rq) \<and>
   closed_read w rq s (api_events w limit rq) \<and> closed_read w rq s (relay_overview w hv rq) \<and>
   closed_read w rq s (get_relay_settings w rq) \<and> closed_read w rq s (relay_signing w hv rq) \<and>
   closed_read w rq s (server_info w hv rq) \<and> closed_read w rq s (get_config w which rq) \<and>
   closed_read w rq s (server_log w hv which lines_wanted rq) \<and> closed_read w rq s (get_settings w hv rq) \<and>
   closed_read w rq s (get_network_settings w rq) \<and> closed_read w rq s (download_gateway_network w rq) \<and>
   closed_read w rq s (discover_network w ifs resolve route peer body rq)"
  unfolding overview_def api_list_clients_def client_detail_def tfa_qr_def portal_account_def relay_download_form_def
    api_sessions_def api_connections_def api_traffic_def api_events_def relay_overview_def get_relay_settings_def
    relay_signing_def server_info_def get_config_def server_log_def get_settings_def get_network_settings_def
    download_gateway_network_def discover_network_def Let_def
  by (intro conjI authed_closed admin_closed quiet_intros quiet_then quiet_bind quiet_find_client)
     (auto intro: quiet_intros split: option.splits)

section \<open>What a portal account sees\<close>

lemma own_rows_client:
  assumes "own_rows name status key = Inr rows" "row \<in> set rows"
  shows "json_get row ''client'' = Inr (JStr name)"
proof -
  obtain xs where "filter_res (\<lambda>row. res_bind (json_get row ''client'') (\<lambda>c. Inr (c = JStr name))) xs = Inr rows"
    using assms(1) unfolding own_rows_def res_bind_Inr_iff by blast
  from filter_res_Inr [OF this] assms(2)
  have "res_bind (json_get row ''client'') (\<lambda>c. Inr (c = JStr name)) = Inr True" by simp
  then show ?thesis unfolding res_bind_Inr_iff by simp
qed

lemma relay_visits_client:
  assumes "v \<in> set (relay_visits (Some name) credential now db)"
  shows "rv_client v = name"
proof -
  let ?rows = "filter (\<lambda>(i, r). (Some name = None \<or> Some (rs_client_name r) = Some name) \<and>
                  (credential = None \<or> Some (rs_credential_id r) = credential)) (relay_sessions db)"
  have "v \<in> relay_visit_of now ?rows ` set (map (\<lambda>(i, r). (rs_grp r, rs_client_name r)) ?rows)"
    using in_set_takeD [OF assms [unfolded relay_visits_def Let_def]] unfolding set_rev set_sort set_map set_remdups .
  then obtain i r where v: "v = relay_visit_of now ?rows (rs_grp r, rs_client_name r)" "(i, r) \<in> set ?rows" by auto
  have "rv_client (relay_visit_of now ?rows key) = snd key" for key by (simp add: relay_visit_of_def Let_def)
  then show ?thesis using v by simp
qed

text \<open>A client's request: a live session of a client account whose certificate is still the one it was made for.\<close>

definition client_of :: "world \<Rightarrow> request \<Rightarrow> app \<Rightarrow> session_user \<times> string \<Rightarrow> bool" where
  "client_of w rq s u \<longleftrightarrow>
     (\<exists>row c. live_session w rq s row \<and> fst u = session_user_of row \<and> u_client_name row = Some (snd u) \<and>
        eligible (w_cert w) (rq_time rq) (ap_fs s) (snd u) = Inr (Some c) \<and> Some (ct_serial c) = u_client_serial row)"

lemma client_signed_in:
  assumes "signed_in_user w rq s = (Inr u, s')" "su_role u = ''client''"
  shows "client_of w rq s (u, text_or_empty (su_client_name u))"
proof -
  from signed_in_Inr [OF assms(1)] obtain row where row: "live_session w rq s row" "u = session_user_of row"
      "case u_client_name row of None \<Rightarrow> \<not> portal_only rq
       | Some name \<Rightarrow> \<exists>c. eligible (w_cert w) (rq_time rq) (ap_fs s) name = Inr (Some c) \<and> Some (ct_serial c) = u_client_serial row"
    by blast
  then obtain name where n: "u_client_name row = Some name" using assms(2) by (auto simp: session_user_role split: option.splits)
  then have "text_or_empty (su_client_name u) = name" using row(2) by (simp add: session_user_of_def text_or_empty_def)
  then show ?thesis using row n by (auto simp: client_of_def)
qed

lemma as_client_opens:
  "\<exists>s'. (\<exists>ws. s' = s\<lparr>ap_db := (ap_db s)\<lparr>web_sessions := ws\<rparr>\<rparr>) \<and>
     ((\<exists>e. \<forall>body :: session_user \<times> string \<Rightarrow> 'a act. as_client w rq (\<lambda>u name. body (u, name)) s = (Inl e, s')) \<or>
      (\<exists>u. client_of w rq s u \<and> (\<forall>body :: session_user \<times> string \<Rightarrow> 'a act. as_client w rq (\<lambda>u name. body (u, name)) s = body u s')))"
proof -
  obtain r s' where c: "signed_in_user w rq s = (r, s')" by (metis prod.exhaust)
  have f: "\<exists>ws. s' = s\<lparr>ap_db := (ap_db s)\<lparr>web_sessions := ws\<rparr>\<rparr>" using signed_in_frame c by (metis snd_conv)
  have "(\<exists>e. \<forall>body :: session_user \<times> string \<Rightarrow> 'a act. as_client w rq (\<lambda>u name. body (u, name)) s = (Inl e, s')) \<or>
      (\<exists>u. client_of w rq s u \<and> (\<forall>body :: session_user \<times> string \<Rightarrow> 'a act. as_client w rq (\<lambda>u name. body (u, name)) s = body u s'))"
  proof (cases "\<exists>u. r = Inr u \<and> su_role u = ''client''")
    case True
    then obtain u where u: "r = Inr u" "su_role u = ''client''" by blast
    have "\<forall>body :: session_user \<times> string \<Rightarrow> 'a act. as_client w rq (\<lambda>u name. body (u, name)) s = body (u, text_or_empty (su_client_name u)) s'"
      using c u by (simp add: as_client_def act_bind_def)
    then show ?thesis using client_signed_in [OF c [unfolded u(1)] u(2)] by blast
  next
    case False
    then have "\<exists>e. \<forall>body :: session_user \<times> string \<Rightarrow> 'a act. as_client w rq (\<lambda>u name. body (u, name)) s = (Inl e, s')"
      using c by (cases r) (auto simp: as_client_def act_bind_def raise_def)
    then show ?thesis by blast
  qed
  with f show ?thesis by blast
qed

interpretation portal_door: door "\<lambda>body. as_client w rq (\<lambda>u name. body (u, name))" "client_of w rq" for w rq
  by unfold_locales (rule as_client_opens)

text \<open>
  C13. The portal never shows another client's relay activity: whatever the relay answers, a page goes to a
  live session of a client account whose certificate is still the one it was made for, and every visit, flow
  and event on it is one of that client.
\<close>

theorem portal_shows_own:
  assumes "own_relay_status w hv rq s = (Inr page, s')"
  shows "\<exists>row name c. live_session w rq s row \<and> u_client_name row = Some name \<and>
     eligible (w_cert w) (rq_time rq) (ap_fs s) name = Inr (Some c) \<and> Some (ct_serial c) = u_client_serial row \<and>
     (\<forall>v \<in> set (rp_sessions page). rv_client v = name) \<and>
     (\<forall>r \<in> set (rp_clients page @ rp_active page @ rp_events page). json_get r ''client'' = Inr (JStr name))"
proof -
  let ?page = "\<lambda>name. look (\<lambda>s.
       res_bind (runtime_status hv (Some name)) (\<lambda>status.
       res_bind (json_get status ''ready'') (\<lambda>ready.
       res_bind (json_get_or status ''policy_ready'' (JBool False)) (\<lambda>policy_ready.
       res_bind (credential_id (w_sha w) (ap_db s) name) (\<lambda>credential.
       res_bind (own_rows name status ''clients'') (\<lambda>clients.
       res_bind (own_rows name status ''active'') (\<lambda>active.
       res_bind (own_rows name status ''events'') (\<lambda>events.
         Inr \<lparr>rp_ready = truthy ready, rp_policy_ready = policy_ready,
              rp_sessions = relay_visits (Some name) (Some credential) (now_of rq) (ap_db s),
              rp_clients = clients, rp_active = active, rp_events = events\<rparr>))))))))"
  obtain u s1 where u: "client_of w rq s u" "?page (snd u) s1 = (Inr page, s')"
    using portal_door.answered [of w rq "\<lambda>u. ?page (snd u)" s] assms unfolding own_relay_status_def by auto
  have "(\<forall>v \<in> set (rp_sessions page). rv_client v = snd u) \<and>
     (\<forall>r \<in> set (rp_clients page @ rp_active page @ rp_events page). json_get r ''client'' = Inr (JStr (snd u)))"
    using u(2) by (auto simp: look_def dest: relay_visits_client own_rows_client)
  then show ?thesis using u(1) unfolding client_of_def by blast
qed

definition demo_view :: host_view where
  "demo_view =
     \<lparr>hv_ca = None, hv_ta_key = True, hv_zones = [], hv_crl = (\<lambda>c. Inl OSError), hv_logs = [], hv_backup_keep = 3,
      hv_backup_recipient = [], hv_backups = [], hv_started = 0, hv_conf_mtime = None, hv_relay_status = (\<lambda>c. Inr []),
      hv_json = (\<lambda>t. Inr (JObj [(''ready'', JBool True),
        (''active'', JList [JObj [(''client'', JStr ''bob'')], JObj [(''client'', JStr ''alice'')]])])),
      hv_management = (''127.0.0.1'', 2080), hv_poll_interval = 5\<rparr>"

lemma demo_relay_page: "\<not> isl (fst (own_relay_status demo_world demo_view demo_request (demo_app ''03'')))"
  by code_simp

theorem portal_shows_own_witness:
  "\<exists>row name. live_session demo_world demo_request (demo_app ''03'') row \<and> u_client_name row = Some name \<and>
     list_all (\<lambda>r. json_get r ''client'' = Inr (JStr name))
       (rp_active (projr (fst (own_relay_status demo_world demo_view demo_request (demo_app ''03'')))))"
proof -
  let ?a = "own_relay_status demo_world demo_view demo_request (demo_app ''03'')"
  have "?a = (Inr (projr (fst ?a)), snd ?a)" using demo_relay_page by (metis prod.collapse sum.collapse(2))
  from portal_shows_own [OF this] show ?thesis unfolding list_all_iff by fastforce
qed

section \<open>What the overview counts\<close>

lemma count_of_up: "count_of (count_up key counts) k = count_of counts k + (if k = key then 1 else 0)"
  by (simp add: count_of_def count_up_def update_conv' split: option.splits)

lemma count_of_client:
  "count_of (count_client now c counts) k =
     count_of counts k + (if cr_state (ci_cert c) = k then 1 else 0) +
     (if k = ''expiring'' \<and> cr_state (ci_cert c) = ''valid'' \<and> ends_within now EXPIRING_DAYS (cr_not_after (ci_cert c)) then 1 else 0)"
  by (simp add: count_client_def Let_def count_of_up)

lemma count_of_clients:
  "count_of (fold (\<lambda>(n, c). count_client now c) certs counts) k =
     count_of counts k + int (length (filter (\<lambda>(n, c). cr_state (ci_cert c) = k) certs)) +
     (if k = ''expiring''
      then int (length (filter (\<lambda>(n, c). cr_state (ci_cert c) = ''valid'' \<and>
                                 ends_within now EXPIRING_DAYS (cr_not_after (ci_cert c))) certs)) else 0)"
proof (induction certs arbitrary: counts)
  case (Cons x certs)
  obtain n c where x: "x = (n, c)" by (cases x)
  show ?case unfolding x fold.simps comp_apply prod.case Cons.IH count_of_client by simp
qed simp

text \<open>
  The counts of the overview: each state counts the clients in it, and the expiring ones are valid clients
  whose certificate ends within thirty days.
\<close>

theorem overview_counts:
  "count_of (client_counts now certs) ''valid'' = int (length (filter (\<lambda>(n, c). cr_state (ci_cert c) = ''valid'') certs))"
  "count_of (client_counts now certs) ''expired'' = int (length (filter (\<lambda>(n, c). cr_state (ci_cert c) = ''expired'') certs))"
  "count_of (client_counts now certs) ''revoked'' = int (length (filter (\<lambda>(n, c). cr_state (ci_cert c) = ''revoked'') certs))"
  by (simp_all add: client_counts_def count_of_clients) (simp_all add: count_of_def)

section \<open>Pages made of text\<close>

lemma html_escape_safe: "c \<in> set (html_escape s) \<Longrightarrow> c \<notin> {CHR ''<'', CHR ''>'', CHR 0x22, CHR 0x27}"
  by (auto simp: html_escape_def split: if_splits)

lemma setdefault_keeps: "map_of h k \<noteq> None \<Longrightarrow> map_of (setdefault n v h) k = map_of h k"
  by (auto simp: setdefault_def map_add_def split: option.splits)

lemma setdefault_sets: "map_of (setdefault n v h) n \<noteq> None"
  by (auto simp: setdefault_def map_add_def)

text \<open>Every answer forbids framing and foreign scripts, and nothing under the API or a share link is cached.\<close>

theorem headers_set:
  "map_of (security_headers path h) ''content-security-policy'' \<noteq> None"
  "map_of (security_headers path h) ''x-frame-options'' \<noteq> None"
  "startswith path ''/api/'' \<or> startswith path ''/p/'' \<Longrightarrow> map_of (security_headers path h) ''cache-control'' = Some ''no-store''"
  by (simp_all add: security_headers_def Let_def update_conv' setdefault_sets setdefault_keeps del: not_None_eq)

end
