(* ===== verification/Corners.thy ===== *)
theory Corners
  imports Views
begin

text \<open>
  Inputs at the edge, where the program does something else than its comments and messages say: an exception
  nobody catches, or a value a check was meant to refuse. Each is an evaluation of the model.
\<close>

text \<open>A relay URL with an empty query or fragment is no origin and is accepted.\<close>

lemma url_with_empty_query:
  "validate_url ''https://relay.example?'' = Inr ''https://relay.example?''"
  "validate_url ''https://relay.example#'' = Inr ''https://relay.example#''"
  by code_simp+

text \<open>A port of superscript digits passes \<open>isdigit\<close>, and the conversion raises past the check.\<close>

lemma superscript_port: "host_port (''192.0.2.20:'' @ [CHR 0xB2]) = Inl ValueError"
  by code_simp

text \<open>A server network of one address has no second half: the guest range raises an \<open>IndexError\<close>.\<close>

lemma single_address_network: "second_half ''server 10.8.0.1 255.255.255.255'' = Inl IndexError"
  by code_simp

text \<open>A static address file that holds no address: saving network settings raises a \<open>ValueError\<close>.\<close>

lemma static_not_an_address: "check_static (static_conflict net guest lo hi) [''nonsense''] = Inl ValueError"
proof -
  have "IPv4Address ''nonsense'' = Inl ValueError" by code_simp
  then show ?thesis by simp
qed

text \<open>An origin with an open bracket is no URL: the check of the origin raises instead of refusing it.\<close>

lemma bracket_origin:
  "csrf_check (demo_request\<lparr>rq_headers := [(''x-requested-with'', ''fetch''), (''origin'', ''http://['')]\<rparr>) = Inl ValueError"
  by code_simp

end
