(* ===== verification/Install.thy ===== *)
theory Install
  imports Signer Export
begin

text \<open>
  Two command line tools of an installation: \<open>bin/export-relay-cert.py\<close>, which takes one TLS identity out
  of the ACME store of a gateway, and \<open>bin/setup-env.py\<close>, which puts the missing files and secrets in place.

  The parsed ACME store, what OpenSSL says of a certificate, whether a file can be written and the random
  tokens are parameters. What is shown: an export is only written from an entry of the store that names the
  host and that OpenSSL accepts, and a failed check leaves an earlier export alone; set-up leaves the files
  and the secrets that are there as they are.
\<close>

section \<open>Exporting a certificate\<close>

definition covers :: "string \<Rightarrow> string \<Rightarrow> bool" where
  "covers pattern host =
     (let p = rstrip_by (\<lambda>c. c = CHR ''.'') (lower pattern)
      in p = host \<or> startswith p ''*.'' \<and> after_dot host = drop 2 p)"

text \<open>\<open>any(covers(name, hostname) for name in names)\<close>\<close>

fun any_covers :: "string \<Rightarrow> json list \<Rightarrow> bool result" where
  "any_covers host [] = Inr False"
| "any_covers host (n # ns) =
     (case n of
        JStr s \<Rightarrow> if covers s host then Inr True else any_covers host ns
      | _ \<Rightarrow> Inl AttributeError)"

definition entry_names :: "json \<Rightarrow> json list result" where
  "entry_names entry =
     res_bind (json_get entry ''domain'') (\<lambda>d.
       case json_or d (JObj []) of
         JObj kvs \<Rightarrow>
           res_bind (json_iter (json_or (case map_of kvs ''sans'' of Some v \<Rightarrow> v | None \<Rightarrow> JNull) (JList []))) (\<lambda>sans.
             Inr ((case map_of kvs ''main'' of Some v \<Rightarrow> v | None \<Rightarrow> JStr []) # sans))
       | _ \<Rightarrow> Inl AttributeError)"

fun candidate_entries :: "string \<Rightarrow> json list \<Rightarrow> json list result" where
  "candidate_entries host [] = Inr []"
| "candidate_entries host (e # es) =
     res_bind (entry_names e) (\<lambda>names. res_bind (any_covers host names) (\<lambda>c.
     res_bind (candidate_entries host es) (\<lambda>r. Inr (if c then e # r else r))))"

definition resolver_entries :: "json \<Rightarrow> json list result" where
  "resolver_entries resolver =
     (case resolver of
        JObj kvs \<Rightarrow> json_iter (json_or (case map_of kvs ''Certificates'' of Some v \<Rightarrow> v | None \<Rightarrow> JNull) (JList []))
      | _ \<Rightarrow> Inr [])"

fun store_candidates :: "string \<Rightarrow> json list \<Rightarrow> json list result" where
  "store_candidates host [] = Inr []"
| "store_candidates host (r # rs) =
     res_bind (resolver_entries r) (\<lambda>es. res_bind (candidate_entries host es) (\<lambda>cs.
     res_bind (store_candidates host rs) (\<lambda>more. Inr (cs @ more))))"

definition store_values :: "json \<Rightarrow> json list result" where
  "store_values data = (case data of JObj kvs \<Rightarrow> Inr (map snd kvs) | _ \<Rightarrow> Inl AttributeError)"

text \<open>
  The store that was read, whether the pair of certificate and key loads, what \<open>openssl verify\<close> says of the
  certificate for a host name (\<open>None\<close>: it ran out of time), and whether a file of the output can be written.
\<close>

record acme_tools =
  at_store :: "json result"
  at_load :: "bytes \<Rightarrow> bytes \<Rightarrow> bool"
  at_verify :: "string \<Rightarrow> bytes \<Rightarrow> bool option"
  at_write :: "string \<Rightarrow> bool"

definition check_entry :: "acme_tools \<Rightarrow> string \<Rightarrow> json \<Rightarrow> (bytes \<times> bytes) option result" where
  "check_entry T host entry =
     (case entry of
        JObj kvs \<Rightarrow>
          (case res_bind (decoded_field ''certificate'' kvs) (\<lambda>cert.
                res_bind (decoded_field ''key'' kvs) (\<lambda>key. Inr (cert, key))) of
             Inl e \<Rightarrow> if e = KeyError \<or> e = ValueError then Inr None else Inl e
           | Inr (cert, key) \<Rightarrow>
               if \<not> at_load T cert key then Inr None
               else
                 case at_verify T host cert of
                   None \<Rightarrow> Inl SubprocessError
                 | Some ok \<Rightarrow> Inr (if ok then Some (cert, key) else None))
      | _ \<Rightarrow> Inl TypeError)"

fun first_valid :: "acme_tools \<Rightarrow> string \<Rightarrow> json list \<Rightarrow> (bytes \<times> bytes) result" where
  "first_valid T host [] = Inl ValueError"
| "first_valid T host (e # es) =
     res_bind (check_entry T host e) (\<lambda>found. case found of Some ck \<Rightarrow> Inr ck | None \<Rightarrow> first_valid T host es)"

definition EXPORT_HOST_RE :: re where
  "EXPORT_HOST_RE =
     Seq (Cls (\<lambda>c. is_lower_ascii c \<or> is_decimal c))
       (Opt (Seq (Star (Cls (\<lambda>c. is_lower_ascii c \<or> is_decimal c \<or> c \<in> set ''.-'')))
                 (Cls (\<lambda>c. is_lower_ascii c \<or> is_decimal c))))"

definition export_host :: "string \<Rightarrow> string" where
  "export_host host0 = rstrip_by (\<lambda>c. c = CHR ''.'') (lower host0)"

definition select_identity :: "acme_tools \<Rightarrow> string \<Rightarrow> (bytes \<times> bytes) result" where
  "select_identity T host =
     (if re_fullmatch EXPORT_HOST_RE host = None then Inl ValueError
      else
        res_bind (at_store T) (\<lambda>data. res_bind (store_values data) (\<lambda>rs.
        res_bind (store_candidates host rs) (\<lambda>cs. first_valid T host cs))))"

text \<open>Who runs the tool: the effective and the real user and group, and what \<open>sudo\<close> left in the environment.\<close>

record invoker =
  iv_euid :: int
  iv_uid :: int
  iv_gid :: int
  iv_sudo_uid :: "string option"
  iv_sudo_gid :: "string option"

definition owner_id :: "invoker \<Rightarrow> string option \<Rightarrow> int \<Rightarrow> int result" where
  "owner_id iv sudo own = (if iv_euid iv = 0 then (case sudo of Some t \<Rightarrow> py_int t | None \<Rightarrow> Inr own) else Inr own)"

text \<open>A file of the output: its content, and the owner it was given where the tool runs as root.\<close>

type_synonym export_dir = "(string \<times> bytes \<times> (int \<times> int) option) list"

fun store_files :: "acme_tools \<Rightarrow> (int \<times> int) option \<Rightarrow> (string \<times> bytes) list \<Rightarrow> export_dir \<Rightarrow> unit result \<times> export_dir" where
  "store_files T owner [] dir = (Inr (), dir)"
| "store_files T owner ((name, content) # fs) dir =
     (if at_write T name then store_files T owner fs (AList.update name (content, owner) dir) else (Inl OSError, dir))"

definition export_cert :: "acme_tools \<Rightarrow> invoker \<Rightarrow> string \<Rightarrow> export_dir \<Rightarrow> unit result \<times> export_dir" where
  "export_cert T iv host0 dir =
     (case res_bind (select_identity T (export_host host0)) (\<lambda>ck.
           res_bind (owner_id iv (iv_sudo_uid iv) (iv_uid iv)) (\<lambda>uid.
           res_bind (owner_id iv (iv_sudo_gid iv) (iv_gid iv)) (\<lambda>gid. Inr (ck, uid, gid)))) of
        Inl e \<Rightarrow> (Inl e, dir)
      | Inr ((cert, key), uid, gid) \<Rightarrow>
          store_files T (if iv_euid iv = 0 then Some (uid, gid) else None)
            [(''fullchain.pem'', cert), (''privkey.pem'', key)] dir)"

text \<open>\<open>main\<close>: the exit status; what it does not catch ends it with a traceback.\<close>

definition export_main :: "acme_tools \<Rightarrow> invoker \<Rightarrow> string \<Rightarrow> export_dir \<Rightarrow> nat result \<times> export_dir" where
  "export_main T iv host0 dir =
     (case export_cert T iv host0 dir of
        (Inr (), dir') \<Rightarrow> (Inr 0, dir')
      | (Inl e, dir') \<Rightarrow> (if e \<in> {OSError, ValueError, SubprocessError} then Inr 1 else Inl e, dir'))"

section \<open>What an export holds\<close>

text \<open>An entry of the store: a certificate of one of its resolvers.\<close>

definition in_store :: "json \<Rightarrow> json \<Rightarrow> bool" where
  "in_store data entry \<longleftrightarrow>
     (\<exists>rs r es. store_values data = Inr rs \<and> r \<in> set rs \<and> resolver_entries r = Inr es \<and> entry \<in> set es)"

definition named_in :: "string \<Rightarrow> json \<Rightarrow> bool" where
  "named_in host entry \<longleftrightarrow> (\<exists>names s. entry_names entry = Inr names \<and> JStr s \<in> set names \<and> covers s host)"

lemma any_covers_sound: "any_covers host ns = Inr True \<Longrightarrow> \<exists>s. JStr s \<in> set ns \<and> covers s host"
  by (induction ns) (auto split: json.splits if_splits)

lemma candidate_entries_sound:
  "candidate_entries host es = Inr cs \<Longrightarrow> e \<in> set cs \<Longrightarrow> e \<in> set es \<and> named_in host e"
proof (induction es arbitrary: cs)
  case (Cons x es)
  then obtain names c r where x: "entry_names x = Inr names" "any_covers host names = Inr c"
      "candidate_entries host es = Inr r" "cs = (if c then x # r else r)"
    by auto
  show ?case
  proof (cases "c \<and> e = x")
    case True
    then show ?thesis using x any_covers_sound [of host names] by (auto simp: named_in_def)
  next
    case False
    then show ?thesis using Cons.IH [OF x(3)] Cons.prems(2) x(4) by (auto split: if_splits)
  qed
qed simp

lemma store_candidates_sound:
  "store_candidates host rs = Inr cs \<Longrightarrow> e \<in> set cs \<Longrightarrow>
     \<exists>r es. r \<in> set rs \<and> resolver_entries r = Inr es \<and> e \<in> set es \<and> named_in host e"
proof (induction rs arbitrary: cs)
  case (Cons r rs)
  then obtain es c1 c2 where c: "resolver_entries r = Inr es" "candidate_entries host es = Inr c1"
      "store_candidates host rs = Inr c2" "cs = c1 @ c2"
    by (auto simp: res_bind_Inr_iff)
  show ?case
  proof (cases "e \<in> set c1")
    case True
    then show ?thesis using c candidate_entries_sound [OF c(2) True] by auto
  next
    case False
    then show ?thesis using Cons.IH [OF c(3)] Cons.prems(2) c(4) by auto
  qed
qed simp

text \<open>What a chosen pair of certificate and key went through.\<close>

definition accepted :: "acme_tools \<Rightarrow> string \<Rightarrow> json \<Rightarrow> bytes \<Rightarrow> bytes \<Rightarrow> bool" where
  "accepted T host entry cert key \<longleftrightarrow>
     (\<exists>kvs. entry = JObj kvs \<and> decoded_field ''certificate'' kvs = Inr cert \<and> decoded_field ''key'' kvs = Inr key) \<and>
     at_load T cert key \<and> at_verify T host cert = Some True"

lemma check_entry_sound: "check_entry T host e = Inr (Some (cert, key)) \<Longrightarrow> accepted T host e cert key"
  by (auto simp: check_entry_def accepted_def res_bind_Inr_iff split: json.splits sum.splits if_splits option.splits)

lemma first_valid_sound: "first_valid T host es = Inr (cert, key) \<Longrightarrow> \<exists>e \<in> set es. accepted T host e cert key"
  by (induction es) (auto simp: res_bind_Inr_iff split: option.splits dest: check_entry_sound)

lemma select_identity_sound:
  assumes "select_identity T host = Inr (cert, key)"
  shows "\<exists>data e. at_store T = Inr data \<and> in_store data e \<and> named_in host e \<and> accepted T host e cert key"
proof -
  obtain data rs cs where c: "at_store T = Inr data" "store_values data = Inr rs" "store_candidates host rs = Inr cs"
      "first_valid T host cs = Inr (cert, key)"
    using assms by (auto simp: select_identity_def res_bind_Inr_iff split: if_splits)
  obtain e where e: "e \<in> set cs" "accepted T host e cert key" using first_valid_sound [OF c(4)] by auto
  obtain r es where r: "r \<in> set rs" "resolver_entries r = Inr es" "e \<in> set es" "named_in host e"
    using store_candidates_sound [OF c(3) e(1)] by auto
  have "in_store data e" using c(2) r by (auto simp: in_store_def)
  then show ?thesis using c(1) r(4) e(2) by auto
qed

text \<open>
  C20. An export is only ever taken from what was checked. When the tool succeeds, the two files it leaves
  come from one entry of the ACME store that names the host, decode from it, load as a pair, and pass
  OpenSSL's check of the certificate for that host. When any of that fails, the earlier export is as it was.
\<close>

theorem export_is_checked:
  assumes "export_cert T iv host0 dir = (r, dir')"
  shows "(\<exists>e. r = Inl e \<and> (dir' = dir \<or> e = OSError)) \<or>
    (\<exists>data entry cert key owner. at_store T = Inr data \<and> in_store data entry \<and>
       named_in (export_host host0) entry \<and> accepted T (export_host host0) entry cert key \<and>
       map_of dir' ''fullchain.pem'' = Some (cert, owner) \<and> map_of dir' ''privkey.pem'' = Some (key, owner) \<and> r = Inr ())"
proof (cases "select_identity T (export_host host0)")
  case (Inr ck)
  obtain cert key where ck: "ck = (cert, key)" by (cases ck)
  show ?thesis
  proof (cases r)
    case (Inl e)
    then show ?thesis using assms Inr
      by (auto simp: export_cert_def ck split: sum.splits if_splits)
  next
    case (Inr u)
    then obtain owner where "store_files T owner [(''fullchain.pem'', cert), (''privkey.pem'', key)] dir = (Inr (), dir')"
      using assms \<open>select_identity T (export_host host0) = Inr ck\<close> by (auto simp: export_cert_def ck split: sum.splits)
    then have "map_of dir' ''fullchain.pem'' = Some (cert, owner)" "map_of dir' ''privkey.pem'' = Some (key, owner)"
      by (auto simp: update_conv' split: if_splits)
    then show ?thesis
      using select_identity_sound [OF \<open>select_identity T (export_host host0) = Inr ck\<close> [unfolded ck]] Inr by auto
  qed
qed (use assms in \<open>auto simp: export_cert_def\<close>)

definition demo_acme :: acme_tools where
  "demo_acme =
     \<lparr>at_store = Inr (JObj [(''http'', JObj [(''Certificates'', JList
        [JObj [(''domain'', JObj [(''main'', JStr ''other.example'')]), (''certificate'', JStr ''QQ==''), (''key'', JStr ''Qg=='')],
         JObj [(''domain'', JObj [(''main'', JStr ''*.example''), (''sans'', JNull)]), (''certificate'', JStr ''Qw==''),
               (''key'', JStr ''RA=='')]])])]),
      at_load = (\<lambda>c k. True), at_verify = (\<lambda>h c. Some (h = ''relay.example'')), at_write = (\<lambda>n. True)\<rparr>"

definition demo_invoker :: invoker where
  "demo_invoker = \<lparr>iv_euid = 0, iv_uid = 0, iv_gid = 0, iv_sudo_uid = Some ''1000'', iv_sudo_gid = Some ''1000''\<rparr>"

lemma demo_selected:
  "select_identity demo_acme (export_host ''Relay.Example.'') = Inr ([0x43], [0x44])" "py_int ''1000'' = Inr 1000"
  by code_simp+

lemma demo_export:
  "export_cert demo_acme demo_invoker ''Relay.Example.'' [] =
     (Inr (), [(''fullchain.pem'', [0x43], Some (1000, 1000)), (''privkey.pem'', [0x44], Some (1000, 1000))])"
  by (simp add: export_cert_def demo_selected owner_id_def demo_invoker_def) (simp add: demo_acme_def)

theorem export_is_checked_witness:
  "\<exists>data entry. at_store demo_acme = Inr data \<and> in_store data entry \<and> named_in (export_host ''Relay.Example.'') entry \<and>
     accepted demo_acme (export_host ''Relay.Example.'') entry [0x43] [0x44]"
  using export_is_checked [OF demo_export] by simp

section \<open>Setting up the environment\<close>

text \<open>\<open>re.sub(pattern, replacement, text)\<close> for a pattern that matches no empty text.\<close>

fun substituted :: "string \<Rightarrow> nat \<Rightarrow> match list \<Rightarrow> string \<Rightarrow> string" where
  "substituted new k [] text = drop k text"
| "substituted new k (m # rest) text =
     take (length (m_before m) - k) (drop k text) @ new @ substituted new (length (m_before m) + length (m_text m)) rest text"

definition re_sub :: "re \<Rightarrow> string \<Rightarrow> string \<Rightarrow> string" where
  "re_sub r new text = substituted new 0 (re_findall r text) text"

definition SECRET_KEYS :: "string list" where
  "SECRET_KEYS = [''POSTGRES_PASSWORD'', ''OPENVPN_DB_PASSWORD'', ''RELAY_POLICY_DB_PASSWORD'']"

definition setting_re :: "string \<Rightarrow> re" where
  "setting_re key = Cat [MBol, Spaces, Lit key, Spaces, Lit ''='', Grp 1 (Star (NotIn [newline])), MEol]"

definition blank_value :: "string \<Rightarrow> bool" where
  "blank_value v \<longleftrightarrow> strip v \<in> {[], [CHR 0x27, CHR 0x27], [CHR 0x22, CHR 0x22]}"

definition secret_line :: "string \<Rightarrow> string \<Rightarrow> string" where
  "secret_line key token = key @ ''='' @ [CHR 0x27] @ token @ [CHR 0x27]"

definition fill_secret :: "(string \<Rightarrow> string) \<Rightarrow> string \<Rightarrow> string \<Rightarrow> string" where
  "fill_secret token key text =
     (case re_search (setting_re key) text of
        Some m \<Rightarrow>
          if \<not> blank_value (grp m 1) then text
          else m_before m @ secret_line key (token key) @ m_after m
      | None \<Rightarrow>
          text @ (if text \<noteq> [] \<and> \<not> endswith text [newline] then [newline] else []) @ secret_line key (token key) @ [newline])"

definition OLD_URL_RE :: re where
  "OLD_URL_RE =
     Cat [MBol, Lit ''APPLE_RELAY_AUTH_URL='', Opt (Cls (\<lambda>c. c = CHR 0x27 \<or> c = CHR 0x22)),
          Lit ''http://127.0.0.1:8080/api/relay/authorize'', Opt (Cls (\<lambda>c. c = CHR 0x27 \<or> c = CHR 0x22)), Spaces, MEol]"

definition NEW_URL_LINE :: string where
  "NEW_URL_LINE = ''APPLE_RELAY_AUTH_URL=http://127.0.0.1:8447/api/relay/authorize''"

definition env_text :: "(string \<Rightarrow> string) \<Rightarrow> string \<Rightarrow> string" where
  "env_text token text = re_sub OLD_URL_RE NEW_URL_LINE (fold (fill_secret token) SECRET_KEYS text)"

text \<open>
  The files of the checkout by their paths. A missing runtime file is opened before its source is read, so
  that a missing source leaves it empty.
\<close>

type_synonym checkout = "(string \<times> string) list"

definition runtime_file :: "string \<Rightarrow> checkout \<Rightarrow> unit result \<times> checkout" where
  "runtime_file name tree =
     (if map_of tree name \<noteq> None then (Inr (), tree)
      else
        let saved = ''config/network/'' @ base_name name;
            source = (if map_of tree saved \<noteq> None then saved else name @ ''.example'')
        in case map_of tree source of
             None \<Rightarrow> (Inl OSError, AList.update name [] tree)
           | Some text \<Rightarrow> (Inr (), AList.update name text tree))"

fun runtime_files :: "string list \<Rightarrow> checkout \<Rightarrow> unit result \<times> checkout" where
  "runtime_files [] tree = (Inr (), tree)"
| "runtime_files (n # ns) tree =
     (case runtime_file n tree of (Inl e, t) \<Rightarrow> (Inl e, t) | (Inr x, t) \<Rightarrow> runtime_files ns t)"

definition setup_env :: "(string \<Rightarrow> string) \<Rightarrow> checkout \<Rightarrow> unit result \<times> checkout" where
  "setup_env token tree =
     (case runtime_files [''server.conf'', ''config/client.conf''] tree of
        (Inl e, t) \<Rightarrow> (Inl e, t)
      | (Inr x, t) \<Rightarrow>
          (Inr (), AList.update ''.env'' (env_text token (case map_of t ''.env'' of Some s \<Rightarrow> s | None \<Rightarrow> [])) t))"

lemma runtime_file_keeps: "map_of tree p = Some c \<Longrightarrow> map_of (snd (runtime_file n tree)) p = Some c"
  by (auto simp: runtime_file_def Let_def update_conv' split: option.splits)

lemma runtime_files_keep: "map_of tree p = Some c \<Longrightarrow> map_of (snd (runtime_files ns tree)) p = Some c"
proof (induction ns arbitrary: tree)
  case (Cons n ns)
  have "map_of (snd (runtime_file n tree)) p = Some c" by (rule runtime_file_keeps [OF Cons.prems])
  then show ?case using Cons.IH by (auto split: prod.splits sum.splits)
qed simp

text \<open>A secret that has a value: the first line that sets it sets it to more than empty quotes.\<close>

definition secret_set :: "string \<Rightarrow> string \<Rightarrow> bool" where
  "secret_set text key \<longleftrightarrow> (\<exists>m. re_search (setting_re key) text = Some m \<and> \<not> blank_value (grp m 1))"

lemma fill_secret_set: "secret_set text key \<Longrightarrow> fill_secret token key text = text"
  by (auto simp: secret_set_def fill_secret_def)

lemma fill_secrets_set: "\<forall>k \<in> set keys. secret_set text k \<Longrightarrow> fold (fill_secret token) keys text = text"
  by (induction keys) (simp_all add: fill_secret_set)

lemma re_sub_none: "re_search r text = None \<Longrightarrow> re_sub r new text = text"
  by (simp add: re_sub_def re_findall_def re_search_def)

theorem setup_keeps_files:
  assumes "map_of tree p = Some c"
  shows "map_of (snd (setup_env token tree)) p =
    Some (if p = ''.env'' \<and> \<not> isl (fst (setup_env token tree)) then env_text token c else c)"
proof -
  have "map_of (snd (runtime_files [''server.conf'', ''config/client.conf''] tree)) p = Some c"
    by (rule runtime_files_keep [OF assms])
  then show ?thesis by (auto simp: setup_env_def update_conv' split: prod.splits sum.splits)
qed

theorem setup_keeps_secrets:
  assumes "\<forall>k \<in> set SECRET_KEYS. secret_set text k" "re_search OLD_URL_RE text = None"
  shows "env_text token text = text"
  using assms by (simp add: env_text_def fill_secrets_set re_sub_none)

text \<open>A missing runtime file whose source is missing too is left empty, and the next run takes it as it is.\<close>

theorem missing_source_leaves_empty:
  assumes "map_of tree n = None" "map_of tree (''config/network/'' @ base_name n) = None" "map_of tree (n @ ''.example'') = None"
  shows "runtime_file n tree = (Inl OSError, AList.update n [] tree) \<and>
    runtime_file n (AList.update n [] tree) = (Inr (), AList.update n [] tree)"
  using assms by (simp add: runtime_file_def Let_def update_conv')

end
