(* ===== verification/Migration.thy ===== *)
theory Migration
  imports Runtime
begin

text \<open>
  The one-time move of an installation into PostgreSQL, \<open>migrate_db.py\<close>: importing the legacy SQLite file or
  restoring a dump, and the connection settings of \<open>db.py\<close> it runs the PostgreSQL tools with.

  A table is the list of its rows, a row its columns with their values. What the target's constraints accept,
  the parsed connection string and what the PostgreSQL tools do are parameters; the sequences of the numbered
  tables are left to the database. What is shown: an import is complete or changes nothing, also when another
  process gets in between, and it is never repeated.
\<close>

section \<open>Connection settings\<close>

type_synonym parameters = "(string \<times> string) list"

definition connection_parameters :: "environ \<Rightarrow> (string \<Rightarrow> parameters result) \<Rightarrow> string \<Rightarrow> parameters result" where
  "connection_parameters env parse dsn =
     (if dsn \<noteq> [] then parse dsn
      else
        let password = env_or env ''PGPASSWORD'' (env_or env ''OPENVPN_DB_PASSWORD'' [])
        in if password = [] then Inl ValueError
           else Inr [(''host'', env_or env ''PGHOST'' ''127.0.0.1''),
                     (''port'', env_or env ''PGPORT'' (env_or env ''OPENVPN_DB_PORT'' ''5433'')),
                     (''dbname'', env_or env ''PGDATABASE'' ''openvpn''), (''user'', env_or env ''PGUSER'' ''openvpn''),
                     (''password'', password)])"

definition CLIENT_PARAMETERS :: "string list" where
  "CLIENT_PARAMETERS =
     [''host'', ''hostaddr'', ''port'', ''dbname'', ''user'', ''password'', ''sslmode'', ''sslcert'', ''sslkey'', ''sslrootcert'',
      ''sslcrl'', ''connect_timeout'', ''passfile'']"

definition client_variable :: "string \<Rightarrow> string" where
  "client_variable name = ''PG'' @ (if name = ''dbname'' then ''DATABASE'' else upper name)"

definition client_environment :: "environ \<Rightarrow> (string \<Rightarrow> parameters result) \<Rightarrow> string \<Rightarrow> environ result" where
  "client_environment env parse dsn =
     res_bind (connection_parameters env parse dsn) (\<lambda>params.
       Inr (fold (\<lambda>name env. case map_of params name of Some v \<Rightarrow> env(client_variable name \<mapsto> v) | None \<Rightarrow> env)
              CLIENT_PARAMETERS env))"

section \<open>Importing the legacy database\<close>

definition TABLES :: "string list" where
  "TABLES =
     [''users'', ''web_sessions'', ''settings'', ''clients'', ''hidden_certs'', ''vpn_sessions'', ''relay_sessions'', ''traffic_minute'',
      ''traffic_hour'', ''traffic_day'', ''events'', ''archived_clients'', ''rejections'', ''share_tokens'']"

definition MARKER :: string where "MARKER = ''migration:legacy_sqlite''"

type_synonym cells = "(string \<times> string option) list"
type_synonym target = "(string \<times> cells list) list"

text \<open>The legacy file: the outcome of its integrity check, and its tables with their columns.\<close>

record legacy =
  lg_sound :: bool
  lg_tables :: "(string \<times> string list \<times> string option list list) list"

definition table_rows :: "target \<Rightarrow> string \<Rightarrow> cells list" where
  "table_rows db t = (case map_of db t of Some rows \<Rightarrow> rows | None \<Rightarrow> [])"

definition empty_database :: "target \<Rightarrow> bool" where
  "empty_database db \<longleftrightarrow> list_all (\<lambda>t. table_rows db t = []) TABLES"

definition is_setting :: "string \<Rightarrow> cells \<Rightarrow> bool" where
  "is_setting key row \<longleftrightarrow> map_of row ''key'' = Some (Some key)"

definition has_setting :: "target \<Rightarrow> string \<Rightarrow> bool" where
  "has_setting db key \<longleftrightarrow> list_ex (is_setting key) (table_rows db ''settings'')"

definition put_setting :: "string \<Rightarrow> string \<Rightarrow> target \<Rightarrow> target" where
  "put_setting key v db =
     (let row = [(''key'', Some key), (''value'', Some v)]; old = table_rows db ''settings''
      in AList.update ''settings''
           (if list_ex (is_setting key) old then map (\<lambda>r. if is_setting key r then AList.update ''value'' (Some v) r else r) old
            else old @ [row]) db)"

text \<open>The rows of a source table under the columns the target has.\<close>

definition selected_rows :: "(string \<Rightarrow> string list) \<Rightarrow> string \<Rightarrow> string list \<Rightarrow> string option list list \<Rightarrow> cells list" where
  "selected_rows available t columns rows =
     map (\<lambda>row. filter (\<lambda>cell. fst cell \<in> set (available t)) (zip columns row)) rows"

fun import_tables ::
  "(string \<Rightarrow> string list) \<Rightarrow> (string \<Rightarrow> cells list \<Rightarrow> bool) \<Rightarrow> legacy \<Rightarrow> string list \<Rightarrow> target \<Rightarrow> (string \<times> nat) list
    \<Rightarrow> (target \<times> (string \<times> nat) list) result" where
  "import_tables available accepts source [] db counts = Inr (db, counts)"
| "import_tables available accepts source (t # ts) db counts =
     (case map_of (lg_tables source) t of
        None \<Rightarrow> import_tables available accepts source ts db counts
      | Some (columns, rows) \<Rightarrow>
          let new = selected_rows available t columns rows; all = table_rows db t @ new
          in if \<not> accepts t all then Inl DatabaseError
             else if length all \<noteq> length rows then Inl ValueError
             else import_tables available accepts source ts (AList.update t all db) (counts @ [(t, length rows)]))"

datatype import_result = Already_imported | Imported "(string \<times> nat) list" | Restored | Fresh_install

text \<open>
  \<open>before\<close> is the target at the first look and \<open>db\<close> the target once the transaction has its lock: another
  process may have changed it in between. A transaction that raises is rolled back.
\<close>

definition import_sqlite ::
  "(string \<Rightarrow> string list) \<Rightarrow> (string \<Rightarrow> cells list \<Rightarrow> bool) \<Rightarrow> ((string \<times> nat) list \<Rightarrow> string) \<Rightarrow> legacy \<Rightarrow> target \<Rightarrow> target
    \<Rightarrow> import_result result \<times> target" where
  "import_sqlite available accepts dumps source before db =
     (if has_setting before MARKER then (Inr Already_imported, db)
      else if \<not> empty_database before \<or> \<not> lg_sound source \<or> map_of (lg_tables source) ''vpn_sessions'' = None
      then (Inl ValueError, db)
      else if has_setting db MARKER then (Inr Already_imported, db)
      else if \<not> empty_database db then (Inl ValueError, db)
      else
        case import_tables available accepts source TABLES db [] of
          Inl e \<Rightarrow> (Inl e, db)
        | Inr (db', counts) \<Rightarrow> (Inr (Imported counts), put_setting MARKER (dumps counts) db'))"

text \<open>
  \<open>restore\<close> is what \<open>pg_restore\<close> makes of the target in its single transaction. The marker is written after
  it, in a transaction of its own, which may fail (\<open>marked\<close> is false then).
\<close>

definition restore_dump :: "(target \<Rightarrow> target result) \<Rightarrow> bool \<Rightarrow> target \<Rightarrow> import_result result \<times> target" where
  "restore_dump restore marked db =
     (if \<not> empty_database db
      then (if has_setting db ''migration:postgres_dump'' then Inr Already_imported else Inl ValueError, db)
      else
        case restore db of
          Inl e \<Rightarrow> (Inl e, db)
        | Inr db' \<Rightarrow>
            if marked then (Inr Restored, put_setting ''migration:postgres_dump'' ''1'' db') else (Inl DatabaseError, db'))"

text \<open>\<open>main\<close> for the import: a named source, else the dump, else the legacy file, else nothing to do.\<close>

definition migrate_main ::
  "bool \<Rightarrow> bool \<Rightarrow> bool \<Rightarrow> (target \<Rightarrow> import_result result \<times> target) \<Rightarrow> (target \<Rightarrow> import_result result \<times> target) \<Rightarrow> target
    \<Rightarrow> import_result result \<times> target" where
  "migrate_main named dump_exists legacy_exists import restore db =
     (if named then import db else if dump_exists then restore db else if legacy_exists then import db
      else (Inr Fresh_install, db))"

section \<open>All or nothing\<close>

text \<open>What an import brings into a table.\<close>

definition legacy_rows :: "(string \<Rightarrow> string list) \<Rightarrow> legacy \<Rightarrow> string \<Rightarrow> cells list" where
  "legacy_rows available source t =
     (case map_of (lg_tables source) t of None \<Rightarrow> [] | Some (columns, rows) \<Rightarrow> selected_rows available t columns rows)"

lemma table_rows_update: "table_rows (AList.update t rows db) u = (if u = t then rows else table_rows db u)"
  by (simp add: table_rows_def update_conv')

lemma import_tables_rows:
  "import_tables available accepts source ts db counts = Inr (db', counts') \<Longrightarrow> distinct ts \<Longrightarrow>
     table_rows db' t = table_rows db t @ (if t \<in> set ts then legacy_rows available source t else [])"
proof (induction ts arbitrary: db counts)
  case (Cons u ts)
  show ?case
  proof (cases "map_of (lg_tables source) u")
    case None
    then show ?thesis using Cons by (auto simp: legacy_rows_def)
  next
    case (Some cr)
    obtain columns rows where cr: "cr = (columns, rows)" by (cases cr)
    let ?all = "table_rows db u @ selected_rows available u columns rows"
    have "import_tables available accepts source ts (AList.update u ?all db) (counts @ [(u, length rows)]) = Inr (db', counts')"
      using Cons.prems(1) Some by (auto simp: cr Let_def split: if_splits)
    from Cons.IH [OF this] Cons.prems(2) Some show ?thesis by (auto simp: table_rows_update legacy_rows_def cr)
  qed
qed simp

lemma tables_distinct: "distinct TABLES"
  by (simp add: TABLES_def)

lemma is_setting_update: "is_setting key (AList.update ''value'' v r) = is_setting key r"
  by (simp add: is_setting_def update_conv')

lemma upserted_setting:
  assumes "is_setting key row"
  shows "list_ex (is_setting key)
    (if list_ex (is_setting key) old then map (\<lambda>r. if is_setting key r then AList.update ''value'' v r else r) old else old @ [row])"
proof (cases "list_ex (is_setting key) old")
  case True
  let ?f = "\<lambda>r. if is_setting key r then AList.update ''value'' v r else r"
  have "is_setting key r \<Longrightarrow> is_setting key (?f r)" for r by (simp add: is_setting_update)
  moreover obtain r where r: "r \<in> set old" "is_setting key r" using True unfolding list_ex_iff by blast
  ultimately have "is_setting key (?f r)" by blast
  moreover have "?f r \<in> set (map ?f old)" using r(1) unfolding set_map by (rule imageI)
  ultimately have "list_ex (is_setting key) (map ?f old)" unfolding list_ex_iff by blast
  then show ?thesis unfolding if_P [OF True] .
next
  case False
  show ?thesis unfolding if_not_P [OF False] using assms by (simp add: list_ex_iff)
qed

lemma put_setting_has: "has_setting (put_setting key v db) key"
  unfolding has_setting_def put_setting_def Let_def table_rows_update if_P [OF refl]
  by (rule upserted_setting) (simp add: is_setting_def)

lemma put_setting_rows: "t \<noteq> ''settings'' \<Longrightarrow> table_rows (put_setting key v db) t = table_rows db t"
  by (simp add: put_setting_def Let_def table_rows_update)

lemma put_setting_others:
  "filter (\<lambda>r. \<not> is_setting key r) (table_rows (put_setting key v db) ''settings'') =
   filter (\<lambda>r. \<not> is_setting key r) (table_rows db ''settings'')"
proof -
  have "filter (\<lambda>r. \<not> is_setting key r) (map (\<lambda>r. if is_setting key r then AList.update ''value'' (Some v) r else r) rows) =
      filter (\<lambda>r. \<not> is_setting key r) rows" for rows
    by (induction rows) (auto simp: is_setting_update)
  moreover have "is_setting key [(''key'', Some key), (''value'', Some v)]" by (simp add: is_setting_def)
  ultimately show ?thesis by (simp add: put_setting_def Let_def table_rows_update)
qed

lemma put_setting_value:
  assumes "r \<in> set (table_rows (put_setting key v db) ''settings'')" "is_setting key r"
  shows "map_of r ''value'' = Some (Some v)"
proof -
  have "''key'' \<noteq> ''value''" by simp
  then show ?thesis
    using assms
    by (auto simp: put_setting_def Let_def table_rows_update is_setting_update update_conv' list_ex_iff split: if_splits)
qed

text \<open>
  Rows of the target that hold what the rows of a legacy table say, in order: every column the target has and no
  other. A table the legacy file does not have brings nothing.
\<close>

definition copied :: "string list \<Rightarrow> string list \<Rightarrow> string option list list \<Rightarrow> cells list \<Rightarrow> bool" where
  "copied available columns rows cs \<longleftrightarrow>
     list_all2 (\<lambda>row c. \<forall>col. map_of c col = (if col \<in> set available then map_of (zip columns row) col else None)) rows cs"

definition copy_of :: "(string \<Rightarrow> string list) \<Rightarrow> legacy \<Rightarrow> string \<Rightarrow> cells list \<Rightarrow> bool" where
  "copy_of available source t cs \<longleftrightarrow>
     (case map_of (lg_tables source) t of None \<Rightarrow> cs = [] | Some (columns, rows) \<Rightarrow> copied (available t) columns rows cs)"

lemma legacy_rows_copied: "copy_of available source t (legacy_rows available source t)"
proof -
  have m: "map_of (filter (\<lambda>cell. fst cell \<in> S) kvs) col = (if col \<in> S then map_of kvs col else None)"
    for S :: "string set" and kvs :: cells and col by (induction kvs) auto
  show ?thesis
    by (auto simp: copy_of_def legacy_rows_def copied_def selected_rows_def list_all2_map2 m intro!: list.rel_refl split: option.splits)
qed

lemma import_tables_counts:
  "import_tables available accepts source ts db counts = Inr (db', counts') \<Longrightarrow>
     counts' = counts @ concat (map (\<lambda>t. case map_of (lg_tables source) t of None \<Rightarrow> [] | Some (columns, rows) \<Rightarrow> [(t, length rows)]) ts)"
proof (induction ts arbitrary: db counts)
  case (Cons u ts)
  show ?case
  proof (cases "map_of (lg_tables source) u")
    case None
    then show ?thesis using Cons by simp
  next
    case (Some cr)
    obtain columns rows where cr: "cr = (columns, rows)" by (cases cr)
    let ?all = "table_rows db u @ selected_rows available u columns rows"
    have "import_tables available accepts source ts (AList.update u ?all db) (counts @ [(u, length rows)]) = Inr (db', counts')"
      using Cons.prems Some by (auto simp: cr Let_def split: if_splits)
    from Cons.IH [OF this] Some show ?thesis by (simp add: cr)
  qed
qed simp

text \<open>
  C34. The import of a legacy database is complete or changes nothing. When it reports an import, nothing was
  there before, and every table holds the rows of the legacy file, in order, with every column the target has;
  in the table of settings the marker of the import comes on top, with the numbers of rows, and it is the only
  difference. The report gives the number of rows of every table the legacy file has, and any later run finds the
  import done. When it fails, or another process imported in between, the target stays as it is.
\<close>

theorem import_complete:
  assumes "import_sqlite available accepts dumps source before db = (r, db')"
  shows "case r of
      Inr (Imported counts) \<Rightarrow>
        empty_database db \<and>
        counts = concat (map (\<lambda>t. case map_of (lg_tables source) t of None \<Rightarrow> [] | Some (columns, rows) \<Rightarrow> [(t, length rows)]) TABLES) \<and>
        (\<forall>t \<in> set TABLES. \<exists>cs. copy_of available source t cs \<and>
           (if t = ''settings''
            then filter (\<lambda>r. \<not> is_setting MARKER r) (table_rows db' t) = filter (\<lambda>r. \<not> is_setting MARKER r) cs
            else table_rows db' t = cs)) \<and>
        (\<forall>r \<in> set (table_rows db' ''settings''). is_setting MARKER r \<longrightarrow> map_of r ''value'' = Some (Some (dumps counts))) \<and>
        (\<forall>source' db2. import_sqlite available accepts dumps source' db' db2 = (Inr Already_imported, db2))
    | _ \<Rightarrow> db' = db"
proof (cases "\<exists>counts. r = Inr (Imported counts)")
  case True
  then obtain counts db1 where c: "r = Inr (Imported counts)" "empty_database db"
      "import_tables available accepts source TABLES db [] = Inr (db1, counts)" "db' = put_setting MARKER (dumps counts) db1"
    using assms by (auto simp: import_sqlite_def split: if_splits sum.splits)
  have rows: "table_rows db1 t = legacy_rows available source t" if "t \<in> set TABLES" for t
    using import_tables_rows [OF c(3) tables_distinct, of t] c(2) that by (simp add: empty_database_def list_all_iff)
  have "\<exists>cs. copy_of available source t cs \<and>
      (if t = ''settings''
       then filter (\<lambda>r. \<not> is_setting MARKER r) (table_rows db' t) = filter (\<lambda>r. \<not> is_setting MARKER r) cs
       else table_rows db' t = cs)" if "t \<in> set TABLES" for t
    by (intro exI [of _ "legacy_rows available source t"] conjI legacy_rows_copied)
      (use rows [OF that] in \<open>auto simp: c(4) put_setting_rows put_setting_others\<close>)
  moreover have "import_sqlite available accepts dumps source' db' db2 = (Inr Already_imported, db2)" for source' db2
    by (simp add: import_sqlite_def c(4) put_setting_has)
  moreover have "\<forall>r \<in> set (table_rows db' ''settings''). is_setting MARKER r \<longrightarrow> map_of r ''value'' = Some (Some (dumps counts))"
    unfolding c(4) using put_setting_value by blast
  moreover note import_tables_counts [OF c(3), unfolded append_Nil]
  ultimately show ?thesis unfolding c(1) sum.case import_result.case using c(2) by blast
next
  case False
  then show ?thesis using assms
    by (auto simp: import_sqlite_def split: if_splits sum.splits import_result.splits)
qed

definition demo_legacy :: legacy where
  "demo_legacy =
     \<lparr>lg_sound = True,
      lg_tables = [(''vpn_sessions'', [''id'', ''old''], [[Some ''1'', None]]), (''users'', [''username''], [[Some ''admin'']]),
        (''settings'', [''key'', ''value''], [[Some ''theme'', Some ''dark'']])]\<rparr>"

definition demo_columns :: "string \<Rightarrow> string list" where
  "demo_columns t = [''id'', ''username'', ''key'', ''value'']"

theorem import_complete_witness:
  "\<exists>db' cs. import_sqlite demo_columns (\<lambda>t rows. True) (\<lambda>c. []) demo_legacy [] [] =
       (Inr (Imported [(''users'', 1), (''settings'', 1), (''vpn_sessions'', 1)]), db') \<and>
     copied (demo_columns ''settings'') [''key'', ''value''] [[Some ''theme'', Some ''dark'']] cs \<and>
     filter (\<lambda>r. \<not> is_setting MARKER r) (table_rows db' ''settings'') = filter (\<lambda>r. \<not> is_setting MARKER r) cs"
proof -
  let ?i = "import_sqlite demo_columns (\<lambda>t rows. True) (\<lambda>c. []) demo_legacy [] []"
  have "fst ?i = Inr (Imported [(''users'', 1), (''settings'', 1), (''vpn_sessions'', 1)])" by code_simp
  then have i: "?i = (Inr (Imported [(''users'', 1), (''settings'', 1), (''vpn_sessions'', 1)]), snd ?i)" by (metis prod.collapse)
  have t: "''settings'' \<in> set TABLES" by (simp add: TABLES_def)
  have "\<exists>cs. copy_of demo_columns demo_legacy ''settings'' cs \<and>
      filter (\<lambda>r. \<not> is_setting MARKER r) (table_rows (snd ?i) ''settings'') = filter (\<lambda>r. \<not> is_setting MARKER r) cs"
    by (rule import_complete [OF i, unfolded sum.case import_result.case, THEN conjunct2, THEN conjunct2, THEN conjunct1, THEN bspec, OF t,
        unfolded if_P [OF refl]])
  then obtain cs where cs: "copy_of demo_columns demo_legacy ''settings'' cs"
      "filter (\<lambda>r. \<not> is_setting MARKER r) (table_rows (snd ?i) ''settings'') = filter (\<lambda>r. \<not> is_setting MARKER r) cs" by blast
  from cs(1) have "copied (demo_columns ''settings'') [''key'', ''value''] [[Some ''theme'', Some ''dark'']] cs"
    by (simp add: copy_of_def demo_legacy_def)
  then show ?thesis using i cs(2) by blast
qed

section \<open>A restored dump without its marker\<close>

text \<open>
  A dump, unlike an import, is not marked in the transaction that restores it: when writing the marker fails,
  the data stay, the run reports a failure, and every later run refuses the target.
\<close>

theorem restore_unmarked_refused:
  assumes "restore db = Inr db1" "empty_database db" "\<not> empty_database db1" "\<not> has_setting db1 ''migration:postgres_dump''"
  shows "restore_dump restore False db = (Inl DatabaseError, db1) \<and> restore_dump restore marked db1 = (Inl ValueError, db1)"
  using assms by (simp add: restore_dump_def)

end
