(* ===== verification/Spec2Isabelle.thy ===== *)
theory Spec2Isabelle
  imports Limiter Auth Ledger Edits Listing Addresses Access Gateways Lifecycle Signing Rescue Charts Keeping Corners Install Migration
begin

text \<open>
  A verification of the Python services of a self-hosted OpenVPN server with a web interface: the web UI and
  its API (\<open>src/ui/app\<close>), the signer of relay profiles (\<open>src/signer\<close>) and the maintenance tools
  (\<open>src/bin\<close>). Every definition translates code of the repository; what the code calls outside of it is a
  parameter of the definitions that use it.

  \<^bold>\<open>The program.\<close> The web UI keeps accounts, sessions, traffic and settings in PostgreSQL and the PKI in files.
  A collector polls OpenVPN's management interface and reads its logs; a maintenance thread rolls traffic up
  and writes backups; a watchdog ends a hung process. Clients are created, renewed, revoked and deleted
  through scripts around easy-rsa. A client may get an OpenVPN profile, a one-time link to it, an account for
  the portal, and a credential for an HTTP relay, which asks the policy server about every user. Relay
  profiles are signed by a service on another host that holds the TLS key.

  \<^bold>\<open>How the code is modelled.\<close> A class or table row is a record, a dictionary an association list, an exception a
  value of \<open>exc\<close>: code that may raise returns \<open>Inl\<close> of the exception or \<open>Inr\<close> of its value (\<open>'a result\<close>).
  The database is one record with a field per table; a transaction is one function on it, so that one that
  raises leaves it as it was. Files the code changes are a record, too. A request handler is an action on the
  application state (\<open>'a act\<close>, theory \<open>Web\<close>) composed in the order of the code. The clock, random tokens,
  the request and the environment are arguments; the clock stands still while a request is handled. scrypt,
  SHA-256, HMAC, OpenSSL, the scripts, the parsers of JSON and XML, git and sudo are parameters. Text is a
  list of characters of Latin-1; a dash or an arrow outside it in a message is written in ASCII. IPv4 and IPv6
  addresses are words of 32 and 128 bits, bytes words of 8 bits, Python's integers \<open>int\<close>. Loops are
  structural recursions; where a loop has no such form (\<open>findall\<close>, \<open>fill_series\<close>, the text replacement and
  the base-32 encoder) it has a termination proof or, for \<open>findall\<close>, the length of the text as fuel, which
  is enough because each match takes a character. The loops of the threads are one step per turn, and
  theorems range over all sequences of steps.

  \<^bold>\<open>Library code.\<close>
  \<^item> \<open>Prelude\<close>: exceptions, Python's text and number functions, association lists, and the lemmas shared by all.
  \<^item> \<open>Py_Re\<close>, \<open>Pytime\<close>, \<open>Base64\<close>, \<open>Ipaddr\<close>, \<open>Urls\<close>, \<open>Shlex\<close>: the parts of Python's \<open>re\<close>, \<open>time\<close>,
    \<open>base64\<close>, \<open>ipaddress\<close>, \<open>urllib.parse\<close> and \<open>shlex\<close> the program uses, with round trips and bounds.

  \<^bold>\<open>Accounts, storage and the collector.\<close>
  \<^item> \<open>Limiter\<close>, \<open>Auth\<close> (\<open>auth.py\<close>): while its entry is kept, the login limiter bounds the guesses on a key in
    any interleaving; password hashes verify; sessions die when idle, live when used and end on sign-out, and only
    those that should.
  \<^item> \<open>Db\<close> (\<open>db.py\<close>): all tables; roll-ups keep totals and honour retention; archiving moves a history, row by row. Its
    settings table is an instance of the interface \<open>kv_store\<close>, its traffic tables of \<open>counter_table\<close>.
  \<^item> \<open>Mgmt\<close> (\<open>mgmt.py\<close>), \<open>Collector\<close>, \<open>Ledger\<close> (\<open>collector.py\<close>): the line protocol and its parser, log reading
    and polling; a command returns its response also over a new connection, and traffic accounts for the bytes of the sessions over any sequence of events.
  \<^item> \<open>Reports\<close>, \<open>Charts\<close> (\<open>main.py\<close>): time ranges, the client table and the charts, which add up to the totals.

  \<^bold>\<open>Certificates, addresses and configuration\<close> (\<open>pki.py\<close>, \<open>settings.py\<close>).
  \<^item> \<open>Names\<close>, \<open>Pki\<close>, \<open>Clients\<close>, \<open>Listing\<close>: names, the index, certificates, the operations on clients and their list.
    Operations check what they pass to a script, and the list shows every certificate once.
  \<^item> \<open>Addresses\<close>: static addresses and guests stay apart under any sequence of changes.
  \<^item> \<open>Config\<close>, \<open>Edits\<close>: the configuration editor and its switches; which privileged lines an accepted edit can
    leave, and what can get into the variables a shell runs.
  \<^item> \<open>Netdata\<close>, \<open>Network\<close>, \<open>Gateways\<close>, \<open>Export\<close>, \<open>Discovery\<close> (\<open>network.py\<close>, \<open>network_discovery.py\<close>): network
    settings, the ranges they keep apart, the gateway's file, and the suggestions of addresses.

  \<^bold>\<open>The web API\<close> (\<open>main.py\<close>, \<open>portal_boundary.py\<close>).
  \<^item> \<open>Web\<close>, \<open>Api\<close>: requests, access control, and every handler that changes something. \<open>Doors\<close>: who gets in. Its
    interface \<open>door\<close> is what a guard promises a handler; the guards of the changing, the reading and the
    portal handlers are instances of it.
  \<^item> \<open>Accounts\<close>: the tables of accounts and sessions stay well formed under any sequence of calls.
    \<open>Lifecycle\<close>: a revoked or deleted client has no way in left.
  \<^item> \<open>Pages\<close>, \<open>Views\<close>: the handlers that show something; they only read, answer an administrator alone, and
    show a portal account nothing of another client.

  \<^bold>\<open>The relay\<close> (\<open>relay.py\<close>, \<open>relay_services.py\<close>, \<open>relay_history.py\<close>, \<open>policy_server.py\<close>, \<open>signer/service.py\<close>).
  \<^item> \<open>Relay\<close>, \<open>Access\<close>: settings, credentials, profiles, signing and the policy server; only the holder of a
    current credential is let in, the credential in a profile is one, and the server fails closed.
  \<^item> \<open>Signer\<close>, \<open>Signing\<close>: the signer signs its own relay's profiles only, and all that the UI makes.

  \<^bold>\<open>Beside the requests.\<close>
  \<^item> \<open>Background\<close>, \<open>Keeping\<close> (\<open>watchdog.py\<close>, \<open>relay_history.py\<close>, \<open>backup.py\<close>): when the watchdog ends the
    process, what the record of relay activity keeps, and which backups stay.
  \<^item> \<open>Runtime\<close>: where services listen, live streams and their queues, maintenance; a stream ends with its session.
  \<^item> \<open>Migration\<close> (\<open>migrate_db.py\<close>): an import into PostgreSQL is complete or changes nothing.
  \<^item> \<open>Recovery\<close>, \<open>Rescue\<close> (\<open>bin/recover-checkout.py\<close>): every action of any recovery is a permitted one.
  \<^item> \<open>Install\<close> (\<open>bin/export-relay-cert.py\<close>, \<open>bin/setup-env.py\<close>): only a checked certificate is exported, and
    set-up leaves what is there.
  \<^item> \<open>Corners\<close>: inputs at which the program departs from what it says.

  \<^bold>\<open>Properties.\<close> The theorems that state the correctness of the program are numbered C1 to C40 in the order of
  their importance. Those with assumptions are followed by an application to a concrete case.

  \<^bold>\<open>Not modelled.\<close> The relay itself is a program in Go (\<open>src/relay\<close>), the scripts under \<open>src/bin\<close> are shell, and
  the browser interface is JavaScript: the Python code meets them through the interfaces above. Of the Python
  code these parts are left out: the text of the SQL statements, the schema and the connection pool, since
  the tables are modelled by what the statements do; the field limits of the request models, which the
  framework checks before a handler runs; locks and the start and stop of threads, whose turns are modelled
  one after another; the sockets and HTTP libraries of the policy server and the signer; the writing of a
  backup archive; the drawing of QR codes; the static page and its hashes; and log messages. A configuration
  file that cannot be opened for writing is modelled, a disk that fills up during a write is not. The cache of
  parsed certificates and the numbering of new rows after an import are left to what they stand for.
\<close>

end
